(* ===== verification/Prelude.thy ===== *)
theory Prelude
  imports Main "HOL-Library.Word" "HOL-Library.AList"
begin

text \<open>
  Names and generic facts that every component shares: Python exceptions as values, the sum
  type \<open>pyexn + 'a\<close> of a Python call that may raise, list slices and indexing with Python's
  range checks, and the collections of simplification rules the later theories extend.
\<close>

named_theorems py_simps \<open>unfolding rules of the Python primitives\<close>
named_theorems size_simps \<open>the byte sizes of the struct formats\<close>

subsection \<open>Exceptions as values\<close>

text \<open>
  One constructor per exception class that code of the listener can raise. Messages are dropped:
  every handler of the source is an \<open>except Exception\<close> that logs and goes on, so only the fact
  that something was raised, and where, influences the state. \<open>DatabaseError\<close> stands for whatever
  psycopg raises.
\<close>

datatype pyexn =
    StructError
  | UnicodeDecodeError
  | UnicodeEncodeError
  | PyIndexError
  | PyKeyError
  | PyValueError
  | PyOverflowError
  | PacketValidationError
  | PyConnectionError
  | DatabaseError
  | PyOSError

type_synonym 'a py = "pyexn + 'a"

definition and_then :: "'a py \<Rightarrow> ('a \<Rightarrow> 'b py) \<Rightarrow> 'b py" where
  "and_then r f = (case r of Inl e \<Rightarrow> Inl e | Inr x \<Rightarrow> f x)"

definition returns :: "'a py \<Rightarrow> bool" where
  "returns r = (case r of Inl _ \<Rightarrow> False | Inr _ \<Rightarrow> True)"

lemma and_then_simps [simp]:
  "and_then (Inl e) f = Inl e"
  "and_then (Inr x) f = f x"
  by (simp_all add: and_then_def)

lemma and_then_Inr_iff: "and_then r f = Inr y \<longleftrightarrow> (\<exists>x. r = Inr x \<and> f x = Inr y)"
  by (cases r) auto

lemma and_then_Inl_iff:
  "and_then r f = Inl e \<longleftrightarrow> r = Inl e \<or> (\<exists>x. r = Inr x \<and> f x = Inl e)"
  by (cases r) auto

lemma returns_simps [simp]: "returns (Inr x)" "\<not> returns (Inl e)"
  by (simp_all add: returns_def)

lemma returns_iff: "returns r \<longleftrightarrow> (\<exists>x. r = Inr x)"
  by (cases r) auto

lemma returns_and_then: "returns (and_then r f) \<longleftrightarrow> (\<exists>x. r = Inr x \<and> returns (f x))"
  by (cases r) auto

subsection \<open>Indexing and slices\<close>

text \<open>
  \<open>xs[i]\<close> for an index that is known to be non-negative raises \<open>IndexError\<close> past the end; the
  slice \<open>xs[i:j]\<close> (\<open>0 \<le> i\<close>, \<open>0 \<le> j\<close>) never raises.
\<close>

definition py_index :: "'a list \<Rightarrow> nat \<Rightarrow> 'a py" where
  "py_index xs i = (if i < length xs then Inr (xs ! i) else Inl PyIndexError)"

definition py_slice :: "nat \<Rightarrow> nat \<Rightarrow> 'a list \<Rightarrow> 'a list" where
  "py_slice i j xs = take (j - i) (drop i xs)"

lemma py_index_ok [simp]: "i < length xs \<Longrightarrow> py_index xs i = Inr (xs ! i)"
  by (simp add: py_index_def)

lemma py_index_bad [simp]: "\<not> i < length xs \<Longrightarrow> py_index xs i = Inl PyIndexError"
  by (simp add: py_index_def)

lemma length_py_slice [simp]: "length (py_slice i j xs) = min (j - i) (length xs - i)"
  by (simp add: py_slice_def min.commute)

lemma py_slice_0 [simp]: "py_slice 0 j xs = take j xs"
  by (simp add: py_slice_def)

lemma set_py_slice: "set (py_slice i j xs) \<subseteq> set xs"
  by (auto simp: py_slice_def dest: in_set_takeD in_set_dropD)

subsection \<open>Sequencing calls that may raise\<close>

text \<open>The list comprehension \<open>[f(x) for x in xs]\<close> whose body may raise.\<close>

fun map_py :: "('a \<Rightarrow> 'b py) \<Rightarrow> 'a list \<Rightarrow> 'b list py" where
  "map_py f [] = Inr []"
| "map_py f (x # xs) = and_then (f x) (\<lambda>y. and_then (map_py f xs) (\<lambda>ys. Inr (y # ys)))"

lemma map_py_Inr_length: "map_py f xs = Inr ys \<Longrightarrow> length ys = length xs"
  by (induction xs arbitrary: ys) (auto simp: and_then_Inr_iff)

lemma map_py_Inr_nth:
  "map_py f xs = Inr ys \<Longrightarrow> i < length xs \<Longrightarrow> f (xs ! i) = Inr (ys ! i)"
  by (induction xs arbitrary: ys i) (auto simp: and_then_Inr_iff nth_Cons split: nat.splits)

lemma map_py_total: "(\<And>x. x \<in> set xs \<Longrightarrow> returns (f x)) \<Longrightarrow> returns (map_py f xs)"
proof (induction xs)
  case (Cons x xs)
  have "returns (f x)" "returns (map_py f xs)"
    using Cons by simp_all
  then show ?case by (auto simp: returns_iff)
qed simp

lemma map_py_pure [simp]: "map_py (\<lambda>x. Inr (g x)) xs = Inr (map g xs)"
  by (induction xs) auto

lemma map_py_cong_Inr: "(\<And>x. x \<in> set xs \<Longrightarrow> f x = Inr (g x)) \<Longrightarrow> map_py f xs = Inr (map g xs)"
  by (induction xs) auto

subsection \<open>Association lists\<close>

lemma map_of_filter_key: "map_of (filter (\<lambda>p. fst p \<noteq> k) xs) = (map_of xs)(k := None)"
  by (induction xs) (auto simp: fun_eq_iff)

lemma map_of_append_single:
  "k \<notin> fst ` set xs \<Longrightarrow> map_of (xs @ [(k, v)]) = (map_of xs)(k \<mapsto> v)"
  by (induction xs) (auto simp: fun_eq_iff)

lemma map_of_eq_None_iff_keys: "map_of xs k = None \<longleftrightarrow> k \<notin> set (map fst xs)"
  by (simp add: map_of_eq_None_iff)

lemma nth_replicate_zero: "i < n \<Longrightarrow> replicate n x ! i = x"
  by simp

subsection \<open>Dictionaries\<close>

text \<open>
  A \<open>dict\<close> whose iteration order matters is an association list with distinct keys: storing under a
  present key keeps its place. \<open>dict_merge\<close> is \<open>{**d, **e}\<close>.
\<close>

definition dict_merge :: "('k \<times> 'v) list \<Rightarrow> ('k \<times> 'v) list \<Rightarrow> ('k \<times> 'v) list" where
  "dict_merge d ps = fold (\<lambda>(k, v). AList.update k v) ps d"

definition dict_of :: "('k \<times> 'v) list \<Rightarrow> ('k \<times> 'v) list" where
  "dict_of ps = dict_merge [] ps"

lemma set_update: "set (AList.update k v al) \<subseteq> insert (k, v) (set al)"
  by (induction al) auto

lemma update_not_Nil [simp]: "AList.update k v al \<noteq> []"
  by (cases al) auto

lemma update_new: "k \<notin> fst ` set al \<Longrightarrow> AList.update k v al = al @ [(k, v)]"
  by (induction al) auto

lemma update_last: "k \<notin> fst ` set al \<Longrightarrow> AList.update k v (al @ [(k, u)]) = al @ [(k, v)]"
  by (induction al) auto

lemma dict_merge_Nil [simp]: "dict_merge d [] = d"
  by (simp add: dict_merge_def)

lemma dict_merge_Cons [simp]: "dict_merge d ((k, v) # ps) = dict_merge (AList.update k v d) ps"
  by (simp add: dict_merge_def)

lemma dict_merge_distinct: "distinct (map fst d) \<Longrightarrow> distinct (map fst (dict_merge d ps))"
  by (induction ps arbitrary: d) (auto simp: distinct_update)

lemma map_of_dict_merge: "map_of (dict_merge d ps) = map_of d ++ map_of (rev ps)"
  by (induction ps arbitrary: d) (auto simp: update_conv' fun_eq_iff map_add_def split: option.splits)

lemma map_of_dict_merge_dict:
  assumes "distinct (map fst e)"
  shows "map_of (dict_merge d e) = map_of d ++ map_of e"
proof -
  have "map_of (rev e) = map_of e"
    using assms by (intro map_of_inject_set [THEN iffD2]) (simp_all add: rev_map [symmetric])
  then show ?thesis by (simp add: map_of_dict_merge)
qed

lemma dict_of_distinct: "distinct (map fst (dict_of ps))"
  by (simp add: dict_of_def dict_merge_distinct)

lemma map_of_dict_of: "map_of (dict_of ps) = map_of (rev ps)"
  by (simp add: dict_of_def map_of_dict_merge)

subsection \<open>Filtering and searching lists\<close>

lemma in_map_filter: "y \<in> set (List.map_filter f xs) \<longleftrightarrow> (\<exists>x \<in> set xs. f x = Some y)"
  by (induction xs) (auto simp: List.map_filter_def split: option.splits)

lemma map_map_filter: "map g (List.map_filter f xs) = List.map_filter (\<lambda>x. map_option g (f x)) xs"
  by (induction xs) (auto simp: List.map_filter_def)

lemma map_filter_cong: "(\<And>x. x \<in> set xs \<Longrightarrow> f x = g x) \<Longrightarrow> List.map_filter f xs = List.map_filter g xs"
  by (induction xs) (auto simp: List.map_filter_def)

lemma map_of_unique:
  "(k, v) \<in> set xs \<Longrightarrow> (\<And>v'. (k, v') \<in> set xs \<Longrightarrow> v' = v) \<Longrightarrow> map_of xs k = Some v"
  by (metis map_of_SomeD weak_map_of_SomeI)

lemma find_none: "find (\<lambda>j. False) xs = None"
  by (simp add: find_None_iff)

end
