(* ===== verification/Bounded.thy ===== *)
theory Bounded
  imports Prelude
begin

text \<open>
  \<open>utils/bounded_dict.py\<close> and \<open>utils/bounded_set.py\<close>: an \<open>OrderedDict\<close> with a maximum size. The
  model keeps the entries in the \<open>OrderedDict\<close>'s order, oldest first; writing a key moves it to the
  end, a new key evicts the first entry when the store is full.

  The locale \<open>recency_store\<close> states the contract both classes give their clients, \<open>recency_map\<close>
  adds the values; the facts clients need (how long an entry survives, what a write can evict) are
  proved once inside them and interpreted on the two models below.
\<close>

lemma dropWhile_neq: "k \<notin> set xs \<Longrightarrow> dropWhile (\<lambda>x. x \<noteq> k) (xs @ k # ys) = k # ys"
  by (induction xs) auto

subsection \<open>The contract\<close>

locale recency_store =
  fixes keys_of :: "'s \<Rightarrow> 'k list"
    and cap :: "'s \<Rightarrow> nat"
    and inv :: "'s \<Rightarrow> bool"
    and key :: "'a \<Rightarrow> 'k"
    and touch :: "'a \<Rightarrow> 's \<Rightarrow> 's"
  assumes inv_distinct: "inv s \<Longrightarrow> distinct (keys_of s)"
    and inv_cap: "inv s \<Longrightarrow> length (keys_of s) \<le> cap s"
    and inv_pos: "inv s \<Longrightarrow> 0 < cap s"
    and inv_touch: "inv s \<Longrightarrow> inv (touch a s)"
    and cap_touch: "inv s \<Longrightarrow> cap (touch a s) = cap s"
    and keys_touch: "inv s \<Longrightarrow> keys_of (touch a s) =
      (if key a \<in> set (keys_of s) then filter (\<lambda>k. k \<noteq> key a) (keys_of s) @ [key a]
       else if cap s \<le> length (keys_of s) then tl (keys_of s) @ [key a]
       else keys_of s @ [key a])"
begin

text \<open>The keys written after \<open>k\<close> was last written.\<close>

definition younger :: "'k \<Rightarrow> 's \<Rightarrow> 'k set" where
  "younger k s = set (tl (dropWhile (\<lambda>x. x \<noteq> k) (keys_of s)))"

lemma touched_present: "inv s \<Longrightarrow> key a \<in> set (keys_of (touch a s))"
  by (simp add: keys_touch)

lemma keys_touch_subset: "inv s \<Longrightarrow> set (keys_of (touch a s)) \<subseteq> insert (key a) (set (keys_of s))"
  by (auto simp: keys_touch dest: list.set_sel(2) split: if_splits)
     (metis list.sel(2) list.set_sel(2))

lemma inv_fold: "inv s \<Longrightarrow> inv (fold touch as s)"
  by (induction as arbitrary: s) (auto intro: inv_touch)

lemma cap_fold: "inv s \<Longrightarrow> cap (fold touch as s) = cap s"
  by (induction as arbitrary: s) (auto simp: inv_touch cap_touch)

text \<open>Whatever is written, the store never outgrows its capacity.\<close>

lemma bounded_fold: "inv s \<Longrightarrow> length (keys_of (fold touch as s)) \<le> cap s"
  using inv_cap inv_fold cap_fold by metis

lemma split_at_key:
  assumes "k \<in> set (keys_of s)"
  obtains xs ys where "keys_of s = xs @ k # ys" "k \<notin> set xs" "younger k s = set ys"
proof -
  obtain xs ys where "keys_of s = xs @ k # ys" "k \<notin> set xs"
    using split_list_first [OF assms] by blast
  moreover from this have "dropWhile (\<lambda>x. x \<noteq> k) (keys_of s) = k # ys"
    by (simp add: dropWhile_neq)
  ultimately show ?thesis using that by (simp add: younger_def)
qed

lemma younger_self: "inv s \<Longrightarrow> younger (key a) (touch a s) = {}"
proof -
  assume inv: "inv s"
  obtain zs where zs: "keys_of (touch a s) = zs @ [key a]"
    using keys_touch [OF inv] by metis
  then have "key a \<notin> set zs"
    using inv_distinct [OF inv_touch [OF inv, of a]] by simp
  with zs dropWhile_neq [of "key a" zs "[]"] show ?thesis by (simp add: younger_def)
qed

lemma touch_keeps:
  assumes inv: "inv s" and k: "k \<in> set (keys_of s)"
    and few: "card (insert (key a) (younger k s)) < cap s"
  shows "k \<in> set (keys_of (touch a s)) \<and> younger k (touch a s) \<subseteq> insert (key a) (younger k s)"
proof (cases "key a = k")
  case True
  then show ?thesis using touched_present [OF inv, of a] younger_self [OF inv, of a] by auto
next
  case ne: False
  obtain xs ys where s: "keys_of s = xs @ k # ys" "k \<notin> set xs" "younger k s = set ys"
    using split_at_key [OF k] .
  have d: "distinct (xs @ k # ys)" using inv_distinct [OF inv] s by simp
  have y: "younger k (touch a s) = set (tl (dropWhile (\<lambda>x. x \<noteq> k) (zs @ k # ws)))"
    if "keys_of (touch a s) = zs @ k # ws" for zs ws
    using that by (simp add: younger_def)
  show ?thesis
  proof (cases "key a \<in> set (keys_of s)")
    case True
    let ?f = "filter (\<lambda>x. x \<noteq> key a)"
    have "keys_of (touch a s) = ?f xs @ k # (?f ys @ [key a])"
      using True ne by (simp add: keys_touch [OF inv] s)
    from y [OF this] s(2) ne have "younger k (touch a s) = insert (key a) (set (?f ys))"
      by (simp add: dropWhile_neq)
    then show ?thesis using \<open>keys_of (touch a s) = _\<close> s(3) by auto
  next
    case False
    show ?thesis
    proof (cases "cap s \<le> length (keys_of s)")
      case True
      have "xs \<noteq> []"
      proof
        assume "xs = []"
        then have "card (insert (key a) (younger k s)) = Suc (length ys)"
          using False d s by (simp add: distinct_card)
        also have "\<dots> = length (keys_of s)" using s \<open>xs = []\<close> by simp
        finally show False using few True by simp
      qed
      then have "keys_of (touch a s) = tl xs @ k # (ys @ [key a])"
        using False True by (simp add: keys_touch [OF inv] s)
      moreover have "k \<notin> set (tl xs)" using s(2) by (meson list.set_sel(2) \<open>xs \<noteq> []\<close>)
      ultimately show ?thesis using y s(3) by (simp add: dropWhile_neq)
    next
      case small: False
      then have "keys_of (touch a s) = xs @ k # (ys @ [key a])"
        using False by (simp add: keys_touch [OF inv] s)
      then show ?thesis using y s(2,3) by (simp add: dropWhile_neq)
    qed
  qed
qed

text \<open>
  An entry survives any run of writes that touches fewer than \<open>cap\<close> distinct keys since it was
  itself last written.
\<close>

lemma survives:
  assumes "inv s" "k \<in> set (keys_of s)" "card (key ` set as \<union> younger k s) < cap s"
  shows "k \<in> set (keys_of (fold touch as s))"
  using assms
proof (induction as arbitrary: s)
  case (Cons a as)
  have fin: "finite (key ` set (a # as) \<union> younger k s)"
    by (simp add: younger_def)
  have "card (insert (key a) (younger k s)) \<le> card (key ` set (a # as) \<union> younger k s)"
    by (rule card_mono [OF fin]) auto
  then have keep: "k \<in> set (keys_of (touch a s))" "younger k (touch a s) \<subseteq> insert (key a) (younger k s)"
    using touch_keeps [OF Cons.prems(1,2), of a] Cons.prems(3) by simp_all
  have "card (key ` set as \<union> younger k (touch a s)) \<le> card (key ` set (a # as) \<union> younger k s)"
    by (rule card_mono [OF fin]) (use keep(2) in auto)
  then have "card (key ` set as \<union> younger k (touch a s)) < cap (touch a s)"
    using Cons.prems(1,3) cap_touch by simp
  then show ?case
    using Cons.IH [OF inv_touch [OF Cons.prems(1)] keep(1)] by simp
qed simp

lemma survives_since_touch:
  assumes "inv s" "card (key ` set as) < cap s"
  shows "key a \<in> set (keys_of (fold touch as (touch a s)))"
  using assms by (intro survives) (simp_all add: inv_touch touched_present younger_self cap_touch)

text \<open>A store that stays within its capacity loses nothing: it is then a plain set of keys.\<close>

lemma no_eviction:
  assumes "inv s" "card (insert (key a) (set (keys_of s))) \<le> cap s"
  shows "set (keys_of (touch a s)) = insert (key a) (set (keys_of s))"
proof (cases "key a \<in> set (keys_of s)")
  case True
  then show ?thesis using assms(1) by (auto simp: keys_touch)
next
  case False
  then have "Suc (length (keys_of s)) \<le> cap s"
    using assms by (simp add: distinct_card inv_distinct)
  then show ?thesis using False assms(1) by (simp add: keys_touch)
qed

end

locale recency_map = recency_store keys_of cap inv fst touch
  for keys_of :: "'s \<Rightarrow> 'k list" and cap inv and touch :: "'k \<times> 'v \<Rightarrow> 's \<Rightarrow> 's" +
  fixes get :: "'s \<Rightarrow> 'k \<Rightarrow> 'v option"
  assumes get_keys: "inv s \<Longrightarrow> (get s k \<noteq> None) = (k \<in> set (keys_of s))"
    and get_touch: "inv s \<Longrightarrow> k' \<in> set (keys_of (touch (k, v) s)) \<Longrightarrow>
      get (touch (k, v) s) k' = (if k' = k then Some v else get s k')"
begin

lemma get_touch_same: "inv s \<Longrightarrow> get (touch (k, v) s) k = Some v"
  using touched_present [of s "(k, v)"] by (simp add: get_touch)

text \<open>A write changes another key only by evicting it.\<close>

lemma get_touch_other:
  "inv s \<Longrightarrow> k' \<noteq> k \<Longrightarrow> get (touch (k, v) s) k' = get s k' \<or> get (touch (k, v) s) k' = None"
  using get_touch get_keys inv_touch by metis

lemma get_fold_survives:
  assumes "inv s" "card (fst ` set as) < cap s" "k \<notin> fst ` set as"
  shows "get (fold touch as (touch (k, v) s)) k = Some v"
proof -
  have gen: "get (fold touch as s') k = Some v"
    if "inv s'" "get s' k = Some v" "k \<notin> fst ` set as"
      "\<And>n. k \<in> set (keys_of (fold touch (take n as) s'))" for s' as
    using that
  proof (induction as arbitrary: s')
    case (Cons p as)
    obtain k1 v1 where p: "p = (k1, v1)" by (cases p)
    have "k \<in> set (keys_of (touch p s'))" using Cons.prems(4) [of 1] by simp
    then have "get (touch p s') k = Some v"
      using Cons.prems(1,2,3) p by (simp add: get_touch)
    moreover have "k \<in> set (keys_of (fold touch (take n as) (touch p s')))" for n
      using Cons.prems(4) [of "Suc n"] by simp
    ultimately show ?case
      using Cons.IH [OF inv_touch [OF Cons.prems(1)]] Cons.prems(3) by simp
  qed simp
  show ?thesis
  proof (rule gen [OF inv_touch [OF assms(1)] get_touch_same [OF assms(1)] assms(3)])
    fix n
    have "card (fst ` set (take n as)) \<le> card (fst ` set as)"
      by (intro card_mono image_mono set_take_subset) simp
    then show "k \<in> set (keys_of (fold touch (take n as) (touch (k, v) s)))"
      using survives_since_touch [OF assms(1), of "take n as" "(k, v)"] assms(2) by simp
  qed
qed

end

subsection \<open>BoundedDict\<close>

record ('k, 'v) bounded_dict =
  bd_max :: nat
  bd_data :: "('k \<times> 'v) list"

definition bd_new :: "nat \<Rightarrow> ('k, 'v) bounded_dict" where
  "bd_new n = \<lparr>bd_max = n, bd_data = []\<rparr>"

definition bd_get :: "('k, 'v) bounded_dict \<Rightarrow> 'k \<Rightarrow> 'v option" where
  "bd_get d k = map_of (bd_data d) k"

definition bd_getitem :: "('k, 'v) bounded_dict \<Rightarrow> 'k \<Rightarrow> 'v py" where
  "bd_getitem d k = (case map_of (bd_data d) k of None \<Rightarrow> Inl PyKeyError | Some v \<Rightarrow> Inr v)"

definition bd_contains :: "('k, 'v) bounded_dict \<Rightarrow> 'k \<Rightarrow> bool" where
  "bd_contains d k \<longleftrightarrow> map_of (bd_data d) k \<noteq> None"

definition bd_len :: "('k, 'v) bounded_dict \<Rightarrow> nat" where
  "bd_len d = length (bd_data d)"

definition bd_keys :: "('k, 'v) bounded_dict \<Rightarrow> 'k list" where
  "bd_keys d = map fst (bd_data d)"

text \<open>\<open>__setitem__\<close>; \<open>popitem\<close> on an empty store (a maximum of 0) raises \<open>KeyError\<close>.\<close>

definition bd_setitem :: "('k, 'v) bounded_dict \<Rightarrow> 'k \<Rightarrow> 'v \<Rightarrow> ('k, 'v) bounded_dict py" where
  "bd_setitem d k v =
    (if bd_contains d k then Inr (d\<lparr>bd_data := filter (\<lambda>p. fst p \<noteq> k) (bd_data d) @ [(k, v)]\<rparr>)
     else if bd_max d \<le> length (bd_data d) then
       (case bd_data d of
          [] \<Rightarrow> Inl PyKeyError
        | _ # rest \<Rightarrow> Inr (d\<lparr>bd_data := rest @ [(k, v)]\<rparr>))
     else Inr (d\<lparr>bd_data := bd_data d @ [(k, v)]\<rparr>))"

text \<open>
  The assignment statement \<open>d[k] = v\<close> on a store with a positive maximum, the only ones the
  listener makes; there \<open>bd_setitem\<close> does not raise (\<open>bd_setitem_ok\<close>).
\<close>

definition bd_set :: "('k, 'v) bounded_dict \<Rightarrow> 'k \<Rightarrow> 'v \<Rightarrow> ('k, 'v) bounded_dict" where
  "bd_set d k v = (case bd_setitem d k v of Inl _ \<Rightarrow> d | Inr d' \<Rightarrow> d')"

definition bd_pop :: "('k, 'v) bounded_dict \<Rightarrow> 'k \<Rightarrow> 'v option \<times> ('k, 'v) bounded_dict" where
  "bd_pop d k = (map_of (bd_data d) k, d\<lparr>bd_data := filter (\<lambda>p. fst p \<noteq> k) (bd_data d)\<rparr>)"

abbreviation bd_remove :: "('k, 'v) bounded_dict \<Rightarrow> 'k \<Rightarrow> ('k, 'v) bounded_dict" where
  "bd_remove d k \<equiv> snd (bd_pop d k)"

definition bd_wf :: "('k, 'v) bounded_dict \<Rightarrow> bool" where
  "bd_wf d \<longleftrightarrow> distinct (bd_keys d) \<and> length (bd_data d) \<le> bd_max d \<and> 0 < bd_max d"

abbreviation bd_put :: "'k \<times> 'v \<Rightarrow> ('k, 'v) bounded_dict \<Rightarrow> ('k, 'v) bounded_dict" where
  "bd_put p d \<equiv> bd_set d (fst p) (snd p)"

lemma bd_wf_new [simp]: "0 < n \<Longrightarrow> bd_wf (bd_new n)"
  by (simp add: bd_wf_def bd_new_def bd_keys_def)

lemma bd_get_new [simp]: "bd_get (bd_new n) k = None"
  by (simp add: bd_get_def bd_new_def)

lemma bd_contains_iff: "bd_contains d k \<longleftrightarrow> k \<in> set (bd_keys d)"
  by (simp add: bd_contains_def bd_keys_def map_of_eq_None_iff)

lemma bd_contains_get: "bd_contains d k \<longleftrightarrow> bd_get d k \<noteq> None"
  by (simp add: bd_contains_def bd_get_def)

lemma bd_setitem_ok: "bd_wf d \<Longrightarrow> bd_setitem d k v = Inr (bd_set d k v)"
  by (auto simp: bd_set_def bd_setitem_def bd_wf_def split: list.splits)

lemma bd_data_set:
  assumes "bd_wf d"
  shows "bd_data (bd_set d k v) =
    (if k \<in> set (bd_keys d) then filter (\<lambda>p. fst p \<noteq> k) (bd_data d) @ [(k, v)]
     else if bd_max d \<le> length (bd_data d) then tl (bd_data d) @ [(k, v)]
     else bd_data d @ [(k, v)])"
  using assms
  by (auto simp: bd_set_def bd_setitem_def bd_contains_iff bd_wf_def split: list.splits)

lemma bd_max_set [simp]: "bd_max (bd_set d k v) = bd_max d"
  by (auto simp: bd_set_def bd_setitem_def split: list.splits)

lemma bd_keys_set:
  assumes "bd_wf d"
  shows "bd_keys (bd_set d k v) =
    (if k \<in> set (bd_keys d) then filter (\<lambda>x. x \<noteq> k) (bd_keys d) @ [k]
     else if bd_max d \<le> length (bd_keys d) then tl (bd_keys d) @ [k]
     else bd_keys d @ [k])"
  using bd_data_set [OF assms, of k v]
  by (simp add: bd_keys_def map_tl filter_map o_def)

lemma bd_wf_set [simp]:
  assumes "bd_wf d" shows "bd_wf (bd_set d k v)"
proof -
  have l: "length (bd_keys d) \<le> bd_max d" and d: "distinct (bd_keys d)" and p: "0 < bd_max d"
    using assms by (simp_all add: bd_wf_def bd_keys_def)
  have "length (filter (\<lambda>x. x \<noteq> k) (bd_keys d)) < length (bd_keys d)" if "k \<in> set (bd_keys d)"
    using that by (auto intro: length_filter_less)
  then have "length (bd_keys (bd_set d k v)) \<le> bd_max d"
    using l p by (auto simp: bd_keys_set [OF assms])
  moreover have "distinct (bd_keys (bd_set d k v))"
    using d by (auto simp: bd_keys_set [OF assms] distinct_tl dest: list.set_sel(2))
       (metis list.sel(2) list.set_sel(2))
  ultimately show ?thesis using p by (simp add: bd_wf_def bd_keys_def)
qed

lemma bd_get_set_same [simp]: "bd_wf d \<Longrightarrow> bd_get (bd_set d k v) k = Some v"
proof -
  assume wf: "bd_wf d"
  have "k \<notin> fst ` set (tl (bd_data d))" if "k \<notin> set (bd_keys d)"
    using that by (cases "bd_data d") (auto simp: bd_keys_def)
  then show ?thesis
    unfolding bd_get_def bd_data_set [OF wf]
    by (auto simp: map_add_def map_of_filter_key bd_keys_def map_of_eq_None_iff [THEN iffD2])
qed

lemma bd_get_set_other:
  assumes wf: "bd_wf d" and "k' \<noteq> k" and "k' \<in> set (bd_keys (bd_set d k v))"
  shows "bd_get (bd_set d k v) k' = bd_get d k'"
proof -
  have tl: "map_of (tl xs) k' = map_of xs k'" if "k' \<in> fst ` set (tl xs)" "distinct (map fst xs)"
    for xs :: "('a \<times> 'b) list"
    using that by (cases xs) (auto simp: image_iff)
  have "k' \<in> fst ` set (bd_data (bd_set d k v))" using assms(3) by (simp add: bd_keys_def)
  then show ?thesis
    using assms(2) wf unfolding bd_get_def bd_data_set [OF wf]
    by (auto simp: map_add_def map_of_filter_key tl bd_wf_def bd_keys_def
        split: if_splits option.splits)
qed

lemma bd_wfD:
  assumes "bd_wf d"
  shows "distinct (bd_keys d)" "length (bd_keys d) \<le> bd_max d" "0 < bd_max d"
  using assms by (simp_all add: bd_wf_def bd_keys_def)

interpretation bd: recency_map bd_keys bd_max bd_wf bd_put bd_get
proof unfold_locales
  fix d :: "('a, 'b) bounded_dict" and k k' v
  assume wf: "bd_wf d"
  show "(bd_get d k \<noteq> None) = (k \<in> set (bd_keys d))"
    using bd_contains_get [of d k] bd_contains_iff [of d k] by simp
  show "bd_get (bd_put (k, v) d) k' = (if k' = k then Some v else bd_get d k')"
    if "k' \<in> set (bd_keys (bd_put (k, v) d))"
    using that wf by (auto simp: bd_get_set_other)
qed (auto simp: bd_keys_set bd_wfD)

lemma bd_wf_pop [simp]: "bd_wf d \<Longrightarrow> bd_wf (bd_remove d k)"
  by (auto simp: bd_wf_def bd_pop_def bd_keys_def intro: order_trans [OF length_filter_le]
      distinct_map_filter)

lemma bd_get_remove [simp]: "bd_get (bd_remove d k) k' = (if k' = k then None else bd_get d k')"
  by (simp add: bd_get_def bd_pop_def map_of_filter_key)

lemma bd_max_pop [simp]: "bd_max (bd_remove d k) = bd_max d"
  by (simp add: bd_pop_def)

lemma bd_get_set_cases:
  "bd_wf d \<Longrightarrow> bd_get (bd_set d k v) k' = (if k' = k then Some v else bd_get d k')
      \<or> (k' \<noteq> k \<and> bd_get (bd_set d k v) k' = None)"
  using bd.get_touch_other [of d k' k v] by auto

lemma bd_keys_remove [simp]: "set (bd_keys (bd_remove d k)) = set (bd_keys d) - {k}"
  by (auto simp: bd_keys_def bd_pop_def)

lemma bd_get_None_iff: "bd_get d k = None \<longleftrightarrow> k \<notin> set (bd_keys d)"
  by (simp add: bd_get_def bd_keys_def map_of_eq_None_iff)

lemma bd_get_set_room:
  assumes "bd_wf d" "card (insert k (set (bd_keys d))) \<le> bd_max d"
  shows "bd_get (bd_set d k v) k' = (if k' = k then Some v else bd_get d k')"
    and "set (bd_keys (bd_set d k v)) = insert k (set (bd_keys d))"
proof -
  show keys: "set (bd_keys (bd_set d k v)) = insert k (set (bd_keys d))"
    using bd.no_eviction [of d "(k, v)"] assms by simp
  show "bd_get (bd_set d k v) k' = (if k' = k then Some v else bd_get d k')"
  proof (cases "k' = k \<or> k' \<in> set (bd_keys d)")
    case True
    then show ?thesis using assms keys by (auto simp: bd_get_set_other)
  next
    case False
    then have "bd_get (bd_set d k v) k' = None" "bd_get d k' = None"
      using keys by (auto simp: bd_get_None_iff)
    then show ?thesis using False by simp
  qed
qed

text \<open>
  A change to the object stored under a key, made through a reference to it: the entry keeps its
  place, and a key that is absent stays absent.
\<close>

definition bd_mutate :: "('k, 'v) bounded_dict \<Rightarrow> 'k \<Rightarrow> 'v \<Rightarrow> ('k, 'v) bounded_dict" where
  "bd_mutate d k v = d\<lparr>bd_data := map (\<lambda>p. if fst p = k then (k, v) else p) (bd_data d)\<rparr>"

lemma bd_keys_mutate [simp]: "bd_keys (bd_mutate d k v) = bd_keys d"
  by (auto simp: bd_keys_def bd_mutate_def)

lemma bd_max_mutate [simp]: "bd_max (bd_mutate d k v) = bd_max d"
  by (simp add: bd_mutate_def)

lemma bd_wf_mutate [simp]: "bd_wf (bd_mutate d k v) = bd_wf d"
  by (simp add: bd_wf_def) (simp add: bd_mutate_def)

lemma bd_get_mutate [simp]:
  "bd_get (bd_mutate d k v) k' = (if k' = k \<and> bd_get d k \<noteq> None then Some v else bd_get d k')"
proof -
  have "map_of (map (\<lambda>p. if fst p = k then (k, v) else p) xs) k' =
      (if k' = k \<and> map_of xs k \<noteq> None then Some v else map_of xs k')" for xs
    by (induction xs) auto
  then show ?thesis by (simp add: bd_get_def bd_mutate_def)
qed

subsection \<open>BoundedSet\<close>

record 'a bounded_set =
  bs_max :: nat
  bs_data :: "'a list"

definition bs_new :: "nat \<Rightarrow> 'a bounded_set" where
  "bs_new n = \<lparr>bs_max = n, bs_data = []\<rparr>"

definition bs_contains :: "'a bounded_set \<Rightarrow> 'a \<Rightarrow> bool" where
  "bs_contains s x \<longleftrightarrow> x \<in> set (bs_data s)"

definition bs_add_py :: "'a bounded_set \<Rightarrow> 'a \<Rightarrow> 'a bounded_set py" where
  "bs_add_py s x =
    (if x \<in> set (bs_data s) then Inr (s\<lparr>bs_data := filter (\<lambda>y. y \<noteq> x) (bs_data s) @ [x]\<rparr>)
     else if bs_max s \<le> length (bs_data s) then
       (case bs_data s of
          [] \<Rightarrow> Inl PyKeyError
        | _ # rest \<Rightarrow> Inr (s\<lparr>bs_data := rest @ [x]\<rparr>))
     else Inr (s\<lparr>bs_data := bs_data s @ [x]\<rparr>))"

definition bs_add :: "'a \<Rightarrow> 'a bounded_set \<Rightarrow> 'a bounded_set" where
  "bs_add x s = (case bs_add_py s x of Inl _ \<Rightarrow> s | Inr s' \<Rightarrow> s')"

definition bs_wf :: "'a bounded_set \<Rightarrow> bool" where
  "bs_wf s \<longleftrightarrow> distinct (bs_data s) \<and> length (bs_data s) \<le> bs_max s \<and> 0 < bs_max s"

lemma bs_add_ok: "bs_wf s \<Longrightarrow> bs_add_py s x = Inr (bs_add x s)"
  by (auto simp: bs_add_def bs_add_py_def bs_wf_def split: list.splits)

lemma bs_wf_new [simp]: "0 < n \<Longrightarrow> bs_wf (bs_new n)"
  by (simp add: bs_wf_def bs_new_def)

lemma bs_contains_new [simp]: "\<not> bs_contains (bs_new n) x"
  by (simp add: bs_contains_def bs_new_def)

lemma bs_max_add [simp]: "bs_max (bs_add x s) = bs_max s"
  by (auto simp: bs_add_def bs_add_py_def split: list.splits)

lemma bs_data_add:
  "bs_wf s \<Longrightarrow> bs_data (bs_add x s) =
    (if x \<in> set (bs_data s) then filter (\<lambda>y. y \<noteq> x) (bs_data s) @ [x]
     else if bs_max s \<le> length (bs_data s) then tl (bs_data s) @ [x]
     else bs_data s @ [x])"
  by (auto simp: bs_add_def bs_add_py_def bs_wf_def split: list.splits)

lemma bs_wf_add [simp]:
  assumes "bs_wf s" shows "bs_wf (bs_add x s)"
proof -
  have "length (filter (\<lambda>y. y \<noteq> x) (bs_data s)) < length (bs_data s)" if "x \<in> set (bs_data s)"
    using that by (auto intro: length_filter_less)
  then have "length (bs_data (bs_add x s)) \<le> bs_max s"
    using assms by (auto simp: bs_data_add bs_wf_def)
  moreover have "distinct (bs_data (bs_add x s))"
    using assms by (auto simp: bs_data_add distinct_tl bs_wf_def dest: list.set_sel(2))
       (metis list.sel(2) list.set_sel(2))
  ultimately show ?thesis using assms by (simp add: bs_wf_def)
qed

interpretation bs: recency_store bs_data bs_max bs_wf id bs_add
  by unfold_locales (simp_all add: bs_data_add, simp_all add: bs_wf_def)

lemma bs_contains_add [simp]: "bs_wf s \<Longrightarrow> bs_contains (bs_add x s) x"
  using bs.touched_present [of s x] by (simp add: bs_contains_def)

lemma bs_contains_addD: "bs_wf s \<Longrightarrow> bs_contains (bs_add x s) y \<Longrightarrow> y = x \<or> bs_contains s y"
  using bs.keys_touch_subset [of s x] by (auto simp: bs_contains_def)

end
