(* ===== verification/Py_Text.thy ===== *)
theory Py_Text
  imports Prelude
begin

text \<open>
  Python strings and byte strings. A \<open>str\<close> is the list of its code points, a \<open>bytes\<close> the list of
  its 8-bit words. Literals of the source are ASCII and are written \<open>ascii ''...''\<close>.
\<close>

type_synonym pystr = "nat list"
type_synonym byte = "8 word"

definition ascii :: "string \<Rightarrow> pystr" where
  "ascii s = map of_char s"

lemma ascii_inj: "ascii s = ascii t \<longleftrightarrow> s = t"
proof -
  have "inj (of_char :: char \<Rightarrow> nat)" by (rule injI) simp
  then show ?thesis by (simp add: ascii_def inj_map_eq_map)
qed

lemma ascii_append [simp]: "ascii (s @ t) = ascii s @ ascii t"
  by (simp add: ascii_def)

subsection \<open>Decimal numbers: \<open>str(n)\<close>\<close>

fun dec_nat :: "nat \<Rightarrow> pystr" where
  "dec_nat n = (if n < 10 then [48 + n] else dec_nat (n div 10) @ [48 + n mod 10])"

declare dec_nat.simps [simp del]

definition dec_int :: "int \<Rightarrow> pystr" where
  "dec_int i = (if i < 0 then 45 # dec_nat (nat (- i)) else dec_nat (nat i))"

definition undec :: "pystr \<Rightarrow> nat" where
  "undec s = foldl (\<lambda>a d. 10 * a + (d - 48)) 0 s"

lemma undec_dec_nat [simp]: "undec (dec_nat n) = n"
proof (induction n rule: dec_nat.induct)
  case (1 n)
  show ?case
  proof (cases "n < 10")
    case True
    then show ?thesis by (subst dec_nat.simps) (simp add: undec_def)
  next
    case False
    then have "undec (dec_nat (n div 10)) = n div 10" using 1 by simp
    then have "undec (dec_nat n) = 10 * (n div 10) + n mod 10"
      by (subst dec_nat.simps) (use False in \<open>simp add: undec_def\<close>)
    then show ?thesis by simp
  qed
qed

lemma dec_nat_inj: "dec_nat m = dec_nat n \<longleftrightarrow> m = n"
  by (metis undec_dec_nat)

lemma set_dec_nat: "set (dec_nat n) \<subseteq> {48..57}"
proof (induction n rule: dec_nat.induct)
  case (1 n)
  have "n mod 10 < 10" by simp
  then have "48 + n mod 10 \<in> {48..57::nat}" by simp
  then show ?case
    using 1 by (subst dec_nat.simps) auto
qed

lemma dec_nat_nonempty [simp]: "dec_nat n \<noteq> []"
  by (subst dec_nat.simps) simp

lemma dec_int_inj: "dec_int i = dec_int j \<longleftrightarrow> i = j"
proof -
  have "45 \<notin> set (dec_nat n)" for n
    using set_dec_nat [of n] by auto
  then have "45 # dec_nat m \<noteq> dec_nat n" for m n
    by (metis list.set_intros(1))
  then show ?thesis
    by (auto simp: dec_int_def dec_nat_inj) (metis)+
qed

subsection \<open>String methods\<close>

text \<open>The code points \<open>str.strip\<close> removes, those of \<open>str.isspace\<close>.\<close>

definition is_space :: "nat \<Rightarrow> bool" where
  "is_space c \<longleftrightarrow> 9 \<le> c \<and> c \<le> 13 \<or> 28 \<le> c \<and> c \<le> 32 \<or> c = 133 \<or> c = 160 \<or> c = 5760
     \<or> 8192 \<le> c \<and> c \<le> 8202 \<or> c = 8232 \<or> c = 8233 \<or> c = 8239 \<or> c = 8287 \<or> c = 12288"

definition strip :: "pystr \<Rightarrow> pystr" where
  "strip s = rev (dropWhile is_space (rev (dropWhile is_space s)))"

text \<open>\<open>s.replace("\x00", "")\<close> and \<open>b.rstrip(b"\x00")\<close>.\<close>

definition remove_nul :: "pystr \<Rightarrow> pystr" where
  "remove_nul s = filter (\<lambda>c. c \<noteq> 0) s"

definition rstrip_nul :: "byte list \<Rightarrow> byte list" where
  "rstrip_nul b = rev (dropWhile (\<lambda>c. c = 0) (rev b))"

text \<open>
  \<open>s.lower()\<close>, on the ASCII letters. The source compares the result with ASCII words only, and no
  other code point lower-cases to one of their letters.
\<close>

definition lower :: "pystr \<Rightarrow> pystr" where
  "lower s = map (\<lambda>c. if 65 \<le> c \<and> c \<le> 90 then c + 32 else c) s"

lemma remove_nul_idem [simp]: "remove_nul (remove_nul s) = remove_nul s"
  by (simp add: remove_nul_def)

lemma dropWhile_none: "\<forall>x \<in> set xs. \<not> P x \<Longrightarrow> dropWhile P xs = xs"
  by (cases xs) auto

lemma strip_no_space: "\<forall>c \<in> set s. \<not> is_space c \<Longrightarrow> strip s = s"
  by (simp add: strip_def dropWhile_none)

subsection \<open>Decoding\<close>

text \<open>\<open>bytes.decode('ascii')\<close>.\<close>

definition ascii_decode :: "byte list \<Rightarrow> pystr py" where
  "ascii_decode bs =
     (if \<forall>b \<in> set bs. unat b < 128 then Inr (map unat bs) else Inl UnicodeDecodeError)"

text \<open>
  \<open>bytes.decode('utf-8')\<close>, strict: no overlong forms, no surrogates, nothing above U+10FFFF, no
  truncated sequence.
\<close>

definition cont_byte :: "nat \<Rightarrow> bool" where
  "cont_byte c \<longleftrightarrow> 128 \<le> c \<and> c < 192"

text \<open>One character: the lead byte, the bytes after it; its code point and what follows it.\<close>

definition utf8_step :: "nat \<Rightarrow> nat list \<Rightarrow> (nat \<times> nat list) option" where
  "utf8_step b bs =
    (if b < 128 then Some (b, bs)
     else if 194 \<le> b \<and> b < 224 then
       (case bs of
          c1 # rest \<Rightarrow>
            if cont_byte c1 then Some ((b - 192) * 64 + (c1 - 128), rest) else None
        | _ \<Rightarrow> None)
     else if 224 \<le> b \<and> b < 240 then
       (case bs of
          c1 # c2 # rest \<Rightarrow>
            if cont_byte c1 \<and> cont_byte c2 \<and> (b = 224 \<longrightarrow> 160 \<le> c1) \<and> (b = 237 \<longrightarrow> c1 < 160)
            then Some ((b - 224) * 4096 + (c1 - 128) * 64 + (c2 - 128), rest) else None
        | _ \<Rightarrow> None)
     else if 240 \<le> b \<and> b < 245 then
       (case bs of
          c1 # c2 # c3 # rest \<Rightarrow>
            if cont_byte c1 \<and> cont_byte c2 \<and> cont_byte c3
              \<and> (b = 240 \<longrightarrow> 144 \<le> c1) \<and> (b = 244 \<longrightarrow> c1 < 144)
            then Some ((b - 240) * 262144 + (c1 - 128) * 4096 + (c2 - 128) * 64 + (c3 - 128), rest)
            else None
        | _ \<Rightarrow> None)
     else None)"

lemma utf8_step_shorter: "utf8_step b bs = Some (c, rest) \<Longrightarrow> length rest \<le> length bs"
  by (auto simp: utf8_step_def split: if_splits list.splits)

function utf8_scan :: "nat list \<Rightarrow> pystr py" where
  "utf8_scan [] = Inr []"
| "utf8_scan (b # bs) =
    (case utf8_step b bs of
       None \<Rightarrow> Inl UnicodeDecodeError
     | Some (c, rest) \<Rightarrow> and_then (utf8_scan rest) (\<lambda>r. Inr (c # r)))"
  by pat_completeness auto
termination
  by (relation "measure length") (auto dest: utf8_step_shorter)

definition utf8_decode :: "byte list \<Rightarrow> pystr py" where
  "utf8_decode bs = utf8_scan (map unat bs)"

lemma utf8_scan_ascii: "\<forall>b \<in> set bs. b < 128 \<Longrightarrow> utf8_scan bs = Inr bs"
  by (induction bs) (auto simp: utf8_step_def)

lemma utf8_scan_error: "utf8_scan bs = Inl e \<Longrightarrow> e = UnicodeDecodeError"
proof (induction bs rule: utf8_scan.induct)
  case (2 b bs)
  then show ?case
    by (cases "utf8_step b bs") (auto simp: and_then_Inl_iff split: prod.splits)
qed simp

lemma utf8_decode_ascii: "\<forall>b \<in> set bs. unat b < 128 \<Longrightarrow> utf8_decode bs = Inr (map unat bs)"
  by (simp add: utf8_decode_def utf8_scan_ascii)

end
