(* ===== verification/Frame_Buffer.thy ===== *)
theory Frame_Buffer
  imports Bounded Py_Text
begin

text \<open>
  \<open>frame_buffer.py\<close>: packets wait in the buffer until the frame they belong to is complete. The buffer
  is a function of the flush callback, which works on a state \<open>'w\<close> of its own; an exception inside the
  callback is caught and logged, so all that is left of it is the state the callback reached. A
  packet is an element of \<open>'p\<close> under its id. Monotonic time is in nanoseconds.
\<close>

type_synonym 'p packets = "(int \<times> 'p) list"
type_synonym 'p frames = "(int \<times> 'p packets) list"
type_synonym ('p, 'w) flush_callback = "pystr \<Rightarrow> int \<Rightarrow> 'p packets \<Rightarrow> 'w \<Rightarrow> 'w"

definition FLUSH_INTERVAL_NS :: int where
  "FLUSH_INTERVAL_NS = 100000000"

definition MAX_SESSIONS :: nat where
  "MAX_SESSIONS = 20"

record 'p frame_buffer =
  fb_frames :: "(pystr, 'p frames) bounded_dict"
  fb_current_frame :: "(pystr, int) bounded_dict"
  fb_last_flush_time :: int

definition new_frame_buffer :: "int \<Rightarrow> 'p frame_buffer" where
  "new_frame_buffer now =
     \<lparr>fb_frames = bd_new MAX_SESSIONS, fb_current_frame = bd_new MAX_SESSIONS, fb_last_flush_time = now\<rparr>"

subsection \<open>Flushing a frame\<close>

definition flush_frame ::
    "('p, 'w) flush_callback \<Rightarrow> pystr \<Rightarrow> int \<Rightarrow> 'p frame_buffer \<times> 'w \<Rightarrow> 'p frame_buffer \<times> 'w" where
  "flush_frame cb uid frame_id = (\<lambda>(b, w).
    case bd_get (fb_frames b) uid of
      None \<Rightarrow> (b, w)
    | Some frames \<Rightarrow>
        let packets = map_of frames frame_id;
            frames' = filter (\<lambda>p. fst p \<noteq> frame_id) frames;
            b1 = b\<lparr>fb_frames := bd_mutate (fb_frames b) uid frames'\<rparr>
        in (case packets of
              None \<Rightarrow> (b1, w)
            | Some ps \<Rightarrow>
                if ps = [] then (b1, w)
                else ((if frames' = [] then b1\<lparr>fb_frames := bd_remove (fb_frames b1) uid\<rparr> else b1),
                      cb uid frame_id ps w)))"

subsection \<open>Operations\<close>

text \<open>\<open>session_frames.setdefault(frame_identifier, {})[packet_id] = (header, body)\<close>.\<close>

definition put_packet :: "int \<Rightarrow> int \<Rightarrow> 'p \<Rightarrow> 'p frames \<Rightarrow> 'p frames" where
  "put_packet frame_id packet_id x frames =
     AList.update frame_id
       (AList.update packet_id x (case map_of frames frame_id of None \<Rightarrow> [] | Some ps \<Rightarrow> ps)) frames"

definition fb_add ::
    "('p, 'w) flush_callback \<Rightarrow> pystr \<Rightarrow> int \<Rightarrow> int \<Rightarrow> 'p \<Rightarrow> 'p frame_buffer \<times> 'w \<Rightarrow> 'p frame_buffer \<times> 'w" where
  "fb_add cb uid frame_id packet_id x = (\<lambda>(b, w).
    let (b1, w1) = (case bd_get (fb_current_frame b) uid of
            Some current \<Rightarrow> if current < frame_id then flush_frame cb uid current (b, w) else (b, w)
          | None \<Rightarrow> (b, w));
        b2 = b1\<lparr>fb_current_frame := bd_set (fb_current_frame b1) uid frame_id\<rparr>;
        b3 = (case bd_get (fb_frames b2) uid of
            None \<Rightarrow> b2\<lparr>fb_frames := bd_set (fb_frames b2) uid []\<rparr> | Some _ \<Rightarrow> b2);
        frames = (case bd_get (fb_frames b3) uid of None \<Rightarrow> [] | Some fs \<Rightarrow> fs)
    in (b3\<lparr>fb_frames := bd_mutate (fb_frames b3) uid (put_packet frame_id packet_id x frames)\<rparr>, w1))"

definition stale_frames :: "'p frame_buffer \<Rightarrow> (pystr \<times> int) list" where
  "stale_frames b =
     concat (map (\<lambda>uid. map (Pair uid)
         (filter (\<lambda>f. bd_get (fb_current_frame b) uid \<noteq> Some f)
           (map fst (case bd_get (fb_frames b) uid of None \<Rightarrow> [] | Some fs \<Rightarrow> fs))))
       (bd_keys (fb_frames b)))"

definition check_periodic_flush ::
    "('p, 'w) flush_callback \<Rightarrow> int \<Rightarrow> 'p frame_buffer \<times> 'w \<Rightarrow> 'p frame_buffer \<times> 'w" where
  "check_periodic_flush cb now = (\<lambda>(b, w).
    if now - fb_last_flush_time b < FLUSH_INTERVAL_NS then (b, w)
    else fold (\<lambda>(uid, f). flush_frame cb uid f) (stale_frames b) (b\<lparr>fb_last_flush_time := now\<rparr>, w))"

definition discard_session :: "pystr \<Rightarrow> 'p frame_buffer \<Rightarrow> 'p frame_buffer" where
  "discard_session uid b =
     b\<lparr>fb_frames := bd_remove (fb_frames b) uid,
       fb_current_frame := bd_remove (fb_current_frame b) uid\<rparr>"

definition flush_session ::
    "('p, 'w) flush_callback \<Rightarrow> pystr \<Rightarrow> 'p frame_buffer \<times> 'w \<Rightarrow> 'p frame_buffer \<times> 'w" where
  "flush_session cb uid = (\<lambda>(b, w).
    case bd_get (fb_frames b) uid of
      None \<Rightarrow> (b, w)
    | Some frames \<Rightarrow>
        let (b', w') = fold (flush_frame cb uid) (sort (map fst frames)) (b, w)
        in (discard_session uid b', w'))"

subsection \<open>What the callback is asked to do\<close>

text \<open>
  The contract between the buffer and its client: whatever preorder relates the client's states
  before and after one callback relates them before and after every operation of the buffer.
\<close>

locale flush_client =
  fixes cb :: "('p, 'w) flush_callback" and R :: "'w \<Rightarrow> 'w \<Rightarrow> bool"
  assumes R_refl: "R w w"
    and R_trans: "R w1 w2 \<Longrightarrow> R w2 w3 \<Longrightarrow> R w1 w3"
    and R_flush: "R w (cb uid f ps w)"
begin

lemma flush_frame_related: "R (snd bw) (snd (flush_frame cb uid f bw))"
  by (cases bw) (auto simp: flush_frame_def Let_def R_refl R_flush split: option.splits)

lemma fold_related:
  assumes "\<And>x s. R (snd s) (snd (h x s))"
  shows "R (snd s) (snd (fold h xs s))"
proof (induction xs arbitrary: s)
  case (Cons x xs)
  show ?case using R_trans [OF assms [of s x] Cons [of "h x s"]] by simp
qed (simp add: R_refl)

lemma fold_flush_related: "R (snd bw) (snd (fold (flush_frame cb uid) fs bw))"
  by (rule fold_related) (rule flush_frame_related)

lemma add_related: "R (snd bw) (snd (fb_add cb uid f i x bw))"
proof -
  obtain b w where bw: "bw = (b, w)" by (cases bw)
  show ?thesis
    using flush_frame_related [of "(b, w)" uid]
    by (auto simp: bw fb_add_def Let_def R_refl split: option.splits prod.splits)
       (metis snd_conv)+
qed

lemma sweep_related: "R (snd bw) (snd (check_periodic_flush cb now bw))"
proof -
  have "R (snd bw') (snd (fold (\<lambda>(uid, f). flush_frame cb uid f) fs bw'))" for fs bw'
    by (rule fold_related) (auto intro: flush_frame_related simp del: split_paired_All)
  from this [of "(b\<lparr>fb_last_flush_time := now\<rparr>, w)" for b w] show ?thesis
    by (cases bw) (simp add: check_periodic_flush_def R_refl)
qed

lemma flush_session_related: "R (snd bw) (snd (flush_session cb uid bw))"
  using fold_flush_related
  by (cases bw) (auto simp: flush_session_def R_refl Let_def split: option.splits prod.splits, metis snd_conv)

end

subsection \<open>Well-formed buffers\<close>

definition pending :: "'p frame_buffer \<Rightarrow> pystr \<Rightarrow> 'p frames" where
  "pending b uid = (case bd_get (fb_frames b) uid of None \<Rightarrow> [] | Some fs \<Rightarrow> fs)"

definition frames_wf :: "'p frames \<Rightarrow> bool" where
  "frames_wf fs \<longleftrightarrow> distinct (map fst fs) \<and> (\<forall>ps \<in> snd ` set fs. ps \<noteq> [] \<and> distinct (map fst ps))"

definition fb_wf :: "'p frame_buffer \<Rightarrow> bool" where
  "fb_wf b \<longleftrightarrow> bd_wf (fb_frames b) \<and> bd_wf (fb_current_frame b)
     \<and> bd_max (fb_frames b) = MAX_SESSIONS \<and> bd_max (fb_current_frame b) = MAX_SESSIONS
     \<and> (\<forall>uid. frames_wf (pending b uid))"

lemma frames_wf_filter: "frames_wf fs \<Longrightarrow> frames_wf (filter P fs)"
  by (auto simp: frames_wf_def distinct_map_filter)

lemma map_of_frames_wf: "frames_wf fs \<Longrightarrow> map_of fs f = Some ps \<Longrightarrow> ps \<noteq> [] \<and> distinct (map fst ps)"
  by (auto simp: frames_wf_def dest: map_of_SomeD)

lemma frames_wf_put: "frames_wf fs \<Longrightarrow> frames_wf (put_packet f i x fs)"
proof -
  assume wf: "frames_wf fs"
  let ?ps = "AList.update i x (case map_of fs f of None \<Rightarrow> [] | Some ps \<Rightarrow> ps)"
  have "distinct (map fst ?ps)"
    using map_of_frames_wf [OF wf] by (intro distinct_update) (auto split: option.splits)
  moreover have "snd ` set (AList.update f ?ps fs) \<subseteq> insert ?ps (snd ` set fs)"
    using set_update [of f ?ps fs] by auto
  ultimately show ?thesis
    using wf unfolding frames_wf_def put_packet_def
    by (auto simp: distinct_update simp del: image_subset_iff dest!: subsetD)
qed

lemma fb_wf_new: "fb_wf (new_frame_buffer now)"
  by (simp add: fb_wf_def new_frame_buffer_def pending_def frames_wf_def bd_new_def MAX_SESSIONS_def
      bd_wf_def bd_keys_def bd_get_def)

lemma pending_upd [simp]:
  "pending (b\<lparr>fb_current_frame := x\<rparr>) u = pending b u"
  "pending (b\<lparr>fb_last_flush_time := t\<rparr>) u = pending b u"
  by (simp_all add: pending_def)

lemma flush_frame_pending:
  "pending (fst (flush_frame cb uid f (b, w))) u =
    (if u = uid then filter (\<lambda>p. fst p \<noteq> f) (pending b u) else pending b u)"
  by (auto simp: flush_frame_def pending_def Let_def split: option.splits)

lemma flush_frame_world:
  assumes "fb_wf b"
  shows "snd (flush_frame cb uid f (b, w)) = (case map_of (pending b uid) f of None \<Rightarrow> w | Some ps \<Rightarrow> cb uid f ps w)"
proof -
  have "frames_wf (pending b uid)" using assms by (simp add: fb_wf_def)
  then show ?thesis
    by (auto simp: flush_frame_def pending_def Let_def split: option.splits dest: map_of_frames_wf)
qed

lemma flush_frame_rest [simp]:
  "fb_current_frame (fst (flush_frame cb uid f (b, w))) = fb_current_frame b"
  "fb_last_flush_time (fst (flush_frame cb uid f (b, w))) = fb_last_flush_time b"
  by (auto simp: flush_frame_def Let_def split: option.splits)

lemma flush_frame_keys:
  "set (bd_keys (fb_frames (fst (flush_frame cb uid f (b, w))))) \<subseteq> set (bd_keys (fb_frames b))"
  by (auto simp: flush_frame_def Let_def split: option.splits if_splits)

lemma flush_frame_wf: "fb_wf b \<Longrightarrow> fb_wf (fst (flush_frame cb uid f (b, w)))"
proof -
  assume wf: "fb_wf b"
  have "bd_wf (fb_frames (fst (flush_frame cb uid f (b, w)))) \<and>
      bd_max (fb_frames (fst (flush_frame cb uid f (b, w)))) = MAX_SESSIONS"
    using wf by (auto simp: fb_wf_def flush_frame_def Let_def split: option.splits)
  moreover have "frames_wf (pending (fst (flush_frame cb uid f (b, w))) u)" for u
    using wf by (simp add: flush_frame_pending fb_wf_def frames_wf_filter)
  ultimately show ?thesis using wf by (simp add: fb_wf_def)
qed

definition fb_sessions :: "'p frame_buffer \<Rightarrow> pystr set" where
  "fb_sessions b = set (bd_keys (fb_frames b)) \<union> set (bd_keys (fb_current_frame b))"

text \<open>The part of \<open>fb_add\<close> that follows the flush.\<close>

definition store_packet :: "pystr \<Rightarrow> int \<Rightarrow> int \<Rightarrow> 'p \<Rightarrow> 'p frame_buffer \<Rightarrow> 'p frame_buffer" where
  "store_packet uid f i x b =
    (let fr = (if bd_get (fb_frames b) uid = None then bd_set (fb_frames b) uid [] else fb_frames b)
     in b\<lparr>fb_current_frame := bd_set (fb_current_frame b) uid f,
          fb_frames := bd_mutate fr uid (put_packet f i x (pending b uid))\<rparr>)"

text \<open>The flush of the frame that a newer packet completes.\<close>

definition complete_frame ::
    "('p, 'w) flush_callback \<Rightarrow> pystr \<Rightarrow> int \<Rightarrow> 'p frame_buffer \<times> 'w \<Rightarrow> 'p frame_buffer \<times> 'w" where
  "complete_frame cb uid f bw = (case bd_get (fb_current_frame (fst bw)) uid of
      Some current \<Rightarrow> if current < f then flush_frame cb uid current bw else bw
    | None \<Rightarrow> bw)"

lemma complete_frame_wf: "fb_wf b \<Longrightarrow> fb_wf (fst (complete_frame cb uid f (b, w)))"
  by (auto simp: complete_frame_def flush_frame_wf split: option.splits)

lemma complete_frame_rest [simp]:
  "fb_current_frame (fst (complete_frame cb uid f (b, w))) = fb_current_frame b"
  "fb_last_flush_time (fst (complete_frame cb uid f (b, w))) = fb_last_flush_time b"
  by (auto simp: complete_frame_def split: option.splits)

lemma complete_frame_sessions: "fb_sessions (fst (complete_frame cb uid f (b, w))) \<subseteq> fb_sessions b"
  using flush_frame_keys [of cb uid _ b w]
  by (auto simp: complete_frame_def fb_sessions_def split: option.splits)

lemma fb_add_split:
  assumes "fb_wf b"
  shows "fb_add cb uid f i x (b, w) =
    (store_packet uid f i x (fst (complete_frame cb uid f (b, w))), snd (complete_frame cb uid f (b, w)))"
proof -
  obtain b1 w1 where bw: "complete_frame cb uid f (b, w) = (b1, w1)"
    by (cases "complete_frame cb uid f (b, w)")
  have cur: "(case bd_get (fb_current_frame b) uid of
            Some current \<Rightarrow> if current < f then flush_frame cb uid current (b, w) else (b, w)
          | None \<Rightarrow> (b, w)) = (b1, w1)"
    using bw by (simp add: complete_frame_def)
  have "bd_wf (fb_frames b1)"
    using complete_frame_wf [OF assms, of cb uid f w] bw by (simp add: fb_wf_def)
  then show ?thesis
    by (auto simp: fb_add_def cur bw store_packet_def pending_def Let_def split: option.splits)
qed

lemma store_packet_wf: "fb_wf b \<Longrightarrow> fb_wf (store_packet uid f i x b)"
proof -
  assume wf: "fb_wf b"
  have get: "bd_get (bd_set (fb_frames b) uid []) u = None
      \<or> bd_get (bd_set (fb_frames b) uid []) u = (if u = uid then Some [] else bd_get (fb_frames b) u)" for u
    using bd_get_set_cases [of "fb_frames b" uid "[]" u] wf by (auto simp: fb_wf_def)
  have pend: "frames_wf (pending b u)" for u
    using wf by (simp add: fb_wf_def)
  have m: "pending (store_packet uid f i x b) u
      \<in> {[], pending b u, put_packet f i x (pending b uid)}" for u
    using get [of u]
    by (cases "bd_get (fb_frames b) uid"; cases "bd_get (fb_frames b) u")
       (auto simp: store_packet_def Let_def pending_def split: option.splits if_splits)
  then have "frames_wf (pending (store_packet uid f i x b) u)" for u
    using m [of u] pend [of u] frames_wf_put [OF pend [of uid]]
    by (elim insertE) (simp_all add: frames_wf_def [of "[]"])
  then show ?thesis
    using wf by (simp add: fb_wf_def) (simp add: store_packet_def Let_def)
qed

text \<open>While at most \<open>MAX_SESSIONS\<close> sessions are active, storing a packet evicts nothing.\<close>

lemma store_packet_effect:
  assumes "fb_wf b" "card (insert uid (fb_sessions b)) \<le> MAX_SESSIONS"
  shows "pending (store_packet uid f i x b) u =
      (if u = uid then put_packet f i x (pending b uid) else pending b u)"
    and "bd_get (fb_current_frame (store_packet uid f i x b)) u =
      (if u = uid then Some f else bd_get (fb_current_frame b) u)"
    and "fb_sessions (store_packet uid f i x b) = insert uid (fb_sessions b)"
proof -
  have fin: "finite (insert uid (fb_sessions b))" by (simp add: fb_sessions_def)
  have "card (insert uid (set (bd_keys (fb_frames b)))) \<le> card (insert uid (fb_sessions b))"
    "card (insert uid (set (bd_keys (fb_current_frame b)))) \<le> card (insert uid (fb_sessions b))"
    by (rule card_mono [OF fin]; force simp: fb_sessions_def)+
  then have room: "card (insert uid (set (bd_keys (fb_frames b)))) \<le> bd_max (fb_frames b)"
    "card (insert uid (set (bd_keys (fb_current_frame b)))) \<le> bd_max (fb_current_frame b)"
    using assms by (simp_all add: fb_wf_def)
  have wf: "bd_wf (fb_frames b)" "bd_wf (fb_current_frame b)"
    using assms(1) by (simp_all add: fb_wf_def)
  show "pending (store_packet uid f i x b) u =
      (if u = uid then put_packet f i x (pending b uid) else pending b u)"
    using bd_get_set_room [OF wf(1) room(1)]
    by (auto simp: store_packet_def Let_def pending_def split: option.splits)
  show "bd_get (fb_current_frame (store_packet uid f i x b)) u =
      (if u = uid then Some f else bd_get (fb_current_frame b) u)"
    using bd_get_set_room [OF wf(2) room(2)] by (simp add: store_packet_def Let_def)
  show "fb_sessions (store_packet uid f i x b) = insert uid (fb_sessions b)"
    using bd_get_set_room(2) [OF wf(1) room(1)] bd_get_set_room(2) [OF wf(2) room(2)]
    by (auto simp: store_packet_def Let_def fb_sessions_def bd_get_None_iff)
qed

lemma fb_add_wf: "fb_wf b \<Longrightarrow> fb_wf (fst (fb_add cb uid f i x (b, w)))"
  by (simp add: fb_add_split store_packet_wf complete_frame_wf)

lemma fold_wf:
  assumes "\<And>y b w. fb_wf b \<Longrightarrow> fb_wf (fst (h y (b, w)))"
  shows "fb_wf b \<Longrightarrow> fb_wf (fst (fold h ys (b, w)))"
proof (induction ys arbitrary: b w)
  case (Cons y ys)
  then show ?case using assms [of b y w] by (cases "h y (b, w)") simp
qed simp

lemma fb_wf_upd [simp]: "fb_wf (b\<lparr>fb_last_flush_time := t\<rparr>) = fb_wf b"
  by (simp add: fb_wf_def)

lemma check_periodic_flush_wf: "fb_wf b \<Longrightarrow> fb_wf (fst (check_periodic_flush cb now (b, w)))"
proof -
  assume wf: "fb_wf b"
  have "fb_wf (fst (fold (\<lambda>(uid, f). flush_frame cb uid f) ys (b\<lparr>fb_last_flush_time := now\<rparr>, w)))" for ys
    by (rule fold_wf) (auto simp: wf flush_frame_wf)
  then show ?thesis using wf by (simp add: check_periodic_flush_def)
qed

lemma discard_session_wf: "fb_wf b \<Longrightarrow> fb_wf (discard_session uid b)"
proof -
  assume wf: "fb_wf b"
  have "pending (discard_session uid b) u = (if u = uid then [] else pending b u)" for u
    by (simp add: pending_def discard_session_def)
  then show ?thesis
    using wf by (simp add: fb_wf_def frames_wf_def) (simp add: discard_session_def)
qed

lemma flush_session_split:
  "flush_session cb uid (b, w) = (if bd_get (fb_frames b) uid = None then (b, w)
     else let bw = fold (flush_frame cb uid) (sort (map fst (pending b uid))) (b, w)
          in (discard_session uid (fst bw), snd bw))"
  by (auto simp: flush_session_def pending_def Let_def split: option.splits prod.splits)

lemma flush_session_wf: "fb_wf b \<Longrightarrow> fb_wf (fst (flush_session cb uid (b, w)))"
proof -
  assume wf: "fb_wf b"
  have "fb_wf (fst (fold (flush_frame cb uid) ys (b, w)))" for ys
    by (rule fold_wf) (simp_all add: wf flush_frame_wf)
  then show ?thesis
    using wf by (simp add: flush_session_split Let_def discard_session_wf)
qed

subsection \<open>In-order delivery\<close>

text \<open>
  Calls as the dispatcher makes them: packets, each followed by a sweep at some time. \<open>frames_of\<close> is
  what the buffer is for: the packets of one session grouped by frame. The observer records the
  callbacks.
\<close>

datatype 'p buffer_call = Add pystr int int 'p | Sweep int

fun buffer_step :: "('p, 'w) flush_callback \<Rightarrow> 'p buffer_call \<Rightarrow> 'p frame_buffer \<times> 'w \<Rightarrow> 'p frame_buffer \<times> 'w" where
  "buffer_step cb (Add uid f i x) bw = fb_add cb uid f i x bw"
| "buffer_step cb (Sweep now) bw = check_periodic_flush cb now bw"

fun packets_for :: "pystr \<Rightarrow> 'p buffer_call list \<Rightarrow> (int \<times> int \<times> 'p) list" where
  "packets_for uid [] = []"
| "packets_for uid (Add u f i x # cs) = (if u = uid then [(f, i, x)] else []) @ packets_for uid cs"
| "packets_for uid (Sweep _ # cs) = packets_for uid cs"

definition frames_of :: "(int \<times> int \<times> 'p) list \<Rightarrow> 'p frames" where
  "frames_of xs = fold (\<lambda>(f, i, x). put_packet f i x) xs []"

definition observe :: "('p, (pystr \<times> int \<times> 'p packets) list) flush_callback" where
  "observe uid f ps trace = trace @ [(uid, f, ps)]"

fun call_sessions :: "'p buffer_call list \<Rightarrow> pystr set" where
  "call_sessions [] = {}"
| "call_sessions (Add u f i x # cs) = insert u (call_sessions cs)"
| "call_sessions (Sweep _ # cs) = call_sessions cs"

definition in_order :: "'p buffer_call list \<Rightarrow> bool" where
  "in_order cs \<longleftrightarrow> (\<forall>uid \<in> call_sessions cs. sorted (map fst (packets_for uid cs)))"

definition flushed_for :: "pystr \<Rightarrow> (pystr \<times> int \<times> 'p packets) list \<Rightarrow> 'p frames" where
  "flushed_for uid trace = map snd (filter (\<lambda>t. fst t = uid) trace)"

lemma packets_for_append [simp]: "packets_for uid (cs @ cs') = packets_for uid cs @ packets_for uid cs'"
  by (induction cs rule: packets_for.induct [of "\<lambda>_ cs. packets_for uid (cs @ cs') = packets_for uid cs @ packets_for uid cs'" uid])
     auto

lemma call_sessions_append [simp]: "call_sessions (cs @ cs') = call_sessions cs \<union> call_sessions cs'"
  by (induction cs rule: call_sessions.induct) auto

lemma finite_call_sessions [simp]: "finite (call_sessions cs)"
  by (induction cs rule: call_sessions.induct) auto

lemma packets_for_None: "uid \<notin> call_sessions cs \<Longrightarrow> packets_for uid cs = []"
  by (induction cs rule: call_sessions.induct) auto

lemma frames_of_snoc: "frames_of (xs @ [(f, i, x)]) = put_packet f i x (frames_of xs)"
  by (simp add: frames_of_def)

lemma put_packet_sorted:
  assumes "sorted_wrt (<) (map fst fs)" "\<forall>g \<in> set (map fst fs). g \<le> f"
  shows "put_packet f i x fs =
      (if fs \<noteq> [] \<and> fst (last fs) = f then butlast fs @ [(f, AList.update i x (snd (last fs)))]
       else fs @ [(f, [(i, x)])])"
    and "sorted_wrt (<) (map fst (put_packet f i x fs))"
    and "fst (last (put_packet f i x fs)) = f"
    and "\<forall>g \<in> set (map fst (put_packet f i x fs)). g \<le> f"
proof -
  have c: "put_packet f i x fs =
      (if fs \<noteq> [] \<and> fst (last fs) = f then butlast fs @ [(f, AList.update i x (snd (last fs)))]
       else fs @ [(f, [(i, x)])]) \<and> sorted_wrt (<) (map fst (put_packet f i x fs))
     \<and> fst (last (put_packet f i x fs)) = f \<and> (\<forall>g \<in> set (map fst (put_packet f i x fs)). g \<le> f)"
  proof (cases fs rule: rev_cases)
    case (snoc gs p)
    obtain g ps where p: "p = (g, ps)" by (cases p)
    have lt: "\<forall>h \<in> fst ` set gs. h < g" and s: "sorted_wrt (<) (map fst gs)" and le: "g \<le> f"
      using assms snoc p by (auto simp: sorted_wrt_append)
    show ?thesis
    proof (cases "g = f")
      case True
      have "f \<notin> fst ` set gs" using lt True by auto
      then show ?thesis
        using snoc p True lt s by (auto simp: put_packet_def update_last map_add_def sorted_wrt_append
            map_of_eq_None_iff [THEN iffD2] split: option.splits)
    next
      case False
      then have new: "f \<notin> fst ` set fs" using lt le snoc p by auto
      then have "map_of fs f = None" by (simp add: map_of_eq_None_iff)
      then have "put_packet f i x fs = fs @ [(f, [(i, x)])]"
        by (simp add: put_packet_def update_new [OF new])
      then show ?thesis
        using snoc p False lt s le by (auto simp: sorted_wrt_append)
    qed
  qed (simp add: put_packet_def)
  show "put_packet f i x fs =
      (if fs \<noteq> [] \<and> fst (last fs) = f then butlast fs @ [(f, AList.update i x (snd (last fs)))]
       else fs @ [(f, [(i, x)])])"
    and "sorted_wrt (<) (map fst (put_packet f i x fs))"
    and "fst (last (put_packet f i x fs)) = f"
    and "\<forall>g \<in> set (map fst (put_packet f i x fs)). g \<le> f"
    using c by blast+
qed

lemma frames_of_sorted:
  assumes "sorted (map fst xs)"
  shows "sorted_wrt (<) (map fst (frames_of xs)) \<and> (frames_of xs = [] \<longleftrightarrow> xs = [])
    \<and> (xs \<noteq> [] \<longrightarrow> fst (last (frames_of xs)) = fst (last xs)
         \<and> (\<forall>g \<in> set (map fst (frames_of xs)). g \<le> fst (last xs)))"
  using assms
proof (induction xs rule: rev_induct)
  case (snoc y xs)
  obtain f i x where y: "y = (f, i, x)" by (cases y)
  have le: "\<forall>g \<in> set (map fst (frames_of xs)). g \<le> f"
  proof (cases "xs = []")
    case False
    then have "fst (last xs) \<le> f"
      using snoc.prems y by (auto simp: sorted_append)
    then show ?thesis using snoc False by (fastforce simp: sorted_append)
  qed (simp add: frames_of_def)
  have s: "sorted_wrt (<) (map fst (frames_of xs))"
    using snoc by (simp add: sorted_append)
  show ?case
    using put_packet_sorted [OF s le, of i x] y
    by (simp add: frames_of_snoc put_packet_def)
qed (simp add: frames_of_def)

text \<open>What the buffer holds and has flushed after some in-order calls.\<close>

definition up_to_date :: "'p buffer_call list \<Rightarrow> 'p frame_buffer \<times> (pystr \<times> int \<times> 'p packets) list \<Rightarrow> bool" where
  "up_to_date cs bt \<longleftrightarrow> fb_wf (fst bt) \<and> fb_sessions (fst bt) \<subseteq> call_sessions cs \<and>
     (\<forall>uid. let fs = frames_of (packets_for uid cs) in
        flushed_for uid (snd bt) = butlast fs
        \<and> pending (fst bt) uid = (if fs = [] then [] else [last fs])
        \<and> bd_get (fb_current_frame (fst bt)) uid = (if fs = [] then None else Some (fst (last fs))))"

lemma sweep_nothing_stale:
  assumes "up_to_date cs (b, tr)"
  shows "check_periodic_flush cb now (b, w) =
    (if now - fb_last_flush_time b < FLUSH_INTERVAL_NS then b else b\<lparr>fb_last_flush_time := now\<rparr>, w)"
proof -
  have "filter (\<lambda>f. bd_get (fb_current_frame b) uid \<noteq> Some f) (map fst (pending b uid)) = []" for uid
    using assms by (simp add: up_to_date_def Let_def)
  then have "stale_frames (b\<lparr>fb_last_flush_time := now\<rparr>) = []" "stale_frames b = []"
    unfolding stale_frames_def pending_def [symmetric] by simp_all
  then show ?thesis by (simp add: check_periodic_flush_def)
qed

lemma up_to_date_add:
  assumes ok: "up_to_date cs (b, tr)"
    and sorted: "sorted (map fst (packets_for uid (cs @ [Add uid f i x])))"
    and room: "card (call_sessions (cs @ [Add uid f i x])) \<le> MAX_SESSIONS"
  shows "up_to_date (cs @ [Add uid f i x]) (fb_add observe uid f i x (b, tr))"
proof -
  have wf: "fb_wf b" using ok by (simp add: up_to_date_def)
  let ?fs = "frames_of (packets_for uid cs)"
  have pend: "pending b uid = (if ?fs = [] then [] else [last ?fs])"
    and cur: "bd_get (fb_current_frame b) uid = (if ?fs = [] then None else Some (fst (last ?fs)))"
    using ok by (auto simp: up_to_date_def Let_def dest: spec [of _ uid])
  have s: "sorted (map fst (packets_for uid cs))" using sorted by (simp add: sorted_append)
  have g: "sorted_wrt (<) (map fst ?fs)" using frames_of_sorted [OF s] by simp
  have le: "\<forall>g \<in> set (map fst ?fs). g \<le> f"
  proof (cases "packets_for uid cs = []")
    case False
    then have "fst (last (packets_for uid cs)) \<le> f" using sorted by (auto simp: sorted_append)
    then show ?thesis using frames_of_sorted [OF s] False by fastforce
  qed (simp add: frames_of_def)
  obtain b1 tr1 where c: "complete_frame observe uid f (b, tr) = (b1, tr1)"
    by (cases "complete_frame observe uid f (b, tr)")
  have add: "fb_add observe uid f i x (b, tr) = (store_packet uid f i x b1, tr1)"
    by (simp add: fb_add_split [OF wf] c)
  have cf: "b1 = b \<and> tr1 = tr \<or> (b1, tr1) = flush_frame observe uid (fst (last ?fs)) (b, tr)"
    using c cur by (auto simp: complete_frame_def split: if_splits)
  have wf1: "fb_wf b1" using complete_frame_wf [OF wf, of observe uid f tr] c by simp
  have sess: "fb_sessions b1 \<subseteq> call_sessions cs"
    using complete_frame_sessions [of observe uid f b tr] c ok by (auto simp: up_to_date_def)
  have "card (insert uid (fb_sessions b1)) \<le> card (call_sessions (cs @ [Add uid f i x]))"
    by (rule card_mono) (use sess in auto)
  then have eff: "card (insert uid (fb_sessions b1)) \<le> MAX_SESSIONS" using room by simp
  note store = store_packet_effect [OF wf1 eff, where f = f and i = i and x = x]
  have cur1: "fb_current_frame b1 = fb_current_frame b"
    using complete_frame_rest(1) [of observe uid f b tr] c by simp
  have p1: "pending b1 u = (if u = uid \<and> ?fs \<noteq> [] \<and> fst (last ?fs) < f then [] else pending b u)" for u
    using c cur pend flush_frame_pending [of observe uid "fst (last ?fs)" b tr u]
    by (auto simp: complete_frame_def split: if_splits)
  have t1: "tr1 = (if ?fs \<noteq> [] \<and> fst (last ?fs) < f
      then observe uid (fst (last ?fs)) (snd (last ?fs)) tr else tr)"
    using c cur pend flush_frame_world [OF wf, of observe uid "fst (last ?fs)" tr]
    by (cases "last ?fs") (auto simp: complete_frame_def split: if_splits)
  note put = put_packet_sorted [OF g le, of i x]
  have last_le: "?fs \<noteq> [] \<Longrightarrow> fst (last ?fs) \<le> f" using le by simp
  have here: "flushed_for uid tr1 = butlast (put_packet f i x ?fs)"
    "put_packet f i x (pending b1 uid) = [last (put_packet f i x ?fs)]"
    using ok last_le put(1) pend
    by (cases "?fs = []"; auto simp: up_to_date_def Let_def t1 p1 observe_def flushed_for_def
        put_packet_def dest: spec [of _ uid])+
  have other: "flushed_for u tr1 = flushed_for u tr" "pending b1 u = pending b u" if "u \<noteq> uid" for u
    using that by (simp_all add: t1 p1 observe_def flushed_for_def)
  have new: "put_packet f i x ?fs \<noteq> []" by (simp add: put_packet_def)
  have "flushed_for u tr1 = butlast (frames_of (packets_for u (cs @ [Add uid f i x]))) \<and>
      pending (store_packet uid f i x b1) u =
        (let fs = frames_of (packets_for u (cs @ [Add uid f i x])) in if fs = [] then [] else [last fs]) \<and>
      bd_get (fb_current_frame (store_packet uid f i x b1)) u =
        (let fs = frames_of (packets_for u (cs @ [Add uid f i x])) in
         if fs = [] then None else Some (fst (last fs)))" for u
  proof (cases "u = uid")
    case True
    then show ?thesis
      using here new put(3) store(1,2) [of uid] by (simp add: frames_of_snoc)
  next
    case False
    then show ?thesis
      using ok other [OF False] store(1,2) [of u] cur1 by (auto simp: up_to_date_def Let_def)
  qed
  then show ?thesis
    using store_packet_wf [OF wf1, of uid f i x] store(3) sess
    unfolding add up_to_date_def Let_def by auto

qed

definition run_buffer :: "'p buffer_call list \<Rightarrow> 'p frame_buffer \<times> 'w \<Rightarrow> ('p, 'w) flush_callback
    \<Rightarrow> 'p frame_buffer \<times> 'w" where
  "run_buffer cs bw cb = fold (buffer_step cb) cs bw"

lemma in_order_prefix: "in_order (cs @ cs') \<Longrightarrow> in_order cs"
  by (auto simp: in_order_def sorted_append)

lemma run_up_to_date:
  assumes "in_order cs" "card (call_sessions cs) \<le> MAX_SESSIONS"
  shows "up_to_date cs (run_buffer cs (new_frame_buffer now, []) observe)"
  using assms
proof (induction cs rule: rev_induct)
  case Nil
  show ?case
    by (simp add: run_buffer_def up_to_date_def fb_wf_new frames_of_def flushed_for_def)
       (simp add: new_frame_buffer_def fb_sessions_def pending_def bd_new_def bd_keys_def bd_get_def)
next
  case (snoc c cs)
  have "card (call_sessions cs) \<le> card (call_sessions (cs @ [c]))" by (rule card_mono) auto
  then have ih: "up_to_date cs (run_buffer cs (new_frame_buffer now, []) observe)"
    using snoc by (auto dest: in_order_prefix)
  obtain b tr where bt: "run_buffer cs (new_frame_buffer now, []) observe = (b, tr)"
    by (cases "run_buffer cs (new_frame_buffer now, []) observe")
  show ?case
  proof (cases c)
    case (Add uid f i x)
    then have "sorted (map fst (packets_for uid (cs @ [Add uid f i x])))"
      using snoc.prems(1) by (simp add: in_order_def)
    then show ?thesis
      using up_to_date_add [of cs b tr uid f i x] ih bt snoc.prems(2) Add by (simp add: run_buffer_def)
  next
    case (Sweep t)
    then show ?thesis
      using sweep_nothing_stale [of cs b tr observe t tr] ih bt
      by (auto simp: run_buffer_def up_to_date_def fb_sessions_def)
  qed
qed

text \<open>
  C2. Frames are written whole and in order. When the packets of each session
  arrive with non-decreasing frame identifiers, from at most \<open>MAX_SESSIONS\<close> sessions interleaved in any
  way and with sweeps at any time, then after the end of a session the callbacks made for it are
  exactly its packets grouped by frame identifier, each frame once, in the order of the frames.
\<close>

theorem buffer_groups_frames:
  assumes "in_order cs" "card (call_sessions cs) \<le> MAX_SESSIONS"
  shows "flushed_for uid (snd (flush_session observe uid (run_buffer cs (new_frame_buffer now, []) observe)))
    = frames_of (packets_for uid cs)"
proof -
  let ?fs = "frames_of (packets_for uid cs)"
  obtain b tr where bt: "run_buffer cs (new_frame_buffer now, []) observe = (b, tr)"
    by (cases "run_buffer cs (new_frame_buffer now, []) observe")
  then have ok: "fb_wf b" "flushed_for uid tr = butlast ?fs"
      "pending b uid = (if ?fs = [] then [] else [last ?fs])"
    using run_up_to_date [OF assms, of now] by (auto simp: up_to_date_def Let_def)
  show ?thesis
  proof (cases "?fs = []")
    case True
    then have "snd (flush_session observe uid (b, tr)) = tr" using ok(3) by (simp add: flush_session_split)
    then show ?thesis using bt ok(2) True by simp
  next
    case False
    then have "snd (flush_session observe uid (b, tr)) = observe uid (fst (last ?fs)) (snd (last ?fs)) tr"
      using ok flush_frame_world [OF ok(1), of observe uid "fst (last ?fs)" tr]
      by (cases "last ?fs") (auto simp: flush_session_split Let_def pending_def split: option.splits)
    then show ?thesis using bt ok(2) False by (simp add: observe_def flushed_for_def)
  qed
qed

theorem buffer_groups_frames_witness:
  "flushed_for [49] (snd (flush_session observe [49]
     (run_buffer [Add [49] 7 0 ''m'', Sweep 0, Add [50] 7 0 ''x'', Add [49] 7 2 ''l'', Add [49] 8 0 ''n'']
        (new_frame_buffer 0, []) observe)))
   = [(7, [(0, ''m''), (2, ''l'')]), (8, [(0, ''n'')])]"
proof -
  let ?cs = "[Add [49] 7 0 ''m'', Sweep 0, Add [50] 7 0 ''x'', Add [49] 7 2 ''l'', Add [49] 8 0 ''n''] :: string buffer_call list"
  have "in_order ?cs" by (simp add: in_order_def)
  moreover have "card (call_sessions ?cs) \<le> MAX_SESSIONS" by (simp add: MAX_SESSIONS_def card_insert_if)
  ultimately have "flushed_for [49] (snd (flush_session observe [49] (run_buffer ?cs (new_frame_buffer 0, []) observe)))
      = frames_of (packets_for [49] ?cs)"
    by (rule buffer_groups_frames)
  then show ?thesis by (simp add: frames_of_def put_packet_def)
qed

subsection \<open>Ending and discarding a session\<close>

lemma flush_many:
  assumes "fb_wf b" "distinct fs"
  shows "snd (fold (flush_frame cb uid) fs (b, w)) =
      fold (\<lambda>f w. case map_of (pending b uid) f of None \<Rightarrow> w | Some ps \<Rightarrow> cb uid f ps w) fs w
    \<and> (\<forall>u. pending (fst (fold (flush_frame cb uid) fs (b, w))) u =
      (if u = uid then filter (\<lambda>p. fst p \<notin> set fs) (pending b u) else pending b u))"
  using assms
proof (induction fs arbitrary: b w)
  case (Cons f fs)
  obtain b1 w1 where bw: "flush_frame cb uid f (b, w) = (b1, w1)"
    by (cases "flush_frame cb uid f (b, w)")
  have p: "pending b1 u = (if u = uid then filter (\<lambda>p. fst p \<noteq> f) (pending b u) else pending b u)" for u
    using flush_frame_pending [of cb uid f b w] bw by simp
  have w1: "w1 = (case map_of (pending b uid) f of None \<Rightarrow> w | Some ps \<Rightarrow> cb uid f ps w)"
    using flush_frame_world [OF Cons.prems(1), of cb uid f w] bw by simp
  have wf1: "fb_wf b1" using flush_frame_wf [OF Cons.prems(1), of cb uid f w] bw by simp
  have m: "map_of (pending b1 uid) g = map_of (pending b uid) g" if "g \<in> set fs" for g
    using that Cons.prems(2) by (auto simp: p map_of_filter_key)
  have "fold (\<lambda>f w. case map_of (pending b1 uid) f of None \<Rightarrow> w | Some ps \<Rightarrow> cb uid f ps w) fs w1
      = fold (\<lambda>f w. case map_of (pending b uid) f of None \<Rightarrow> w | Some ps \<Rightarrow> cb uid f ps w) fs w1"
    by (rule fold_cong) (simp_all add: m)
  then show ?case
    using Cons.IH [OF wf1, of w1] Cons.prems(2) bw by (simp add: w1 p conj_commute)
qed simp

text \<open>
  C3. Ending a session writes every pending frame of it exactly once, in
  ascending order of frame identifier whatever the order they came in, leaves nothing of it pending,
  and touches no other session.
\<close>

theorem flush_session_in_order:
  assumes "fb_wf b"
  shows "snd (flush_session observe uid (b, trace)) =
      trace @ map (\<lambda>f. (uid, f, the (map_of (pending b uid) f))) (sort (map fst (pending b uid)))
    \<and> pending (fst (flush_session observe uid (b, trace))) uid = []
    \<and> (\<forall>u. u \<noteq> uid \<longrightarrow> pending (fst (flush_session observe uid (b, trace))) u = pending b u)"
proof -
  let ?ids = "sort (map fst (pending b uid))"
  have d: "distinct ?ids" using assms by (simp add: fb_wf_def frames_wf_def)
  have fold: "fold (\<lambda>f w. case map_of m f of None \<Rightarrow> w | Some ps \<Rightarrow> observe uid f ps w) fs w
      = w @ map (\<lambda>f. (uid, f, the (map_of m f))) fs" if "set fs \<subseteq> fst ` set m" for fs m w
    using that
  proof (induction fs arbitrary: w)
    case (Cons f fs)
    then obtain ps where "map_of m f = Some ps" by (force dest: weak_map_of_SomeI)
    then show ?case using Cons by (simp add: observe_def)
  qed simp
  note many = flush_many [OF assms d, of observe uid trace]
  let ?bt = "fold (flush_frame observe uid) ?ids (b, trace)"
  have disc: "pending (discard_session uid b') u = (if u = uid then [] else pending b' u)" for b' u
    by (simp add: discard_session_def pending_def)
  show ?thesis
  proof (cases "bd_get (fb_frames b) uid")
    case None
    then show ?thesis by (simp add: flush_session_split pending_def)
  next
    case (Some fs)
    then have "flush_session observe uid (b, trace) = (discard_session uid (fst ?bt), snd ?bt)"
      by (simp add: flush_session_split Let_def)
    then show ?thesis using many fold [of ?ids "pending b uid" trace] by (simp add: disc)
  qed
qed

theorem flush_session_in_order_witness:
  "\<exists>b :: string frame_buffer. map fst (pending b [49]) = [9, 7] \<and>
     snd (flush_session observe [49] (b, [])) = [([49], 7, [(2, ''l'')]), ([49], 9, [(0, ''m'')])]"
proof -
  let ?cb = "(\<lambda>u f ps w. w) :: (string, int) flush_callback"
  let ?b1 = "fst (fb_add ?cb [49] 9 0 ''m'' (new_frame_buffer 0, 0 :: int))"
  let ?b = "fst (fb_add ?cb [49] 7 2 ''l'' (?b1, 0))"
  have wf: "fb_wf ?b" by (intro fb_add_wf fb_wf_new)
  have pend: "pending ?b [49] = [(9, [(0, ''m'')]), (7, [(2, ''l'')])]"
    by (simp add: fb_add_def new_frame_buffer_def bd_new_def bd_get_def bd_set_def bd_setitem_def
        bd_contains_def bd_mutate_def put_packet_def pending_def MAX_SESSIONS_def)
  show ?thesis
    using flush_session_in_order [OF wf, of "[49]" "[]"] pend by (intro exI [of _ ?b]) simp
qed

lemma discard_session_pending:
  "pending (discard_session uid b) u = (if u = uid then [] else pending b u)"
  by (simp add: discard_session_def pending_def)

subsection \<open>The sweep\<close>

lemma flush_others:
  assumes "fb_wf b" "(uid, f) \<notin> set ys"
  shows "map_of (pending (fst (fold (\<lambda>(u, g). flush_frame observe u g) ys (b, tr))) uid) f
      = map_of (pending b uid) f
    \<and> (\<exists>ts. snd (fold (\<lambda>(u, g). flush_frame observe u g) ys (b, tr)) = tr @ ts
        \<and> (\<forall>t \<in> set ts. (fst t, fst (snd t)) \<in> set ys))"
  using assms
proof (induction ys arbitrary: b tr)
  case (Cons y ys)
  obtain u g where y: "y = (u, g)" by (cases y)
  obtain b1 tr1 where bw: "flush_frame observe u g (b, tr) = (b1, tr1)"
    by (cases "flush_frame observe u g (b, tr)")
  have wf1: "fb_wf b1" using flush_frame_wf [OF Cons.prems(1), of observe u g tr] bw by simp
  have p: "map_of (pending b1 uid) f = map_of (pending b uid) f"
    using flush_frame_pending [of observe u g b tr uid] bw Cons.prems(2) y
    by (auto simp: map_of_filter_key)
  have t: "tr1 = tr \<or> (\<exists>ps. tr1 = tr @ [(u, g, ps)])"
    using flush_frame_world [OF Cons.prems(1), of observe u g tr] bw
    by (auto simp: observe_def split: option.splits)
  show ?case
    using Cons.IH [OF wf1, of tr1] Cons.prems(2) t by (auto simp: y bw p)
qed simp

text \<open>
  C4. The periodic sweep never writes a session's current frame: that
  frame stays pending with all its packets, and every frame the sweep does write is not the current
  one of its session. So the last frame of a session that just stops sending is never written by the
  sweep, only by a later packet or the end of the session.
\<close>

theorem sweep_spares_current_frame:
  assumes "fb_wf b" "bd_get (fb_current_frame b) uid = Some f"
  shows "map_of (pending (fst (check_periodic_flush observe now (b, trace))) uid) f = map_of (pending b uid) f
    \<and> (\<exists>ts. snd (check_periodic_flush observe now (b, trace)) = trace @ ts
          \<and> (\<forall>t \<in> set ts. bd_get (fb_current_frame b) (fst t) \<noteq> Some (fst (snd t))))"
proof -
  have stale: "bd_get (fb_current_frame b) u \<noteq> Some g" if "(u, g) \<in> set (stale_frames b)" for u g
    using that by (auto simp: stale_frames_def)
  then have "(uid, f) \<notin> set (stale_frames b)" using assms(2) by blast
  then show ?thesis
    using flush_others [of "b\<lparr>fb_last_flush_time := now\<rparr>" uid f "stale_frames b" trace] assms(1) stale
    by (auto simp: check_periodic_flush_def)
qed

theorem sweep_spares_current_frame_witness:
  "\<exists>b :: string frame_buffer. pending b [49] = [(7, [(0, ''m'')])] \<and>
     map_of (pending (fst (check_periodic_flush observe 900000000 (b, []))) [49]) 7 = Some [(0, ''m'')]"
proof -
  let ?bt = "fb_add observe [49] 7 0 ''m'' (new_frame_buffer 0, [])"
  have wf: "fb_wf (fst ?bt)" by (rule fb_add_wf) (rule fb_wf_new)
  have cur: "bd_get (fb_current_frame (fst ?bt)) [49] = Some 7"
    and pend: "pending (fst ?bt) [49] = [(7, [(0, ''m'')])]"
    by (simp_all add: fb_add_def new_frame_buffer_def bd_new_def bd_get_def bd_set_def bd_setitem_def
        bd_contains_def bd_mutate_def put_packet_def pending_def MAX_SESSIONS_def)
  show ?thesis
    using sweep_spares_current_frame [OF wf cur, of 900000000 "[]"] pend by auto
qed

subsection \<open>Properties of every buffered packet\<close>

text \<open>\<open>P uid frame packet_id x\<close> for every packet in the buffer.\<close>

definition all_buffered :: "(pystr \<Rightarrow> int \<Rightarrow> int \<Rightarrow> 'p \<Rightarrow> bool) \<Rightarrow> 'p frame_buffer \<Rightarrow> bool" where
  "all_buffered P b \<longleftrightarrow> (\<forall>uid. \<forall>(f, ps) \<in> set (pending b uid). \<forall>(i, x) \<in> set ps. P uid f i x)"

lemma all_buffered_subset:
  "all_buffered P b \<Longrightarrow> (\<And>uid. set (pending b' uid) \<subseteq> set (pending b uid)) \<Longrightarrow> all_buffered P b'"
  by (fastforce simp: all_buffered_def)

lemma all_buffered_new: "all_buffered P (new_frame_buffer now)"
  by (simp add: all_buffered_def new_frame_buffer_def pending_def bd_new_def bd_get_def)

lemma all_buffered_flush: "all_buffered P b \<Longrightarrow> all_buffered P (fst (flush_frame cb uid f (b, w)))"
  by (erule all_buffered_subset) (auto simp: flush_frame_pending)

lemma all_buffered_discard: "all_buffered P b \<Longrightarrow> all_buffered P (discard_session uid b)"
  by (erule all_buffered_subset) (auto simp: discard_session_pending)

lemma all_buffered_upd [simp]: "all_buffered P (b\<lparr>fb_last_flush_time := t\<rparr>) = all_buffered P b"
  by (simp add: all_buffered_def)

lemma all_buffered_fold:
  assumes "\<And>y b w. all_buffered P b \<Longrightarrow> all_buffered P (fst (h y (b, w)))" "all_buffered P b"
  shows "all_buffered P (fst (fold h ys (b, w)))"
  using assms(2)
proof (induction ys arbitrary: b w)
  case (Cons y ys)
  then show ?case using assms(1) [OF Cons.prems, of y w] by (cases "h y (b, w)") simp
qed simp

lemma all_buffered_sweep: "all_buffered P b \<Longrightarrow> all_buffered P (fst (check_periodic_flush cb now (b, w)))"
  unfolding check_periodic_flush_def
  by (auto intro!: all_buffered_fold simp: all_buffered_flush)

lemma all_buffered_flush_session:
  assumes "all_buffered P b" shows "all_buffered P (fst (flush_session cb uid (b, w)))"
proof -
  have "all_buffered P (fst (fold (flush_frame cb uid) fs (b, w)))" for fs
    by (rule all_buffered_fold [OF _ assms]) (rule all_buffered_flush)
  then show ?thesis
    using assms by (auto simp: flush_session_split Let_def intro: all_buffered_discard split: option.splits)
qed

lemma in_put_packet:
  assumes "(g, ps) \<in> set (put_packet f i x fs)"
  shows "(g, ps) \<in> set fs \<or> g = f \<and> (\<forall>p \<in> set ps. p = (i, x) \<or> (\<exists>ps'. (f, ps') \<in> set fs \<and> p \<in> set ps'))"
proof -
  have "(g, ps) \<in> set fs \<or> g = f \<and> ps = AList.update i x (case map_of fs f of None \<Rightarrow> [] | Some qs \<Rightarrow> qs)"
    using assms set_update [of f _ fs] by (auto simp: put_packet_def)
  then show ?thesis
    using set_update [of i x] by (auto split: option.splits dest!: map_of_SomeD)
qed

lemma all_buffered_store:
  assumes "all_buffered P b" "P uid f i x" "fb_wf b"
  shows "all_buffered P (store_packet uid f i x b)"
proof -
  have get: "bd_get (bd_set (fb_frames b) uid []) u = None
      \<or> bd_get (bd_set (fb_frames b) uid []) u = (if u = uid then Some [] else bd_get (fb_frames b) u)" for u
    using bd_get_set_cases [of "fb_frames b" uid "[]" u] assms(3) by (auto simp: fb_wf_def)
  have "set (pending (store_packet uid f i x b) u) \<subseteq>
      (if u = uid then set (put_packet f i x (pending b uid)) else set (pending b u))" for u
    using get [of u]
    by (cases "bd_get (fb_frames b) uid"; cases "bd_get (fb_frames b) u")
       (auto simp: store_packet_def Let_def pending_def split: option.splits if_splits)
  note sub = this
  show ?thesis
    unfolding all_buffered_def
  proof (intro allI ballI, clarify)
    fix u g ps j y
    assume g: "(g, ps) \<in> set (pending (store_packet uid f i x b) u)" and j: "(j, y) \<in> set ps"
    have old: "P u g' j y" if "(g', qs) \<in> set (pending b u)" "(j, y) \<in> set qs" for g' qs
      using assms(1) that unfolding all_buffered_def by blast
    show "P u g j y"
    proof (cases "u = uid")
      case True
      then have "(g, ps) \<in> set (put_packet f i x (pending b uid))" using g sub [of u] by auto
      from in_put_packet [OF this] show ?thesis using j old assms(2) unfolding True by (elim disjE) fastforce+
    next
      case False
      then show ?thesis using g j old sub [of u] by auto
    qed
  qed
qed

lemma all_buffered_add:
  assumes "all_buffered P b" "P uid f i x" "fb_wf b"
  shows "all_buffered P (fst (fb_add cb uid f i x (b, w)))"
proof -
  have "all_buffered P (fst (complete_frame cb uid f (b, w)))"
    using assms(1) by (auto simp: complete_frame_def all_buffered_flush split: option.splits)
  then show ?thesis
    using assms by (simp add: fb_add_split all_buffered_store complete_frame_wf)
qed

end
