(* ===== verification/Py_Float.thy ===== *)
theory Py_Float
  imports Prelude Complex_Main
begin

text \<open>
  Python floats. A float is an IEEE 754 binary64 value; the model keeps a finite one as sign,
  mantissa and binary exponent (\<open>PyFin s m e\<close> is \<open>\<plusminus>m \<cdot> 2^e\<close>, the two zeros kept apart by the
  sign), so that every value the wire can carry is represented exactly. Comparisons are computed
  on integers after aligning the exponents, and \<open>fval\<close> reads a finite float as a rational.
\<close>

datatype pyfloat =
    PyNaN bool nat      \<comment> \<open>sign and (quiet) payload\<close>
  | PyInf bool
  | PyFin bool nat int

subsection \<open>Decoding the wire formats\<close>

text \<open>
  \<open>struct\<close>'s code \<open>f\<close>: a binary32 widened to binary64. The widening is exact for every finite
  value and infinity; a signalling NaN becomes quiet, as the hardware conversion makes it.
\<close>

definition f32_decode :: "nat \<Rightarrow> pyfloat" where
  "f32_decode w = (let s = w div 2 ^ 31 mod 2 = 1; ex = w div 2 ^ 23 mod 256; fr = w mod 2 ^ 23 in
     if ex = 255 then
       (if fr = 0 then PyInf s
        else PyNaN s (if fr < 2 ^ 22 then fr + 2 ^ 22 else fr))
     else if ex = 0 then PyFin s fr (-149)
     else PyFin s (fr + 2 ^ 23) (int ex - 150))"

text \<open>\<open>struct\<close>'s code \<open>d\<close>: a binary64.\<close>

definition f64_decode :: "nat \<Rightarrow> pyfloat" where
  "f64_decode w = (let s = w div 2 ^ 63 mod 2 = 1; ex = w div 2 ^ 52 mod 2048; fr = w mod 2 ^ 52 in
     if ex = 2047 then (if fr = 0 then PyInf s else PyNaN s fr)
     else if ex = 0 then PyFin s fr (-1074)
     else PyFin s (fr + 2 ^ 52) (int ex - 1075))"

text \<open>
  \<open>struct.pack\<close> with code \<open>f\<close>, for floats that came from a binary32 (the only ones the source
  packs): the inverse of \<open>f32_decode\<close>.
\<close>

definition f32_encode :: "pyfloat \<Rightarrow> nat" where
  "f32_encode x = (case x of
      PyNaN s fr \<Rightarrow> of_bool s * 2 ^ 31 + 255 * 2 ^ 23 + fr
    | PyInf s \<Rightarrow> of_bool s * 2 ^ 31 + 255 * 2 ^ 23
    | PyFin s m e \<Rightarrow> of_bool s * 2 ^ 31 +
        (if m < 2 ^ 23 then m else nat (e + 150) * 2 ^ 23 + (m - 2 ^ 23)))"

lemma f32_split:
  fixes w :: nat
  assumes "w < 2 ^ 32"
  shows "w = of_bool (w div 2 ^ 31 mod 2 = 1) * 2 ^ 31 + (w div 2 ^ 23 mod 256) * 2 ^ 23 + w mod 2 ^ 23"
proof -
  have "w div 2147483648 < 2" using assms by auto
  then have s: "of_bool (w div 2147483648 mod 2 = 1) = w div 2147483648"
    by (cases "w div 2147483648 = 0") (auto simp: of_bool_def)
  have d: "w div 8388608 = w div 2147483648 * 256 + w div 8388608 mod 256"
    using div_mult2_eq [of w 8388608 256] div_mult_mod_eq [of "w div 8388608" 256]
    by simp
  have "w = (w div 2147483648 * 256 + w div 8388608 mod 256) * 8388608 + w mod 8388608"
    by (simp only: d [symmetric] div_mult_mod_eq)
  then have "w = w div 2147483648 * 2147483648 + w div 8388608 mod 256 * 8388608 + w mod 8388608"
    by (simp add: distrib_right mult.assoc)
  then show ?thesis using s by simp
qed

lemma f32_encode_decode:
  assumes "w < 2 ^ 32"
    and quiet: "w div 2 ^ 23 mod 256 = 255 \<Longrightarrow> w mod 2 ^ 23 = 0 \<or> 2 ^ 22 \<le> w mod 2 ^ 23"
  shows "f32_encode (f32_decode w) = w"
proof -
  define sg where "sg \<longleftrightarrow> w div 2 ^ 31 mod 2 = 1"
  define ex where "ex = w div 2 ^ 23 mod 256"
  define fr where "fr = w mod 2 ^ 23"
  have w: "w = of_bool sg * 2 ^ 31 + ex * 2 ^ 23 + fr"
    using f32_split [OF assms(1)] unfolding sg_def ex_def fr_def .
  have fr: "fr < 2 ^ 23" and q: "ex = 255 \<Longrightarrow> fr = 0 \<or> 2 ^ 22 \<le> fr"
    using quiet by (simp_all add: fr_def ex_def)
  let ?x = "if ex = 255 then
       (if fr = 0 then PyInf sg else PyNaN sg (if fr < 2 ^ 22 then fr + 2 ^ 22 else fr))
     else if ex = 0 then PyFin sg fr (-149) else PyFin sg (fr + 2 ^ 23) (int ex - 150)"
  have d: "f32_decode w = ?x"
    by (simp only: f32_decode_def Let_def sg_def ex_def fr_def)
  consider "ex = 255" "fr = 0" | "ex = 255" "fr \<noteq> 0" | "ex = 0" | "ex \<noteq> 255" "ex \<noteq> 0"
    by blast
  then have "f32_encode ?x = of_bool sg * 2 ^ 31 + ex * 2 ^ 23 + fr"
    by cases (use q fr in \<open>auto simp: f32_encode_def\<close>)
  then show ?thesis by (simp only: d w [symmetric])
qed

subsection \<open>Comparison and truth\<close>

fun fval :: "pyfloat \<Rightarrow> rat" where
  "fval (PyFin s m e) = (if s then -1 else 1) * of_nat m * 2 powi e"
| "fval _ = 0"

fun is_finite :: "pyfloat \<Rightarrow> bool" where
  "is_finite (PyFin _ _ _) = True"
| "is_finite _ = False"

text \<open>The integer \<open>x \<cdot> 2^(-k)\<close> of a finite float whose exponent is at least \<open>k\<close>.\<close>

fun aligned :: "int \<Rightarrow> pyfloat \<Rightarrow> int" where
  "aligned k (PyFin s m e) = (if s then -1 else 1) * int m * 2 ^ nat (e - k)"
| "aligned k _ = 0"

fun f_lt :: "pyfloat \<Rightarrow> pyfloat \<Rightarrow> bool" where
  "f_lt (PyNaN _ _) _ = False"
| "f_lt _ (PyNaN _ _) = False"
| "f_lt (PyInf s) (PyInf t) = (s \<and> \<not> t)"
| "f_lt (PyInf s) (PyFin _ _ _) = s"
| "f_lt (PyFin _ _ _) (PyInf t) = (\<not> t)"
| "f_lt (PyFin s m e) (PyFin t n d) =
     (aligned (min e d) (PyFin s m e) < aligned (min e d) (PyFin t n d))"

text \<open>Truth of a float, and comparison with zero: only the two zeros are false.\<close>

fun f_nonzero :: "pyfloat \<Rightarrow> bool" where
  "f_nonzero (PyFin _ m _) = (m \<noteq> 0)"
| "f_nonzero _ = True"

definition f_of_int :: "int \<Rightarrow> pyfloat" where
  "f_of_int i = PyFin (i < 0) (nat \<bar>i\<bar>) 0"

lemma aligned_fval:
  assumes "k \<le> e"
  shows "of_int (aligned k (PyFin s m e)) * 2 powi k = fval (PyFin s m e)"
proof -
  have "(2::rat) ^ nat (e - k) * 2 powi k = 2 powi e"
    using assms by (simp add: power_int_def [of _ "e - k", symmetric] power_int_add [symmetric]
        flip: power_int_of_nat)
  then show ?thesis by (simp add: mult.assoc)
qed

lemma f_lt_finite: "is_finite x \<Longrightarrow> is_finite y \<Longrightarrow> f_lt x y \<longleftrightarrow> fval x < fval y"
proof -
  assume "is_finite x" "is_finite y"
  then obtain s m e t n d where x: "x = PyFin s m e" and y: "y = PyFin t n d"
    by (metis is_finite.elims(2))
  define k where "k = min e d"
  have "fval x = of_int (aligned k x) * 2 powi k"
    unfolding x k_def by (rule aligned_fval [symmetric]) simp
  moreover have "fval y = of_int (aligned k y) * 2 powi k"
    unfolding y k_def by (rule aligned_fval [symmetric]) simp
  ultimately have "fval x < fval y \<longleftrightarrow>
      of_int (aligned k x) * 2 powi k < of_int (aligned k y) * (2::rat) powi k"
    by (simp only:)
  also have "\<dots> \<longleftrightarrow> aligned k x < aligned k y" by simp
  finally show "f_lt x y \<longleftrightarrow> fval x < fval y"
    by (simp only: x y k_def f_lt.simps)
qed

lemma f_lt_irrefl [simp]: "\<not> f_lt x x"
  by (cases x) auto

lemma f_lt_trans: "f_lt x y \<Longrightarrow> f_lt y z \<Longrightarrow> f_lt x z"
proof (cases "is_finite x \<and> is_finite y \<and> is_finite z")
  case True
  then show "f_lt x y \<Longrightarrow> f_lt y z \<Longrightarrow> f_lt x z"
    by (auto simp: f_lt_finite)
next
  case False
  then show "f_lt x y \<Longrightarrow> f_lt y z \<Longrightarrow> f_lt x z"
    by (cases x; cases y; cases z) auto
qed

subsection \<open>Rounded division\<close>

text \<open>
  \<open>n / d\<close> for an integer \<open>n\<close> and a positive integer-valued float \<open>d\<close>, rounded to 53 bits, ties to
  even. The quotient is scaled so that its integer part has exactly 53 bits. (The operands of the
  source, 16-bit integers by 32767.0 and 1000.0, stay far from overflow and underflow.)
\<close>

fun nlog2 :: "nat \<Rightarrow> nat" where
  "nlog2 n = (if n < 2 then 0 else Suc (nlog2 (n div 2)))"

declare nlog2.simps [simp del]

definition round_half_even :: "nat \<Rightarrow> nat \<Rightarrow> nat" where
  "round_half_even n d = (let q = n div d; r = n mod d in
     if d < 2 * r \<or> (d = 2 * r \<and> odd q) then q + 1 else q)"

definition f_div :: "int \<Rightarrow> nat \<Rightarrow> pyfloat" where
  "f_div i d = (let a = nat \<bar>i\<bar> in
     if a = 0 then PyFin False 0 0
     else let k = 53 + nlog2 d - nlog2 a;
              k' = (if 2 ^ 53 \<le> a * 2 ^ k div d then k - 1 else k)
          in PyFin (i < 0) (round_half_even (a * 2 ^ k') d) (- int k'))"

lemma round_half_even_bounds:
  assumes "0 < d"
  shows "n div d \<le> round_half_even n d" and "round_half_even n d \<le> n div d + 1"
  by (simp_all add: round_half_even_def Let_def)

lemma round_half_even_exact [simp]: "0 < d \<Longrightarrow> round_half_even (q * d) d = q"
  by (simp add: round_half_even_def)

lemma round_half_even_mono:
  assumes "0 < d" "n \<le> n'"
  shows "round_half_even n d \<le> round_half_even n' d"
proof (cases "n div d = n' div d")
  case True
  have "n mod d \<le> n' mod d"
    using assms(2) True by (metis add_le_cancel_left div_mult_mod_eq)
  with True show ?thesis by (auto simp: round_half_even_def Let_def)
next
  case False
  then have "n div d + 1 \<le> n' div d"
    using div_le_mono [OF assms(2), of d] by simp
  with round_half_even_bounds [OF assms(1)] show ?thesis
    by (meson order_trans)
qed

lemma round_half_even_scale:
  assumes "0 < c"
  shows "round_half_even (n * c) (d * c) = round_half_even n d"
proof -
  have "n * c mod (d * c) = n mod d * c" by (simp add: mod_mult_mult2)
  moreover have "n * c div (d * c) = n div d" using assms by simp
  moreover have "d * c < 2 * (r * c) \<longleftrightarrow> d < 2 * r" "d * c = 2 * (r * c) \<longleftrightarrow> d = 2 * r" for r
    using assms by (simp_all add: mult.assoc [symmetric])
  ultimately show ?thesis by (simp add: round_half_even_def Let_def)
qed

subsection \<open>Durations and instants\<close>

text \<open>
  A \<open>timedelta\<close> and a \<open>datetime\<close> are integers of microseconds (the latter since the Unix epoch,
  UTC). \<open>timedelta(seconds=x)\<close> rounds to the nearest microsecond, ties to even. For a float that
  came from a binary32 the product with \<open>10^6\<close> fits in 53 bits, so the C code's intermediate
  float product is exact and the rounding below is the one it performs.
\<close>

definition timedelta_us :: "pyfloat \<Rightarrow> int" where
  "timedelta_us x = (case x of
      PyFin s m e \<Rightarrow> (if s then -1 else 1) * int (round_half_even (m * 10 ^ 6 * 2 ^ nat e) (2 ^ nat (- e)))
    | _ \<Rightarrow> 0)"

definition day_us :: int where
  "day_us = 86400000000"

definition timedelta :: "pyfloat \<Rightarrow> int py" where
  "timedelta x = (case x of
      PyNaN _ _ \<Rightarrow> Inl PyValueError
    | PyInf _ \<Rightarrow> Inl PyOverflowError
    | PyFin _ _ _ \<Rightarrow>
        (if - 999999999 * day_us \<le> timedelta_us x \<and> timedelta_us x < 1000000000 * day_us
         then Inr (timedelta_us x) else Inl PyOverflowError))"

text \<open>\<open>datetime + timedelta\<close>: years 1 to 9999.\<close>

definition datetime_add :: "int \<Rightarrow> int \<Rightarrow> int py" where
  "datetime_add t u =
     (if -62135596800000000 \<le> t + u \<and> t + u \<le> 253402300799999999 then Inr (t + u)
      else Inl PyOverflowError)"

lemma timedelta_us_aligned:
  assumes "- int k \<le> e"
  shows "timedelta_us (PyFin s m e) =
    (if s then -1 else 1) * int (round_half_even (nat \<bar>aligned (- int k) (PyFin s m e)\<bar> * 10 ^ 6) (2 ^ k))"
proof -
  have k: "nat (e + int k) + nat (- e) = nat e + k"
    using assms by simp
  have a: "nat \<bar>aligned (- int k) (PyFin s m e)\<bar> = m * 2 ^ nat (e + int k)"
    by (simp add: abs_mult nat_mult_distrib nat_power_eq add.commute)
  have "round_half_even (m * 10 ^ 6 * 2 ^ nat e) (2 ^ nat (- e)) =
      round_half_even (m * 10 ^ 6 * 2 ^ nat e * 2 ^ k) (2 ^ nat (- e) * 2 ^ k)"
    by (rule round_half_even_scale [symmetric]) simp
  also have "m * 10 ^ 6 * 2 ^ nat e * 2 ^ k = m * 2 ^ nat (e + int k) * 10 ^ 6 * 2 ^ nat (- e)"
    by (simp only: mult.assoc power_add [symmetric] k [symmetric]) (simp add: mult.left_commute power_add)
  also have "2 ^ nat (- e) * 2 ^ k = 2 ^ k * (2::nat) ^ nat (- e)"
    by simp
  also have "round_half_even (m * 2 ^ nat (e + int k) * 10 ^ 6 * 2 ^ nat (- e)) (2 ^ k * 2 ^ nat (- e)) =
      round_half_even (m * 2 ^ nat (e + int k) * 10 ^ 6) (2 ^ k)"
    by (rule round_half_even_scale) simp
  finally show ?thesis
    by (simp only: timedelta_us_def pyfloat.case a)
qed

lemma aligned_sign: "aligned k (PyFin s m e) = (if s then -1 else 1) * \<bar>aligned k (PyFin s m e)\<bar>"
  by (simp add: abs_mult)

lemma timedelta_us_mono:
  assumes "f_lt x y" "is_finite x" "is_finite y"
  shows "timedelta_us x \<le> timedelta_us y"
proof -
  obtain s m e t n d where x: "x = PyFin s m e" and y: "y = PyFin t n d"
    using assms(2,3) by (metis is_finite.elims(2))
  define k where "k = nat (max 0 (- min e d))"
  let ?a = "aligned (- int k) x" and ?b = "aligned (- int k) y"
  have ke: "- int k \<le> e" "- int k \<le> d" by (simp_all add: k_def)
  have "fval x = of_int ?a * 2 powi (- int k)" "fval y = of_int ?b * 2 powi (- int k)"
    using aligned_fval ke by (auto simp: x y simp del: aligned.simps fval.simps)
  moreover have "fval x < fval y" using assms f_lt_finite by blast
  ultimately have ab: "?a < ?b" by simp
  let ?r = "\<lambda>v. int (round_half_even (nat \<bar>v\<bar> * 10 ^ 6) (2 ^ k))"
  have mono: "?r v \<le> ?r w" if "\<bar>v\<bar> \<le> \<bar>w\<bar>" for v w
    using that by (auto intro!: round_half_even_mono)
  have ux: "timedelta_us x = (if s then -1 else 1) * ?r ?a" and uy: "timedelta_us y = (if t then -1 else 1) * ?r ?b"
    using timedelta_us_aligned ke by (auto simp only: x y)
  have sx: "?a = (if s then -1 else 1) * \<bar>?a\<bar>" and sy: "?b = (if t then -1 else 1) * \<bar>?b\<bar>"
    using aligned_sign by (auto simp only: x y)
  show ?thesis
  proof (cases s; cases t)
    assume "s" "t"
    then have "\<bar>?b\<bar> \<le> \<bar>?a\<bar>" using ab sx sy by simp
    with mono \<open>s\<close> \<open>t\<close> show ?thesis unfolding ux uy by simp
  next
    assume "\<not> s" "\<not> t"
    then have "\<bar>?a\<bar> \<le> \<bar>?b\<bar>" using ab sx sy by simp
    with mono \<open>\<not> s\<close> \<open>\<not> t\<close> show ?thesis unfolding ux uy by simp
  next
    assume "\<not> s" "t"
    then have False using ab sx sy by simp
    then show ?thesis ..
  qed (simp add: ux uy)
qed

end
