(* ===== verification/Py_Struct.thy ===== *)
theory Py_Struct
  imports Py_Text Py_Float
begin

text \<open>
  Python values and the \<open>struct\<close> module, for the little-endian standard-size formats (prefix
  \<open>'<'\<close>) the parsers use. Formats keep the source's strings: \<open>parse_format\<close> expands one into the
  list of its fields, \<open>calcsize\<close>, \<open>struct_unpack\<close>, \<open>iter_unpack\<close> and \<open>unpack_from\<close> are the
  functions of the module, with \<open>struct.error\<close> as \<open>Inl StructError\<close>.
\<close>

subsection \<open>Values\<close>

text \<open>
  The values that reach a database row. \<open>PTime\<close> is a timezone-aware \<open>datetime\<close> (microseconds since
  the epoch); \<open>PDict\<close> and \<open>PList\<close> also stand for JSON documents, wrapped in \<open>PJson\<close> by
  \<open>json.dumps\<close>.
\<close>

datatype pyval =
    PNone
  | PBool bool
  | PInt int
  | PFloat pyfloat
  | PStr pystr
  | PBytes "byte list"
  | PTime int
  | PList "pyval list"
  | PDict "(string \<times> pyval) list"
  | PJson pyval

fun as_int :: "pyval \<Rightarrow> int" where
  "as_int (PInt i) = i"
| "as_int (PBool b) = of_bool b"
| "as_int _ = 0"

fun as_float :: "pyval \<Rightarrow> pyfloat" where
  "as_float (PFloat f) = f"
| "as_float _ = PyFin False 0 0"

fun as_bytes :: "pyval \<Rightarrow> byte list" where
  "as_bytes (PBytes b) = b"
| "as_bytes _ = []"

definition opt_int :: "int option \<Rightarrow> pyval" where
  "opt_int x = (case x of None \<Rightarrow> PNone | Some i \<Rightarrow> PInt i)"

definition opt_float :: "pyfloat option \<Rightarrow> pyval" where
  "opt_float x = (case x of None \<Rightarrow> PNone | Some i \<Rightarrow> PFloat i)"

subsection \<open>Formats\<close>

datatype field = FB | Fb | FH | Fh | FI | FQ | Ff | Fd | Fs nat

fun field_size :: "field \<Rightarrow> nat" where
  "field_size FB = 1" | "field_size Fb = 1"
| "field_size FH = 2" | "field_size Fh = 2"
| "field_size FI = 4" | "field_size FQ = 8"
| "field_size Ff = 4" | "field_size Fd = 8"
| "field_size (Fs n) = n"

definition field_of_char :: "char \<Rightarrow> field option" where
  "field_of_char c =
    (if c = CHR ''B'' then Some FB else if c = CHR ''b'' then Some Fb
     else if c = CHR ''H'' then Some FH else if c = CHR ''h'' then Some Fh
     else if c = CHR ''I'' \<or> c = CHR ''L'' then Some FI else if c = CHR ''Q'' then Some FQ
     else if c = CHR ''f'' then Some Ff else if c = CHR ''d'' then Some Fd else None)"

definition digit_of_char :: "char \<Rightarrow> nat option" where
  "digit_of_char c = (let n = of_char c :: nat in if 48 \<le> n \<and> n \<le> 57 then Some (n - 48) else None)"

text \<open>The items after the byte-order mark; the accumulator is the repeat count read so far.\<close>

fun parse_items :: "nat option \<Rightarrow> string \<Rightarrow> field list py" where
  "parse_items None [] = Inr []"
| "parse_items (Some _) [] = Inl StructError"
| "parse_items n (c # cs) =
    (case digit_of_char c of
       Some d \<Rightarrow> parse_items (Some (case n of None \<Rightarrow> d | Some k \<Rightarrow> 10 * k + d)) cs
     | None \<Rightarrow>
        let k = (case n of None \<Rightarrow> 1 | Some k \<Rightarrow> k) in
        (if c = CHR ''s'' then and_then (parse_items None cs) (\<lambda>fs. Inr (Fs k # fs))
         else case field_of_char c of
           None \<Rightarrow> Inl StructError
         | Some f \<Rightarrow> and_then (parse_items None cs) (\<lambda>fs. Inr (replicate k f @ fs))))"

definition parse_format :: "string \<Rightarrow> field list py" where
  "parse_format s = (case s of c # cs \<Rightarrow> if c = CHR ''<'' then parse_items None cs else Inl StructError
                     | [] \<Rightarrow> Inr [])"

definition fields_size :: "field list \<Rightarrow> nat" where
  "fields_size fs = sum_list (map field_size fs)"

text \<open>\<open>struct.calcsize\<close> of a format that parses (all the source's do).\<close>

definition calcsize :: "string \<Rightarrow> nat" where
  "calcsize s = (case parse_format s of Inl _ \<Rightarrow> 0 | Inr fs \<Rightarrow> fields_size fs)"

lemma fields_size_simps [simp]:
  "fields_size [] = 0"
  "fields_size (f # fs) = field_size f + fields_size fs"
  "fields_size (fs @ gs) = fields_size fs + fields_size gs"
  "fields_size (replicate n f) = n * field_size f"
  by (simp_all add: fields_size_def sum_list_replicate)

subsection \<open>Decoding and encoding one field\<close>

fun le_nat :: "byte list \<Rightarrow> nat" where
  "le_nat [] = 0"
| "le_nat (b # bs) = unat b + 256 * le_nat bs"

fun le_bytes :: "nat \<Rightarrow> nat \<Rightarrow> byte list" where
  "le_bytes 0 v = []"
| "le_bytes (Suc n) v = of_nat (v mod 256) # le_bytes n (v div 256)"

definition signed :: "nat \<Rightarrow> nat \<Rightarrow> int" where
  "signed bits v = (if v < 2 ^ (bits - 1) then int v else int v - 2 ^ bits)"

fun decode_field :: "field \<Rightarrow> byte list \<Rightarrow> pyval" where
  "decode_field FB bs = PInt (int (le_nat bs))"
| "decode_field FH bs = PInt (int (le_nat bs))"
| "decode_field FI bs = PInt (int (le_nat bs))"
| "decode_field FQ bs = PInt (int (le_nat bs))"
| "decode_field Fb bs = PInt (signed 8 (le_nat bs))"
| "decode_field Fh bs = PInt (signed 16 (le_nat bs))"
| "decode_field Ff bs = PFloat (f32_decode (le_nat bs))"
| "decode_field Fd bs = PFloat (f64_decode (le_nat bs))"
| "decode_field (Fs n) bs = PBytes bs"

lemma le_nat_bound: "le_nat bs < 256 ^ length bs"
proof (induction bs)
  case (Cons b bs)
  have "unat b < 256" using unsigned_less [of b] by simp
  with Cons show ?case by simp
qed simp

lemma length_le_bytes [simp]: "length (le_bytes n v) = n"
  by (induction n arbitrary: v) auto

lemma le_nat_le_bytes: "v < 256 ^ n \<Longrightarrow> le_nat (le_bytes n v) = v"
proof (induction n arbitrary: v)
  case (Suc n)
  have "v div 256 < 256 ^ n" using Suc.prems by (simp add: less_mult_imp_div_less mult.commute)
  then show ?case using Suc.IH [of "v div 256"] by (simp add: unat_of_nat)
qed simp

lemma le_bytes_le_nat: "le_bytes (length bs) (le_nat bs) = bs"
proof (induction bs)
  case (Cons b bs)
  have b: "unat b < 256" using unsigned_less [of b] by simp
  then have "(unat b + 256 * le_nat bs) div 256 = le_nat bs" by simp
  moreover have "(unat b + 256 * le_nat bs) mod 256 = unat b" using b by simp
  ultimately show ?case using Cons by simp
qed simp

subsection \<open>Unpacking\<close>

fun unpack_fields :: "field list \<Rightarrow> byte list \<Rightarrow> pyval list" where
  "unpack_fields [] bs = []"
| "unpack_fields (f # fs) bs =
     decode_field f (take (field_size f) bs) # unpack_fields fs (drop (field_size f) bs)"

definition struct_unpack :: "string \<Rightarrow> byte list \<Rightarrow> pyval list py" where
  "struct_unpack s bs = and_then (parse_format s) (\<lambda>fs.
     if length bs = fields_size fs then Inr (unpack_fields fs bs) else Inl StructError)"

text \<open>\<open>struct.unpack_from(fmt, buffer, offset)\<close>: at least \<open>calcsize\<close> bytes after the offset.\<close>

definition unpack_from :: "string \<Rightarrow> byte list \<Rightarrow> nat \<Rightarrow> pyval list py" where
  "unpack_from s bs off = and_then (parse_format s) (\<lambda>fs.
     if off + fields_size fs \<le> length bs then Inr (unpack_fields fs (drop off bs)) else Inl StructError)"

text \<open>
  \<open>struct.iter_unpack\<close>: the buffer must be a whole number of records (and the format not empty).
\<close>

fun chunks :: "nat \<Rightarrow> nat \<Rightarrow> 'a list \<Rightarrow> 'a list list" where
  "chunks 0 w xs = []"
| "chunks (Suc n) w xs = take w xs # chunks n w (drop w xs)"

definition iter_unpack :: "string \<Rightarrow> byte list \<Rightarrow> pyval list list py" where
  "iter_unpack s bs = and_then (parse_format s) (\<lambda>fs.
     let w = fields_size fs in
     if w = 0 \<or> length bs mod w \<noteq> 0 then Inl StructError
     else Inr (map (unpack_fields fs) (chunks (length bs div w) w bs)))"

lemma length_chunks [simp]: "length (chunks n w xs) = n"
  by (induction n arbitrary: xs) auto

lemma nth_chunks: "i < n \<Longrightarrow> chunks n w xs ! i = take w (drop (i * w) xs)"
  by (induction n arbitrary: xs i) (auto simp: nth_Cons add.commute split: nat.splits)

lemma length_unpack_fields [simp]: "length (unpack_fields fs bs) = length fs"
  by (induction fs arbitrary: bs) auto

lemma struct_unpack_ok:
  assumes "parse_format s = Inr fs" "length bs = fields_size fs"
  shows "struct_unpack s bs = Inr (unpack_fields fs bs)"
  using assms by (simp add: struct_unpack_def)

lemma struct_unpack_returns_iff:
  assumes "parse_format s = Inr fs"
  shows "returns (struct_unpack s bs) \<longleftrightarrow> length bs = fields_size fs"
  using assms by (simp add: struct_unpack_def)

lemma iter_unpack_ok:
  assumes "parse_format s = Inr fs" "0 < fields_size fs" "length bs = n * fields_size fs"
  shows "iter_unpack s bs = Inr (map (unpack_fields fs) (chunks n (fields_size fs) bs))"
  using assms by (simp add: iter_unpack_def Let_def)

lemma iter_unpack_length:
  assumes "iter_unpack s bs = Inr vs" "parse_format s = Inr fs"
  shows "length vs * fields_size fs = length bs" "0 < fields_size fs"
  using assms by (auto simp: iter_unpack_def Let_def mod_eq_0_iff_dvd split: if_splits)

lemma unpack_from_ok:
  assumes "parse_format s = Inr fs" "off + fields_size fs \<le> length bs"
  shows "unpack_from s bs off = Inr (unpack_fields fs (drop off bs))"
  using assms by (simp add: unpack_from_def)

subsection \<open>The types of the unpacked fields\<close>

text \<open>What \<open>struct\<close> promises of each value: an integer in its C type's range, a float, or bytes.\<close>

fun field_ok :: "field \<Rightarrow> pyval \<Rightarrow> bool" where
  "field_ok FB (PInt i) = (0 \<le> i \<and> i < 2 ^ 8)"
| "field_ok Fb (PInt i) = (- (2 ^ 7) \<le> i \<and> i < 2 ^ 7)"
| "field_ok FH (PInt i) = (0 \<le> i \<and> i < 2 ^ 16)"
| "field_ok Fh (PInt i) = (- (2 ^ 15) \<le> i \<and> i < 2 ^ 15)"
| "field_ok FI (PInt i) = (0 \<le> i \<and> i < 2 ^ 32)"
| "field_ok FQ (PInt i) = (0 \<le> i \<and> i < 2 ^ 64)"
| "field_ok Ff (PFloat _) = True"
| "field_ok Fd (PFloat _) = True"
| "field_ok (Fs n) (PBytes b) = (length b = n)"
| "field_ok _ _ = False"

lemma signed_bounds:
  assumes "v < 2 ^ Suc n"
  shows "- (2 ^ n) \<le> signed (Suc n) v" "signed (Suc n) v < 2 ^ n"
proof -
  have "int v < 2 ^ Suc n" using assms by (metis of_nat_less_iff of_nat_numeral of_nat_power)
  moreover have "v < 2 ^ n \<longleftrightarrow> int v < 2 ^ n"
    by (metis of_nat_less_iff of_nat_numeral of_nat_power)
  ultimately show "- (2 ^ n) \<le> signed (Suc n) v" "signed (Suc n) v < 2 ^ n"
    by (auto simp: signed_def)
qed

lemma decode_field_ok:
  assumes "length bs = field_size f"
  shows "field_ok f (decode_field f bs)"
proof -
  have b: "le_nat bs < 256 ^ field_size f" using le_nat_bound [of bs] assms by simp
  show ?thesis
  proof (cases f)
    case Fb
    then show ?thesis using b signed_bounds [of "le_nat bs" 7] by simp
  next
    case Fh
    then show ?thesis using b signed_bounds [of "le_nat bs" 15] by simp
  qed (use b assms in simp_all)
qed

lemma unpack_fields_ok:
  "fields_size fs \<le> length bs \<Longrightarrow> list_all2 field_ok fs (unpack_fields fs bs)"
  by (induction fs arbitrary: bs) (auto intro!: decode_field_ok)

lemma struct_unpack_typed:
  assumes "struct_unpack s bs = Inr vs" "parse_format s = Inr fs"
  shows "list_all2 field_ok fs vs"
  using assms by (auto simp: struct_unpack_def intro!: unpack_fields_ok split: if_splits)

lemma iter_unpack_typed:
  assumes "iter_unpack s bs = Inr vs" "parse_format s = Inr fs" "v \<in> set vs"
  shows "list_all2 field_ok fs v"
proof -
  let ?w = "fields_size fs"
  obtain c where c: "c \<in> set (chunks (length bs div ?w) ?w bs)" "v = unpack_fields fs c"
    and w: "length bs mod ?w = 0"
    using assms by (auto simp: iter_unpack_def Let_def split: if_splits)
  then obtain i where i: "i < length bs div ?w" "c = take ?w (drop (i * ?w) bs)"
    by (metis in_set_conv_nth length_chunks nth_chunks)
  have "Suc i * ?w \<le> length bs div ?w * ?w" using i(1) by (intro mult_le_mono1) simp
  also have "\<dots> \<le> length bs" by (metis div_times_less_eq_dividend)
  finally have "length c = ?w" using i(2) by simp
  then show ?thesis unfolding c(2) by (intro unpack_fields_ok) simp
qed

subsection \<open>Packing\<close>

text \<open>\<open>struct.pack\<close> for the field codes the source packs (\<open>B\<close> and \<open>f\<close>).\<close>

fun pack_fields :: "field list \<Rightarrow> pyval list \<Rightarrow> byte list py" where
  "pack_fields [] [] = Inr []"
| "pack_fields (f # fs) (v # vs) =
    (case (f, v) of
       (FB, PInt i) \<Rightarrow>
         (if 0 \<le> i \<and> i < 256
          then and_then (pack_fields fs vs) (\<lambda>bs. Inr (le_bytes 1 (nat i) @ bs)) else Inl StructError)
     | (Ff, PFloat x) \<Rightarrow> and_then (pack_fields fs vs) (\<lambda>bs. Inr (le_bytes 4 (f32_encode x) @ bs))
     | _ \<Rightarrow> Inl StructError)"
| "pack_fields _ _ = Inl StructError"

definition struct_pack :: "string \<Rightarrow> pyval list \<Rightarrow> byte list py" where
  "struct_pack s vs = and_then (parse_format s) (\<lambda>fs. pack_fields fs vs)"

end
