(* ===== verification/Enums.thy ===== *)
theory Enums
  imports Py_Text
begin

text \<open>
  \<open>enums/\<close>: the game's code tables. A Python \<open>Enum\<close> of integers is the list of its members in
  definition order; calling the class on a value finds the first member with it. \<open>ButtonFlags\<close>
  (an \<open>IntFlag\<close>) is used for iteration only, which yields its single-bit members in this order.
\<close>

type_synonym pyenum = "(string \<times> int) list"

definition EventCodes :: "(string \<times> string) list" where
  "EventCodes =
   [(''SESSION_STARTED'', ''SSTA''), (''SESSION_ENDED'', ''SEND''), (''FASTEST_LAP'', ''FTLP''),
    (''RETIREMENT'', ''RTMT''), (''DRS_ENABLED'', ''DRSE''), (''DRS_DISABLED'', ''DRSD''),
    (''TEAM_MATE_IN_PITS'', ''TMPT''), (''CHEQUERED_FLAG'', ''CHQF''),
    (''RACE_WINNER'', ''RCWN''), (''PENALTY_ISSUED'', ''PENA''),
    (''SPEED_TRAP_TRIGGERED'', ''SPTP''), (''START_LIGHTS'', ''STLG''),
    (''LIGHTS_OUT'', ''LGOT''), (''DRIVE_THROUGH_SERVED'', ''DTSV''),
    (''STOP_GO_SERVED'', ''SGSV''), (''FLASHBACK'', ''FLBK''), (''BUTTON_STATUS'', ''BUTN''),
    (''RED_FLAG'', ''RDFL''), (''OVERTAKE'', ''OVTK''), (''SAFETY_CAR'', ''SCAR''),
    (''COLLISION'', ''COLL'')]"

definition ButtonFlags :: "pyenum" where
  "ButtonFlags =
   [(''CROSS'', 1), (''TRIANGLE'', 2), (''CIRCLE'', 4), (''SQUARE'', 8), (''D_PAD_LEFT'', 16),
    (''D_PAD_RIGHT'', 32), (''D_PAD_UP'', 64), (''D_PAD_DOWN'', 128), (''OPTIONS_MENU'', 256),
    (''L1'', 512), (''R1'', 1024), (''L2'', 2048), (''R2'', 4096), (''LEFT_STICK_CLICK'', 8192),
    (''RIGHT_STICK_CLICK'', 16384), (''RIGHT_STICK_LEFT'', 32768),
    (''RIGHT_STICK_RIGHT'', 65536), (''RIGHT_STICK_UP'', 131072), (''RIGHT_STICK_DOWN'', 262144),
    (''SPECIAL'', 524288), (''UDP_ACTION_1'', 1048576), (''UDP_ACTION_2'', 2097152),
    (''UDP_ACTION_3'', 4194304), (''UDP_ACTION_4'', 8388608), (''UDP_ACTION_5'', 16777216),
    (''UDP_ACTION_6'', 33554432), (''UDP_ACTION_7'', 67108864), (''UDP_ACTION_8'', 134217728),
    (''UDP_ACTION_9'', 268435456), (''UDP_ACTION_10'', 536870912),
    (''UDP_ACTION_11'', 1073741824), (''UDP_ACTION_12'', 2147483648)]"

definition SessionTypeIDs :: "pyenum" where
  "SessionTypeIDs =
   [(''UNKNOWN'', 0), (''PRACTICE_1'', 1), (''PRACTICE_2'', 2), (''PRACTICE_3'', 3),
    (''SHORT_PRACTICE'', 4), (''QUALIFYING_1'', 5), (''QUALIFYING_2'', 6), (''QUALIFYING_3'', 7),
    (''SHORT_QUALIFYING'', 8), (''ONE_SHOT_QUALIFYING'', 9), (''SPRINT_SHOOTOUT_1'', 10),
    (''SPRINT_SHOOTOUT_2'', 11), (''SPRINT_SHOOTOUT_3'', 12), (''SHORT_SPRINT_SHOOTOUT'', 13),
    (''ONE_SHOT_SPRINT_SHOOTOUT'', 14), (''RACE'', 15), (''RACE_2'', 16), (''RACE_3'', 17),
    (''TIME_TRIAL'', 18), (''SPRINT_RACE'', 100)]"

definition Formula :: "pyenum" where
  "Formula =
   [(''F1_MODERN'', 0), (''F1_CLASSIC'', 1), (''F2'', 2), (''F1_GENERIC'', 3), (''BETA'', 4),
    (''ESPORTS'', 6), (''F1_WORLD'', 8), (''F1_ELIMINATION'', 9), (''F1_26'', 13)]"

definition GameModeIDs :: "pyenum" where
  "GameModeIDs =
   [(''NONE'', 0), (''UNKNOWN'', 255), (''GRAND_PRIX_23'', 4), (''TIME_TRIAL'', 5),
    (''SPLITSCREEN'', 6), (''ONLINE_CUSTOM'', 7), (''ONLINE_WEEKLY_EVENT'', 15),
    (''STORY_MODE'', 17), (''MY_TEAM_CAREER_25'', 27), (''DRIVER_CAREER_25'', 28),
    (''CAREER_25_ONLINE'', 29), (''CHALLENGE_CAREER_25'', 30), (''STORY_MODE_APXGP'', 75),
    (''BENCHMARK'', 127)]"

definition RulesetIDs :: "pyenum" where
  "RulesetIDs =
   [(''UNKNOWN'', 255), (''PRACTICE_QUALIFYING'', 0), (''RACE'', 1), (''TIME_TRIAL'', 2),
    (''ELIMINATION'', 12)]"

definition WeatherIDs :: "pyenum" where
  "WeatherIDs =
   [(''UNKNOWN'', 255), (''CLEAR'', 0), (''LIGHT_CLOUD'', 1), (''OVERCAST'', 2),
    (''LIGHT_RAIN'', 3), (''HEAVY_RAIN'', 4), (''STORM'', 5)]"

definition TemperatureChange :: "pyenum" where
  "TemperatureChange =
   [(''UP'', 0), (''DOWN'', 1), (''NO_CHANGE'', 2)]"

definition SafetyCarStatus :: "pyenum" where
  "SafetyCarStatus =
   [(''NONE'', 0), (''FULL'', 1), (''VIRTUAL'', 2), (''FORMATION_LAP'', 3)]"

definition SafetyCarEventType :: "pyenum" where
  "SafetyCarEventType =
   [(''DEPLOYED'', 0), (''RETURNING'', 1), (''RETURNED'', 2), (''RESUME_RACE'', 3)]"

definition FlagStatus :: "pyenum" where
  "FlagStatus =
   [(''UNKNOWN'', -1), (''NONE'', 0), (''GREEN'', 1), (''BLUE'', 2), (''YELLOW'', 3)]"

definition DrsDisabledReason :: "pyenum" where
  "DrsDisabledReason =
   [(''WET_TRACK'', 0), (''SAFETY_CAR_DEPLOYED'', 1), (''RED_FLAG'', 2),
    (''MIN_LAP_NOT_REACHED'', 3)]"

definition PenaltyType :: "pyenum" where
  "PenaltyType =
   [(''DRIVE_THROUGH'', 0), (''STOP_GO'', 1), (''GRID_PENALTY'', 2), (''PENALTY_REMINDER'', 3),
    (''TIME_PENALTY'', 4), (''WARNING'', 5), (''DISQUALIFIED'', 6),
    (''REMOVED_FROM_FORMATION_LAP'', 7), (''PARKED_TOO_LONG_TIMER'', 8),
    (''TYRE_REGULATIONS'', 9), (''THIS_LAP_INVALIDATED'', 10),
    (''THIS_AND_NEXT_LAP_INVALIDATED'', 11), (''THIS_LAP_INVALIDATED_WITHOUT_REASON'', 12),
    (''THIS_AND_NEXT_LAP_INVALIDATED_WITHOUT_REASON'', 13),
    (''THIS_AND_PREVIOUS_LAP_INVALIDATED'', 14),
    (''THIS_AND_PREVIOUS_LAP_INVALIDATED_WITHOUT_REASON'', 15), (''RETIRED'', 16),
    (''BLACK_FLAG_TIMER'', 17)]"

definition InfringementType :: "pyenum" where
  "InfringementType =
   [(''BLOCKING_BY_SLOW_DRIVING'', 0), (''BLOCKING_BY_WRONG_WAY_DRIVING'', 1),
    (''REVERSING_OFF_THE_START_LINE'', 2), (''BIG_COLLISION'', 3), (''SMALL_COLLISION'', 4),
    (''COLLISION_FAILED_TO_HAND_BACK_POSITION_SINGLE'', 5),
    (''COLLISION_FAILED_TO_HAND_BACK_POSITION_MULTIPLE'', 6),
    (''CORNER_CUTTING_GAINED_TIME'', 7), (''CORNER_CUTTING_OVERTAKE_SINGLE'', 8),
    (''CORNER_CUTTING_OVERTAKE_MULTIPLE'', 9), (''CROSSED_PIT_EXIT_LANE'', 10),
    (''IGNORING_BLUE_FLAGS'', 11), (''IGNORING_YELLOW_FLAGS'', 12),
    (''IGNORING_DRIVE_THROUGH'', 13), (''TOO_MANY_DRIVE_THROUGHS'', 14),
    (''DRIVE_THROUGH_REMINDER_SERVE_WITHIN_N_LAPS'', 15),
    (''DRIVE_THROUGH_REMINDER_SERVE_THIS_LAP'', 16), (''PIT_LANE_SPEEDING'', 17),
    (''PARKED_FOR_TOO_LONG'', 18), (''IGNORING_TYRE_REGULATIONS'', 19),
    (''TOO_MANY_PENALTIES'', 20), (''MULTIPLE_WARNINGS'', 21),
    (''APPROACHING_DISQUALIFICATION'', 22), (''TYRE_REGULATIONS_SELECT_SINGLE'', 23),
    (''TYRE_REGULATIONS_SELECT_MULTIPLE'', 24), (''LAP_INVALIDATED_CORNER_CUTTING'', 25),
    (''LAP_INVALIDATED_RUNNING_WIDE'', 26), (''CORNER_CUTTING_RAN_WIDE_GAINED_TIME_MINOR'', 27),
    (''CORNER_CUTTING_RAN_WIDE_GAINED_TIME_SIGNIFICANT'', 28),
    (''CORNER_CUTTING_RAN_WIDE_GAINED_TIME_EXTREME'', 29), (''LAP_INVALIDATED_WALL_RIDING'', 30),
    (''LAP_INVALIDATED_FLASHBACK_USED'', 31), (''LAP_INVALIDATED_RESET_TO_TRACK'', 32),
    (''BLOCKING_THE_PITLANE'', 33), (''JUMP_START'', 34), (''SAFETY_CAR_TO_CAR_COLLISION'', 35),
    (''SAFETY_CAR_ILLEGAL_OVERTAKE'', 36), (''SAFETY_CAR_EXCEEDING_ALLOWED_PACE'', 37),
    (''VIRTUAL_SAFETY_CAR_EXCEEDING_ALLOWED_PACE'', 38),
    (''FORMATION_LAP_BELOW_ALLOWED_SPEED'', 39), (''FORMATION_LAP_PARKING'', 40),
    (''RETIRED_MECHANICAL_FAILURE'', 41), (''RETIRED_TERMINALLY_DAMAGED'', 42),
    (''SAFETY_CAR_FALLING_TOO_FAR_BACK'', 43), (''BLACK_FLAG_TIMER'', 44),
    (''UNSERVED_STOP_GO_PENALTY'', 45), (''UNSERVED_DRIVE_THROUGH_PENALTY'', 46),
    (''ENGINE_COMPONENT_CHANGE'', 47), (''GEARBOX_CHANGE'', 48), (''PARC_FERME_CHANGE'', 49),
    (''LEAGUE_GRID_PENALTY'', 50), (''RETRY_PENALTY'', 51), (''ILLEGAL_TIME_GAIN'', 52),
    (''MANDATORY_PITSTOP'', 53), (''ATTRIBUTE_ASSIGNED'', 54)]"

definition ResultStatus :: "pyenum" where
  "ResultStatus =
   [(''INVALID'', 0), (''INACTIVE'', 1), (''ACTIVE'', 2), (''FINISHED'', 3),
    (''DID_NOT_FINISH'', 4), (''DISQUALIFIED'', 5), (''NOT_CLASSIFIED'', 6), (''RETIRED'', 7)]"

definition ResultReason :: "pyenum" where
  "ResultReason =
   [(''INVALID'', 0), (''RETIRED'', 1), (''FINISHED'', 2), (''TERMINAL_DAMAGE'', 3),
    (''INACTIVE'', 4), (''NOT_ENOUGH_LAPS'', 5), (''BLACK_FLAGGED'', 6), (''RED_FLAGGED'', 7),
    (''MECHANICAL_FAILURE'', 8), (''SESSION_SKIPPED'', 9), (''SESSION_SIMULATED'', 10)]"

definition ActualTyreCompound :: "pyenum" where
  "ActualTyreCompound =
   [(''NONE'', 0), (''INTER'', 7), (''WET'', 8), (''CLASSIC_DRY'', 9), (''CLASSIC_WET'', 10),
    (''F2_SUPER_SOFT'', 11), (''F2_SOFT'', 12), (''F2_MEDIUM'', 13), (''F2_HARD'', 14),
    (''F2_WET'', 15), (''C5'', 16), (''C4'', 17), (''C3'', 18), (''C2'', 19), (''C1'', 20),
    (''C0'', 21), (''C6'', 22)]"

definition VisualTyreCompound :: "pyenum" where
  "VisualTyreCompound =
   [(''NONE'', 0), (''INTER'', 7), (''WET'', 8), (''F2_WET'', 15), (''SOFT'', 16),
    (''MEDIUM'', 17), (''HARD'', 18), (''F2_SUPER_SOFT'', 19), (''F2_SOFT'', 20),
    (''F2_MEDIUM'', 21), (''F2_HARD'', 22)]"

definition Platform :: "pyenum" where
  "Platform =
   [(''NONE'', 0), (''STEAM'', 1), (''PLAYSTATION'', 3), (''XBOX'', 4), (''ORIGIN'', 6),
    (''UNKNOWN'', 255)]"

definition Nationalities :: "pyenum" where
  "Nationalities =
   [(''UNKNOWN'', 0), (''AMERICAN'', 1), (''ARGENTINEAN'', 2), (''AUSTRALIAN'', 3),
    (''AUSTRIAN'', 4), (''AZERBAIJANI'', 5), (''BAHRAINI'', 6), (''BELGIAN'', 7),
    (''BOLIVIAN'', 8), (''BRAZILIAN'', 9), (''BRITISH'', 10), (''BULGARIAN'', 11),
    (''CAMEROONIAN'', 12), (''CANADIAN'', 13), (''CHILEAN'', 14), (''CHINESE'', 15),
    (''COLOMBIAN'', 16), (''COSTA_RICAN'', 17), (''CROATIAN'', 18), (''CYPRIOT'', 19),
    (''CZECH'', 20), (''DANISH'', 21), (''DUTCH'', 22), (''ECUADORIAN'', 23), (''ENGLISH'', 24),
    (''EMIRIAN'', 25), (''ESTONIAN'', 26), (''FINNISH'', 27), (''FRENCH'', 28), (''GERMAN'', 29),
    (''GHANAIAN'', 30), (''GREEK'', 31), (''GUATEMALAN'', 32), (''HONDURAN'', 33),
    (''HONG_KONGER'', 34), (''HUNGARIAN'', 35), (''ICELANDER'', 36), (''INDIAN'', 37),
    (''INDONESIAN'', 38), (''IRISH'', 39), (''ISRAELI'', 40), (''ITALIAN'', 41),
    (''JAMAICAN'', 42), (''JAPANESE'', 43), (''JORDANIAN'', 44), (''KUWAITI'', 45),
    (''LATVIAN'', 46), (''LEBANESE'', 47), (''LITHUANIAN'', 48), (''LUXEMBOURGER'', 49),
    (''MALAYSIAN'', 50), (''MALTESE'', 51), (''MEXICAN'', 52), (''MONEGASQUE'', 53),
    (''NEW_ZEALANDER'', 54), (''NICARAGUAN'', 55), (''NORTHERN_IRISH'', 56), (''NORWEGIAN'', 57),
    (''OMANI'', 58), (''PAKISTANI'', 59), (''PANAMANIAN'', 60), (''PARAGUAYAN'', 61),
    (''PERUVIAN'', 62), (''POLISH'', 63), (''PORTUGUESE'', 64), (''QATARI'', 65),
    (''ROMANIAN'', 66), (''SALVADORAN'', 68), (''SAUDI'', 69), (''SCOTTISH'', 70),
    (''SERBIAN'', 71), (''SINGAPOREAN'', 72), (''SLOVAKIAN'', 73), (''SLOVENIAN'', 74),
    (''SOUTH_KOREAN'', 75), (''SOUTH_AFRICAN'', 76), (''SPANISH'', 77), (''SWEDISH'', 78),
    (''SWISS'', 79), (''THAI'', 80), (''TURKISH'', 81), (''URUGUAYAN'', 82), (''UKRAINIAN'', 83),
    (''VENEZUELAN'', 84), (''BARBADIAN'', 85), (''WELSH'', 86), (''VIETNAMESE'', 87),
    (''ALGERIAN'', 88), (''BOSNIAN'', 89), (''FILIPINO'', 90), (''NOT_SET'', 255)]"

definition Teams :: "pyenum" where
  "Teams =
   [(''UNKNOWN'', 65535), (''MERCEDES'', 0), (''FERRARI'', 1), (''RED_BULL_RACING'', 2),
    (''WILLIAMS'', 3), (''ASTON_MARTIN'', 4), (''ALPINE'', 5), (''RB'', 6), (''HAAS'', 7),
    (''MCLAREN'', 8), (''SAUBER'', 9), (''F1_GENERIC'', 41), (''F1_CUSTOM_TEAM'', 104),
    (''KONNERSPORT'', 129), (''APXGP_24'', 142), (''APXGP_25'', 154), (''KONNERSPORT_24'', 155),
    (''ART_GP_24'', 158), (''CAMPOS_24'', 159), (''RODIN_MOTORSPORT_24'', 160),
    (''AIX_RACING_24'', 161), (''DAMS_24'', 162), (''HITECH_24'', 163),
    (''MP_MOTORSPORT_24'', 164), (''PREMA_24'', 165), (''TRIDENT_24'', 166),
    (''VAN_AMERSFOORT_RACING_24'', 167), (''INVICTA_24'', 168), (''MERCEDES_24'', 185),
    (''FERRARI_24'', 186), (''RED_BULL_RACING_24'', 187), (''WILLIAMS_24'', 188),
    (''ASTON_MARTIN_24'', 189), (''ALPINE_24'', 190), (''RB_24'', 191), (''HAAS_24'', 192),
    (''MCLAREN_24'', 193), (''SAUBER_24'', 194), (''ART_GP_25'', 465), (''CAMPOS_25'', 466),
    (''RODIN_MOTORSPORT_25'', 467), (''AIX_RACING_25'', 468), (''DAMS_25'', 469),
    (''HITECH_25'', 470), (''MP_MOTORSPORT_25'', 471), (''PREMA_25'', 472),
    (''TRIDENT_25'', 473), (''VAN_AMERSFOORT_RACING_25'', 474), (''INVICTA_25'', 475),
    (''MERCEDES_26'', 476), (''FERRARI_26'', 477), (''RED_BULL_RACING_26'', 478),
    (''WILLIAMS_26'', 479), (''ASTON_MARTIN_26'', 480), (''ALPINE_26'', 481), (''RB_26'', 482),
    (''HAAS_26'', 483), (''MCLAREN_26'', 484), (''AUDI_26'', 485), (''CADILLAC_26'', 486)]"

definition TrackIDs :: "pyenum" where
  "TrackIDs =
   [(''UNKNOWN'', 255), (''MELBOURNE'', 0), (''SHANGHAI'', 2), (''SAKHIR_BAHRAIN'', 3),
    (''CATALUNYA'', 4), (''MONACO'', 5), (''MONTREAL'', 6), (''SILVERSTONE'', 7),
    (''HUNGARORING'', 9), (''SPA'', 10), (''MONZA'', 11), (''SINGAPORE'', 12), (''SUZUKA'', 13),
    (''ABU_DHABI'', 14), (''TEXAS'', 15), (''BRAZIL'', 16), (''AUSTRIA'', 17), (''MEXICO'', 19),
    (''BAKU_AZERBAIJAN'', 20), (''ZANDVOORT'', 26), (''IMOLA'', 27), (''JEDDAH'', 29),
    (''MIAMI'', 30), (''LAS_VEGAS'', 31), (''LOSAIL'', 32), (''SILVERSTONE_REVERSE'', 39),
    (''AUSTRIA_REVERSE'', 40), (''ZANDVOORT_REVERSE'', 41), (''MADRID'', 42)]"

definition DriverStatus :: "pyenum" where
  "DriverStatus =
   [(''IN_GARAGE'', 0), (''FLYING_LAP'', 1), (''IN_LAP'', 2), (''OUT_LAP'', 3), (''ON_TRACK'', 4)]"

definition PitStatus :: "pyenum" where
  "PitStatus =
   [(''NONE'', 0), (''PITTING'', 1), (''IN_PIT_AREA'', 2)]"

definition Sector :: "pyenum" where
  "Sector =
   [(''SECTOR_1'', 0), (''SECTOR_2'', 1), (''SECTOR_3'', 2)]"

definition SurfaceType :: "pyenum" where
  "SurfaceType =
   [(''TARMAC'', 0), (''RUMBLE_STRIP'', 1), (''CONCRETE'', 2), (''ROCK'', 3), (''GRAVEL'', 4),
    (''MUD'', 5), (''SAND'', 6), (''GRASS'', 7), (''WATER'', 8), (''COBBLESTONE'', 9),
    (''METAL'', 10), (''RIDGED'', 11)]"

definition ALL_ENUMS :: "pyenum list" where
  "ALL_ENUMS =
   [ButtonFlags, SessionTypeIDs, Formula, GameModeIDs, RulesetIDs, WeatherIDs, TemperatureChange,
    SafetyCarStatus, SafetyCarEventType, FlagStatus, DrsDisabledReason, PenaltyType,
    InfringementType, ResultStatus, ResultReason, ActualTyreCompound, VisualTyreCompound,
    Platform, Nationalities, Teams, TrackIDs, DriverStatus, PitStatus, Sector, SurfaceType]"

text \<open>\<open>enum_class(value).name\<close>, with \<open>ValueError\<close> for a value that is no member.\<close>

definition enum_name :: "pyenum \<Rightarrow> int \<Rightarrow> string py" where
  "enum_name e v = (case find (\<lambda>m. snd m = v) e of
      Some m \<Rightarrow> Inr (fst m)
    | None \<Rightarrow> Inl PyValueError)"

text \<open>\<open>safe_enum_name\<close> of \<open>database/repositories/base.py\<close> (the warning it logs is not modelled).\<close>

definition safe_enum_name :: "pyenum \<Rightarrow> int \<Rightarrow> pystr" where
  "safe_enum_name e v = (case enum_name e v of
      Inr name \<Rightarrow> ascii name
    | Inl _ \<Rightarrow> ascii ''UNKNOWN_'' @ dec_int v)"

subsection \<open>Names determine values\<close>

text \<open>
  A table whose names are distinct and none of which looks like the fallback name loses nothing:
  two codes, known or not, get the same stored name only when they are equal.
\<close>

definition names_clear :: "pyenum \<Rightarrow> bool" where
  "names_clear e \<longleftrightarrow> distinct (map fst e) \<and> (\<forall>m \<in> set e. take 8 (fst m) \<noteq> ''UNKNOWN_'')"

lemma enum_name_member: "enum_name e v = Inr s \<Longrightarrow> (s, v) \<in> set e"
  by (auto simp: enum_name_def find_Some_iff split: option.splits)

lemma safe_enum_name_inj:
  assumes "names_clear e" "safe_enum_name e v = safe_enum_name e w"
  shows "v = w"
proof -
  have clash: False if "(s, x) \<in> set e" "ascii s = ascii ''UNKNOWN_'' @ dec_int y" for s x y
  proof -
    have "ascii (take 8 s) = ascii ''UNKNOWN_''"
      using that(2) by (simp add: ascii_def take_map [symmetric])
    then show False using that(1) assms(1) by (auto simp: names_clear_def ascii_inj)
  qed
  show ?thesis
  proof (cases "enum_name e v"; cases "enum_name e w")
    fix s t assume n: "enum_name e v = Inr s" "enum_name e w = Inr t"
    then have "s = t" using assms(2) by (simp add: safe_enum_name_def ascii_inj)
    with n have "(s, v) \<in> set e" "(s, w) \<in> set e" by (auto dest: enum_name_member)
    then show ?thesis
      using assms(1) by (metis eq_key_imp_eq_value names_clear_def)
  next
    fix a b assume "enum_name e v = Inl a" "enum_name e w = Inl b"
    then show ?thesis using assms(2) by (simp add: safe_enum_name_def dec_int_inj)
  next
    fix s b assume n: "enum_name e v = Inr s" "enum_name e w = Inl b"
    then have "ascii s = ascii ''UNKNOWN_'' @ dec_int w"
      using assms(2) by (simp add: safe_enum_name_def)
    with enum_name_member [OF n(1)] clash show ?thesis by blast
  next
    fix a t assume n: "enum_name e v = Inl a" "enum_name e w = Inr t"
    then have "ascii t = ascii ''UNKNOWN_'' @ dec_int v"
      using assms(2) by (simp add: safe_enum_name_def)
    with enum_name_member [OF n(2)] clash show ?thesis by blast
  qed
qed

lemma all_enums_clear: "\<forall>e \<in> set ALL_ENUMS. names_clear e"
  by code_simp

end
