(* ===== verification/Database.thy ===== *)
theory Database
  imports Py_Struct Enums Bounded
begin

text \<open>
  The outside world of the listener and \<open>database/repositories/base.py\<close>.

  A table is the list of its rows in insertion order, a row an association list from column names
  to values (an absent column is NULL). The SQL statements of the repositories are functions on
  the database: \<open>INSERT ... ON CONFLICT\<close>, \<open>UPDATE ... WHERE\<close>, \<open>DELETE ... WHERE\<close>. PostgreSQL may
  refuse any transaction for reasons the source does not control (a lost connection, a missing
  foreign key, a failed type conversion): \<open>w_fault n\<close> says that the \<open>n\<close>-th transaction fails and is
  rolled back, and every theorem holds for all fault schedules unless it names one. Uniqueness
  constraints beside the conflict target are modelled, because one of them matters.

  The clocks are the sequences of values successive reads return.
\<close>

subsection \<open>Tables\<close>

type_synonym row = "(string \<times> pyval) list"

record db =
  db_tables :: "string \<Rightarrow> row list"
  db_seq :: "string \<Rightarrow> int"

definition col :: "row \<Rightarrow> string \<Rightarrow> pyval" where
  "col r c = (case map_of r c of None \<Rightarrow> PNone | Some v \<Rightarrow> v)"

definition same_key :: "string list \<Rightarrow> row \<Rightarrow> row \<Rightarrow> bool" where
  "same_key ks r r' \<longleftrightarrow> (\<forall>k \<in> set ks. col r k = col r' k)"

definition has_key :: "string list \<Rightarrow> row \<Rightarrow> row list \<Rightarrow> bool" where
  "has_key ks r rows \<longleftrightarrow> (\<exists>r' \<in> set rows. same_key ks r r')"

text \<open>\<open>SET c = EXCLUDED.c\<close> for the listed columns.\<close>

definition set_excluded :: "string list \<Rightarrow> row \<Rightarrow> row \<Rightarrow> row" where
  "set_excluded cs new old = map (\<lambda>c. (c, col new c)) cs @ filter (\<lambda>p. fst p \<notin> set cs) old"

definition insert_nothing :: "string list \<Rightarrow> row \<Rightarrow> row list \<Rightarrow> row list" where
  "insert_nothing ks r rows = (if has_key ks r rows then rows else rows @ [r])"

definition insert_update :: "string list \<Rightarrow> string list \<Rightarrow> row \<Rightarrow> row list \<Rightarrow> row list" where
  "insert_update ks cs r rows =
    (if has_key ks r rows then map (\<lambda>r'. if same_key ks r r' then set_excluded cs r r' else r') rows
     else rows @ [r])"

text \<open>The row of a table with given key values.\<close>

definition lookup_row :: "string list \<Rightarrow> row \<Rightarrow> row list \<Rightarrow> row option" where
  "lookup_row ks r rows = find (same_key ks r) rows"

lemma same_key_refl [simp]: "same_key ks r r"
  by (simp add: same_key_def)

lemma same_key_sym: "same_key ks r r' \<Longrightarrow> same_key ks r' r"
  by (simp add: same_key_def)

lemma same_key_trans: "same_key ks r r' \<Longrightarrow> same_key ks r' r'' \<Longrightarrow> same_key ks r r''"
  by (simp add: same_key_def)

lemma col_set_excluded:
  "col (set_excluded cs new old) c = (if c \<in> set cs then col new c else col old c)"
proof -
  have "map_of (map (\<lambda>c. (c, col new c)) cs) c = (if c \<in> set cs then Some (col new c) else None)"
    by (induction cs) auto
  moreover have "map_of (filter (\<lambda>p. fst p \<notin> set cs) old) c = (if c \<in> set cs then None else map_of old c)"
    by (induction old) auto
  ultimately show ?thesis
    by (simp add: set_excluded_def col_def map_add_def)
qed

lemma set_excluded_key:
  "set cs \<inter> set ks = {} \<Longrightarrow> same_key ks r (set_excluded cs new old) = same_key ks r old"
  by (auto simp: same_key_def col_set_excluded)

lemma set_excluded_idem: "set_excluded cs new (set_excluded cs new old) = set_excluded cs new old"
  by (auto simp: set_excluded_def filter_empty_conv)

subsection \<open>Writing the same rows again\<close>

text \<open>
  What a re-delivered batch relies on: a write that adds an entry at most once, whose entries are
  never taken away by later writes of the same kind.
\<close>

locale insert_once =
  fixes ins :: "'r \<Rightarrow> 't \<Rightarrow> 't" and present :: "'r \<Rightarrow> 't \<Rightarrow> bool"
  assumes present_ins: "present r (ins r t)"
    and present_mono: "present r t \<Longrightarrow> present r (ins r' t)"
    and ins_absorb: "present r t \<Longrightarrow> ins r t = t"
begin

lemma present_fold: "present r t \<Longrightarrow> present r (fold ins rs t)"
  by (induction rs arbitrary: t) (auto intro: present_mono)

lemma all_present_fold: "r \<in> set rs \<Longrightarrow> present r (fold ins rs t)"
  by (induction rs arbitrary: t) (auto intro: present_fold present_ins)

lemma fold_absorb: "\<forall>r \<in> set rs. present r t \<Longrightarrow> fold ins rs t = t"
  by (induction rs) (auto simp: ins_absorb)

lemma batch_again: "fold ins rs (fold ins rs t) = fold ins rs t"
  by (rule fold_absorb) (simp add: all_present_fold)

lemma sub_batch_again: "set rs' \<subseteq> set rs \<Longrightarrow> fold ins rs' (fold ins rs t) = fold ins rs t"
  by (rule fold_absorb) (auto simp: all_present_fold)

end

lemma has_key_append: "has_key ks r (rows @ rows') \<longleftrightarrow> has_key ks r rows \<or> has_key ks r rows'"
  by (auto simp: has_key_def)

interpretation once: insert_once "insert_nothing ks" "has_key ks" for ks
  by unfold_locales (auto simp: insert_nothing_def has_key_append, auto simp: has_key_def)

lemma insert_update_again:
  assumes "set cs \<inter> set ks = {}"
  shows "insert_update ks cs r (insert_update ks cs r rows) =
    (if has_key ks r rows then insert_update ks cs r rows
     else rows @ [set_excluded cs r r])"
proof (cases "has_key ks r rows")
  case True
  let ?g = "\<lambda>r'. if same_key ks r r' then set_excluded cs r r' else r'"
  have "has_key ks r (map ?g rows)"
  proof -
    obtain r' where r': "r' \<in> set rows" "same_key ks r r'"
      using True by (auto simp: has_key_def)
    then have "set_excluded cs r r' \<in> set (map ?g rows)"
      by force
    then show ?thesis using r' set_excluded_key [OF assms] by (auto simp: has_key_def)
  qed
  then show ?thesis
    using True by (auto simp: insert_update_def set_excluded_key [OF assms] set_excluded_idem)
next
  case False
  then have "map (\<lambda>r'. if same_key ks r r' then set_excluded cs r r' else r') rows = rows"
    by (auto simp: has_key_def intro: map_idI)
  then show ?thesis using False
    by (simp add: insert_update_def has_key_append, simp add: has_key_def)
qed

subsection \<open>Statements\<close>

datatype on_conflict = DoNothing "string list" | DoUpdate "string list" "string list"

text \<open>
  Unique keys beside the conflict target (\<open>schema/telemetry/entries.sql\<close>: the primary key of
  entries is session and user, the conflict target session and car index).
\<close>

definition other_unique_keys :: "string \<Rightarrow> string list list" where
  "other_unique_keys t =
    (if t = ''telemetry.entries'' then [[''session_uid'', ''user_id'']]
     else if t = ''telemetry.teams'' then [[''name'']] else [])"

definition unique_on :: "string list \<Rightarrow> row list \<Rightarrow> bool" where
  "unique_on ks rows \<longleftrightarrow> distinct (map (\<lambda>r. map (col r) ks) rows)"

text \<open>
  \<open>INSERT INTO t (cols) VALUES (vals) ON CONFLICT ...\<close>: the row count and the new database. A wrong
  number of parameters or a violated uniqueness constraint raises.
\<close>

definition sql_insert :: "string \<Rightarrow> string list \<Rightarrow> on_conflict \<Rightarrow> pyval list \<Rightarrow> db \<Rightarrow> (nat \<times> db) py" where
  "sql_insert t cols oc vals d =
    (if length cols \<noteq> length vals then Inl DatabaseError
     else
       let r = zip cols vals; rows = db_tables d t;
           (n, rows') = (case oc of
               DoNothing ks \<Rightarrow> (if has_key ks r rows then 0 else 1, insert_nothing ks r rows)
             | DoUpdate ks cs \<Rightarrow> (1, insert_update ks cs r rows))
       in if list_all (\<lambda>ks. unique_on ks rows') (other_unique_keys t)
          then Inr (n, d\<lparr>db_tables := (db_tables d)(t := rows')\<rparr>) else Inl DatabaseError)"

definition sql_update :: "string \<Rightarrow> (row \<Rightarrow> bool) \<Rightarrow> (row \<Rightarrow> row) \<Rightarrow> db \<Rightarrow> (nat \<times> db) py" where
  "sql_update t P f d =
    Inr (length (filter P (db_tables d t)),
         d\<lparr>db_tables := (db_tables d)(t := map (\<lambda>r. if P r then f r else r) (db_tables d t))\<rparr>)"

definition sql_delete :: "string \<Rightarrow> (row \<Rightarrow> bool) \<Rightarrow> db \<Rightarrow> (nat \<times> db) py" where
  "sql_delete t P d =
    Inr (length (filter P (db_tables d t)),
         d\<lparr>db_tables := (db_tables d)(t := filter (\<lambda>r. \<not> P r) (db_tables d t))\<rparr>)"

text \<open>\<open>cur.executemany\<close>: the statements in order, stopping at the first that raises.\<close>

fun sql_many :: "(db \<Rightarrow> (nat \<times> db) py) list \<Rightarrow> db \<Rightarrow> (nat \<times> db) py" where
  "sql_many [] d = Inr (0, d)"
| "sql_many (q # qs) d =
     and_then (q d) (\<lambda>(n, d'). and_then (sql_many qs d') (\<lambda>(m, d''). Inr (n + m, d'')))"

subsection \<open>The world\<close>

record world =
  w_enabled :: bool
  w_fault :: "nat \<Rightarrow> bool"
  w_txn :: nat
  w_db :: db
  w_utc :: "nat \<Rightarrow> int"        \<comment> \<open>microseconds since the epoch, one value per read\<close>
  w_utc_reads :: nat
  w_mono :: "nat \<Rightarrow> int"       \<comment> \<open>nanoseconds, one value per read\<close>
  w_mono_reads :: nat
  w_io_fault :: "nat \<Rightarrow> bool"
  w_io :: nat
  w_set_order :: "pystr list \<Rightarrow> pystr list"   \<comment> \<open>iteration order of a set of strings\<close>
  w_files :: "(pystr \<times> pyval) list"   \<comment> \<open>the dead-letter directory\<close>

text \<open>A world in which nothing goes wrong and no time passes, for concrete examples.\<close>

definition quiet_world :: world where
  "quiet_world =
     \<lparr>w_enabled = True, w_fault = \<lambda>_. False, w_txn = 0,
      w_db = \<lparr>db_tables = \<lambda>_. [], db_seq = \<lambda>_. 1\<rparr>, w_utc = \<lambda>_. 0, w_utc_reads = 0,
      w_mono = \<lambda>_. 0, w_mono_reads = 0, w_io_fault = \<lambda>_. False, w_io = 0, w_set_order = id, w_files = []\<rparr>"

abbreviation table :: "world \<Rightarrow> string \<Rightarrow> row list" where
  "table w t \<equiv> db_tables (w_db w) t"

definition utc_now :: "world \<Rightarrow> int \<times> world" where
  "utc_now w = (w_utc w (w_utc_reads w), w\<lparr>w_utc_reads := w_utc_reads w + 1\<rparr>)"

definition monotonic_now :: "world \<Rightarrow> int \<times> world" where
  "monotonic_now w = (w_mono w (w_mono_reads w), w\<lparr>w_mono_reads := w_mono_reads w + 1\<rparr>)"

text \<open>One transaction: committed as a whole, or rolled back with an exception.\<close>

definition run_txn :: "(db \<Rightarrow> ('a \<times> db) py) \<Rightarrow> world \<Rightarrow> 'a py \<times> world" where
  "run_txn q w =
    (let w' = w\<lparr>w_txn := w_txn w + 1\<rparr> in
     if w_fault w (w_txn w) then (Inl DatabaseError, w')
     else case q (w_db w) of
         Inl e \<Rightarrow> (Inl e, w')
       | Inr (x, d) \<Rightarrow> (Inr x, w'\<lparr>w_db := d\<rparr>))"

text \<open>\<open>_execute\<close>: the row count, 0 if disabled or failed.\<close>

definition execute :: "(db \<Rightarrow> (nat \<times> db) py) \<Rightarrow> world \<Rightarrow> nat \<times> world" where
  "execute q w =
    (if \<not> w_enabled w then (0, w)
     else case run_txn q w of
         (Inl _, w') \<Rightarrow> (0, w')
       | (Inr n, w') \<Rightarrow> (n, w'))"

definition execute_many :: "(db \<Rightarrow> (nat \<times> db) py) list \<Rightarrow> world \<Rightarrow> world" where
  "execute_many qs w =
    (if \<not> w_enabled w \<or> qs = [] then w else snd (run_txn (sql_many qs) w))"

definition execute_many_strict :: "(db \<Rightarrow> (nat \<times> db) py) list \<Rightarrow> world \<Rightarrow> unit py \<times> world" where
  "execute_many_strict qs w =
    (if qs = [] then (Inr (), w)
     else if \<not> w_enabled w then (Inl PyConnectionError, w)
     else case run_txn (sql_many qs) w of
         (Inl e, w') \<Rightarrow> (Inl e, w')
       | (Inr _, w') \<Rightarrow> (Inr (), w'))"

text \<open>A read: \<open>None\<close> stands for the exception handler's answer.\<close>

definition query :: "(db \<Rightarrow> 'a) \<Rightarrow> world \<Rightarrow> 'a option \<times> world" where
  "query f w =
    (if \<not> w_enabled w then (None, w)
     else case run_txn (\<lambda>d. Inr (f d, d)) w of
         (Inl _, w') \<Rightarrow> (None, w')
       | (Inr x, w') \<Rightarrow> (Some x, w'))"

subsection \<open>Deleting the frames a flashback undid\<close>

text \<open>PostgreSQL's order on floats puts NaN above everything.\<close>

definition pg_gt :: "pyval \<Rightarrow> pyfloat \<Rightarrow> bool" where
  "pg_gt v x = (case v of
      PFloat y \<Rightarrow> (case y of
          PyNaN _ _ \<Rightarrow> (case x of PyNaN _ _ \<Rightarrow> False | _ \<Rightarrow> True)
        | _ \<Rightarrow> f_lt x y)
    | _ \<Rightarrow> False)"

fun time_after :: "pyval \<Rightarrow> int \<Rightarrow> bool" where
  "time_after (PTime t) b = (b < t)"
| "time_after _ b = False"

definition frame_after :: "pystr \<Rightarrow> pyfloat \<Rightarrow> int option \<Rightarrow> row \<Rightarrow> bool" where
  "frame_after uid t bound r \<longleftrightarrow>
     col r ''session_uid'' = PStr uid \<and> pg_gt (col r ''session_time'') t
     \<and> (case bound of None \<Rightarrow> True | Some b \<Rightarrow> time_after (col r ''timestamp'') b)"

text \<open>
  \<open>_delete_frames_after\<close>. The bound on \<open>timestamp\<close> is computed before the statement runs, so it can
  raise; everything else is fire-and-forget.
\<close>

definition delete_frames_after ::
    "string \<Rightarrow> pystr \<Rightarrow> pyfloat \<Rightarrow> int option \<Rightarrow> world \<Rightarrow> nat py \<times> world" where
  "delete_frames_after t uid rewind session_start w =
    (case session_start of
       Some start \<Rightarrow>
         (case and_then (timedelta rewind) (datetime_add start) of
            Inl e \<Rightarrow> (Inl e, w)
          | Inr b \<Rightarrow>
              let (n, w') = execute (sql_delete t (frame_after uid rewind (Some b))) w in (Inr n, w'))
     | None \<Rightarrow>
         let (n, w') = execute (sql_delete t (frame_after uid rewind None)) w in (Inr n, w'))"

subsection \<open>Logging failed writes\<close>

text \<open>
  \<open>_log_write_failure\<close>: per repository, the first failure of a kind logs in full, later ones are
  counted and summarised at most once a minute. The state is \<open>_logged_failures\<close>; the result says
  what was logged (\<open>None\<close>: nothing, \<open>Some n\<close>: a line mentioning \<open>n\<close> suppressed failures).
  It touches nothing but the log, so the writes above leave it out.
\<close>

type_synonym failure_key = "string \<times> pyexn \<times> pyval"
type_synonym failure_log = "(failure_key, int \<times> int) bounded_dict"

definition FAILURE_SUMMARY_INTERVAL_NS :: int where
  "FAILURE_SUMMARY_INTERVAL_NS = 60000000000"

definition log_write_failure :: "failure_key \<Rightarrow> int \<Rightarrow> failure_log \<Rightarrow> int option \<times> failure_log" where
  "log_write_failure key now l =
    (case bd_get l key of
       None \<Rightarrow> (Some 0, bd_set l key (0, now))
     | Some (n, since) \<Rightarrow>
         (if now - since < FAILURE_SUMMARY_INTERVAL_NS
          then (None, bd_mutate l key (n + 1, since))
          else (Some (n + 1), bd_set l key (0, now))))"

subsection \<open>A database that answers\<close>

definition healthy :: "world \<Rightarrow> bool" where
  "healthy w \<longleftrightarrow> w_enabled w \<and> (\<forall>n. \<not> w_fault w n)"

lemma healthy_quiet [simp]: "healthy quiet_world"
  by (simp add: healthy_def quiet_world_def)

lemma run_txn_keeps [simp]:
  "w_enabled (snd (run_txn q w)) = w_enabled w" "w_fault (snd (run_txn q w)) = w_fault w"
  by (auto simp: run_txn_def Let_def split: sum.split prod.split)

lemma execute_keeps [simp]:
  "w_enabled (snd (execute q w)) = w_enabled w" "w_fault (snd (execute q w)) = w_fault w"
proof -
  obtain r w' where r: "run_txn q w = (r, w')" by (cases "run_txn q w")
  then have "w_enabled w' = w_enabled w" "w_fault w' = w_fault w"
    using run_txn_keeps [of q w] by auto
  then show "w_enabled (snd (execute q w)) = w_enabled w" "w_fault (snd (execute q w)) = w_fault w"
    by (cases r; simp add: execute_def r)+
qed

lemma healthy_execute [simp]: "healthy (snd (execute q w)) = healthy w"
  by (simp add: healthy_def)

lemma table_delete:
  "healthy w \<Longrightarrow> table (snd (execute (sql_delete t P) w)) u =
    (if u = t then filter (\<lambda>r. \<not> P r) (table w u) else table w u)"
  by (simp add: healthy_def execute_def run_txn_def sql_delete_def)

lemma table_insert_other:
  "u \<noteq> t \<Longrightarrow> table (snd (execute (sql_insert t cols oc vals) w)) u = table w u"
  by (auto simp: execute_def run_txn_def sql_insert_def Let_def split: sum.splits prod.splits if_splits)

text \<open>The bound on \<open>timestamp\<close> that goes with the bound on \<open>session_time\<close>.\<close>

definition rewind_bound :: "int option \<Rightarrow> pyfloat \<Rightarrow> int option py" where
  "rewind_bound session_start t = (case session_start of
      None \<Rightarrow> Inr None
    | Some start \<Rightarrow> and_then (and_then (timedelta t) (datetime_add start)) (\<lambda>b. Inr (Some b)))"

lemma delete_frames_after_ok:
  assumes "rewind_bound start t = Inr b"
  shows "delete_frames_after T uid t start w =
    (Inr (fst (execute (sql_delete T (frame_after uid t b)) w)), snd (execute (sql_delete T (frame_after uid t b)) w))"
  using assms
  by (auto simp: rewind_bound_def delete_frames_after_def and_then_Inr_iff Let_def
      split: option.splits sum.splits prod.splits)

lemma healthy_run_txn [simp]: "healthy (snd (run_txn q w)) = healthy w"
  by (simp add: healthy_def)

lemma healthy_execute_many [simp]: "healthy (execute_many qs w) = healthy w"
  by (simp add: execute_many_def)

text \<open>A batch of \<open>ON CONFLICT DO NOTHING\<close> inserts into a table with no other unique key.\<close>

lemma sql_insert_nothing:
  assumes "other_unique_keys t = []"
  shows "sql_insert t cols (DoNothing ks) vals d =
    (if length cols \<noteq> length vals then Inl DatabaseError
     else Inr (if has_key ks (zip cols vals) (db_tables d t) then 0 else 1,
       d\<lparr>db_tables := (db_tables d)(t := insert_nothing ks (zip cols vals) (db_tables d t))\<rparr>))"
  using assms by (simp add: sql_insert_def Let_def)

lemma sql_many_nothing:
  assumes "other_unique_keys t = []"
  shows "(\<exists>n. sql_many (map (sql_insert t cols (DoNothing ks)) rows) d = (if \<forall>r \<in> set rows. length r = length cols
    then Inr (n, d\<lparr>db_tables := (db_tables d)(t := fold (\<lambda>r. insert_nothing ks (zip cols r)) rows (db_tables d t))\<rparr>)
    else Inl DatabaseError))"
proof (induction rows arbitrary: d)
  case (Cons r rows)
  let ?d = "d\<lparr>db_tables := (db_tables d)(t := insert_nothing ks (zip cols r) (db_tables d t))\<rparr>"
  show ?case
    using Cons [of ?d] by (auto simp: sql_insert_nothing [OF assms])
qed simp

end
