(* ===== verification/Packet_Header.thy ===== *)
theory Packet_Header
  imports Py_Struct Bounded
begin

text \<open>
  \<open>packets/packet_header.py\<close> and \<open>packets/constants.py\<close>: the 29-byte header every datagram starts
  with, the table of body sizes, and the validation that filters foreign traffic. The two
  module-level \<open>BoundedSet\<close>s that rate-limit its log lines are the state \<open>header_log\<close>, with the
  lines written so far.
\<close>

definition MAX_CARS :: nat where
  "MAX_CARS = 24"

text \<open>Positional access to the tuple \<open>struct.unpack\<close> returned.\<close>

definition int_at :: "pyval list \<Rightarrow> nat \<Rightarrow> int" where
  "int_at f k = as_int (f ! k)"

definition float_at :: "pyval list \<Rightarrow> nat \<Rightarrow> pyfloat" where
  "float_at f k = as_float (f ! k)"

definition bytes_at :: "pyval list \<Rightarrow> nat \<Rightarrow> byte list" where
  "bytes_at f k = as_bytes (f ! k)"

definition ints_at :: "pyval list \<Rightarrow> nat \<Rightarrow> nat \<Rightarrow> int list" where
  "ints_at f i j = map (int_at f) [i..<j]"

definition floats_at :: "pyval list \<Rightarrow> nat \<Rightarrow> nat \<Rightarrow> pyfloat list" where
  "floats_at f i j = map (float_at f) [i..<j]"

definition PACKET_HEADER_FORMAT :: string where
  "PACKET_HEADER_FORMAT = ''<HBBBBBQfIIBB''"

definition PACKET_HEADER_FORMAT_SIZE :: nat where
  "PACKET_HEADER_FORMAT_SIZE = calcsize PACKET_HEADER_FORMAT"

record packet_header =
  hdr_packet_format :: int
  hdr_game_year :: int
  hdr_game_major_version :: int
  hdr_game_minor_version :: int
  hdr_packet_version :: int
  hdr_packet_id :: int
  hdr_session_uid :: int
  hdr_session_time :: pyfloat
  hdr_frame_identifier :: int
  hdr_overall_frame_identifier :: int
  hdr_player_car_index :: int
  hdr_secondary_player_car_index :: int

text \<open>Body sizes by packet id; packet 3 is absent, 8, 9 and 11 are upper bounds.\<close>

definition EXPECTED_BODY_SIZE :: "(int \<times> nat) list" where
  "EXPECTED_BODY_SIZE =
    [(0, 1296), (1, 897), (2, 1370), (4, 1441), (5, 1204), (6, 1419), (7, 1416), (8, 1105),
     (9, 1033), (10, 1104), (11, 1431), (12, 202), (13, 244), (14, 75), (15, 1202), (16, 240)]"

definition VARIABLE_LENGTH_PACKET_IDS :: "int list" where
  "VARIABLE_LENGTH_PACKET_IDS = [8, 9, 11]"

definition unpack_packet_header :: "byte list \<Rightarrow> packet_header py" where
  "unpack_packet_header data = and_then (struct_unpack PACKET_HEADER_FORMAT data) (\<lambda>f. Inr
     \<lparr>hdr_packet_format = int_at f 0, hdr_game_year = int_at f 1,
        hdr_game_major_version = int_at f 2, hdr_game_minor_version = int_at f 3,
        hdr_packet_version = int_at f 4, hdr_packet_id = int_at f 5,
        hdr_session_uid = int_at f 6, hdr_session_time = float_at f 7,
        hdr_frame_identifier = int_at f 8, hdr_overall_frame_identifier = int_at f 9,
        hdr_player_car_index = int_at f 10, hdr_secondary_player_car_index = int_at f 11\<rparr>)"

text \<open>\<open>str(header.session_uid)\<close>, the key of every per-session table.\<close>

definition session_key :: "packet_header \<Rightarrow> pystr" where
  "session_key h = dec_int (hdr_session_uid h)"

definition MAX_PACKET_ID :: int where
  "MAX_PACKET_ID = 16"

definition MAX_CAR_INDEX :: int where
  "MAX_CAR_INDEX = 23"

definition NO_PLAYER_CAR_INDEX :: int where
  "NO_PLAYER_CAR_INDEX = 255"

definition EXPECTED_PACKET_VERSION :: int where
  "EXPECTED_PACKET_VERSION = 1"

datatype log_line =
    FormatRejected int int          \<comment> \<open>session uid, packet format\<close>
  | VersionUnexpected int int int   \<comment> \<open>session uid, packet id, packet version\<close>
  | BodySizeMismatch int int        \<comment> \<open>session uid, packet id\<close>

record header_log =
  hl_format_rejections :: "(int \<times> int) bounded_set"
  hl_version_warnings :: "(int \<times> int \<times> int) bounded_set"
  hl_lines :: "log_line list"

definition header_log_init :: header_log where
  "header_log_init = \<lparr>hl_format_rejections = bs_new 200, hl_version_warnings = bs_new 200, hl_lines = []\<rparr>"

definition log_format_rejection_once :: "packet_header \<Rightarrow> header_log \<Rightarrow> header_log" where
  "log_format_rejection_once h l =
    (let key = (hdr_session_uid h, hdr_packet_format h) in
     if bs_contains (hl_format_rejections l) key then l
     else l\<lparr>hl_format_rejections := bs_add key (hl_format_rejections l),
            hl_lines := hl_lines l @ [FormatRejected (fst key) (snd key)]\<rparr>)"

definition log_version_once :: "packet_header \<Rightarrow> header_log \<Rightarrow> header_log" where
  "log_version_once h l =
    (let key = (hdr_session_uid h, hdr_packet_id h, hdr_packet_version h) in
     if bs_contains (hl_version_warnings l) key then l
     else l\<lparr>hl_version_warnings := bs_add key (hl_version_warnings l),
            hl_lines := hl_lines l @ [VersionUnexpected (fst key) (fst (snd key)) (snd (snd key))]\<rparr>)"

text \<open>The result is \<open>Inl PacketValidationError\<close> where the source raises.\<close>

definition validate_packet_header :: "packet_header \<Rightarrow> header_log \<Rightarrow> unit py \<times> header_log" where
  "validate_packet_header h l =
    (if hdr_packet_format h \<noteq> 2026 then (Inl PacketValidationError, log_format_rejection_once h l)
     else if hdr_packet_id h < 0 \<or> MAX_PACKET_ID < hdr_packet_id h then (Inl PacketValidationError, l)
     else if MAX_CAR_INDEX < hdr_player_car_index h \<and> hdr_player_car_index h \<noteq> NO_PLAYER_CAR_INDEX
     then (Inl PacketValidationError, l)
     else (Inr (),
       if hdr_packet_version h \<noteq> EXPECTED_PACKET_VERSION then log_version_once h l else l))"

subsection \<open>Facts\<close>

lemma PACKET_HEADER_FORMAT_parse [simp]:
  "parse_format PACKET_HEADER_FORMAT = Inr [FH, FB, FB, FB, FB, FB, FQ, Ff, FI, FI, FB, FB]"
  by (simp add: PACKET_HEADER_FORMAT_def parse_format_def digit_of_char_def field_of_char_def)

lemma PACKET_HEADER_FORMAT_SIZE [simp]: "PACKET_HEADER_FORMAT_SIZE = 29"
  by (simp add: PACKET_HEADER_FORMAT_SIZE_def calcsize_def)

lemma unpack_packet_header_total: "length data = 29 \<Longrightarrow> \<exists>h. unpack_packet_header data = Inr h"
  by (simp add: unpack_packet_header_def struct_unpack_def)

lemma session_key_inj: "session_key h = session_key h' \<longleftrightarrow> hdr_session_uid h = hdr_session_uid h'"
  by (simp add: session_key_def dec_int_inj)

text \<open>Validation accepts exactly the 2026 packets with a known id and a possible player car.\<close>

lemma validate_accepts_iff:
  "fst (validate_packet_header h l) = Inr () \<longleftrightarrow>
     hdr_packet_format h = 2026 \<and> 0 \<le> hdr_packet_id h \<and> hdr_packet_id h \<le> 16
     \<and> (hdr_player_car_index h \<le> 23 \<or> hdr_player_car_index h = 255)"
  by (auto simp: validate_packet_header_def MAX_PACKET_ID_def MAX_CAR_INDEX_def
      NO_PLAYER_CAR_INDEX_def)

definition header_log_wf :: "header_log \<Rightarrow> bool" where
  "header_log_wf l \<longleftrightarrow> bs_wf (hl_format_rejections l) \<and> bs_wf (hl_version_warnings l)"

lemma header_log_wf_init [simp]: "header_log_wf header_log_init"
  by (simp add: header_log_wf_def header_log_init_def)

lemma validate_wf [simp]: "header_log_wf l \<Longrightarrow> header_log_wf (snd (validate_packet_header h l))"
  by (simp add: header_log_wf_def validate_packet_header_def log_format_rejection_once_def
      log_version_once_def Let_def)

end
