(* ===== verification/Car_Packets.thy ===== *)
theory Car_Packets
  imports Packet_Header
begin

text \<open>
  The six packet types that describe one simulation tick, one record per car slot:
  \<open>packets/motion.py\<close> (0), \<open>lap_data.py\<close> (2), \<open>car_telemetry.py\<close> (6), \<open>car_status.py\<close> (7),
  \<open>car_damage.py\<close> (10) and \<open>car_telemetry2.py\<close> (16). Each parser slices the per-car array off the
  body, unpacks it record by record and reads the packet-level tail. The lemmas show that a body
  of the size the dispatcher insists on always parses, to exactly 24 cars.
\<close>

subsection \<open>Arrays of fixed-size records\<close>

lemma iter_unpack_cars:
  assumes "parse_format s = Inr fs" "0 < fields_size fs" "n * fields_size fs \<le> length data"
  shows "iter_unpack s (take (fields_size fs * n) data) =
    Inr (map (unpack_fields fs) (chunks n (fields_size fs) (take (fields_size fs * n) data)))"
  using assms by (intro iter_unpack_ok) (simp_all add: mult.commute min_absorb2)

subsection \<open>Packet 0: motion\<close>

definition CAR_MOTION_FORMAT :: string where
  "CAR_MOTION_FORMAT = ''<6f6h3h3f''"

definition CAR_MOTION_FORMAT_SIZE :: nat where
  "CAR_MOTION_FORMAT_SIZE = calcsize CAR_MOTION_FORMAT"

definition NORM_DIVISOR :: nat where
  "NORM_DIVISOR = 32767"

definition G_FORCE_DIVISOR :: nat where
  "G_FORCE_DIVISOR = 1000"

record car_motion_data =
  mo_world_position_x :: pyfloat
  mo_world_position_y :: pyfloat
  mo_world_position_z :: pyfloat
  mo_world_velocity_x :: pyfloat
  mo_world_velocity_y :: pyfloat
  mo_world_velocity_z :: pyfloat
  mo_world_forward_dir_x :: pyfloat
  mo_world_forward_dir_y :: pyfloat
  mo_world_forward_dir_z :: pyfloat
  mo_world_right_dir_x :: pyfloat
  mo_world_right_dir_y :: pyfloat
  mo_world_right_dir_z :: pyfloat
  mo_g_force_lateral :: pyfloat
  mo_g_force_longitudinal :: pyfloat
  mo_g_force_vertical :: pyfloat
  mo_yaw :: pyfloat
  mo_pitch :: pyfloat
  mo_roll :: pyfloat

record motion_packet =
  mop_header :: packet_header
  mop_car_motion_data :: "car_motion_data list"

definition car_motion_of :: "pyval list \<Rightarrow> car_motion_data" where
  "car_motion_of f =
     \<lparr>mo_world_position_x = float_at f 0, mo_world_position_y = float_at f 1,
      mo_world_position_z = float_at f 2,
      mo_world_velocity_x = float_at f 3, mo_world_velocity_y = float_at f 4,
      mo_world_velocity_z = float_at f 5,
      mo_world_forward_dir_x = f_div (int_at f 6) NORM_DIVISOR,
      mo_world_forward_dir_y = f_div (int_at f 7) NORM_DIVISOR,
      mo_world_forward_dir_z = f_div (int_at f 8) NORM_DIVISOR,
      mo_world_right_dir_x = f_div (int_at f 9) NORM_DIVISOR,
      mo_world_right_dir_y = f_div (int_at f 10) NORM_DIVISOR,
      mo_world_right_dir_z = f_div (int_at f 11) NORM_DIVISOR,
      mo_g_force_lateral = f_div (int_at f 12) G_FORCE_DIVISOR,
      mo_g_force_longitudinal = f_div (int_at f 13) G_FORCE_DIVISOR,
      mo_g_force_vertical = f_div (int_at f 14) G_FORCE_DIVISOR,
      mo_yaw = float_at f 15, mo_pitch = float_at f 16, mo_roll = float_at f 17\<rparr>"

definition unpack_motion :: "packet_header \<Rightarrow> byte list \<Rightarrow> motion_packet py" where
  "unpack_motion h data =
    and_then (iter_unpack CAR_MOTION_FORMAT (take (CAR_MOTION_FORMAT_SIZE * MAX_CARS) data)) (\<lambda>cars.
      Inr \<lparr>mop_header = h, mop_car_motion_data = map car_motion_of cars\<rparr>)"

lemma CAR_MOTION_FORMAT_parse [simp]:
  "parse_format CAR_MOTION_FORMAT = Inr (replicate 6 Ff @ replicate 6 Fh @ replicate 3 Fh @ replicate 3 Ff)"
  by (simp add: CAR_MOTION_FORMAT_def parse_format_def digit_of_char_def field_of_char_def)

lemma CAR_MOTION_FORMAT_SIZE [simp]: "CAR_MOTION_FORMAT_SIZE = 54"
  by (simp add: CAR_MOTION_FORMAT_SIZE_def calcsize_def)

lemma unpack_motion_total:
  assumes "length data = 1296"
  shows "\<exists>p. unpack_motion h data = Inr p \<and> length (mop_car_motion_data p) = MAX_CARS"
  using iter_unpack_cars [OF CAR_MOTION_FORMAT_parse, of MAX_CARS data] assms
  by (simp add: unpack_motion_def MAX_CARS_def)

subsection \<open>Packet 2: lap data\<close>

definition LAP_DATA_FORMAT :: string where
  "LAP_DATA_FORMAT = ''<2LHBHBHBHB3f15B2HBfB''"

definition LAP_DATA_FORMAT_SIZE :: nat where
  "LAP_DATA_FORMAT_SIZE = calcsize LAP_DATA_FORMAT"

record lap_data =
  lap_last_lap_time_in_ms :: int
  lap_current_lap_time_in_ms :: int
  lap_sector1_time_ms_part :: int
  lap_sector1_time_minutes_part :: int
  lap_sector2_time_ms_part :: int
  lap_sector2_time_minutes_part :: int
  lap_delta_to_car_in_front_ms_part :: int
  lap_delta_to_car_in_front_minutes_part :: int
  lap_delta_to_race_leader_ms_part :: int
  lap_delta_to_race_leader_minutes_part :: int
  lap_lap_distance :: pyfloat
  lap_total_distance :: pyfloat
  lap_safety_car_delta :: pyfloat
  lap_car_position :: int
  lap_current_lap_num :: int
  lap_pit_status :: int
  lap_num_pit_stops :: int
  lap_sector :: int
  lap_current_lap_invalid :: int
  lap_penalties :: int
  lap_total_warnings :: int
  lap_corner_cutting_warnings :: int
  lap_num_unserved_drive_through_pens :: int
  lap_num_unserved_stop_go_pens :: int
  lap_grid_position :: int
  lap_driver_status :: int
  lap_result_status :: int
  lap_pit_lane_timer_active :: int
  lap_pit_lane_time_in_lane_in_ms :: int
  lap_pit_stop_timer_in_ms :: int
  lap_pit_stop_should_serve_pen :: int
  lap_speed_trap_fastest_speed :: pyfloat
  lap_speed_trap_fastest_lap :: int

record lap_data_packet =
  lapp_header :: packet_header
  lapp_lap_data :: "lap_data list"
  lapp_time_trial_pb_car_idx :: int
  lapp_time_trial_rival_car_idx :: int

definition lap_data_of :: "pyval list \<Rightarrow> lap_data" where
  "lap_data_of f =
     \<lparr>lap_last_lap_time_in_ms = int_at f 0, lap_current_lap_time_in_ms = int_at f 1,
        lap_sector1_time_ms_part = int_at f 2, lap_sector1_time_minutes_part = int_at f 3,
        lap_sector2_time_ms_part = int_at f 4, lap_sector2_time_minutes_part = int_at f 5,
        lap_delta_to_car_in_front_ms_part = int_at f 6,
        lap_delta_to_car_in_front_minutes_part = int_at f 7,
        lap_delta_to_race_leader_ms_part = int_at f 8,
        lap_delta_to_race_leader_minutes_part = int_at f 9, lap_lap_distance = float_at f 10,
        lap_total_distance = float_at f 11, lap_safety_car_delta = float_at f 12,
        lap_car_position = int_at f 13, lap_current_lap_num = int_at f 14,
        lap_pit_status = int_at f 15, lap_num_pit_stops = int_at f 16, lap_sector = int_at f 17,
        lap_current_lap_invalid = int_at f 18, lap_penalties = int_at f 19,
        lap_total_warnings = int_at f 20, lap_corner_cutting_warnings = int_at f 21,
        lap_num_unserved_drive_through_pens = int_at f 22,
        lap_num_unserved_stop_go_pens = int_at f 23, lap_grid_position = int_at f 24,
        lap_driver_status = int_at f 25, lap_result_status = int_at f 26,
        lap_pit_lane_timer_active = int_at f 27, lap_pit_lane_time_in_lane_in_ms = int_at f 28,
        lap_pit_stop_timer_in_ms = int_at f 29, lap_pit_stop_should_serve_pen = int_at f 30,
        lap_speed_trap_fastest_speed = float_at f 31,
        lap_speed_trap_fastest_lap = int_at f 32\<rparr>"

definition unpack_lap_data :: "packet_header \<Rightarrow> byte list \<Rightarrow> lap_data_packet py" where
  "unpack_lap_data h data =
    (let lap_data_bytes = take (LAP_DATA_FORMAT_SIZE * MAX_CARS) data;
         remaining_bytes = drop (LAP_DATA_FORMAT_SIZE * MAX_CARS) data in
     and_then (iter_unpack LAP_DATA_FORMAT lap_data_bytes) (\<lambda>laps.
     and_then (struct_unpack ''<BB'' remaining_bytes) (\<lambda>r.
       Inr \<lparr>lapp_header = h, lapp_lap_data = map lap_data_of laps,
            lapp_time_trial_pb_car_idx = int_at r 0, lapp_time_trial_rival_car_idx = int_at r 1\<rparr>)))"

lemma LAP_DATA_FORMAT_parse [simp]:
  "parse_format LAP_DATA_FORMAT = Inr ([FI, FI, FH, FB, FH, FB, FH, FB, FH, FB] @ replicate 3 Ff
     @ replicate 15 FB @ [FH, FH, FB, Ff, FB])"
  by (simp add: LAP_DATA_FORMAT_def parse_format_def digit_of_char_def field_of_char_def
      numeral_eq_Suc)

lemma LAP_DATA_FORMAT_SIZE [simp]: "LAP_DATA_FORMAT_SIZE = 57"
  by (simp add: LAP_DATA_FORMAT_SIZE_def calcsize_def)

lemma BB_parse [simp]: "parse_format ''<BB'' = Inr [FB, FB]"
  by (simp add: parse_format_def digit_of_char_def field_of_char_def)

lemma unpack_lap_data_total:
  assumes "length data = 1370"
  shows "\<exists>p. unpack_lap_data h data = Inr p \<and> length (lapp_lap_data p) = MAX_CARS"
  using iter_unpack_cars [OF LAP_DATA_FORMAT_parse, of MAX_CARS data] assms
  by (simp add: unpack_lap_data_def MAX_CARS_def struct_unpack_def Let_def)

subsection \<open>Packet 6: car telemetry\<close>

definition CAR_TELEMETRY_FORMAT :: string where
  "CAR_TELEMETRY_FORMAT = ''<H3fBbHBBH4H4B4BB4f4B''"

definition CAR_TELEMETRY_FORMAT_SIZE :: nat where
  "CAR_TELEMETRY_FORMAT_SIZE = calcsize CAR_TELEMETRY_FORMAT"

definition TELEMETRY_TAIL_FORMAT :: string where
  "TELEMETRY_TAIL_FORMAT = ''<2Bb''"

record car_telemetry_data =
  te_speed :: int
  te_throttle :: pyfloat
  te_steer :: pyfloat
  te_brake :: pyfloat
  te_clutch :: int
  te_gear :: int
  te_engine_rpm :: int
  te_drs :: int
  te_rev_lights_percent :: int
  te_rev_lights_bit_value :: int
  te_brakes_temperature :: "int list"
  te_tyres_surface_temp :: "int list"
  te_tyres_inner_temp :: "int list"
  te_engine_temperature :: int
  te_tyres_pressure :: "pyfloat list"
  te_surface_type :: "int list"

record car_telemetry_packet =
  tep_header :: packet_header
  tep_car_telemetry_data :: "car_telemetry_data list"
  tep_mfd_panel_index :: int
  tep_mfd_panel_index_secondary_player :: int
  tep_suggested_gear :: int

definition car_telemetry_of :: "pyval list \<Rightarrow> car_telemetry_data" where
  "car_telemetry_of f =
     \<lparr>te_speed = int_at f 0, te_throttle = float_at f 1, te_steer = float_at f 2,
        te_brake = float_at f 3, te_clutch = int_at f 4, te_gear = int_at f 5,
        te_engine_rpm = int_at f 6, te_drs = int_at f 7, te_rev_lights_percent = int_at f 8,
        te_rev_lights_bit_value = int_at f 9, te_brakes_temperature = ints_at f 10 14,
        te_tyres_surface_temp = ints_at f 14 18, te_tyres_inner_temp = ints_at f 18 22,
        te_engine_temperature = int_at f 22, te_tyres_pressure = floats_at f 23 27,
        te_surface_type = ints_at f 27 31\<rparr>"

definition unpack_car_telemetry :: "packet_header \<Rightarrow> byte list \<Rightarrow> car_telemetry_packet py" where
  "unpack_car_telemetry h data =
    (let car_array_size = CAR_TELEMETRY_FORMAT_SIZE * MAX_CARS in
     and_then (iter_unpack CAR_TELEMETRY_FORMAT (take car_array_size data)) (\<lambda>cars.
     and_then (unpack_from TELEMETRY_TAIL_FORMAT data car_array_size) (\<lambda>tail.
       Inr \<lparr>tep_header = h, tep_car_telemetry_data = map car_telemetry_of cars,
            tep_mfd_panel_index = int_at tail 0,
            tep_mfd_panel_index_secondary_player = int_at tail 1,
            tep_suggested_gear = int_at tail 2\<rparr>)))"

lemma CAR_TELEMETRY_FORMAT_parse [simp]:
  "parse_format CAR_TELEMETRY_FORMAT = Inr ([FH] @ replicate 3 Ff @ [FB, Fb, FH, FB, FB, FH]
     @ replicate 4 FH @ replicate 4 FB @ replicate 4 FB @ [FB] @ replicate 4 Ff @ replicate 4 FB)"
  by (simp add: CAR_TELEMETRY_FORMAT_def parse_format_def digit_of_char_def field_of_char_def)

lemma CAR_TELEMETRY_FORMAT_SIZE [simp]: "CAR_TELEMETRY_FORMAT_SIZE = 59"
  by (simp add: CAR_TELEMETRY_FORMAT_SIZE_def calcsize_def)

lemma TELEMETRY_TAIL_FORMAT_parse [simp]: "parse_format TELEMETRY_TAIL_FORMAT = Inr [FB, FB, Fb]"
  by (simp add: TELEMETRY_TAIL_FORMAT_def parse_format_def digit_of_char_def field_of_char_def
      numeral_eq_Suc)

lemma unpack_car_telemetry_total:
  assumes "length data = 1419"
  shows "\<exists>p. unpack_car_telemetry h data = Inr p \<and> length (tep_car_telemetry_data p) = MAX_CARS"
  using iter_unpack_cars [OF CAR_TELEMETRY_FORMAT_parse, of MAX_CARS data] assms
  by (simp add: unpack_car_telemetry_def MAX_CARS_def unpack_from_def)

subsection \<open>Packet 16: car telemetry 2\<close>

definition CAR_TELEMETRY2_FORMAT :: string where
  "CAR_TELEMETRY2_FORMAT = ''<2BH2BH2B''"

definition CAR_TELEMETRY2_FORMAT_SIZE :: nat where
  "CAR_TELEMETRY2_FORMAT_SIZE = calcsize CAR_TELEMETRY2_FORMAT"

record car_telemetry2_data =
  t2_active_aero_mode :: int
  t2_active_aero_available :: int
  t2_active_aero_activation_distance :: int
  t2_overtake_available :: int
  t2_overtake_active :: int
  t2_overtake_activation_distance :: int
  t2_regulations_2026 :: int
  t2_driving_wrong_way :: int

record car_telemetry2_packet =
  t2p_header :: packet_header
  t2p_car_telemetry2_data :: "car_telemetry2_data list"

definition car_telemetry2_of :: "pyval list \<Rightarrow> car_telemetry2_data" where
  "car_telemetry2_of f =
     \<lparr>t2_active_aero_mode = int_at f 0, t2_active_aero_available = int_at f 1,
        t2_active_aero_activation_distance = int_at f 2, t2_overtake_available = int_at f 3,
        t2_overtake_active = int_at f 4, t2_overtake_activation_distance = int_at f 5,
        t2_regulations_2026 = int_at f 6, t2_driving_wrong_way = int_at f 7\<rparr>"

definition unpack_car_telemetry2 :: "packet_header \<Rightarrow> byte list \<Rightarrow> car_telemetry2_packet py" where
  "unpack_car_telemetry2 h data =
    and_then (iter_unpack CAR_TELEMETRY2_FORMAT (take (CAR_TELEMETRY2_FORMAT_SIZE * MAX_CARS) data)) (\<lambda>cars.
      Inr \<lparr>t2p_header = h, t2p_car_telemetry2_data = map car_telemetry2_of cars\<rparr>)"

lemma CAR_TELEMETRY2_FORMAT_parse [simp]:
  "parse_format CAR_TELEMETRY2_FORMAT = Inr [FB, FB, FH, FB, FB, FH, FB, FB]"
  by (simp add: CAR_TELEMETRY2_FORMAT_def parse_format_def digit_of_char_def field_of_char_def
      numeral_eq_Suc)

lemma CAR_TELEMETRY2_FORMAT_SIZE [simp]: "CAR_TELEMETRY2_FORMAT_SIZE = 10"
  by (simp add: CAR_TELEMETRY2_FORMAT_SIZE_def calcsize_def)

lemma unpack_car_telemetry2_total:
  assumes "length data = 240"
  shows "\<exists>p. unpack_car_telemetry2 h data = Inr p \<and> length (t2p_car_telemetry2_data p) = MAX_CARS"
  using iter_unpack_cars [OF CAR_TELEMETRY2_FORMAT_parse, of MAX_CARS data] assms
  by (simp add: unpack_car_telemetry2_def MAX_CARS_def)

subsection \<open>Packet 7: car status\<close>

definition CAR_STATUS_FORMAT :: string where
  "CAR_STATUS_FORMAT = ''<5B3f2H2BH3Bb3fB4fB''"

definition CAR_STATUS_FORMAT_SIZE :: nat where
  "CAR_STATUS_FORMAT_SIZE = calcsize CAR_STATUS_FORMAT"

record car_status_data =
  cs_pit_limiter :: int
  cs_drs_allowed :: int
  cs_drs_activation_distance :: int
  cs_actual_tyre_compound :: int
  cs_visual_tyre_compound :: int
  cs_tyres_age_laps :: int
  cs_vehicle_fia_flags :: int
  cs_network_paused :: int
  cs_traction_control :: int
  cs_anti_lock_brakes :: int
  cs_max_rpm :: int
  cs_idle_rpm :: int
  cs_max_gears :: int
  cs_front_brake_bias :: int
  cs_fuel_mix :: int
  cs_fuel_in_tank :: pyfloat
  cs_fuel_capacity :: pyfloat
  cs_fuel_remaining_laps :: pyfloat
  cs_ers_store_energy :: pyfloat
  cs_ers_deploy_mode :: int
  cs_ers_deployed_this_lap :: pyfloat
  cs_ers_harvest_limit_per_lap :: pyfloat
  cs_ers_harvested_this_lap_mguk :: pyfloat
  cs_ers_harvested_this_lap_mguh :: pyfloat
  cs_engine_power_ice :: pyfloat
  cs_engine_power_mguk :: pyfloat

record car_status_packet =
  csp_header :: packet_header
  csp_car_status_data :: "car_status_data list"

definition car_status_of :: "pyval list \<Rightarrow> car_status_data" where
  "car_status_of f =
     \<lparr>cs_pit_limiter = int_at f 4, cs_drs_allowed = int_at f 11,
        cs_drs_activation_distance = int_at f 12, cs_actual_tyre_compound = int_at f 13,
        cs_visual_tyre_compound = int_at f 14, cs_tyres_age_laps = int_at f 15,
        cs_vehicle_fia_flags = int_at f 16, cs_network_paused = int_at f 25,
        cs_traction_control = int_at f 0, cs_anti_lock_brakes = int_at f 1,
        cs_max_rpm = int_at f 8, cs_idle_rpm = int_at f 9, cs_max_gears = int_at f 10,
        cs_front_brake_bias = int_at f 3, cs_fuel_mix = int_at f 2,
        cs_fuel_in_tank = float_at f 5, cs_fuel_capacity = float_at f 6,
        cs_fuel_remaining_laps = float_at f 7, cs_ers_store_energy = float_at f 19,
        cs_ers_deploy_mode = int_at f 20, cs_ers_deployed_this_lap = float_at f 24,
        cs_ers_harvest_limit_per_lap = float_at f 23,
        cs_ers_harvested_this_lap_mguk = float_at f 21,
        cs_ers_harvested_this_lap_mguh = float_at f 22, cs_engine_power_ice = float_at f 17,
        cs_engine_power_mguk = float_at f 18\<rparr>"

definition unpack_car_status :: "packet_header \<Rightarrow> byte list \<Rightarrow> car_status_packet py" where
  "unpack_car_status h data =
    and_then (iter_unpack CAR_STATUS_FORMAT (take (CAR_STATUS_FORMAT_SIZE * MAX_CARS) data)) (\<lambda>cars.
      Inr \<lparr>csp_header = h, csp_car_status_data = map car_status_of cars\<rparr>)"

lemma CAR_STATUS_FORMAT_parse [simp]:
  "parse_format CAR_STATUS_FORMAT = Inr (replicate 5 FB @ replicate 3 Ff @ [FH, FH, FB, FB, FH]
     @ replicate 3 FB @ [Fb] @ replicate 3 Ff @ [FB] @ replicate 4 Ff @ [FB])"
  by (simp add: CAR_STATUS_FORMAT_def parse_format_def digit_of_char_def field_of_char_def
      numeral_eq_Suc)

lemma CAR_STATUS_FORMAT_SIZE [simp]: "CAR_STATUS_FORMAT_SIZE = 59"
  by (simp add: CAR_STATUS_FORMAT_SIZE_def calcsize_def)

lemma unpack_car_status_total:
  assumes "length data = 1416"
  shows "\<exists>p. unpack_car_status h data = Inr p \<and> length (csp_car_status_data p) = MAX_CARS"
  using iter_unpack_cars [OF CAR_STATUS_FORMAT_parse, of MAX_CARS data] assms
  by (simp add: unpack_car_status_def MAX_CARS_def)

subsection \<open>Packet 10: car damage\<close>

definition CAR_DAMAGE_FORMAT :: string where
  "CAR_DAMAGE_FORMAT = ''<4f4B4B4B18B''"

definition CAR_DAMAGE_FORMAT_SIZE :: nat where
  "CAR_DAMAGE_FORMAT_SIZE = calcsize CAR_DAMAGE_FORMAT"

record car_damage_data =
  dm_tyres_wear :: "pyfloat list"
  dm_tyres_damage :: "int list"
  dm_brakes_damage :: "int list"
  dm_tyre_blisters :: "int list"
  dm_front_left_wing_damage :: int
  dm_front_right_wing_damage :: int
  dm_rear_wing_damage :: int
  dm_floor_damage :: int
  dm_diffuser_damage :: int
  dm_sidepod_damage :: int
  dm_drs_fault :: bool
  dm_ers_fault :: bool
  dm_gearbox_damage :: int
  dm_engine_damage :: int
  dm_engine_mguh_wear :: int
  dm_engine_es_wear :: int
  dm_engine_ce_wear :: int
  dm_engine_ice_wear :: int
  dm_engine_mguk_wear :: int
  dm_engine_tc_wear :: int
  dm_engine_blown :: bool
  dm_engine_seized :: bool

record car_damage_packet =
  dmp_header :: packet_header
  dmp_car_damage_data :: "car_damage_data list"

definition car_damage_of :: "pyval list \<Rightarrow> car_damage_data" where
  "car_damage_of f =
     \<lparr>dm_tyres_wear = floats_at f 0 4, dm_tyres_damage = ints_at f 4 8,
        dm_brakes_damage = ints_at f 8 12, dm_tyre_blisters = ints_at f 12 16,
        dm_front_left_wing_damage = int_at f 16, dm_front_right_wing_damage = int_at f 17,
        dm_rear_wing_damage = int_at f 18, dm_floor_damage = int_at f 19,
        dm_diffuser_damage = int_at f 20, dm_sidepod_damage = int_at f 21,
        dm_drs_fault = (int_at f 22 \<noteq> 0), dm_ers_fault = (int_at f 23 \<noteq> 0),
        dm_gearbox_damage = int_at f 24, dm_engine_damage = int_at f 25,
        dm_engine_mguh_wear = int_at f 26, dm_engine_es_wear = int_at f 27,
        dm_engine_ce_wear = int_at f 28, dm_engine_ice_wear = int_at f 29,
        dm_engine_mguk_wear = int_at f 30, dm_engine_tc_wear = int_at f 31,
        dm_engine_blown = (int_at f 32 \<noteq> 0),
        dm_engine_seized = (int_at f 33 \<noteq> 0)\<rparr>"

definition unpack_car_damage :: "packet_header \<Rightarrow> byte list \<Rightarrow> car_damage_packet py" where
  "unpack_car_damage h data =
    and_then (iter_unpack CAR_DAMAGE_FORMAT (take (CAR_DAMAGE_FORMAT_SIZE * MAX_CARS) data)) (\<lambda>cars.
      Inr \<lparr>dmp_header = h, dmp_car_damage_data = map car_damage_of cars\<rparr>)"

lemma CAR_DAMAGE_FORMAT_parse [simp]:
  "parse_format CAR_DAMAGE_FORMAT =
     Inr (replicate 4 Ff @ replicate 4 FB @ replicate 4 FB @ replicate 4 FB @ replicate 18 FB)"
  by (simp add: CAR_DAMAGE_FORMAT_def parse_format_def digit_of_char_def field_of_char_def)

lemma CAR_DAMAGE_FORMAT_SIZE [simp]: "CAR_DAMAGE_FORMAT_SIZE = 46"
  by (simp add: CAR_DAMAGE_FORMAT_SIZE_def calcsize_def)

lemma unpack_car_damage_total:
  assumes "length data = 1104"
  shows "\<exists>p. unpack_car_damage h data = Inr p \<and> length (dmp_car_damage_data p) = MAX_CARS"
  using iter_unpack_cars [OF CAR_DAMAGE_FORMAT_parse, of MAX_CARS data] assms
  by (simp add: unpack_car_damage_def MAX_CARS_def)

end
