(* ===== verification/Session_Packet.thy ===== *)
theory Session_Packet
  imports Car_Packets
begin

text \<open>
  \<open>packets/session.py\<close> (packet 1): session metadata with five fixed-size arrays embedded between
  runs of scalars. The parser walks the body with a running offset; the model keeps each slice.
\<close>

definition MARSHAL_ZONE_FORMAT :: string where
  "MARSHAL_ZONE_FORMAT = ''<fb''"

record marshal_zone =
  mz_zone_start :: pyfloat
  mz_zone_flag :: int

definition WEATHER_FORECAST_SAMPLE_FORMAT :: string where
  "WEATHER_FORECAST_SAMPLE_FORMAT = ''<3B4bB''"

record weather_forecast_sample =
  wf_session_type :: int
  wf_time_offset :: int
  wf_weather :: int
  wf_track_temperature :: int
  wf_track_temperature_change :: int
  wf_air_temperature :: int
  wf_air_temperature_change :: int
  wf_rain_percentage :: int

definition PRE_MARSHAL_ZONES_FORMAT :: string where
  "PRE_MARSHAL_ZONES_FORMAT = ''<BbbBHBbBHH6B''"

definition BETWEEN_MARSHAL_FORECAST_FORMAT :: string where
  "BETWEEN_MARSHAL_FORECAST_FORMAT = ''<BBB''"

definition BETWEEN_FORECAST_WEEKEND_FORMAT :: string where
  "BETWEEN_FORECAST_WEEKEND_FORMAT = ''<2B3I14BI33B''"

definition WEEKEND_STRUCTURE_FORMAT :: string where
  "WEEKEND_STRUCTURE_FORMAT = ''<12B''"

definition REMAINING_FIELDS_FORMAT :: string where
  "REMAINING_FIELDS_FORMAT = ''<2f''"

definition ZONE_FORMAT :: string where
  "ZONE_FORMAT = ''<2f''"

text \<open>\<open>ActiveAeroZone\<close> and \<open>DRSZone\<close> have the same two fields.\<close>

record zone =
  zn_zone_start :: pyfloat
  zn_zone_end :: pyfloat

definition AERO_TRACK_STATUS_FORMAT :: string where
  "AERO_TRACK_STATUS_FORMAT = ''<BB''"

definition NUM_ACTIVE_AERO_ZONES :: nat where
  "NUM_ACTIVE_AERO_ZONES = 8"

definition PARTIAL_AERO_ZONES_COUNT_FORMAT :: string where
  "PARTIAL_AERO_ZONES_COUNT_FORMAT = ''<B''"

definition DRS_ZONES_COUNT_FORMAT :: string where
  "DRS_ZONES_COUNT_FORMAT = ''<B''"

definition NUM_DRS_ZONES :: nat where
  "NUM_DRS_ZONES = 4"

definition TAIL_ASSIST_FIELDS_FORMAT :: string where
  "TAIL_ASSIST_FIELDS_FORMAT = ''<f5B''"

record session_packet =
  sp_header :: packet_header
  sp_weather :: int
  sp_track_temperature :: int
  sp_air_temperature :: int
  sp_total_laps :: int
  sp_track_length :: int
  sp_session_type :: int
  sp_track_id :: int
  sp_formula_type :: int
  sp_session_time_left :: int
  sp_session_duration :: int
  sp_pit_speed_limit :: int
  sp_game_paused :: int
  sp_is_spectating :: int
  sp_spectator_car_index :: int
  sp_sli_pro_native_support :: int
  sp_num_marshal_zones :: int
  sp_marshal_zones :: "marshal_zone list"
  sp_safety_car_status :: int
  sp_network_game :: int
  sp_num_weather_forecast_samples :: int
  sp_weather_forecast_samples :: "weather_forecast_sample list"
  sp_forecast_accuracy :: int
  sp_ai_difficulty :: int
  sp_season_link_identifier :: int
  sp_weekend_link_identifier :: int
  sp_session_link_identifier :: int
  sp_pit_stop_window_ideal_lap :: int
  sp_pit_stop_window_latest_lap :: int
  sp_pit_stop_rejoin_position :: int
  sp_assist_steering :: int
  sp_assist_braking :: int
  sp_assist_gearbox :: int
  sp_assist_pit :: int
  sp_assist_pit_release :: int
  sp_assist_ers :: int
  sp_assist_drs :: int
  sp_dynamic_racing_line :: int
  sp_dynamic_racing_line_type :: int
  sp_game_mode :: int
  sp_rule_set :: int
  sp_time_of_day :: int
  sp_session_length :: int
  sp_speed_units_lead_player :: int
  sp_temperature_units_lead_player :: int
  sp_speed_units_secondary_player :: int
  sp_temperature_units_secondary_player :: int
  sp_num_safety_car_periods :: int
  sp_num_virtual_safety_car_periods :: int
  sp_num_red_flag_periods :: int
  sp_equal_car_performance :: int
  sp_recovery_mode :: int
  sp_flashback_limit :: int
  sp_surface_type :: int
  sp_low_fuel_mode :: int
  sp_race_starts :: int
  sp_tyre_temperature :: int
  sp_pit_lane_tyre_sim :: int
  sp_car_damage :: int
  sp_car_damage_rate :: int
  sp_collisions :: int
  sp_collisions_off_for_first_lap_only :: int
  sp_mp_unsafe_pit_release :: int
  sp_mp_off_for_griefing :: int
  sp_corner_cutting_stringency :: int
  sp_parc_ferme_rules :: int
  sp_pit_stop_experience :: int
  sp_safety_car :: int
  sp_safety_car_experience :: int
  sp_formation_lap :: int
  sp_formation_lap_experience :: int
  sp_red_flags :: int
  sp_affects_licence_level_solo :: int
  sp_affects_licence_level_mp :: int
  sp_num_sessions_in_weekend :: int
  sp_weekend_structure :: "int list"
  sp_sector_2_lap_distance_start :: pyfloat
  sp_sector_3_lap_distance_start :: pyfloat
  sp_active_aero_track_status :: int
  sp_num_active_aero_zones_full :: int
  sp_active_aero_zones_full :: "zone list"
  sp_num_active_aero_zones_partial :: int
  sp_active_aero_zones_partial :: "zone list"
  sp_num_drs_zones :: int
  sp_drs_zones :: "zone list"
  sp_start_reaction_time :: pyfloat
  sp_anti_lock_brakes_assist :: int
  sp_traction_control_assist :: int
  sp_dynamic_racing_line_hi_vis :: int
  sp_dynamic_racing_line_colour_blind :: int
  sp_recurring_rewind_prompt :: int

definition marshal_zone_of :: "pyval list \<Rightarrow> marshal_zone" where
  "marshal_zone_of f = \<lparr>mz_zone_start = float_at f 0, mz_zone_flag = int_at f 1\<rparr>"

definition weather_forecast_sample_of :: "pyval list \<Rightarrow> weather_forecast_sample" where
  "weather_forecast_sample_of f =
     \<lparr>wf_session_type = int_at f 0, wf_time_offset = int_at f 1, wf_weather = int_at f 2,
        wf_track_temperature = int_at f 3, wf_track_temperature_change = int_at f 4,
        wf_air_temperature = int_at f 5, wf_air_temperature_change = int_at f 6,
        wf_rain_percentage = int_at f 7\<rparr>"

definition zone_of :: "pyval list \<Rightarrow> zone" where
  "zone_of f = \<lparr>zn_zone_start = float_at f 0, zn_zone_end = float_at f 1\<rparr>"

text \<open>
  The keyword construction \<open>SessionPacket(**dict(zip(field_names, all_args)))\<close>: the arguments in
  the order of the dataclass fields.
\<close>

definition session_packet_of ::
    "packet_header \<Rightarrow> pyval list \<Rightarrow> marshal_zone list \<Rightarrow> pyval list \<Rightarrow> weather_forecast_sample list \<Rightarrow>
     pyval list \<Rightarrow> int list \<Rightarrow> pyval list \<Rightarrow> pyval list \<Rightarrow> zone list \<Rightarrow> pyval list \<Rightarrow> zone list \<Rightarrow>
     pyval list \<Rightarrow> zone list \<Rightarrow> pyval list \<Rightarrow> session_packet" where
  "session_packet_of h pre marshals mid samples bw weekend rem aero full pc partial dc drs tail =
     \<lparr>sp_header = h, sp_weather = int_at pre 0, sp_track_temperature = int_at pre 1,
        sp_air_temperature = int_at pre 2, sp_total_laps = int_at pre 3,
        sp_track_length = int_at pre 4, sp_session_type = int_at pre 5,
        sp_track_id = int_at pre 6, sp_formula_type = int_at pre 7,
        sp_session_time_left = int_at pre 8, sp_session_duration = int_at pre 9,
        sp_pit_speed_limit = int_at pre 10, sp_game_paused = int_at pre 11,
        sp_is_spectating = int_at pre 12, sp_spectator_car_index = int_at pre 13,
        sp_sli_pro_native_support = int_at pre 14, sp_num_marshal_zones = int_at pre 15,
        sp_marshal_zones = marshals, sp_safety_car_status = int_at mid 0,
        sp_network_game = int_at mid 1, sp_num_weather_forecast_samples = int_at mid 2,
        sp_weather_forecast_samples = samples, sp_forecast_accuracy = int_at bw 0,
        sp_ai_difficulty = int_at bw 1, sp_season_link_identifier = int_at bw 2,
        sp_weekend_link_identifier = int_at bw 3, sp_session_link_identifier = int_at bw 4,
        sp_pit_stop_window_ideal_lap = int_at bw 5, sp_pit_stop_window_latest_lap = int_at bw 6,
        sp_pit_stop_rejoin_position = int_at bw 7, sp_assist_steering = int_at bw 8,
        sp_assist_braking = int_at bw 9, sp_assist_gearbox = int_at bw 10,
        sp_assist_pit = int_at bw 11, sp_assist_pit_release = int_at bw 12,
        sp_assist_ers = int_at bw 13, sp_assist_drs = int_at bw 14,
        sp_dynamic_racing_line = int_at bw 15, sp_dynamic_racing_line_type = int_at bw 16,
        sp_game_mode = int_at bw 17, sp_rule_set = int_at bw 18, sp_time_of_day = int_at bw 19,
        sp_session_length = int_at bw 20, sp_speed_units_lead_player = int_at bw 21,
        sp_temperature_units_lead_player = int_at bw 22,
        sp_speed_units_secondary_player = int_at bw 23,
        sp_temperature_units_secondary_player = int_at bw 24,
        sp_num_safety_car_periods = int_at bw 25,
        sp_num_virtual_safety_car_periods = int_at bw 26,
        sp_num_red_flag_periods = int_at bw 27, sp_equal_car_performance = int_at bw 28,
        sp_recovery_mode = int_at bw 29, sp_flashback_limit = int_at bw 30,
        sp_surface_type = int_at bw 31, sp_low_fuel_mode = int_at bw 32,
        sp_race_starts = int_at bw 33, sp_tyre_temperature = int_at bw 34,
        sp_pit_lane_tyre_sim = int_at bw 35, sp_car_damage = int_at bw 36,
        sp_car_damage_rate = int_at bw 37, sp_collisions = int_at bw 38,
        sp_collisions_off_for_first_lap_only = int_at bw 39,
        sp_mp_unsafe_pit_release = int_at bw 40, sp_mp_off_for_griefing = int_at bw 41,
        sp_corner_cutting_stringency = int_at bw 42, sp_parc_ferme_rules = int_at bw 43,
        sp_pit_stop_experience = int_at bw 44, sp_safety_car = int_at bw 45,
        sp_safety_car_experience = int_at bw 46, sp_formation_lap = int_at bw 47,
        sp_formation_lap_experience = int_at bw 48, sp_red_flags = int_at bw 49,
        sp_affects_licence_level_solo = int_at bw 50,
        sp_affects_licence_level_mp = int_at bw 51, sp_num_sessions_in_weekend = int_at bw 52,
        sp_weekend_structure = weekend, sp_sector_2_lap_distance_start = float_at rem 0,
        sp_sector_3_lap_distance_start = float_at rem 1,
        sp_active_aero_track_status = int_at aero 0,
        sp_num_active_aero_zones_full = int_at aero 1, sp_active_aero_zones_full = full,
        sp_num_active_aero_zones_partial = int_at pc 0, sp_active_aero_zones_partial = partial,
        sp_num_drs_zones = int_at dc 0, sp_drs_zones = drs,
        sp_start_reaction_time = float_at tail 0, sp_anti_lock_brakes_assist = int_at tail 1,
        sp_traction_control_assist = int_at tail 2,
        sp_dynamic_racing_line_hi_vis = int_at tail 3,
        sp_dynamic_racing_line_colour_blind = int_at tail 4,
        sp_recurring_rewind_prompt = int_at tail 5\<rparr>"

definition unpack_session :: "packet_header \<Rightarrow> byte list \<Rightarrow> session_packet py" where
  "unpack_session h data =
    (let o1 = calcsize PRE_MARSHAL_ZONES_FORMAT;
         o2 = o1 + calcsize MARSHAL_ZONE_FORMAT * 21;
         o3 = o2 + calcsize BETWEEN_MARSHAL_FORECAST_FORMAT;
         o4 = o3 + calcsize WEATHER_FORECAST_SAMPLE_FORMAT * 64;
         o5 = o4 + calcsize BETWEEN_FORECAST_WEEKEND_FORMAT;
         o6 = o5 + calcsize WEEKEND_STRUCTURE_FORMAT;
         o7 = o6 + calcsize REMAINING_FIELDS_FORMAT;
         o8 = o7 + calcsize AERO_TRACK_STATUS_FORMAT;
         o9 = o8 + calcsize ZONE_FORMAT * NUM_ACTIVE_AERO_ZONES;
         o10 = o9 + calcsize PARTIAL_AERO_ZONES_COUNT_FORMAT;
         o11 = o10 + calcsize ZONE_FORMAT * NUM_ACTIVE_AERO_ZONES;
         o12 = o11 + calcsize DRS_ZONES_COUNT_FORMAT;
         o13 = o12 + calcsize ZONE_FORMAT * NUM_DRS_ZONES;
         o14 = o13 + calcsize TAIL_ASSIST_FIELDS_FORMAT in
     and_then (struct_unpack PRE_MARSHAL_ZONES_FORMAT (py_slice 0 o1 data)) (\<lambda>pre.
     and_then (iter_unpack MARSHAL_ZONE_FORMAT (py_slice o1 o2 data)) (\<lambda>mzs.
     and_then (struct_unpack BETWEEN_MARSHAL_FORECAST_FORMAT (py_slice o2 o3 data)) (\<lambda>mid.
     and_then (iter_unpack WEATHER_FORECAST_SAMPLE_FORMAT (py_slice o3 o4 data)) (\<lambda>wfs.
     and_then (struct_unpack BETWEEN_FORECAST_WEEKEND_FORMAT (py_slice o4 o5 data)) (\<lambda>bw.
     and_then (struct_unpack WEEKEND_STRUCTURE_FORMAT (py_slice o5 o6 data)) (\<lambda>ws.
     and_then (struct_unpack REMAINING_FIELDS_FORMAT (py_slice o6 o7 data)) (\<lambda>rem.
     and_then (struct_unpack AERO_TRACK_STATUS_FORMAT (py_slice o7 o8 data)) (\<lambda>aero.
     and_then (iter_unpack ZONE_FORMAT (py_slice o8 o9 data)) (\<lambda>full.
     and_then (struct_unpack PARTIAL_AERO_ZONES_COUNT_FORMAT (py_slice o9 o10 data)) (\<lambda>pc.
     and_then (iter_unpack ZONE_FORMAT (py_slice o10 o11 data)) (\<lambda>partial.
     and_then (struct_unpack DRS_ZONES_COUNT_FORMAT (py_slice o11 o12 data)) (\<lambda>dc.
     and_then (iter_unpack ZONE_FORMAT (py_slice o12 o13 data)) (\<lambda>drs.
     and_then (struct_unpack TAIL_ASSIST_FIELDS_FORMAT (py_slice o13 o14 data)) (\<lambda>tail.
       Inr (session_packet_of h pre (map marshal_zone_of mzs) mid (map weather_forecast_sample_of wfs)
         bw (map (int_at ws) [0..<length ws]) rem aero (map zone_of full) pc (map zone_of partial)
         dc (map zone_of drs) tail))))))))))))))))"

lemma session_formats_parse [simp]:
  "parse_format MARSHAL_ZONE_FORMAT = Inr [Ff, Fb]"
  "parse_format WEATHER_FORECAST_SAMPLE_FORMAT = Inr (replicate 3 FB @ replicate 4 Fb @ [FB])"
  "parse_format PRE_MARSHAL_ZONES_FORMAT = Inr ([FB, Fb, Fb, FB, FH, FB, Fb, FB, FH, FH] @ replicate 6 FB)"
  "parse_format BETWEEN_MARSHAL_FORECAST_FORMAT = Inr [FB, FB, FB]"
  "parse_format BETWEEN_FORECAST_WEEKEND_FORMAT =
     Inr (replicate 2 FB @ replicate 3 FI @ replicate 14 FB @ [FI] @ replicate 33 FB)"
  "parse_format WEEKEND_STRUCTURE_FORMAT = Inr (replicate 12 FB)"
  "parse_format REMAINING_FIELDS_FORMAT = Inr (replicate 2 Ff)"
  "parse_format ZONE_FORMAT = Inr (replicate 2 Ff)"
  "parse_format AERO_TRACK_STATUS_FORMAT = Inr [FB, FB]"
  "parse_format PARTIAL_AERO_ZONES_COUNT_FORMAT = Inr [FB]"
  "parse_format DRS_ZONES_COUNT_FORMAT = Inr [FB]"
  "parse_format TAIL_ASSIST_FIELDS_FORMAT = Inr ([Ff] @ replicate 5 FB)"
  by (simp_all add: MARSHAL_ZONE_FORMAT_def WEATHER_FORECAST_SAMPLE_FORMAT_def
      PRE_MARSHAL_ZONES_FORMAT_def BETWEEN_MARSHAL_FORECAST_FORMAT_def
      BETWEEN_FORECAST_WEEKEND_FORMAT_def WEEKEND_STRUCTURE_FORMAT_def
      REMAINING_FIELDS_FORMAT_def ZONE_FORMAT_def AERO_TRACK_STATUS_FORMAT_def
      PARTIAL_AERO_ZONES_COUNT_FORMAT_def DRS_ZONES_COUNT_FORMAT_def
      TAIL_ASSIST_FIELDS_FORMAT_def parse_format_def digit_of_char_def field_of_char_def)

lemma session_calcsizes [simp]:
  "calcsize MARSHAL_ZONE_FORMAT = 5"
  "calcsize WEATHER_FORECAST_SAMPLE_FORMAT = 8"
  "calcsize PRE_MARSHAL_ZONES_FORMAT = 19"
  "calcsize BETWEEN_MARSHAL_FORECAST_FORMAT = 3"
  "calcsize BETWEEN_FORECAST_WEEKEND_FORMAT = 65"
  "calcsize WEEKEND_STRUCTURE_FORMAT = 12"
  "calcsize REMAINING_FIELDS_FORMAT = 8"
  "calcsize ZONE_FORMAT = 8"
  "calcsize AERO_TRACK_STATUS_FORMAT = 2"
  "calcsize PARTIAL_AERO_ZONES_COUNT_FORMAT = 1"
  "calcsize DRS_ZONES_COUNT_FORMAT = 1"
  "calcsize TAIL_ASSIST_FIELDS_FORMAT = 9"
  by (simp_all add: calcsize_def)

lemma iter_unpack_len_ok:
  assumes "parse_format s = Inr fs" "0 < fields_size fs" "fields_size fs dvd length bs"
  shows "\<exists>vs. iter_unpack s bs = Inr vs \<and> length vs = length bs div fields_size fs"
  using assms by (simp add: iter_unpack_def Let_def mod_eq_0_iff_dvd)

text \<open>The arrays' lengths, which is what the services' slices rely on.\<close>

definition session_packet_ok :: "session_packet \<Rightarrow> bool" where
  "session_packet_ok p \<longleftrightarrow> length (sp_marshal_zones p) = 21 \<and> length (sp_weather_forecast_samples p) = 64
     \<and> length (sp_weekend_structure p) = 12 \<and> length (sp_active_aero_zones_full p) = 8
     \<and> length (sp_active_aero_zones_partial p) = 8 \<and> length (sp_drs_zones p) = 4"

lemma unpack_session_total:
  assumes "length data = 897"
  shows "\<exists>p. unpack_session h data = Inr p \<and> session_packet_ok p \<and> sp_header p = h"
proof -
  note it = iter_unpack_len_ok [of MARSHAL_ZONE_FORMAT _ "py_slice 19 124 data"]
    iter_unpack_len_ok [of WEATHER_FORECAST_SAMPLE_FORMAT _ "py_slice 127 639 data"]
    iter_unpack_len_ok [of ZONE_FORMAT _ "py_slice 726 790 data"]
    iter_unpack_len_ok [of ZONE_FORMAT _ "py_slice 791 855 data"]
    iter_unpack_len_ok [of ZONE_FORMAT _ "py_slice 856 888 data"]
  obtain a b c d e where
    "iter_unpack MARSHAL_ZONE_FORMAT (py_slice 19 124 data) = Inr a" "length a = 21"
    "iter_unpack WEATHER_FORECAST_SAMPLE_FORMAT (py_slice 127 639 data) = Inr b" "length b = 64"
    "iter_unpack ZONE_FORMAT (py_slice 726 790 data) = Inr c" "length c = 8"
    "iter_unpack ZONE_FORMAT (py_slice 791 855 data) = Inr d" "length d = 8"
    "iter_unpack ZONE_FORMAT (py_slice 856 888 data) = Inr e" "length e = 4"
    using it assms by auto
  then show ?thesis
    using assms by (simp add: unpack_session_def session_packet_ok_def session_packet_of_def
        struct_unpack_def NUM_ACTIVE_AERO_ZONES_def NUM_DRS_ZONES_def Let_def del: py_slice_0)
qed

end
