(* ===== verification/Repositories.thy ===== *)
theory Repositories
  imports Database Session_Packet
begin

text \<open>
  \<open>database/repositories/\<close>: one group of definitions per repository class, in the order of
  \<open>__init__.py\<close>. Each operation is the statement the class sends, with the column list and the
  conflict clause of the source; a \<open>DO UPDATE SET\<close> clause that lists every column outside its key is
  written \<open>other_columns\<close>. Columns the database fills itself (\<open>updated_at\<close>, \<open>created_at\<close>) are left out.
\<close>

definition other_columns :: "string list \<Rightarrow> string list \<Rightarrow> string list" where
  "other_columns ks cols = filter (\<lambda>c. c \<notin> set ks) cols"

lemma other_columns_disjoint [simp]: "set (other_columns ks cols) \<inter> set ks = {}"
  by (auto simp: other_columns_def)

text \<open>An \<open>INSERT\<close> sent through \<open>_execute\<close>, and a batch sent through \<open>_execute_many\<close>.\<close>

definition insert_row :: "string \<Rightarrow> string list \<Rightarrow> on_conflict \<Rightarrow> pyval list \<Rightarrow> world \<Rightarrow> world" where
  "insert_row t cols oc vals w = snd (execute (sql_insert t cols oc vals) w)"

definition insert_rows :: "string \<Rightarrow> string list \<Rightarrow> on_conflict \<Rightarrow> pyval list list \<Rightarrow> world \<Rightarrow> world" where
  "insert_rows t cols oc rows w = execute_many (map (sql_insert t cols oc) rows) w"

subsection \<open>Frame tables\<close>

definition FRAME_KEY :: "string list" where
  "FRAME_KEY = [''timestamp'', ''session_uid'', ''user_id'', ''overall_frame_identifier'']"

definition CAR_FRAME_COLUMNS :: "string list" where
  "CAR_FRAME_COLUMNS =
     [''timestamp'', ''session_uid'', ''user_id'', ''session_time'',
      ''overall_frame_identifier'', ''world_pos_x'', ''world_pos_y'', ''world_pos_z'',
      ''world_velocity_x'', ''world_velocity_y'', ''world_velocity_z'', ''world_forward_dir_x'',
      ''world_forward_dir_y'', ''world_forward_dir_z'', ''world_right_dir_x'',
      ''world_right_dir_y'', ''world_right_dir_z'', ''g_force_lateral'',
      ''g_force_longitudinal'', ''g_force_vertical'', ''yaw'', ''pitch'', ''roll'', ''speed'',
      ''throttle'', ''steer'', ''brake'', ''clutch'', ''gear'', ''engine_rpm'', ''drs'',
      ''rev_lights_percent'', ''rev_lights_bit_value'', ''engine_temperature'',
      ''brakes_temp_rl'', ''brakes_temp_rr'', ''brakes_temp_fl'', ''brakes_temp_fr'',
      ''tyres_surface_temp_rl'', ''tyres_surface_temp_rr'', ''tyres_surface_temp_fl'',
      ''tyres_surface_temp_fr'', ''tyres_inner_temp_rl'', ''tyres_inner_temp_rr'',
      ''tyres_inner_temp_fl'', ''tyres_inner_temp_fr'', ''tyres_pressure_rl'',
      ''tyres_pressure_rr'', ''tyres_pressure_fl'', ''tyres_pressure_fr'', ''surface_type_rl'',
      ''surface_type_rr'', ''surface_type_fl'', ''surface_type_fr'', ''mfd_panel_index'',
      ''mfd_panel_index_secondary_player'', ''suggested_gear'', ''last_lap_time_ms'',
      ''current_lap_time_ms'', ''sector1_time_ms'', ''sector2_time_ms'', ''lap_distance'',
      ''total_distance'', ''safety_car_delta'', ''position'', ''grid_position'',
      ''current_lap_num'', ''sector'', ''pit_status'', ''driver_status'', ''result_status'',
      ''current_lap_invalid'', ''gap_to_leader_ms'', ''gap_to_car_ahead_ms'',
      ''gap_to_car_behind_ms'', ''num_pit_stops'', ''pit_lane_timer_active'',
      ''pit_lane_time_ms'', ''pit_stop_time_ms'', ''pit_stop_should_serve_pen'',
      ''penalties_seconds'', ''total_warnings'', ''corner_cutting_warnings'',
      ''num_unserved_drive_through_pens'', ''num_unserved_stop_go_pens'',
      ''speed_trap_fastest_speed'', ''speed_trap_fastest_lap'', ''pit_limiter'',
      ''drs_allowed'', ''drs_activation_distance'', ''actual_tyre_compound'',
      ''visual_tyre_compound'', ''tyres_age_laps'', ''vehicle_fia_flags'', ''network_paused'',
      ''traction_control'', ''anti_lock_brakes'', ''max_rpm'', ''idle_rpm'', ''max_gears'',
      ''front_brake_bias'', ''fuel_mix'', ''fuel_in_tank'', ''fuel_capacity'',
      ''fuel_remaining_laps'', ''ers_store_energy'', ''ers_deploy_mode'',
      ''ers_deployed_this_lap'', ''ers_harvest_limit_per_lap'', ''ers_harvested_this_lap_mguk'',
      ''ers_harvested_this_lap_mguh'', ''engine_power_ice'', ''engine_power_mguk'',
      ''active_aero_mode'', ''active_aero_available'', ''active_aero_activation_distance'',
      ''overtake_available'', ''overtake_active'', ''overtake_activation_distance'',
      ''is_2026_regulations'', ''driving_wrong_way'']"

text \<open>\<open>COLUMN_INDEX\<close>, with \<open>KeyError\<close> for a name that is no column.\<close>

definition column_index :: "string \<Rightarrow> nat" where
  "column_index c = length (takeWhile (\<lambda>x. x \<noteq> c) CAR_FRAME_COLUMNS)"

definition car_frame_insert_batch :: "pyval list list \<Rightarrow> world \<Rightarrow> world" where
  "car_frame_insert_batch rows w =
    (if rows = [] then w
     else insert_rows ''telemetry.car_frame'' CAR_FRAME_COLUMNS (DoNothing FRAME_KEY) rows w)"

definition car_frame_delete_after :: "pystr \<Rightarrow> pyfloat \<Rightarrow> int option \<Rightarrow> world \<Rightarrow> nat py \<times> world" where
  "car_frame_delete_after = delete_frames_after ''telemetry.car_frame''"

definition CAR_FRAME_DAMAGE_COLUMNS :: "string list" where
  "CAR_FRAME_DAMAGE_COLUMNS =
     [''timestamp'', ''session_uid'', ''user_id'', ''session_time'',
      ''overall_frame_identifier'', ''tyres_wear_rl'', ''tyres_wear_rr'', ''tyres_wear_fl'',
      ''tyres_wear_fr'', ''tyres_damage_rl'', ''tyres_damage_rr'', ''tyres_damage_fl'',
      ''tyres_damage_fr'', ''brakes_damage_rl'', ''brakes_damage_rr'', ''brakes_damage_fl'',
      ''brakes_damage_fr'', ''tyre_blisters_rl'', ''tyre_blisters_rr'', ''tyre_blisters_fl'',
      ''tyre_blisters_fr'', ''front_left_wing_damage'', ''front_right_wing_damage'',
      ''rear_wing_damage'', ''floor_damage'', ''diffuser_damage'', ''sidepod_damage'',
      ''drs_fault'', ''ers_fault'', ''gearbox_damage'', ''engine_damage'', ''engine_mguh_wear'',
      ''engine_es_wear'', ''engine_ce_wear'', ''engine_ice_wear'', ''engine_mguk_wear'',
      ''engine_tc_wear'', ''engine_blown'', ''engine_seized'']"

definition car_frame_damage_insert_batch :: "pyval list list \<Rightarrow> world \<Rightarrow> world" where
  "car_frame_damage_insert_batch rows w =
    (if rows = [] then w
     else insert_rows ''telemetry.car_frame_damage'' CAR_FRAME_DAMAGE_COLUMNS (DoNothing FRAME_KEY) rows w)"

definition car_frame_damage_delete_after ::
    "pystr \<Rightarrow> pyfloat \<Rightarrow> int option \<Rightarrow> world \<Rightarrow> nat py \<times> world" where
  "car_frame_damage_delete_after = delete_frames_after ''telemetry.car_frame_damage''"

definition per_wheel :: "string \<Rightarrow> string list" where
  "per_wheel prefix = map (\<lambda>corner. prefix @ ''_'' @ corner) [''rl'', ''rr'', ''fl'', ''fr'']"

definition CAR_FRAME_MOTION_EX_COLUMNS :: "string list" where
  "CAR_FRAME_MOTION_EX_COLUMNS =
     [''timestamp'', ''session_uid'', ''user_id'', ''session_time'',
      ''overall_frame_identifier''] @
     per_wheel ''suspension_position'' @
     per_wheel ''suspension_velocity'' @
     per_wheel ''suspension_acceleration'' @
     per_wheel ''wheel_speed'' @
     per_wheel ''wheel_slip_ratio'' @
     per_wheel ''wheel_slip_angle'' @
     per_wheel ''wheel_lat_force'' @
     per_wheel ''wheel_long_force'' @
     per_wheel ''wheel_vert_force'' @
     per_wheel ''wheel_camber'' @
     per_wheel ''wheel_camber_gain'' @
     [''height_of_cog_above_ground'', ''local_velocity_x'', ''local_velocity_y'',
      ''local_velocity_z'', ''angular_velocity_x'', ''angular_velocity_y'',
      ''angular_velocity_z'', ''angular_acceleration_x'', ''angular_acceleration_y'',
      ''angular_acceleration_z'', ''front_wheels_angle'', ''front_aero_height'',
      ''rear_aero_height'', ''front_roll_angle'', ''rear_roll_angle'', ''chassis_yaw'',
      ''chassis_pitch'']"

definition motion_ex_insert :: "pyval list \<Rightarrow> world \<Rightarrow> world" where
  "motion_ex_insert row w =
     insert_row ''telemetry.car_frame_motion_ex'' CAR_FRAME_MOTION_EX_COLUMNS (DoNothing FRAME_KEY) row w"

definition motion_ex_delete_after :: "pystr \<Rightarrow> pyfloat \<Rightarrow> int option \<Rightarrow> world \<Rightarrow> nat py \<times> world" where
  "motion_ex_delete_after = delete_frames_after ''telemetry.car_frame_motion_ex''"

subsection \<open>Car setups\<close>

text \<open>The key of \<open>car_setups\<close>; \<open>setup_id\<close> is serial, taken from the sequence on every attempt.\<close>

definition CAR_SETUP_COLUMNS :: "string list" where
  "CAR_SETUP_COLUMNS =
     [''setup_hash'', ''track_id'', ''user_id'', ''session_uid'', ''front_wing'', ''rear_wing'',
      ''on_throttle'', ''off_throttle'', ''front_camber'', ''rear_camber'', ''front_toe'',
      ''rear_toe'', ''front_suspension'', ''rear_suspension'', ''front_anti_roll_bar'',
      ''rear_anti_roll_bar'', ''front_ride_height'', ''rear_ride_height'', ''brake_pressure'',
      ''brake_bias'', ''engine_braking'', ''front_left_tyre_pressure'',
      ''front_right_tyre_pressure'', ''rear_left_tyre_pressure'', ''rear_right_tyre_pressure'',
      ''ballast'', ''fuel_load'']"

definition SETUP_KEY :: "string list" where
  "SETUP_KEY = [''setup_hash'', ''track_id'', ''user_id'']"

definition upsert_setup_txn :: "pyval list \<Rightarrow> db \<Rightarrow> (int option \<times> db) py" where
  "upsert_setup_txn vals d =
    (let t = ''telemetry.car_setups''; n = db_seq d t;
         d1 = d\<lparr>db_seq := (db_seq d)(t := n + 1)\<rparr>;
         r = zip (''setup_id'' # CAR_SETUP_COLUMNS) (PInt n # vals) in
     and_then (sql_insert t (''setup_id'' # CAR_SETUP_COLUMNS) (DoNothing SETUP_KEY) (PInt n # vals) d1)
       (\<lambda>(cnt, d2).
          if cnt = 0
          then Inr (map_option (\<lambda>row. as_int (col row ''setup_id'')) (lookup_row SETUP_KEY r (db_tables d2 t)), d2)
          else Inr (Some n, d2)))"

definition upsert_setup ::
    "byte list \<Rightarrow> int \<Rightarrow> pyval list \<Rightarrow> int \<Rightarrow> pystr \<Rightarrow> world \<Rightarrow> int option \<times> world" where
  "upsert_setup setup_hash track_id vals user_id session_uid w =
    (if \<not> w_enabled w then (None, w)
     else case run_txn (upsert_setup_txn
              ([PBytes setup_hash, PInt track_id, PInt user_id, PStr session_uid] @ vals)) w of
         (Inl _, w') \<Rightarrow> (None, w')
       | (Inr x, w') \<Rightarrow> (x, w'))"

subsection \<open>Entries\<close>

text \<open>
  \<open>LIMIT 1\<close> without an order may answer any matching row; the model takes the first in insertion
  order. A \<open>NULL\<close> link matches nothing.
\<close>

definition weekend_driver_rows :: "pystr \<Rightarrow> int \<Rightarrow> int \<Rightarrow> db \<Rightarrow> pyval list" where
  "weekend_driver_rows session_uid team_id race_number d =
    (let links = [col s ''weekend_link''. s \<leftarrow> db_tables d ''telemetry.sessions'',
                    col s ''session_uid'' = PStr session_uid] in
     [col u ''driver_name''. e \<leftarrow> db_tables d ''telemetry.entries'',
        s \<leftarrow> db_tables d ''telemetry.sessions'', u \<leftarrow> db_tables d ''identity.users'',
        col s ''session_uid'' = col e ''session_uid'' \<and> col u ''id'' = col e ''user_id''
        \<and> col s ''weekend_link'' \<noteq> PNone \<and> col s ''weekend_link'' \<in> set links
        \<and> col e ''team_id'' = PInt team_id \<and> col e ''race_number'' = PInt race_number
        \<and> col e ''session_uid'' \<noteq> PStr session_uid])"

fun as_str :: "pyval \<Rightarrow> pystr option" where
  "as_str (PStr s) = Some s"
| "as_str _ = None"

definition find_weekend_driver_name :: "pystr \<Rightarrow> int \<Rightarrow> int \<Rightarrow> world \<Rightarrow> pystr option \<times> world" where
  "find_weekend_driver_name session_uid team_id race_number w =
    (case query (weekend_driver_rows session_uid team_id race_number) w of
       (Some (v # _), w') \<Rightarrow> (as_str v, w')
     | (_, w') \<Rightarrow> (None, w'))"

text \<open>\<open>'^Player \d+$'\<close>, its number, and the cast to a 32-bit integer, which raises when it overflows.\<close>

definition player_number :: "pyval \<Rightarrow> nat option" where
  "player_number v = (case v of
      PStr s \<Rightarrow>
        (let ds = drop 7 s in
         if take 7 s = ascii ''Player '' \<and> ds \<noteq> [] \<and> list_all (\<lambda>c. 48 \<le> c \<and> c \<le> 57) ds
         then Some (undec ds) else None)
    | _ \<Rightarrow> None)"

definition player_numbers :: "db \<Rightarrow> nat list" where
  "player_numbers d = List.map_filter (\<lambda>u. player_number (col u ''driver_name'')) (db_tables d ''identity.users'')"

definition max_player_number :: "world \<Rightarrow> int \<times> world" where
  "max_player_number w = (case query player_numbers w of
      (Some ns, w') \<Rightarrow>
        (if list_all (\<lambda>n. n < 2 ^ 31) ns then (int (foldr max ns 0), w') else (0, w'))
    | (None, w') \<Rightarrow> (0, w'))"

text \<open>\<open>str.title\<close> on ASCII letters.\<close>

fun title_from :: "bool \<Rightarrow> pystr \<Rightarrow> pystr" where
  "title_from inside [] = []"
| "title_from inside (c # cs) =
    (if 97 \<le> c \<and> c \<le> 122 then (if inside then c else c - 32) # title_from True cs
     else if 65 \<le> c \<and> c \<le> 90 then (if inside then c + 32 else c) # title_from True cs
     else c # title_from False cs)"

definition display_name :: "pystr \<Rightarrow> pystr" where
  "display_name name = title_from False (map (\<lambda>c. if c = 95 then 32 else c) name)"

definition TEAM_COLUMNS :: "string list" where
  "TEAM_COLUMNS =
     [''team_id'', ''name'', ''display_name'']"

definition ensure_teams :: "int list \<Rightarrow> world \<Rightarrow> world" where
  "ensure_teams team_ids w =
    (if team_ids = [] then w
     else insert_rows ''telemetry.teams'' TEAM_COLUMNS (DoNothing [''team_id''])
       (map (\<lambda>t. let name = safe_enum_name Teams t in [PInt t, PStr name, PStr (display_name name)])
          (sort (remdups team_ids))) w)"

text \<open>
  \<open>identity.get_or_create_driver\<close> (\<open>schema/identity/get_or_create_driver.sql\<close>): the user whose name
  matches up to case, or a new one.
\<close>

definition same_driver :: "pystr \<Rightarrow> row \<Rightarrow> bool" where
  "same_driver name u = (case col u ''driver_name'' of PStr s \<Rightarrow> lower s = lower name | _ \<Rightarrow> False)"

definition get_or_create_driver :: "pystr \<Rightarrow> db \<Rightarrow> int \<times> db" where
  "get_or_create_driver name d =
    (let t = ''identity.users'' in
     case find (same_driver name) (db_tables d t) of
       Some u \<Rightarrow> (as_int (col u ''id''), d)
     | None \<Rightarrow>
         let n = db_seq d t in
         (n, d\<lparr>db_tables := (db_tables d)(t := db_tables d t @ [[(''id'', PInt n), (''driver_name'', PStr name)]]),
               db_seq := (db_seq d)(t := n + 1)\<rparr>))"

fun resolve_names :: "pystr list \<Rightarrow> db \<Rightarrow> (pystr \<times> int) list \<times> db" where
  "resolve_names [] d = ([], d)"
| "resolve_names (n # ns) d =
    (let (i, d') = get_or_create_driver n d; (rest, d'') = resolve_names ns d' in ((n, i) # rest, d''))"

text \<open>A user map sends the car indices of the human drivers to their user ids.\<close>

type_synonym user_map = "(int \<times> int) list"

record entry =
  en_session_uid :: pystr
  en_car_index :: int
  en_driver_name :: pystr
  en_team_id :: int
  en_race_number :: int
  en_nationality :: int
  en_driver_id :: int
  en_network_id :: int
  en_my_team :: bool
  en_platform :: int
  en_tech_level :: int
  en_show_online_names :: bool
  en_telemetry_public :: bool
  en_num_livery_colors :: int
  en_livery_colors :: "int list"

definition resolve_user_ids :: "entry list \<Rightarrow> world \<Rightarrow> (pystr \<times> int) list \<times> world" where
  "resolve_user_ids entries w =
    (if entries = [] \<or> \<not> w_enabled w then ([], w)
     else case run_txn (\<lambda>d. Inr (resolve_names (w_set_order w (remdups (map en_driver_name entries))) d)) w of
         (Inl _, w') \<Rightarrow> ([], w')
       | (Inr m, w') \<Rightarrow> (m, w'))"

definition ENTRY_COLUMNS :: "string list" where
  "ENTRY_COLUMNS =
     [''session_uid'', ''user_id'', ''car_index'', ''team_id'', ''race_number'', ''driver_id'',
      ''network_id'', ''my_team'', ''platform'', ''tech_level'', ''show_online_names'',
      ''telemetry_public'', ''num_livery_colors'', ''livery_colors'']"

definition ENTRY_CONFLICT :: on_conflict where
  "ENTRY_CONFLICT = (let ks = [''session_uid'', ''car_index''] in DoUpdate ks (other_columns ks ENTRY_COLUMNS))"

definition entry_params :: "entry \<Rightarrow> int \<Rightarrow> pyval list" where
  "entry_params e user_id =
     [PStr (en_session_uid e), PInt user_id, PInt (en_car_index e),
      PInt (en_team_id e), PInt (en_race_number e), PInt (en_driver_id e), PInt (en_network_id e),
      PBool (en_my_team e), PStr (safe_enum_name Platform (en_platform e)), PInt (en_tech_level e),
      PBool (en_show_online_names e), PBool (en_telemetry_public e),
      PInt (en_num_livery_colors e), PList (map PInt (en_livery_colors e))]"

definition set_nationality :: "pystr \<Rightarrow> int \<Rightarrow> db \<Rightarrow> (nat \<times> db) py" where
  "set_nationality nationality user_id =
     sql_update ''identity.users''
       (\<lambda>r. col r ''id'' = PInt user_id \<and> col r ''nationality'' = PNone)
       (set_excluded [''nationality''] [(''nationality'', PStr nationality)])"

text \<open>The result maps car indices to user ids, later entries overriding earlier ones.\<close>

definition insert_entries_batch :: "entry list \<Rightarrow> world \<Rightarrow> user_map \<times> world" where
  "insert_entries_batch entries w =
    (if entries = [] then ([], w)
     else
       let entries = map (\<lambda>e. e\<lparr>en_driver_name := remove_nul (en_driver_name e)\<rparr>) entries;
           w1 = ensure_teams (map en_team_id entries) w;
           (ids, w2) = resolve_user_ids entries w1;
           known = List.map_filter (\<lambda>e. map_option (Pair e) (map_of ids (en_driver_name e))) entries
       in if known = [] then ([], w2)
          else case execute_many_strict
                 (map (\<lambda>(e, i). sql_insert ''telemetry.entries'' ENTRY_COLUMNS ENTRY_CONFLICT (entry_params e i)) known) w2 of
              (Inl _, w3) \<Rightarrow> ([], w3)
            | (Inr _, w3) \<Rightarrow>
                (dict_of (map (\<lambda>(e, i). (en_car_index e, i)) known),
                 execute_many (map (\<lambda>(e, i). set_nationality (safe_enum_name Nationalities (en_nationality e)) i) known) w3))"

subsection \<open>Events\<close>

definition events_buttons_insert :: "pystr \<Rightarrow> int \<Rightarrow> pyfloat \<Rightarrow> int \<Rightarrow> pystr list \<Rightarrow> world \<Rightarrow> world" where
  "events_buttons_insert session_uid frame session_time button_status buttons_pressed =
     insert_row ''telemetry.events_buttons''
       [''session_uid'', ''overall_frame_identifier'', ''session_time'', ''button_status'',
      ''buttons_pressed'']
       (DoNothing [''session_uid'', ''overall_frame_identifier''])
       [PStr session_uid, PInt frame, PFloat session_time, PInt button_status,
        PList (map PStr buttons_pressed)]"

definition events_collisions_insert ::
    "pystr \<Rightarrow> int \<Rightarrow> pyfloat \<Rightarrow> int \<Rightarrow> int \<Rightarrow> int option \<Rightarrow> world \<Rightarrow> world" where
  "events_collisions_insert session_uid frame session_time user1_id user2_id severity =
     insert_row ''telemetry.events_collisions''
       [''session_uid'', ''overall_frame_identifier'', ''session_time'', ''user1_id'',
      ''user2_id'', ''severity'']
       (DoNothing [''session_uid'', ''overall_frame_identifier'', ''user1_id''])
       [PStr session_uid, PInt frame, PFloat session_time, PInt user1_id, PInt user2_id,
        opt_int severity]"

definition events_driver_actions_insert ::
    "pystr \<Rightarrow> int \<Rightarrow> string \<Rightarrow> pyfloat \<Rightarrow> int \<Rightarrow> pyfloat option \<Rightarrow> world \<Rightarrow> world" where
  "events_driver_actions_insert session_uid frame event_code session_time user_id stop_time =
     insert_row ''telemetry.events_driver_actions''
       [''session_uid'', ''overall_frame_identifier'', ''event_code'', ''session_time'',
      ''user_id'', ''stop_time'']
       (DoNothing [''session_uid'', ''overall_frame_identifier'', ''event_code'', ''user_id''])
       [PStr session_uid, PInt frame, PStr (ascii event_code), PFloat session_time, PInt user_id,
        opt_float stop_time]"

definition events_fastest_laps_insert ::
    "pystr \<Rightarrow> int \<Rightarrow> pyfloat \<Rightarrow> int \<Rightarrow> pyfloat \<Rightarrow> world \<Rightarrow> world" where
  "events_fastest_laps_insert session_uid frame session_time user_id lap_time =
     insert_row ''telemetry.events_fastest_laps''
       [''session_uid'', ''overall_frame_identifier'', ''session_time'', ''user_id'', ''lap_time'']
       (DoNothing [''session_uid'', ''overall_frame_identifier'', ''user_id''])
       [PStr session_uid, PInt frame, PFloat session_time, PInt user_id, PFloat lap_time]"

definition events_flashbacks_insert ::
    "pystr \<Rightarrow> int \<Rightarrow> pyfloat \<Rightarrow> int \<Rightarrow> pyfloat \<Rightarrow> int \<Rightarrow> world \<Rightarrow> world" where
  "events_flashbacks_insert session_uid frame session_time fb_frame fb_time rows_discarded =
     insert_row ''telemetry.events_flashbacks''
       [''session_uid'', ''overall_frame_identifier'', ''session_time'',
      ''flashback_frame_identifier'', ''flashback_session_time'', ''rows_discarded'']
       (DoNothing [''session_uid'', ''overall_frame_identifier''])
       [PStr session_uid, PInt frame, PFloat session_time, PInt fb_frame, PFloat fb_time,
        PInt rows_discarded]"

definition events_overtakes_insert ::
    "pystr \<Rightarrow> int \<Rightarrow> pyfloat \<Rightarrow> int \<Rightarrow> int \<Rightarrow> world \<Rightarrow> world" where
  "events_overtakes_insert session_uid frame session_time overtaking_user_id overtaken_user_id =
     insert_row ''telemetry.events_overtakes''
       [''session_uid'', ''overall_frame_identifier'', ''session_time'', ''overtaking_user_id'',
      ''overtaken_user_id'']
       (DoNothing [''session_uid'', ''overall_frame_identifier'', ''overtaking_user_id''])
       [PStr session_uid, PInt frame, PFloat session_time, PInt overtaking_user_id,
        PInt overtaken_user_id]"

definition events_penalties_insert ::
    "pystr \<Rightarrow> int \<Rightarrow> pyfloat \<Rightarrow> int \<Rightarrow> int option \<Rightarrow> pystr \<Rightarrow> pystr
     \<Rightarrow> int option \<Rightarrow> int option \<Rightarrow> int option \<Rightarrow> world \<Rightarrow> world" where
  "events_penalties_insert session_uid frame session_time user_id other_user_id
       penalty_type infringement_type time_seconds lap_num places_gained =
     insert_row ''telemetry.events_penalties''
       [''session_uid'', ''overall_frame_identifier'', ''session_time'', ''user_id'',
      ''other_user_id'', ''penalty_type'', ''infringement_type'', ''time_seconds'', ''lap_num'',
      ''places_gained'']
       (DoNothing [''session_uid'', ''overall_frame_identifier'', ''user_id'', ''penalty_type''])
       [PStr session_uid, PInt frame, PFloat session_time, PInt user_id, opt_int other_user_id,
        PStr penalty_type, PStr infringement_type, opt_int time_seconds, opt_int lap_num,
        opt_int places_gained]"

definition opt_str :: "pystr option \<Rightarrow> pyval" where
  "opt_str x = (case x of None \<Rightarrow> PNone | Some s \<Rightarrow> PStr s)"

definition events_race_control_insert ::
    "pystr \<Rightarrow> int \<Rightarrow> string \<Rightarrow> pyfloat \<Rightarrow> pystr option \<Rightarrow> pystr option \<Rightarrow> int option
     \<Rightarrow> pystr option \<Rightarrow> world \<Rightarrow> world" where
  "events_race_control_insert session_uid frame event_code session_time
       safety_car_type safety_car_event_type num_lights drs_disabled_reason =
     insert_row ''telemetry.events_race_control''
       [''session_uid'', ''overall_frame_identifier'', ''event_code'', ''session_time'',
      ''safety_car_type'', ''safety_car_event_type'', ''num_lights'', ''drs_disabled_reason'']
       (DoNothing [''session_uid'', ''overall_frame_identifier'', ''event_code''])
       [PStr session_uid, PInt frame, PStr (ascii event_code), PFloat session_time,
        opt_str safety_car_type, opt_str safety_car_event_type, opt_int num_lights,
        opt_str drs_disabled_reason]"

definition events_retirements_insert ::
    "pystr \<Rightarrow> int \<Rightarrow> pyfloat \<Rightarrow> int \<Rightarrow> pystr \<Rightarrow> world \<Rightarrow> world" where
  "events_retirements_insert session_uid frame session_time user_id reason =
     insert_row ''telemetry.events_retirements''
       [''session_uid'', ''overall_frame_identifier'', ''session_time'', ''user_id'', ''reason'']
       (DoNothing [''session_uid'', ''overall_frame_identifier'', ''user_id''])
       [PStr session_uid, PInt frame, PFloat session_time, PInt user_id, PStr reason]"

definition events_speed_traps_insert ::
    "pystr \<Rightarrow> int \<Rightarrow> pyfloat \<Rightarrow> int \<Rightarrow> pyfloat \<Rightarrow> bool \<Rightarrow> bool \<Rightarrow> int option \<Rightarrow> pyfloat
     \<Rightarrow> world \<Rightarrow> world" where
  "events_speed_traps_insert session_uid frame session_time user_id speed is_overall_fastest
       is_driver_fastest fastest_user_id fastest_speed =
     insert_row ''telemetry.events_speed_traps''
       [''session_uid'', ''overall_frame_identifier'', ''session_time'', ''user_id'', ''speed'',
      ''is_overall_fastest'', ''is_driver_fastest'', ''fastest_user_id'', ''fastest_speed'']
       (DoNothing [''session_uid'', ''overall_frame_identifier'', ''user_id''])
       [PStr session_uid, PInt frame, PFloat session_time, PInt user_id, PFloat speed,
        PBool is_overall_fastest, PBool is_driver_fastest, opt_int fastest_user_id,
        PFloat fastest_speed]"

subsection \<open>Classification\<close>

text \<open>The records the service builds are dictionaries: \<open>c[key]\<close> reads one.\<close>

definition dict_get :: "(string \<times> pyval) list \<Rightarrow> string \<Rightarrow> pyval py" where
  "dict_get c k = (case map_of c k of None \<Rightarrow> Inl PyKeyError | Some v \<Rightarrow> Inr v)"

definition RACE_CLASSIFICATION_COLUMNS :: "string list" where
  "RACE_CLASSIFICATION_COLUMNS =
     [''session_uid'', ''user_id'', ''position'', ''num_laps'', ''grid_position'',
      ''num_pit_stops'', ''result_status'', ''result_reason'', ''best_lap_time_ms'',
      ''game_points'', ''total_race_time'', ''penalties_time'', ''num_penalties'',
      ''num_tyre_stints'', ''tyre_stints_actual'', ''tyre_stints_visual'',
      ''tyre_stints_end_laps'']"

definition QUALIFYING_CLASSIFICATION_COLUMNS :: "string list" where
  "QUALIFYING_CLASSIFICATION_COLUMNS =
     [''session_uid'', ''user_id'', ''position'', ''num_laps'', ''best_lap_time_ms'',
      ''result_status'', ''result_reason'', ''game_points'', ''penalties_time'',
      ''num_penalties'']"

text \<open>
  The parameters are the values under the column names, with the two status codes as their names.
\<close>

definition classification_param :: "(string \<times> pyval) list \<Rightarrow> string \<Rightarrow> pyval py" where
  "classification_param c k =
    (if k = ''result_status''
     then and_then (dict_get c k) (\<lambda>v. Inr (PStr (safe_enum_name ResultStatus (as_int v))))
     else if k = ''result_reason''
     then (case map_of c k of
             None \<Rightarrow> Inr PNone
           | Some PNone \<Rightarrow> Inr PNone
           | Some v \<Rightarrow> Inr (PStr (safe_enum_name ResultReason (as_int v))))
     else dict_get c k)"

definition insert_classification_batch ::
    "string \<Rightarrow> string list \<Rightarrow> (string \<times> pyval) list list \<Rightarrow> world \<Rightarrow> unit py \<times> world" where
  "insert_classification_batch t cols cs w =
    (if cs = [] then (Inr (), w)
     else case map_py (\<lambda>c. map_py (classification_param c) cols) cs of
         Inl e \<Rightarrow> (Inl e, w)
       | Inr rows \<Rightarrow>
           let ks = [''session_uid'', ''user_id''] in
           execute_many_strict (map (sql_insert t cols (DoUpdate ks (other_columns ks cols))) rows) w)"

definition insert_race_classification_batch where
  "insert_race_classification_batch =
     insert_classification_batch ''telemetry.race_classification'' RACE_CLASSIFICATION_COLUMNS"

definition insert_qualifying_classification_batch where
  "insert_qualifying_classification_batch =
     insert_classification_batch ''telemetry.qualifying_classification'' QUALIFYING_CLASSIFICATION_COLUMNS"

subsection \<open>Laps, stints, tyre sets, positions, bests, lobby\<close>

definition LAP_POSITION_COLUMNS :: "string list" where
  "LAP_POSITION_COLUMNS = [''session_uid'', ''lap_number'', ''positions'']"

definition upsert_lap_positions :: "pystr \<Rightarrow> int \<Rightarrow> int list \<Rightarrow> world \<Rightarrow> world" where
  "upsert_lap_positions session_uid lap_number positions =
     insert_row ''telemetry.lap_positions'' LAP_POSITION_COLUMNS
       (DoUpdate [''session_uid'', ''lap_number''] [''positions''])
       [PStr session_uid, PInt lap_number, PList (map PInt positions)]"

definition insert_lap_setup :: "pystr \<Rightarrow> int \<Rightarrow> int \<Rightarrow> int \<Rightarrow> pyfloat option \<Rightarrow> world \<Rightarrow> world" where
  "insert_lap_setup session_uid user_id lap_number setup_id next_front_wing_value =
     insert_row ''telemetry.lap_setups''
       [''session_uid'', ''user_id'', ''lap_number'', ''setup_id'', ''next_front_wing_value'']
       (DoNothing [''session_uid'', ''user_id'', ''lap_number''])
       [PStr session_uid, PInt user_id, PInt lap_number, PInt setup_id,
        opt_float next_front_wing_value]"

definition LAP_KEY :: "string list" where
  "LAP_KEY = [''session_uid'', ''user_id'', ''lap_number'']"

definition LAP_COLUMNS :: "string list" where
  "LAP_COLUMNS =
     [''session_uid'', ''user_id'', ''lap_number'', ''lap_time_ms'', ''sector1_time_ms'',
      ''sector2_time_ms'', ''sector3_time_ms'', ''is_valid'', ''sector1_valid'',
      ''sector2_valid'', ''sector3_valid'']"

definition upsert_laps_batch :: "pyval list list \<Rightarrow> world \<Rightarrow> world" where
  "upsert_laps_batch laps w =
    (if laps = [] then w
     else insert_rows ''telemetry.laps'' LAP_COLUMNS (DoUpdate LAP_KEY (other_columns LAP_KEY LAP_COLUMNS)) laps w)"

definition lobby_info_upsert :: "pystr \<Rightarrow> (string \<times> pyval) list list \<Rightarrow> int \<Rightarrow> world \<Rightarrow> world" where
  "lobby_info_upsert session_uid players num_players =
     insert_row ''telemetry.lobby_info''
       [''session_uid'', ''num_players'', ''players'']
       (DoUpdate [''session_uid''] [''num_players'', ''players''])
       [PStr session_uid, PInt num_players, PJson (PList (map PDict players))]"

definition BESTS_KEY :: "string list" where
  "BESTS_KEY = [''session_uid'', ''user_id'']"

definition BESTS_COLUMNS :: "string list" where
  "BESTS_COLUMNS =
     [''session_uid'', ''user_id'', ''best_lap_num'', ''best_sector1_lap_num'',
      ''best_sector2_lap_num'', ''best_sector3_lap_num'']"

definition session_bests_upsert :: "pyval list \<Rightarrow> world \<Rightarrow> world" where
  "session_bests_upsert =
     insert_row ''telemetry.session_bests'' BESTS_COLUMNS (DoUpdate BESTS_KEY (other_columns BESTS_KEY BESTS_COLUMNS))"

definition SESSION_TIMELINE_COLUMNS :: "string list" where
  "SESSION_TIMELINE_COLUMNS =
     [''timestamp'', ''session_uid'', ''session_time'', ''overall_frame_identifier'',
      ''session_time_left'', ''total_laps'', ''weather_state'', ''weather_track_temp'',
      ''weather_air_temp'', ''safety_car_status'', ''marshal_zone_flags'',
      ''num_safety_car_periods'', ''num_virtual_safety_car_periods'', ''num_red_flag_periods'',
      ''game_paused'', ''is_spectating'', ''spectator_car_index'',
      ''pit_stop_window_ideal_lap'', ''pit_stop_window_latest_lap'',
      ''pit_stop_rejoin_position'']"

definition insert_timeline_entry :: "pyval list \<Rightarrow> world \<Rightarrow> world" where
  "insert_timeline_entry =
     insert_row ''telemetry.session_timeline'' SESSION_TIMELINE_COLUMNS
       (DoNothing [''timestamp'', ''session_uid''])"

definition TYRE_SET_COLUMNS :: "string list" where
  "TYRE_SET_COLUMNS =
     [''session_uid'', ''user_id'', ''lap_number'', ''set_index'', ''actual_compound'',
      ''visual_compound'', ''wear'', ''life_span'', ''usable_life'', ''recommended_session'',
      ''lap_delta_time_ms'', ''fitted'']"

definition insert_snapshot :: "pyval list list \<Rightarrow> world \<Rightarrow> world" where
  "insert_snapshot =
     insert_rows ''telemetry.tyre_sets'' TYRE_SET_COLUMNS
       (DoNothing [''session_uid'', ''user_id'', ''lap_number'', ''set_index''])"

definition STINT_KEY :: "string list" where
  "STINT_KEY = [''session_uid'', ''user_id'', ''stint_number'']"

definition STINT_COLUMNS :: "string list" where
  "STINT_COLUMNS =
     [''session_uid'', ''user_id'', ''stint_number'', ''end_lap'', ''actual_compound'',
      ''visual_compound'']"

definition upsert_stints_batch :: "pyval list list \<Rightarrow> world \<Rightarrow> world" where
  "upsert_stints_batch stints w =
    (if stints = [] then w
     else insert_rows ''telemetry.tyre_stints'' STINT_COLUMNS
            (DoUpdate STINT_KEY (other_columns STINT_KEY STINT_COLUMNS)) stints w)"

subsection \<open>Sessions, tracks and the forecast\<close>

definition SESSION_COLUMNS :: "string list" where
  "SESSION_COLUMNS =
     [''session_uid'', ''weekend_link'', ''session_link'', ''season_link'',
      ''session_start_utc'', ''track_id'', ''session_type'', ''formula'', ''game_mode'',
      ''ruleset'', ''total_laps'', ''session_duration'', ''num_sessions_in_weekend'',
      ''weekend_structure'', ''time_of_day'', ''session_length'', ''network_game'',
      ''ai_difficulty'', ''forecast_accuracy'', ''equal_car_performance'',
      ''sli_pro_native_support'', ''assist_steering'', ''assist_braking'', ''assist_gearbox'',
      ''assist_pit'', ''assist_pit_release'', ''assist_ers'', ''assist_drs'',
      ''assist_anti_lock_brakes'', ''assist_traction_control'', ''dynamic_racing_line'',
      ''dynamic_racing_line_type'', ''dynamic_racing_line_hi_vis'',
      ''dynamic_racing_line_colour_blind'', ''recovery_mode'', ''flashback_limit'',
      ''recurring_rewind_prompt'', ''surface_type'', ''low_fuel_mode'', ''race_starts'',
      ''tyre_temperature'', ''pit_lane_tyre_sim'', ''car_damage'', ''car_damage_rate'',
      ''collisions'', ''collisions_off_for_first_lap_only'', ''mp_unsafe_pit_release'',
      ''mp_off_for_griefing'', ''corner_cutting_stringency'', ''parc_ferme_rules'',
      ''pit_stop_experience'', ''safety_car'', ''safety_car_experience'', ''formation_lap'',
      ''formation_lap_experience'', ''red_flags'', ''affects_licence_level_solo'',
      ''affects_licence_level_mp'', ''speed_units_lead_player'',
      ''temperature_units_lead_player'', ''speed_units_secondary_player'',
      ''temperature_units_secondary_player'']"

text \<open>\<open>COALESCE(c, new)\<close> for the listed columns.\<close>

definition fill_null :: "(string \<times> pyval) list \<Rightarrow> row \<Rightarrow> row" where
  "fill_null cs old =
     map (\<lambda>(c, v). (c, if col old c = PNone then v else col old c)) cs
     @ filter (\<lambda>p. fst p \<notin> fst ` set cs) old"

definition zones_json :: "zone list \<Rightarrow> pyval" where
  "zones_json zones =
    (if zones = [] then PNone
     else PJson (PList (map (\<lambda>z. PDict [(''zone_start'', PFloat (zn_zone_start z)),
                                         (''zone_end'', PFloat (zn_zone_end z))]) zones)))"

definition zone_positions :: "marshal_zone list \<Rightarrow> pyval" where
  "zone_positions zones =
     PJson (PList (map (\<lambda>(i, z). PDict [(''zone_index'', PInt (int i)), (''zone_start'', PFloat (mz_zone_start z))])
       (enumerate 0 zones)))"

definition update_track_technical_data ::
    "int \<Rightarrow> int \<Rightarrow> pyfloat \<Rightarrow> pyfloat \<Rightarrow> marshal_zone list \<Rightarrow> int \<Rightarrow> int \<Rightarrow> zone list \<Rightarrow> zone list \<Rightarrow> zone list
     \<Rightarrow> world \<Rightarrow> bool \<times> world" where
  "update_track_technical_data track_id track_length sector2_start sector3_start marshal_zones
       pit_speed_limit aero_status aero_full aero_partial drs_zones w =
    (let (n, w') = execute (sql_update ''telemetry.tracks''
         (\<lambda>r. col r ''track_id'' = PInt track_id)
         (fill_null
           [(''track_length'', PInt track_length),
            (''sector2_start'', PFloat sector2_start),
            (''sector3_start'', PFloat sector3_start),
            (''marshal_zones'', zone_positions marshal_zones),
            (''pit_speed_limit'', PInt pit_speed_limit),
            (''active_aero_track_status'', PInt aero_status),
            (''active_aero_zones_full'', zones_json aero_full),
            (''active_aero_zones_partial'', zones_json aero_partial),
            (''drs_zones'', zones_json drs_zones)])) w
     in (n \<noteq> 0, w'))"

text \<open>\<open>_SESSION_UPDATES\<close> leaves the anchor alone.\<close>

definition session_update_columns :: "string list" where
  "session_update_columns = filter (\<lambda>c. c \<notin> {''session_uid'', ''session_start_utc''}) SESSION_COLUMNS"

definition insert_session :: "pyval list \<Rightarrow> world \<Rightarrow> world" where
  "insert_session =
     insert_row ''telemetry.sessions'' SESSION_COLUMNS (DoUpdate [''session_uid''] session_update_columns)"

fun as_time :: "pyval \<Rightarrow> int option" where
  "as_time (PTime t) = Some t"
| "as_time _ = None"

definition stored_session_start :: "pystr \<Rightarrow> db \<Rightarrow> int option" where
  "stored_session_start session_uid d =
    (case find (\<lambda>r. col r ''session_uid'' = PStr session_uid) (db_tables d ''telemetry.sessions'') of
       None \<Rightarrow> None
     | Some r \<Rightarrow> as_time (col r ''session_start_utc''))"

definition repo_get_session_start :: "pystr \<Rightarrow> world \<Rightarrow> int option \<times> world" where
  "repo_get_session_start session_uid w = (case query (stored_session_start session_uid) w of
      (Some x, w') \<Rightarrow> (x, w')
    | (None, w') \<Rightarrow> (None, w'))"

definition null_if_zero :: "pyfloat \<Rightarrow> pyval" where
  "null_if_zero x = (if f_nonzero x then PFloat x else PNone)"

definition capture_start_reaction_time :: "pystr \<Rightarrow> pyfloat \<Rightarrow> world \<Rightarrow> world" where
  "capture_start_reaction_time session_uid x w =
     snd (execute (sql_update ''telemetry.sessions'' (\<lambda>r. col r ''session_uid'' = PStr session_uid)
       (fill_null [(''start_reaction_time'', null_if_zero x)])) w)"

definition FORECAST_COLUMNS :: "string list" where
  "FORECAST_COLUMNS = butlast
     [''session_uid'', ''forecast_index'', ''forecast_session_type'', ''time_offset_minutes'',
      ''weather'', ''track_temperature'', ''track_temperature_change'', ''air_temperature'',
      ''air_temperature_change'', ''rain_percentage'', ''overall_frame_identifier'',
      ''updated_at'']"

definition FORECAST_KEY :: "string list" where
  "FORECAST_KEY = [''session_uid'', ''forecast_index'']"

definition forecast_params :: "pystr \<Rightarrow> int \<Rightarrow> nat \<times> weather_forecast_sample \<Rightarrow> pyval list" where
  "forecast_params session_uid frame = (\<lambda>(i, s).
     [PStr session_uid, PInt (int i), PStr (safe_enum_name SessionTypeIDs (wf_session_type s)),
      PInt (wf_time_offset s), PStr (safe_enum_name WeatherIDs (wf_weather s)),
      PInt (wf_track_temperature s),
      PStr (safe_enum_name TemperatureChange (wf_track_temperature_change s)),
      PInt (wf_air_temperature s),
      PStr (safe_enum_name TemperatureChange (wf_air_temperature_change s)),
      PInt (wf_rain_percentage s), PInt frame])"

definition upsert_weather_forecast ::
    "pystr \<Rightarrow> int \<Rightarrow> weather_forecast_sample list \<Rightarrow> world \<Rightarrow> world" where
  "upsert_weather_forecast session_uid frame samples w =
    (if samples = [] then w
     else insert_rows ''telemetry.weather_forecast'' FORECAST_COLUMNS
            (DoUpdate FORECAST_KEY (other_columns FORECAST_KEY FORECAST_COLUMNS))
            (map (forecast_params session_uid frame) (enumerate 0 samples)) w)"

subsection \<open>Batches\<close>

lemma insert_rows_nothing:
  assumes "other_unique_keys t = []" "healthy w"
  shows "db_tables (w_db (insert_rows t cols (DoNothing ks) rows w)) =
    (if \<forall>r \<in> set rows. length r = length cols
     then (db_tables (w_db w))(t := fold (\<lambda>r. insert_nothing ks (zip cols r)) rows (table w t))
     else db_tables (w_db w))"
proof (cases "rows = []")
  case False
  then show ?thesis
    using sql_many_nothing [OF assms(1), of cols ks rows "w_db w"] assms(2)
    by (auto simp: insert_rows_def execute_many_def run_txn_def healthy_def)
qed (simp add: insert_rows_def execute_many_def)

lemma fold_insert_again:
  "fold (\<lambda>r. insert_nothing ks (zip cols r)) rows (fold (\<lambda>r. insert_nothing ks (zip cols r)) rows t)
    = fold (\<lambda>r. insert_nothing ks (zip cols r)) rows t"
  using once.batch_again [of ks "map (zip cols) rows" t] by (simp add: fold_map comp_def)

lemma healthy_insert_rows [simp]: "healthy (insert_rows t cols oc rows w) = healthy w"
  by (simp add: insert_rows_def)

end
