(* ===== verification/Car_Frame.thy ===== *)
theory Car_Frame
  imports Repositories Car_Packets
begin

text \<open>
  \<open>services/car_frame.py\<close>: one \<open>car_frame\<close> row per known driver and simulation frame, assembled from
  the packets of that frame, and one \<open>car_frame_damage\<close> row per driver whose damage is visible.
\<close>

definition NOT_SET :: int where
  "NOT_SET = 255"

definition IDX_POSITION :: nat where
  "IDX_POSITION = column_index ''position''"

definition IDX_GAP_AHEAD :: nat where
  "IDX_GAP_AHEAD = column_index ''gap_to_car_ahead_ms''"

definition IDX_GAP_BEHIND :: nat where
  "IDX_GAP_BEHIND = column_index ''gap_to_car_behind_ms''"

subsection \<open>Field values\<close>

text \<open>\<open>x or None\<close>, and \<open>x if x != _NOT_SET else None\<close>.\<close>

definition or_none :: "int \<Rightarrow> pyval" where
  "or_none i = (if i = 0 then PNone else PInt i)"

definition or_none_float :: "pyfloat \<Rightarrow> pyval" where
  "or_none_float x = (if f_nonzero x then PFloat x else PNone)"

definition not_set :: "int \<Rightarrow> pyval" where
  "not_set i = (if i = NOT_SET then PNone else PInt i)"

definition split_time_ms :: "int \<Rightarrow> int \<Rightarrow> int" where
  "split_time_ms minutes_part ms_part = minutes_part * 60000 + ms_part"

definition nones :: "nat \<Rightarrow> pyval list" where
  "nones n = replicate n PNone"

definition build_motion_fields :: "car_motion_data option \<Rightarrow> pyval list" where
  "build_motion_fields motion = (case motion of None \<Rightarrow> nones 18 | Some m \<Rightarrow>
      [PFloat (mo_world_position_x m), PFloat (mo_world_position_y m),
       PFloat (mo_world_position_z m), PFloat (mo_world_velocity_x m),
       PFloat (mo_world_velocity_y m), PFloat (mo_world_velocity_z m),
       PFloat (mo_world_forward_dir_x m), PFloat (mo_world_forward_dir_y m),
       PFloat (mo_world_forward_dir_z m), PFloat (mo_world_right_dir_x m),
       PFloat (mo_world_right_dir_y m), PFloat (mo_world_right_dir_z m),
       PFloat (mo_g_force_lateral m), PFloat (mo_g_force_longitudinal m),
       PFloat (mo_g_force_vertical m), PFloat (mo_yaw m), PFloat (mo_pitch m), PFloat (mo_roll m)])"

definition build_telemetry_fields :: "car_telemetry_data option \<Rightarrow> pyval list" where
  "build_telemetry_fields telemetry = (case telemetry of None \<Rightarrow> nones 31 | Some t \<Rightarrow>
      [PInt (te_speed t), PFloat (te_throttle t), PFloat (te_steer t), PFloat (te_brake t),
       PInt (te_clutch t), PInt (te_gear t), PInt (te_engine_rpm t), PBool (te_drs t \<noteq> 0),
       PInt (te_rev_lights_percent t), PInt (te_rev_lights_bit_value t),
       PInt (te_engine_temperature t)] @
      map PInt (te_brakes_temperature t) @
      map PInt (te_tyres_surface_temp t) @
      map PInt (te_tyres_inner_temp t) @
      map PFloat (te_tyres_pressure t) @
      map PInt (te_surface_type t))"

definition build_player_telemetry_fields :: "car_telemetry_packet option \<Rightarrow> bool \<Rightarrow> pyval list" where
  "build_player_telemetry_fields packet is_player =
    (case packet of None \<Rightarrow> nones 3 | Some p \<Rightarrow> if \<not> is_player then nones 3 else
      [PInt (tep_mfd_panel_index p), PInt (tep_mfd_panel_index_secondary_player p),
       PInt (tep_suggested_gear p)])"

definition build_lap_fields :: "lap_data option \<Rightarrow> pyval list" where
  "build_lap_fields lap = (case lap of None \<Rightarrow> nones 30 | Some l \<Rightarrow>
      [or_none (lap_last_lap_time_in_ms l), PInt (lap_current_lap_time_in_ms l),
       or_none (split_time_ms (lap_sector1_time_minutes_part l) (lap_sector1_time_ms_part l)),
       or_none (split_time_ms (lap_sector2_time_minutes_part l) (lap_sector2_time_ms_part l)),
       PFloat (lap_lap_distance l), PFloat (lap_total_distance l),
       PFloat (lap_safety_car_delta l), not_set (lap_car_position l),
       or_none (lap_grid_position l), PInt (lap_current_lap_num l), PInt (lap_sector l),
       PInt (lap_pit_status l), PInt (lap_driver_status l), PInt (lap_result_status l),
       PBool (lap_current_lap_invalid l \<noteq> 0),
       PInt (split_time_ms (lap_delta_to_race_leader_minutes_part l) (lap_delta_to_race_leader_ms_part l)),
       PInt (split_time_ms (lap_delta_to_car_in_front_minutes_part l) (lap_delta_to_car_in_front_ms_part l)),
       PNone, PInt (lap_num_pit_stops l), PBool (lap_pit_lane_timer_active l \<noteq> 0),
       PInt (lap_pit_lane_time_in_lane_in_ms l), PInt (lap_pit_stop_timer_in_ms l),
       PBool (lap_pit_stop_should_serve_pen l \<noteq> 0), PInt (lap_penalties l),
       PInt (lap_total_warnings l), PInt (lap_corner_cutting_warnings l),
       PInt (lap_num_unserved_drive_through_pens l), PInt (lap_num_unserved_stop_go_pens l),
       or_none_float (lap_speed_trap_fastest_speed l), not_set (lap_speed_trap_fastest_lap l)])"

definition build_status_public_fields :: "car_status_data option \<Rightarrow> pyval list" where
  "build_status_public_fields status = (case status of None \<Rightarrow> nones 13 | Some s \<Rightarrow>
      [PBool (cs_pit_limiter s \<noteq> 0), PBool (cs_drs_allowed s \<noteq> 0),
       PInt (cs_drs_activation_distance s), PInt (cs_actual_tyre_compound s),
       PInt (cs_visual_tyre_compound s), not_set (cs_tyres_age_laps s),
       PInt (cs_vehicle_fia_flags s), PBool (cs_network_paused s \<noteq> 0),
       PInt (cs_traction_control s), PBool (cs_anti_lock_brakes s \<noteq> 0),
       PInt (cs_max_rpm s), PInt (cs_idle_rpm s), PInt (cs_max_gears s)])"

definition build_status_restricted_fields :: "car_status_data option \<Rightarrow> bool \<Rightarrow> pyval list" where
  "build_status_restricted_fields status is_restricted =
    (case status of None \<Rightarrow> nones 13 | Some s \<Rightarrow> if is_restricted then nones 13 else
      [PInt (cs_front_brake_bias s), PInt (cs_fuel_mix s), PFloat (cs_fuel_in_tank s),
       PFloat (cs_fuel_capacity s), PFloat (cs_fuel_remaining_laps s),
       PFloat (cs_ers_store_energy s), PInt (cs_ers_deploy_mode s),
       PFloat (cs_ers_deployed_this_lap s), PFloat (cs_ers_harvest_limit_per_lap s),
       PFloat (cs_ers_harvested_this_lap_mguk s), PFloat (cs_ers_harvested_this_lap_mguh s),
       PFloat (cs_engine_power_ice s), PFloat (cs_engine_power_mguk s)])"

definition build_damage_fields :: "car_damage_data option \<Rightarrow> pyval list" where
  "build_damage_fields damage = (case damage of None \<Rightarrow> nones 34 | Some d \<Rightarrow>
      map PFloat (dm_tyres_wear d) @
      map PInt (dm_tyres_damage d) @
      map PInt (dm_brakes_damage d) @
      map PInt (dm_tyre_blisters d) @
      [PInt (dm_front_left_wing_damage d), PInt (dm_front_right_wing_damage d),
       PInt (dm_rear_wing_damage d), PInt (dm_floor_damage d), PInt (dm_diffuser_damage d),
       PInt (dm_sidepod_damage d), PBool (dm_drs_fault d), PBool (dm_ers_fault d),
       PInt (dm_gearbox_damage d), PInt (dm_engine_damage d), PInt (dm_engine_mguh_wear d),
       PInt (dm_engine_es_wear d), PInt (dm_engine_ce_wear d), PInt (dm_engine_ice_wear d),
       PInt (dm_engine_mguk_wear d), PInt (dm_engine_tc_wear d), PBool (dm_engine_blown d),
       PBool (dm_engine_seized d)])"

definition build_telemetry2_fields :: "car_telemetry2_data option \<Rightarrow> pyval list" where
  "build_telemetry2_fields telemetry2 = (case telemetry2 of None \<Rightarrow> nones 8 | Some t \<Rightarrow>
     if t2_regulations_2026 t = 0
     then nones 6 @ [PBool False, PBool (t2_driving_wrong_way t \<noteq> 0)]
     else
      [PInt (t2_active_aero_mode t), PBool (t2_active_aero_available t \<noteq> 0),
       PInt (t2_active_aero_activation_distance t), PBool (t2_overtake_available t \<noteq> 0),
       PBool (t2_overtake_active t \<noteq> 0), PInt (t2_overtake_activation_distance t),
       PBool True, PBool (t2_driving_wrong_way t \<noteq> 0)])"

subsection \<open>The gap to the car behind\<close>

definition gap_ahead_by_position :: "pyval list list \<Rightarrow> (pyval \<times> pyval) list" where
  "gap_ahead_by_position rows =
     dict_of (map (\<lambda>r. (r ! IDX_POSITION, r ! IDX_GAP_AHEAD))
       (filter (\<lambda>r. r ! IDX_POSITION \<noteq> PNone) rows))"

definition behind_gap :: "pyval list list \<Rightarrow> pyval list \<Rightarrow> pyval" where
  "behind_gap rows row = (case row ! IDX_POSITION of
      PInt p \<Rightarrow> (case map_of (gap_ahead_by_position rows) (PInt (p + 1)) of Some g \<Rightarrow> g | None \<Rightarrow> PNone)
    | _ \<Rightarrow> PNone)"

definition fill_gap_to_car_behind :: "pyval list list \<Rightarrow> pyval list list" where
  "fill_gap_to_car_behind rows =
     map (\<lambda>row. let g = behind_gap rows row in if g = PNone then row else row[IDX_GAP_BEHIND := g]) rows"

subsection \<open>Writing a frame\<close>

text \<open>
  The packets of one frame as the frame buffer hands them over. An empty list of cars counts as
  absent, except for damage, where the code tests for \<open>None\<close> only.
\<close>

record frame_data =
  fd_motion :: "car_motion_data list option"
  fd_telemetry :: "car_telemetry_data list option"
  fd_lap :: "lap_data list option"
  fd_status :: "car_status_data list option"
  fd_damage :: "car_damage_data list option"
  fd_telemetry2 :: "car_telemetry2_data list option"
  fd_telemetry_packet :: "car_telemetry_packet option"
  fd_player_car_index :: "int option"

definition car_of :: "'a list option \<Rightarrow> nat \<Rightarrow> 'a option py" where
  "car_of xs i = (case xs of
      None \<Rightarrow> Inr None
    | Some ys \<Rightarrow> if ys = [] then Inr None else and_then (py_index ys i) (\<lambda>x. Inr (Some x)))"

definition frame_meta :: "int \<Rightarrow> pystr \<Rightarrow> int \<Rightarrow> pyfloat \<Rightarrow> int \<Rightarrow> pyval list" where
  "frame_meta timestamp session_uid user_id session_time frame =
     [PTime timestamp, PStr session_uid, PInt user_id, PFloat session_time, PInt frame]"

definition frame_row ::
    "pyval list \<Rightarrow> frame_data \<Rightarrow> nat \<Rightarrow> bool \<Rightarrow> car_motion_data option \<Rightarrow> car_telemetry_data option
     \<Rightarrow> lap_data option \<Rightarrow> car_status_data option \<Rightarrow> car_telemetry2_data option \<Rightarrow> pyval list" where
  "frame_row meta fd car_index is_restricted motion telemetry lap status telemetry2 =
     meta
     @ build_motion_fields motion
     @ build_telemetry_fields telemetry
     @ build_player_telemetry_fields (fd_telemetry_packet fd) (fd_player_car_index fd = Some (int car_index))
     @ build_lap_fields lap
     @ build_status_public_fields status
     @ build_status_restricted_fields status is_restricted
     @ build_telemetry2_fields telemetry2"

text \<open>One turn of the loop over the cars: the frame row and the damage row, if any.\<close>

definition car_rows ::
    "(int \<Rightarrow> pyval list) \<Rightarrow> frame_data \<Rightarrow> user_map \<Rightarrow> int set \<Rightarrow> nat
     \<Rightarrow> (pyval list list \<times> pyval list list) py" where
  "car_rows meta fd user_map restricted i = (case map_of user_map (int i) of
      None \<Rightarrow> Inr ([], [])
    | Some user_id \<Rightarrow>
        and_then (car_of (fd_motion fd) i) (\<lambda>motion.
        and_then (car_of (fd_telemetry fd) i) (\<lambda>telemetry.
        and_then (car_of (fd_lap fd) i) (\<lambda>lap.
        and_then (car_of (fd_status fd) i) (\<lambda>status.
        and_then (car_of (fd_telemetry2 fd) i) (\<lambda>telemetry2.
        let is_restricted = int i \<in> restricted in
        if (case lap of Some l \<Rightarrow> lap_driver_status l = 0 | None \<Rightarrow> False) then Inr ([], [])
        else
          let row = frame_row (meta user_id) fd i is_restricted motion telemetry lap status telemetry2 in
          (case fd_damage fd of
             None \<Rightarrow> Inr ([row], [])
           | Some cars \<Rightarrow>
               if is_restricted then Inr ([row], [])
               else and_then (py_index cars i) (\<lambda>d.
                    Inr ([row], [meta user_id @ build_damage_fields (Some d)])))))))))"

definition frame_rows ::
    "(int \<Rightarrow> pyval list) \<Rightarrow> frame_data \<Rightarrow> user_map \<Rightarrow> int set \<Rightarrow> (pyval list list \<times> pyval list list) py" where
  "frame_rows meta fd user_map restricted =
     and_then (map_py (car_rows meta fd user_map restricted) [0..<MAX_CARS]) (\<lambda>ps.
       Inr (fill_gap_to_car_behind (concat (map fst ps)), concat (map snd ps)))"

text \<open>The row timestamp: the session's anchor plus the session time, or the clock.\<close>

definition frame_timestamp :: "int option \<Rightarrow> pyfloat \<Rightarrow> world \<Rightarrow> int py \<times> world" where
  "frame_timestamp session_start session_time w = (case session_start of
      Some start \<Rightarrow> (and_then (timedelta session_time) (datetime_add start), w)
    | None \<Rightarrow> (let (t, w') = utc_now w in (Inr t, w')))"

definition write_frame ::
    "pystr \<Rightarrow> pyfloat \<Rightarrow> int \<Rightarrow> user_map \<Rightarrow> frame_data \<Rightarrow> int set \<Rightarrow> int option \<Rightarrow> bool
     \<Rightarrow> world \<Rightarrow> unit py \<times> world" where
  "write_frame session_uid session_time frame user_map fd restricted session_start race_started w =
    (if \<not> race_started then (Inr (), w)
     else case frame_timestamp session_start session_time w of
         (Inl e, w1) \<Rightarrow> (Inl e, w1)
       | (Inr timestamp, w1) \<Rightarrow>
           (case frame_rows (\<lambda>user_id. frame_meta timestamp session_uid user_id session_time frame)
                   fd user_map restricted of
              Inl e \<Rightarrow> (Inl e, w1)
            | Inr (rows, damage_rows) \<Rightarrow>
                let w2 = (if rows = [] then w1 else car_frame_insert_batch rows w1);
                    w3 = (if damage_rows = [] then w2 else car_frame_damage_insert_batch damage_rows w2)
                in (Inr (), w3)))"

definition car_frame_discard_after :: "pystr \<Rightarrow> pyfloat \<Rightarrow> int option \<Rightarrow> world \<Rightarrow> nat py \<times> world" where
  "car_frame_discard_after session_uid session_time session_start w =
    (case car_frame_delete_after session_uid session_time session_start w of
       (Inl e, w1) \<Rightarrow> (Inl e, w1)
     | (Inr discarded, w1) \<Rightarrow>
         (case car_frame_damage_delete_after session_uid session_time session_start w1 of
            (Inl e, w2) \<Rightarrow> (Inl e, w2)
          | (Inr _, w2) \<Rightarrow> (Inr discarded, w2)))"


subsection \<open>Row layout\<close>

definition telemetry_wheels :: "car_telemetry_data \<Rightarrow> bool" where
  "telemetry_wheels t \<longleftrightarrow> length (te_brakes_temperature t) = 4 \<and> length (te_tyres_surface_temp t) = 4
     \<and> length (te_tyres_inner_temp t) = 4 \<and> length (te_tyres_pressure t) = 4
     \<and> length (te_surface_type t) = 4"

lemma telemetry_wheels_of [simp]: "telemetry_wheels (car_telemetry_of f)"
  by (simp add: telemetry_wheels_def car_telemetry_of_def ints_at_def floats_at_def)

lemma length_nones [simp]: "length (nones n) = n"
  by (simp add: nones_def)

lemma length_build [simp]:
  "length (build_motion_fields x1) = 18"
  "(\<forall>t. x2 = Some t \<longrightarrow> telemetry_wheels t) \<Longrightarrow> length (build_telemetry_fields x2) = 31"
  "length (build_player_telemetry_fields x3 b) = 3"
  "length (build_lap_fields x4) = 30"
  "length (build_status_public_fields x5) = 13"
  "length (build_status_restricted_fields x5 b) = 13"
  "length (build_telemetry2_fields x6) = 8"
  by (simp_all add: build_motion_fields_def build_telemetry_fields_def build_player_telemetry_fields_def
      build_lap_fields_def build_status_public_fields_def build_status_restricted_fields_def
      build_telemetry2_fields_def telemetry_wheels_def split: option.splits)

lemma length_CAR_FRAME_COLUMNS [simp]: "length CAR_FRAME_COLUMNS = 121"
  by (simp add: CAR_FRAME_COLUMNS_def)

lemma map_of_zip_index:
  "length xs = length ys \<Longrightarrow> c \<in> set xs \<Longrightarrow> map_of (zip xs ys) c = Some (ys ! length (takeWhile (\<lambda>x. x \<noteq> c) xs))"
  by (induction xs ys rule: list_induct2) auto

text \<open>A stored row answers a column with the value at that column's index.\<close>

lemma col_car_frame:
  "length row = length CAR_FRAME_COLUMNS \<Longrightarrow> column_index c < length CAR_FRAME_COLUMNS \<Longrightarrow>
    col (zip CAR_FRAME_COLUMNS row) c = row ! column_index c"
proof -
  assume l: "length row = length CAR_FRAME_COLUMNS" and "column_index c < length CAR_FRAME_COLUMNS"
  then have "takeWhile (\<lambda>x. x \<noteq> c) CAR_FRAME_COLUMNS \<noteq> CAR_FRAME_COLUMNS"
    unfolding column_index_def by (metis less_irrefl)
  then have "c \<in> set CAR_FRAME_COLUMNS" by (auto simp: takeWhile_eq_all_conv)
  then show ?thesis
    using map_of_zip_index [of CAR_FRAME_COLUMNS row c] l by (simp add: col_def column_index_def)
qed

lemmas column_search = column_index_def CAR_FRAME_COLUMNS_def takeWhile.simps list.inject char.inject
  list.distinct not_True_eq_False not_False_eq_True if_True if_False simp_thms list.size One_nat_def

lemma column_indices [simp]:
  "column_index ''user_id'' = 2"
  "column_index ''world_pos_x'' = 5"
  "column_index ''speed'' = 23"
  "column_index ''brakes_temp_fl'' = 36"
  "column_index ''surface_type_fr'' = 53"
  "column_index ''suggested_gear'' = 56"
  "column_index ''position'' = 64"
  "column_index ''gap_to_car_ahead_ms'' = 73"
  "column_index ''gap_to_car_behind_ms'' = 74"
  "column_index ''max_gears'' = 99"
  "column_index ''fuel_in_tank'' = 102"
  "column_index ''driving_wrong_way'' = 120"
  by (simp_all only: column_search)

lemma IDX [simp]: "IDX_POSITION = 64" "IDX_GAP_AHEAD = 73" "IDX_GAP_BEHIND = 74"
  by (simp_all add: IDX_POSITION_def IDX_GAP_AHEAD_def IDX_GAP_BEHIND_def)

definition row_inputs_ok :: "car_telemetry_data option \<Rightarrow> bool" where
  "row_inputs_ok telemetry \<longleftrightarrow> (\<forall>t. telemetry = Some t \<longrightarrow> telemetry_wheels t)"

lemma length_frame_row:
  "length meta = 5 \<Longrightarrow> row_inputs_ok telemetry \<Longrightarrow>
    length (frame_row meta fd i r motion telemetry lap status telemetry2) = length CAR_FRAME_COLUMNS"
  by (simp add: frame_row_def row_inputs_ok_def)

text \<open>Where the blocks of a row start.\<close>

lemma frame_row_nth:
  assumes "row = frame_row meta fd i r motion telemetry lap status telemetry2"
    and "length meta = 5" "row_inputs_ok telemetry"
  shows "k < 5 \<Longrightarrow> row ! k = meta ! k"
    and "k < 18 \<Longrightarrow> row ! (5 + k) = build_motion_fields motion ! k"
    and "k < 31 \<Longrightarrow> row ! (23 + k) = build_telemetry_fields telemetry ! k"
    and "k < 3 \<Longrightarrow> row ! (54 + k) =
      build_player_telemetry_fields (fd_telemetry_packet fd) (fd_player_car_index fd = Some (int i)) ! k"
    and "k < 30 \<Longrightarrow> row ! (57 + k) = build_lap_fields lap ! k"
    and "k < 13 \<Longrightarrow> row ! (87 + k) = build_status_public_fields status ! k"
    and "k < 13 \<Longrightarrow> row ! (100 + k) = build_status_restricted_fields status r ! k"
    and "k < 8 \<Longrightarrow> row ! (113 + k) = build_telemetry2_fields telemetry2 ! k"
  using assms by (simp_all add: frame_row_def row_inputs_ok_def nth_append)

lemma frame_row_gaps:
  assumes "row = frame_row meta fd i r motion telemetry lap status telemetry2"
    and "length meta = 5" "row_inputs_ok telemetry"
  shows "row ! 64 = (case lap of None \<Rightarrow> PNone | Some l \<Rightarrow> not_set (lap_car_position l))"
    and "row ! 73 = (case lap of None \<Rightarrow> PNone | Some l \<Rightarrow>
     PInt (split_time_ms (lap_delta_to_car_in_front_minutes_part l) (lap_delta_to_car_in_front_ms_part l)))"
    and "row ! 74 = PNone"
  using frame_row_nth(5) [OF assms, of 7] frame_row_nth(5) [OF assms, of 16]
    frame_row_nth(5) [OF assms, of 17]
  by (simp_all add: build_lap_fields_def nones_def split: option.splits)



subsection \<open>What the loop over the cars yields\<close>

definition opt_nth :: "'a list option \<Rightarrow> nat \<Rightarrow> 'a option" where
  "opt_nth xs i = (case xs of None \<Rightarrow> None | Some ys \<Rightarrow> if ys = [] then None else Some (ys ! i))"

text \<open>The driver of a car that is mapped and not in the garage.\<close>

definition racing_driver :: "frame_data \<Rightarrow> user_map \<Rightarrow> nat \<Rightarrow> int option" where
  "racing_driver fd m i =
     (if (case opt_nth (fd_lap fd) i of Some l \<Rightarrow> lap_driver_status l = 0 | None \<Rightarrow> False) then None
      else map_of m (int i))"

definition car_row :: "(int \<Rightarrow> pyval list) \<Rightarrow> frame_data \<Rightarrow> int set \<Rightarrow> nat \<Rightarrow> int \<Rightarrow> pyval list" where
  "car_row meta fd R i u = frame_row (meta u) fd i (int i \<in> R) (opt_nth (fd_motion fd) i)
     (opt_nth (fd_telemetry fd) i) (opt_nth (fd_lap fd) i) (opt_nth (fd_status fd) i) (opt_nth (fd_telemetry2 fd) i)"

text \<open>Data for every car, as the parsers of validated packets deliver it.\<close>

definition cars_ok :: "'a list option \<Rightarrow> bool" where
  "cars_ok xs \<longleftrightarrow> (\<forall>ys. xs = Some ys \<longrightarrow> length ys = MAX_CARS)"

definition frame_data_ok :: "frame_data \<Rightarrow> bool" where
  "frame_data_ok fd \<longleftrightarrow> cars_ok (fd_motion fd) \<and> cars_ok (fd_telemetry fd) \<and> cars_ok (fd_lap fd)
     \<and> cars_ok (fd_status fd) \<and> cars_ok (fd_damage fd) \<and> cars_ok (fd_telemetry2 fd)
     \<and> (\<forall>ts. fd_telemetry fd = Some ts \<longrightarrow> (\<forall>t \<in> set ts. telemetry_wheels t))"

lemma car_of_ok: "cars_ok xs \<Longrightarrow> i < MAX_CARS \<Longrightarrow> car_of xs i = Inr (opt_nth xs i)"
  by (auto simp: car_of_def cars_ok_def opt_nth_def py_index_def split: option.splits)

definition damage_row :: "(int \<Rightarrow> pyval list) \<Rightarrow> frame_data \<Rightarrow> int set \<Rightarrow> nat \<Rightarrow> int \<Rightarrow> pyval list option" where
  "damage_row meta fd R i u = (case fd_damage fd of
      Some ds \<Rightarrow> if int i \<in> R then None else Some (meta u @ build_damage_fields (Some (ds ! i)))
    | None \<Rightarrow> None)"

lemma car_rows_ok:
  assumes "frame_data_ok fd" "i < MAX_CARS"
  shows "car_rows meta fd m R i = Inr (case racing_driver fd m i of
      None \<Rightarrow> ([], [])
    | Some u \<Rightarrow> ([car_row meta fd R i u], case damage_row meta fd R i u of None \<Rightarrow> [] | Some r \<Rightarrow> [r]))"
proof -
  have ok: "cars_ok (fd_motion fd)" "cars_ok (fd_telemetry fd)" "cars_ok (fd_lap fd)"
    "cars_ok (fd_status fd)" "cars_ok (fd_telemetry2 fd)"
    and dmg: "\<And>ds. fd_damage fd = Some ds \<Longrightarrow> py_index ds i = Inr (ds ! i)"
    using assms by (auto simp: frame_data_ok_def cars_ok_def py_index_def)
  show ?thesis
    by (cases "map_of m (int i)"; cases "fd_damage fd")
       (simp_all add: car_rows_def car_of_ok [OF _ assms(2)] ok racing_driver_def car_row_def
         damage_row_def Let_def dmg)
qed

definition car_row_list :: "(int \<Rightarrow> pyval list) \<Rightarrow> frame_data \<Rightarrow> user_map \<Rightarrow> int set \<Rightarrow> pyval list list" where
  "car_row_list meta fd m R = List.map_filter (\<lambda>i. map_option (car_row meta fd R i) (racing_driver fd m i)) [0..<MAX_CARS]"

definition damage_row_list :: "(int \<Rightarrow> pyval list) \<Rightarrow> frame_data \<Rightarrow> user_map \<Rightarrow> int set \<Rightarrow> pyval list list" where
  "damage_row_list meta fd m R =
     List.map_filter (\<lambda>i. Option.bind (racing_driver fd m i) (damage_row meta fd R i)) [0..<MAX_CARS]"

text \<open>
  With data for every car nothing in the loop raises, and the rows are those of the mapped drivers
  who are not in the garage, in car order.
\<close>

lemma frame_rows_ok:
  assumes "frame_data_ok fd"
  shows "frame_rows meta fd m R =
    Inr (fill_gap_to_car_behind (car_row_list meta fd m R), damage_row_list meta fd m R)"
proof -
  let ?g = "\<lambda>i. case racing_driver fd m i of
      None \<Rightarrow> ([], [])
    | Some u \<Rightarrow> ([car_row meta fd R i u], case damage_row meta fd R i u of None \<Rightarrow> [] | Some r \<Rightarrow> [r])"
  have "map_py (car_rows meta fd m R) [0..<MAX_CARS] = Inr (map ?g [0..<MAX_CARS])"
    by (rule map_py_cong_Inr) (simp add: car_rows_ok [OF assms])
  moreover have "concat (map fst (map ?g is)) = List.map_filter (\<lambda>i. map_option (car_row meta fd R i) (racing_driver fd m i)) is"
    "concat (map snd (map ?g is)) = List.map_filter (\<lambda>i. Option.bind (racing_driver fd m i) (damage_row meta fd R i)) is" for "is"
    by (induction "is") (auto simp: List.map_filter_def split: option.splits)
  ultimately show ?thesis
    by (simp add: frame_rows_def car_row_list_def damage_row_list_def)
qed

subsection \<open>The gap to the car behind\<close>

definition position_of :: "frame_data \<Rightarrow> nat \<Rightarrow> int option" where
  "position_of fd i = (case opt_nth (fd_lap fd) i of
      Some l \<Rightarrow> if lap_car_position l = NOT_SET then None else Some (lap_car_position l)
    | None \<Rightarrow> None)"

definition gap_ahead_of :: "frame_data \<Rightarrow> nat \<Rightarrow> pyval" where
  "gap_ahead_of fd i = (case opt_nth (fd_lap fd) i of
      Some l \<Rightarrow> PInt (split_time_ms (lap_delta_to_car_in_front_minutes_part l) (lap_delta_to_car_in_front_ms_part l))
    | None \<Rightarrow> PNone)"

text \<open>What the column is for: the gap that the car one place further back reports to the car ahead of it.\<close>

definition gap_behind_of :: "frame_data \<Rightarrow> user_map \<Rightarrow> nat \<Rightarrow> pyval" where
  "gap_behind_of fd m i = (case position_of fd i of
      None \<Rightarrow> PNone
    | Some p \<Rightarrow>
        (case find (\<lambda>j. racing_driver fd m j \<noteq> None \<and> position_of fd j = Some (p + 1)) [0..<MAX_CARS] of
           None \<Rightarrow> PNone
         | Some j \<Rightarrow> gap_ahead_of fd j))"

definition positions_distinct :: "frame_data \<Rightarrow> user_map \<Rightarrow> bool" where
  "positions_distinct fd m \<longleftrightarrow> (\<forall>i < MAX_CARS. \<forall>j < MAX_CARS. racing_driver fd m i \<noteq> None
     \<and> racing_driver fd m j \<noteq> None \<and> position_of fd i \<noteq> None \<and> position_of fd i = position_of fd j \<longrightarrow> i = j)"

lemma telemetry_of_ok: "frame_data_ok fd \<Longrightarrow> i < MAX_CARS \<Longrightarrow> row_inputs_ok (opt_nth (fd_telemetry fd) i)"
  by (auto simp: frame_data_ok_def row_inputs_ok_def opt_nth_def cars_ok_def split: option.splits if_splits)

lemma car_row_gaps:
  assumes "frame_data_ok fd" "i < MAX_CARS" "\<And>u. length (meta u) = 5"
  shows "car_row meta fd R i u ! 64 = (case position_of fd i of None \<Rightarrow> PNone | Some p \<Rightarrow> PInt p)"
    and "car_row meta fd R i u ! 73 = gap_ahead_of fd i"
    and "car_row meta fd R i u ! 74 = PNone"
proof -
  have row: "car_row meta fd R i u = frame_row (meta u) fd i (int i \<in> R) (opt_nth (fd_motion fd) i)
     (opt_nth (fd_telemetry fd) i) (opt_nth (fd_lap fd) i) (opt_nth (fd_status fd) i) (opt_nth (fd_telemetry2 fd) i)"
    by (rule car_row_def)
  note gaps = frame_row_gaps [OF row assms(3) telemetry_of_ok [OF assms(1,2)]]
  show "car_row meta fd R i u ! 64 = (case position_of fd i of None \<Rightarrow> PNone | Some p \<Rightarrow> PInt p)"
    and "car_row meta fd R i u ! 73 = gap_ahead_of fd i"
    and "car_row meta fd R i u ! 74 = PNone"
    using gaps by (auto simp: position_of_def gap_ahead_of_def not_set_def split: option.splits)
qed

lemma map_car_row_list:
  assumes "\<And>i u. i < MAX_CARS \<Longrightarrow> F (car_row meta fd R i u) = G i u"
  shows "map F (car_row_list meta fd m R)
    = List.map_filter (\<lambda>i. map_option (G i) (racing_driver fd m i)) [0..<MAX_CARS]"
  unfolding car_row_list_def map_map_filter
  by (rule map_filter_cong) (auto simp: assms option.map_comp comp_def)

lemma gap_table:
  assumes ok: "frame_data_ok fd" and meta: "\<And>u. length (meta u) = 5" and d: "positions_distinct fd m"
  shows "map_of (gap_ahead_by_position (car_row_list meta fd m R)) (PInt q) =
    (case find (\<lambda>j. racing_driver fd m j \<noteq> None \<and> position_of fd j = Some q) [0..<MAX_CARS] of
       None \<Rightarrow> None | Some j \<Rightarrow> Some (gap_ahead_of fd j))"
proof -
  let ?rows = "car_row_list meta fd m R"
  let ?xs = "map (\<lambda>r. (r ! 64, r ! 73)) (filter (\<lambda>r. r ! 64 \<noteq> PNone) ?rows)"
  let ?P = "\<lambda>j. racing_driver fd m j \<noteq> None \<and> position_of fd j = Some q"
  have entries: "(PInt q, g) \<in> set ?xs \<longleftrightarrow> (\<exists>j < MAX_CARS. ?P j \<and> g = gap_ahead_of fd j)" for g
  proof -
    have "(PInt q, g) \<in> set ?xs \<longleftrightarrow> (\<exists>r \<in> set ?rows. r ! 64 = PInt q \<and> r ! 73 = g)"
      by (force simp: image_iff)
    also have "\<dots> \<longleftrightarrow> (\<exists>j < MAX_CARS. \<exists>u. racing_driver fd m j = Some u
        \<and> car_row meta fd R j u ! 64 = PInt q \<and> car_row meta fd R j u ! 73 = g)"
      by (force simp: car_row_list_def in_map_filter)
    also have "\<dots> \<longleftrightarrow> (\<exists>j < MAX_CARS. ?P j \<and> g = gap_ahead_of fd j)"
      using car_row_gaps [OF ok _ meta] by (fastforce split: option.splits)
    finally show ?thesis .
  qed
  have table: "map_of (gap_ahead_by_position ?rows) (PInt q) = map_of (rev ?xs) (PInt q)"
    by (simp add: gap_ahead_by_position_def map_of_dict_of)
  show ?thesis
  proof (cases "find ?P [0..<MAX_CARS]")
    case None
    then have "\<forall>g. (PInt q, g) \<notin> set (rev ?xs)" using entries by (auto simp: find_None_iff)
    then have "map_of (rev ?xs) (PInt q) = None" by (force simp: map_of_eq_None_iff)
    then show ?thesis using None table by simp
  next
    case (Some j)
    then have j: "j < MAX_CARS" "?P j" by (auto simp: find_Some_iff)
    have "map_of (rev ?xs) (PInt q) = Some (gap_ahead_of fd j)"
    proof (rule map_of_unique)
      show "(PInt q, gap_ahead_of fd j) \<in> set (rev ?xs)" using entries j by auto
      fix g assume "(PInt q, g) \<in> set (rev ?xs)"
      then obtain j' where "j' < MAX_CARS" "?P j'" "g = gap_ahead_of fd j'" using entries by auto
      then show "g = gap_ahead_of fd j" using d j by (metis option.distinct(1) positions_distinct_def)
    qed
    then show ?thesis using Some table by simp
  qed
qed

text \<open>
  C6. Every row of a frame carries in \<open>gap_to_car_behind_ms\<close> the gap that the car one
  place behind reports to the car ahead of it, and NULL when no recorded car holds that place; every
  other column is left as it was. Here the cars in play hold different places.
\<close>

theorem gap_to_car_behind:
  assumes ok: "frame_data_ok fd" and meta: "\<And>u. length (meta u) = 5" and d: "positions_distinct fd m"
  shows "frame_rows meta fd m R = Inr
     (List.map_filter (\<lambda>i. map_option
        (\<lambda>u. (car_row meta fd R i u)[column_index ''gap_to_car_behind_ms'' := gap_behind_of fd m i])
        (racing_driver fd m i)) [0..<MAX_CARS],
      damage_row_list meta fd m R)"
proof -
  let ?rows = "car_row_list meta fd m R"
  have one: "(let g = behind_gap ?rows (car_row meta fd R i u) in
       if g = PNone then car_row meta fd R i u else (car_row meta fd R i u)[74 := g])
     = (car_row meta fd R i u)[74 := gap_behind_of fd m i]" if i: "i < MAX_CARS" for i u
  proof -
    have "behind_gap ?rows (car_row meta fd R i u) = gap_behind_of fd m i"
      using car_row_gaps(1) [OF ok i meta]
      by (auto simp: behind_gap_def gap_behind_of_def gap_table [OF ok meta d] split: option.splits)
    moreover have "(car_row meta fd R i u)[74 := PNone] = car_row meta fd R i u"
      using list_update_id [of "car_row meta fd R i u" 74] by (simp add: car_row_gaps(3) [OF ok i meta])
    ultimately show ?thesis by (simp add: Let_def)
  qed
  have "fill_gap_to_car_behind ?rows = List.map_filter (\<lambda>i. map_option
        (\<lambda>u. (car_row meta fd R i u)[74 := gap_behind_of fd m i]) (racing_driver fd m i)) [0..<MAX_CARS]"
    unfolding fill_gap_to_car_behind_def IDX by (rule map_car_row_list) (rule one)
  then show ?thesis by (simp add: frame_rows_ok [OF ok])
qed

text \<open>Two cars on the track, the second 850 ms behind the first; the rest of the field in the garage.\<close>

definition two_cars :: frame_data where
  "two_cars =
    (let l = lap_data_of (replicate 64 (PInt 0)) in
     \<lparr>fd_motion = None, fd_telemetry = None,
      fd_lap = Some (l\<lparr>lap_car_position := 1, lap_driver_status := 1\<rparr>
        # l\<lparr>lap_car_position := 2, lap_driver_status := 1, lap_delta_to_car_in_front_minutes_part := 0,
             lap_delta_to_car_in_front_ms_part := 850\<rparr>
        # replicate 22 (l\<lparr>lap_driver_status := 0\<rparr>)),
      fd_status = None, fd_damage = None, fd_telemetry2 = None, fd_telemetry_packet = None,
      fd_player_car_index = Some 0\<rparr>)"

lemma two_cars_ok: "frame_data_ok two_cars"
  by (simp add: two_cars_def Let_def frame_data_ok_def cars_ok_def MAX_CARS_def)

lemma two_cars_driver:
  "racing_driver two_cars [(0, 70), (1, 71)] i = (if i = 0 then Some 70 else if i = 1 then Some 71 else None)"
  by (auto simp: racing_driver_def two_cars_def Let_def opt_nth_def)

lemma two_cars_positions: "positions_distinct two_cars [(0, 70), (1, 71)]"
  by (auto simp: positions_distinct_def two_cars_driver) (simp_all add: position_of_def two_cars_def Let_def
      opt_nth_def NOT_SET_def)

lemma car_numbers: "[0..<MAX_CARS] = [0, 1, 2, 3, 4, 5, 6, 7, 8, 9, 10, 11, 12, 13, 14, 15, 16, 17, 18, 19, 20, 21, 22, 23]"
  unfolding MAX_CARS_def by code_simp

lemma find_one: "find (\<lambda>j. j = 1) [0..<MAX_CARS] = Some 1"
  unfolding MAX_CARS_def by code_simp

theorem gap_to_car_behind_witness:
  "map_option (\<lambda>rows. map (\<lambda>r. r ! 74) (fst rows))
     (case frame_rows (\<lambda>u. [PTime 0, PStr [49], PInt u, PFloat (f_of_int 2), PInt 5]) two_cars
        [(0, 70), (1, 71)] {} of Inl e \<Rightarrow> None | Inr rows \<Rightarrow> Some rows)
   = Some [PInt 850, PNone]"
proof -
  let ?meta = "\<lambda>u. [PTime 0, PStr [49], PInt u, PFloat (f_of_int 2), PInt 5]"
  have len: "length (car_row ?meta two_cars {} i u) = 121" for i u
    unfolding car_row_def by (simp add: length_frame_row row_inputs_ok_def two_cars_def Let_def opt_nth_def)
  have pos: "position_of two_cars 0 = Some 1" "position_of two_cars 1 = Some 2" "gap_ahead_of two_cars 1 = PInt 850"
    by (simp_all add: position_of_def gap_ahead_of_def two_cars_def Let_def opt_nth_def NOT_SET_def split_time_ms_def)
  have ahead: "(\<lambda>j. racing_driver two_cars [(0, 70), (1, 71)] j \<noteq> None \<and> position_of two_cars j = Some p)
      = (\<lambda>j. j = 0 \<and> p = 1 \<or> j = 1 \<and> p = 2)" for p
    using pos by (auto simp: two_cars_driver)
  have gap: "gap_behind_of two_cars [(0, 70), (1, 71)] 0 = PInt 850"
    "gap_behind_of two_cars [(0, 70), (1, 71)] 1 = PNone"
    unfolding gap_behind_of_def pos ahead option.case
    using find_one pos(3) by (simp_all add: find_none)
  show ?thesis
    using gap_to_car_behind [OF two_cars_ok _ two_cars_positions, of ?meta "{}"]
    by (simp add: two_cars_driver car_numbers List.map_filter_def len gap [unfolded One_nat_def])
qed

subsection \<open>Restricted telemetry\<close>

text \<open>
  Two frames that differ only in what restricted cars keep to themselves: their damage, and the
  fields of their status that are not public.
\<close>

definition same_public_data :: "int set \<Rightarrow> frame_data \<Rightarrow> frame_data \<Rightarrow> bool" where
  "same_public_data R fd fd' \<longleftrightarrow>
     fd_motion fd = fd_motion fd' \<and> fd_telemetry fd = fd_telemetry fd' \<and> fd_lap fd = fd_lap fd'
     \<and> fd_telemetry2 fd = fd_telemetry2 fd' \<and> fd_telemetry_packet fd = fd_telemetry_packet fd'
     \<and> fd_player_car_index fd = fd_player_car_index fd'
     \<and> (fd_damage fd = None \<longleftrightarrow> fd_damage fd' = None)
     \<and> (\<forall>i < MAX_CARS.
          build_status_public_fields (opt_nth (fd_status fd) i) = build_status_public_fields (opt_nth (fd_status fd') i)
        \<and> (opt_nth (fd_status fd) i = None \<longleftrightarrow> opt_nth (fd_status fd') i = None)
        \<and> (int i \<notin> R \<longrightarrow> opt_nth (fd_status fd) i = opt_nth (fd_status fd') i
                        \<and> opt_nth (fd_damage fd) i = opt_nth (fd_damage fd') i))"

lemma restricted_fields: "build_status_restricted_fields s True = nones 13"
  by (simp add: build_status_restricted_fields_def split: option.split)

lemma racing_driver_lap: "fd_lap fd = fd_lap fd' \<Longrightarrow> racing_driver fd m i = racing_driver fd' m i"
  by (simp add: racing_driver_def)

lemma car_row_public:
  assumes "same_public_data R fd fd'" "i < MAX_CARS"
  shows "car_row meta fd R i u = car_row meta fd' R i u"
proof (cases "int i \<in> R")
  case True
  then show ?thesis using assms
    by (auto simp: car_row_def frame_row_def same_public_data_def restricted_fields)
qed (use assms in \<open>simp add: car_row_def frame_row_def same_public_data_def\<close>)

lemma damage_row_public:
  assumes "same_public_data R fd fd'" "i < MAX_CARS" "frame_data_ok fd" "frame_data_ok fd'"
  shows "damage_row meta fd R i u = damage_row meta fd' R i u"
proof (cases "int i \<in> R")
  case True
  then show ?thesis using assms(1)
    by (auto simp: damage_row_def same_public_data_def split: option.splits)
next
  case False
  have nonempty: "ds \<noteq> []" if "fd_damage fd = Some ds \<or> fd_damage fd' = Some ds" for ds
    using that assms(3,4) by (auto simp: frame_data_ok_def cars_ok_def MAX_CARS_def)
  have "opt_nth (fd_damage fd) i = opt_nth (fd_damage fd') i"
    "fd_damage fd = None \<longleftrightarrow> fd_damage fd' = None"
    using assms(1,2) False by (simp_all add: same_public_data_def)
  then show ?thesis using False nonempty
    by (auto simp: damage_row_def opt_nth_def split: option.splits if_splits)
qed

lemma frame_rows_public:
  assumes "same_public_data R fd fd'" "frame_data_ok fd" "frame_data_ok fd'"
  shows "frame_rows meta fd m R = frame_rows meta fd' m R"
proof -
  have d: "racing_driver fd m = racing_driver fd' m"
    using assms(1) by (intro ext racing_driver_lap) (simp add: same_public_data_def)
  have "car_row_list meta fd m R = car_row_list meta fd' m R"
    unfolding car_row_list_def d by (rule map_filter_cong) (use assms in \<open>auto simp: car_row_public intro: option.map_cong\<close>)
  moreover have "damage_row_list meta fd m R = damage_row_list meta fd' m R"
    unfolding damage_row_list_def d by (rule map_filter_cong) (use assms in \<open>auto simp: damage_row_public intro: Option.bind_cong\<close>)
  ultimately show ?thesis by (simp add: frame_rows_ok assms(2,3))
qed

text \<open>
  C7. A driver whose telemetry is restricted keeps fuel, ERS,
  engine power and damage private: whatever the game sends for them, the database ends up the same.
\<close>

theorem restricted_data_not_written:
  assumes "same_public_data R fd fd'" "frame_data_ok fd" "frame_data_ok fd'"
  shows "write_frame uid session_time frame m fd R session_start started w
    = write_frame uid session_time frame m fd' R session_start started w"
  unfolding write_frame_def frame_rows_public [OF assms] by (rule refl)

text \<open>Car 0 is restricted and the two frames differ in its fuel.\<close>

definition fuelled :: "int \<Rightarrow> frame_data" where
  "fuelled n =
     (let s = car_status_of (replicate 64 (PInt 0)) in
      two_cars\<lparr>fd_status := Some (s\<lparr>cs_fuel_in_tank := f_of_int n\<rparr> # replicate 23 s)\<rparr>)"

lemma fuel_values_differ: "f_of_int 3 \<noteq> f_of_int 4"
  by code_simp

theorem restricted_data_not_written_witness:
  "fuelled 3 \<noteq> fuelled 4 \<and>
   (\<forall>w. write_frame [49] (f_of_int 2) 5 [(0, 70), (1, 71)] (fuelled 3) {0} None True w =
        write_frame [49] (f_of_int 2) 5 [(0, 70), (1, 71)] (fuelled 4) {0} None True w)"
proof
  have "map_option (\<lambda>ss. cs_fuel_in_tank (ss ! 0)) (fd_status (fuelled n)) = Some (f_of_int n)" for n
    by (simp add: fuelled_def Let_def)
  then show "fuelled 3 \<noteq> fuelled 4" by (metis fuel_values_differ option.inject)
next
  have fields: "fd_motion (fuelled n) = fd_motion two_cars" "fd_telemetry (fuelled n) = fd_telemetry two_cars"
    "fd_lap (fuelled n) = fd_lap two_cars" "fd_telemetry2 (fuelled n) = fd_telemetry2 two_cars"
    "fd_telemetry_packet (fuelled n) = fd_telemetry_packet two_cars"
    "fd_player_car_index (fuelled n) = fd_player_car_index two_cars" "fd_damage (fuelled n) = None" for n
    by (simp_all add: fuelled_def Let_def two_cars_def)
  have status: "opt_nth (fd_status (fuelled n)) i = Some
      (let s = car_status_of (replicate 64 (PInt 0)) in
       if i = 0 then s\<lparr>cs_fuel_in_tank := f_of_int n\<rparr> else s)" if "i < MAX_CARS" for n i
    using that by (cases i) (simp_all add: fuelled_def Let_def opt_nth_def MAX_CARS_def)
  have ok: "frame_data_ok (fuelled n)" for n
    using two_cars_ok by (simp add: frame_data_ok_def fields) (simp add: fuelled_def Let_def cars_ok_def MAX_CARS_def)
  have "same_public_data {0} (fuelled 3) (fuelled 4)"
    by (simp add: same_public_data_def fields status Let_def build_status_public_fields_def)
  then show "\<forall>w. write_frame [49] (f_of_int 2) 5 [(0, 70), (1, 71)] (fuelled 3) {0} None True w =
        write_frame [49] (f_of_int 2) 5 [(0, 70), (1, 71)] (fuelled 4) {0} None True w"
    by (auto intro: restricted_data_not_written ok)
qed

subsection \<open>Re-delivery\<close>

lemma frame_batches:
  assumes "healthy w"
  shows "db_tables (w_db (if rows = [] then w else car_frame_insert_batch rows w)) =
     (if \<forall>r \<in> set rows. length r = length CAR_FRAME_COLUMNS
      then (db_tables (w_db w))(''telemetry.car_frame'' :=
         fold (\<lambda>r. insert_nothing FRAME_KEY (zip CAR_FRAME_COLUMNS r)) rows (table w ''telemetry.car_frame''))
      else db_tables (w_db w))"
    "db_tables (w_db (if rows = [] then w else car_frame_damage_insert_batch rows w)) =
     (if \<forall>r \<in> set rows. length r = length CAR_FRAME_DAMAGE_COLUMNS
      then (db_tables (w_db w))(''telemetry.car_frame_damage'' :=
         fold (\<lambda>r. insert_nothing FRAME_KEY (zip CAR_FRAME_DAMAGE_COLUMNS r)) rows (table w ''telemetry.car_frame_damage''))
      else db_tables (w_db w))"
    "healthy (if rows = [] then w else car_frame_insert_batch rows w)"
    "healthy (if rows = [] then w else car_frame_damage_insert_batch rows w)"
  using assms
  by (simp_all add: car_frame_insert_batch_def car_frame_damage_insert_batch_def insert_rows_nothing
      other_unique_keys_def)



end
