(* ===== verification/Session_Service.thy ===== *)
theory Session_Service
  imports Repositories
begin

text \<open>
  \<open>services/session.py\<close>: the Session packets. The first packet of a session writes its row and fixes
  the wall-clock anchor from which every frame timestamp of the session is derived; every packet
  adds a timeline sample; the forecast is written when its hash changes. Python's hash of a tuple
  of integers is the parameter \<open>forecast_hash\<close>.
\<close>

definition SPRINT_SHOOTOUT_IDS :: "int list" where
  "SPRINT_SHOOTOUT_IDS = [10, 11, 12, 13, 14]"

definition RACE_IDS :: "int list" where
  "RACE_IDS = [15, 16, 17]"

definition SPRINT_RACE_ID :: int where
  "SPRINT_RACE_ID = 100"

definition resolve_session_type :: "session_packet \<Rightarrow> int" where
  "resolve_session_type p =
    (let session_type = sp_session_type p;
         weekend_sessions = take (nat (sp_num_sessions_in_weekend p)) (sp_weekend_structure p);
         has_sprint_quali = list_ex (\<lambda>s. s \<in> set weekend_sessions) SPRINT_SHOOTOUT_IDS;
         num_races = length (filter (\<lambda>s. s \<in> set weekend_sessions) RACE_IDS)
     in if has_sprint_quali \<and> num_races \<ge> 2 \<and> session_type = 15 then SPRINT_RACE_ID else session_type)"

record session_service =
  ss_seen_sessions :: "pystr bounded_set"
  ss_last_forecast_hash :: "(pystr, int) bounded_dict"
  ss_session_types :: "(pystr, int) bounded_dict"
  ss_track_ids :: "(pystr, int) bounded_dict"
  ss_session_starts :: "(pystr, int) bounded_dict"
  ss_start_reaction_captured :: "pystr bounded_set"

definition new_session_service :: session_service where
  "new_session_service =
     \<lparr>ss_seen_sessions = bs_new 100, ss_last_forecast_hash = bd_new 200, ss_session_types = bd_new 200,
      ss_track_ids = bd_new 200, ss_session_starts = bd_new 200, ss_start_reaction_captured = bs_new 100\<rparr>"

definition get_session_type :: "session_service \<Rightarrow> pystr \<Rightarrow> int option" where
  "get_session_type s uid = bd_get (ss_session_types s) uid"

definition get_track_id :: "session_service \<Rightarrow> pystr \<Rightarrow> int option" where
  "get_track_id s uid = bd_get (ss_track_ids s) uid"

definition get_session_start :: "session_service \<Rightarrow> pystr \<Rightarrow> int option" where
  "get_session_start s uid = bd_get (ss_session_starts s) uid"

subsection \<open>The session row\<close>

definition session_values :: "session_packet \<Rightarrow> int \<Rightarrow> pystr \<Rightarrow> int \<Rightarrow> pyval list" where
  "session_values p session_type session_uid session_start =
      [PStr session_uid,
       (if sp_weekend_link_identifier p \<noteq> 0 then PStr (dec_int (sp_weekend_link_identifier p)) else PStr session_uid),
       (if sp_session_link_identifier p \<noteq> 0 then PStr (dec_int (sp_session_link_identifier p)) else PStr session_uid),
       (if sp_season_link_identifier p \<noteq> 0 then PStr (dec_int (sp_season_link_identifier p)) else PNone),
       PTime session_start, PInt (sp_track_id p),
       PStr (safe_enum_name SessionTypeIDs session_type),
       PStr (safe_enum_name Formula (sp_formula_type p)),
       PStr (safe_enum_name GameModeIDs (sp_game_mode p)),
       PStr (safe_enum_name RulesetIDs (sp_rule_set p)), PInt (sp_total_laps p),
       PInt (sp_session_duration p), PInt (sp_num_sessions_in_weekend p),
       PList (map (\<lambda>s. PStr (safe_enum_name SessionTypeIDs s)) (take (nat (sp_num_sessions_in_weekend p)) (sp_weekend_structure p))),
       PInt (sp_time_of_day p), PInt (sp_session_length p), PBool (sp_network_game p \<noteq> 0),
       PInt (sp_ai_difficulty p), PInt (sp_forecast_accuracy p),
       PBool (sp_equal_car_performance p \<noteq> 0),
       PBool (sp_sli_pro_native_support p \<noteq> 0), PInt (sp_assist_steering p),
       PInt (sp_assist_braking p), PInt (sp_assist_gearbox p), PInt (sp_assist_pit p),
       PInt (sp_assist_pit_release p), PInt (sp_assist_ers p), PInt (sp_assist_drs p),
       PInt (sp_anti_lock_brakes_assist p), PInt (sp_traction_control_assist p),
       PInt (sp_dynamic_racing_line p), PInt (sp_dynamic_racing_line_type p),
       PInt (sp_dynamic_racing_line_hi_vis p), PInt (sp_dynamic_racing_line_colour_blind p),
       PInt (sp_recovery_mode p), PInt (sp_flashback_limit p),
       PInt (sp_recurring_rewind_prompt p), PInt (sp_surface_type p), PInt (sp_low_fuel_mode p),
       PInt (sp_race_starts p), PInt (sp_tyre_temperature p), PInt (sp_pit_lane_tyre_sim p),
       PInt (sp_car_damage p), PInt (sp_car_damage_rate p), PInt (sp_collisions p),
       PInt (sp_collisions_off_for_first_lap_only p), PInt (sp_mp_unsafe_pit_release p),
       PInt (sp_mp_off_for_griefing p), PInt (sp_corner_cutting_stringency p),
       PInt (sp_parc_ferme_rules p), PInt (sp_pit_stop_experience p), PInt (sp_safety_car p),
       PInt (sp_safety_car_experience p), PInt (sp_formation_lap p),
       PInt (sp_formation_lap_experience p), PInt (sp_red_flags p),
       PInt (sp_affects_licence_level_solo p), PInt (sp_affects_licence_level_mp p),
       PInt (sp_speed_units_lead_player p), PInt (sp_temperature_units_lead_player p),
       PInt (sp_speed_units_secondary_player p), PInt (sp_temperature_units_secondary_player p)]"

text \<open>
  The anchor: the clock minus the session time of the packet. \<open>timedelta\<close> refuses a session time
  that is no number or too large, and \<open>datetime\<close> a result outside its years.
\<close>

definition session_anchor :: "int \<Rightarrow> pyfloat \<Rightarrow> int py" where
  "session_anchor now session_time = and_then (timedelta session_time) (\<lambda>us. datetime_add now (- us))"

definition insert_session_row ::
    "session_packet \<Rightarrow> int \<Rightarrow> session_service \<Rightarrow> world \<Rightarrow> session_service \<times> world" where
  "insert_session_row p session_type s w =
    (let session_uid = session_key (sp_header p); (now, w1) = utc_now w in
     case session_anchor now (hdr_session_time (sp_header p)) of
       Inl _ \<Rightarrow> (s, w1)
     | Inr session_start \<Rightarrow>
         let (_, w2) = update_track_technical_data (sp_track_id p) (sp_track_length p)
               (sp_sector_2_lap_distance_start p) (sp_sector_3_lap_distance_start p)
               (take (nat (sp_num_marshal_zones p)) (sp_marshal_zones p))
               (sp_pit_speed_limit p) (sp_active_aero_track_status p)
               (take (nat (sp_num_active_aero_zones_full p)) (sp_active_aero_zones_full p))
               (take (nat (sp_num_active_aero_zones_partial p)) (sp_active_aero_zones_partial p))
               (take (nat (sp_num_drs_zones p)) (sp_drs_zones p)) w1;
             w3 = insert_session (session_values p session_type session_uid session_start) w2;
             (stored_start, w4) = repo_get_session_start session_uid w3;
             anchor = (case stored_start of Some t \<Rightarrow> t | None \<Rightarrow> session_start)
         in (s\<lparr>ss_session_starts := bd_set (ss_session_starts s) session_uid anchor\<rparr>, w4))"

subsection \<open>The timeline\<close>

definition positive_or_none :: "int \<Rightarrow> pyval" where
  "positive_or_none i = (if 0 < i then PInt i else PNone)"

definition nonzero_or_none :: "int \<Rightarrow> pyval" where
  "nonzero_or_none i = (if i = 0 then PNone else PInt i)"

definition timeline_row :: "session_packet \<Rightarrow> int \<Rightarrow> pyval list" where
  "timeline_row p timestamp =
     [PTime timestamp, PStr (session_key (sp_header p)), PFloat (hdr_session_time (sp_header p)),
      PInt (hdr_overall_frame_identifier (sp_header p)), PInt (sp_session_time_left p),
      positive_or_none (sp_total_laps p), PStr (safe_enum_name WeatherIDs (sp_weather p)),
      PInt (sp_track_temperature p), PInt (sp_air_temperature p),
      PStr (safe_enum_name SafetyCarStatus (sp_safety_car_status p)),
      PList (map (\<lambda>z. PStr (safe_enum_name FlagStatus (mz_zone_flag z)))
        (take (nat (sp_num_marshal_zones p)) (sp_marshal_zones p))),
      PInt (sp_num_safety_car_periods p), PInt (sp_num_virtual_safety_car_periods p),
      PInt (sp_num_red_flag_periods p), PBool (sp_game_paused p \<noteq> 0), PBool (sp_is_spectating p \<noteq> 0),
      PInt (sp_spectator_car_index p), nonzero_or_none (sp_pit_stop_window_ideal_lap p),
      nonzero_or_none (sp_pit_stop_window_latest_lap p),
      nonzero_or_none (sp_pit_stop_rejoin_position p)]"

definition insert_timeline :: "session_packet \<Rightarrow> session_service \<Rightarrow> world \<Rightarrow> world" where
  "insert_timeline p s w =
    (case get_session_start s (session_key (sp_header p)) of
       Some start \<Rightarrow>
         (case and_then (timedelta (hdr_session_time (sp_header p))) (datetime_add start) of
            Inl _ \<Rightarrow> w
          | Inr t \<Rightarrow> insert_timeline_entry (timeline_row p t) w)
     | None \<Rightarrow> (let (t, w') = utc_now w in insert_timeline_entry (timeline_row p t) w'))"

subsection \<open>The forecast\<close>

definition forecast_tuple :: "weather_forecast_sample \<Rightarrow> int list" where
  "forecast_tuple s =
     [wf_session_type s, wf_time_offset s, wf_weather s, wf_track_temperature s,
      wf_track_temperature_change s, wf_air_temperature s, wf_air_temperature_change s,
      wf_rain_percentage s]"

definition update_weather_forecast ::
    "(int list list \<Rightarrow> int) \<Rightarrow> session_packet \<Rightarrow> session_service \<Rightarrow> world \<Rightarrow> session_service \<times> world" where
  "update_weather_forecast forecast_hash p s w =
    (let samples = take (nat (sp_num_weather_forecast_samples p)) (sp_weather_forecast_samples p);
         session_uid = session_key (sp_header p);
         h = forecast_hash (map forecast_tuple samples)
     in if samples = [] \<or> bd_get (ss_last_forecast_hash s) session_uid = Some h then (s, w)
        else (s\<lparr>ss_last_forecast_hash := bd_set (ss_last_forecast_hash s) session_uid h\<rparr>,
              upsert_weather_forecast session_uid (hdr_overall_frame_identifier (sp_header p)) samples w))"

subsection \<open>Handling a packet\<close>

definition note_session :: "session_packet \<Rightarrow> session_service \<Rightarrow> session_service" where
  "note_session p s = (let uid = session_key (sp_header p) in
     s\<lparr>ss_session_types := bd_set (ss_session_types s) uid (resolve_session_type p),
       ss_track_ids := bd_set (ss_track_ids s) uid (sp_track_id p)\<rparr>)"

definition first_session_packet ::
    "session_packet \<Rightarrow> session_service \<Rightarrow> world \<Rightarrow> session_service \<times> world" where
  "first_session_packet p s w = (let uid = session_key (sp_header p) in
     if bs_contains (ss_seen_sessions s) uid then (s, w)
     else let (s', w') = insert_session_row p (resolve_session_type p) s w
          in (s'\<lparr>ss_seen_sessions := bs_add uid (ss_seen_sessions s')\<rparr>, w'))"

definition capture_reaction ::
    "session_packet \<Rightarrow> session_service \<Rightarrow> world \<Rightarrow> session_service \<times> world" where
  "capture_reaction p s w = (let uid = session_key (sp_header p) in
     if f_nonzero (sp_start_reaction_time p) \<and> \<not> bs_contains (ss_start_reaction_captured s) uid
     then (s\<lparr>ss_start_reaction_captured := bs_add uid (ss_start_reaction_captured s)\<rparr>,
           capture_start_reaction_time uid (sp_start_reaction_time p) w)
     else (s, w))"

definition handle_session_packet ::
    "(int list list \<Rightarrow> int) \<Rightarrow> session_packet \<Rightarrow> session_service \<Rightarrow> world \<Rightarrow> session_service \<times> world" where
  "handle_session_packet forecast_hash p s w =
    (let (s1, w1) = first_session_packet p (note_session p s) w;
         (s2, w2) = capture_reaction p s1 w1
     in update_weather_forecast forecast_hash p s2 (insert_timeline p s2 w2))"

end
