(* ===== verification/Other_Packets.thy ===== *)
theory Other_Packets
  imports Packet_Header
begin

text \<open>
  The remaining parsers: participants (4), car setup (5), final classification (8), lobby info (9),
  session history (11), tyre sets (12), motion ex (13) and lap positions (15). Packets 8, 9 and 11
  are checked against an upper bound only, so their parsers can raise on a truncated body.
\<close>

subsection \<open>Packet 4: participants\<close>

definition PARTICIPANT_FORMAT :: string where
  "PARTICIPANT_FORMAT = ''<B3H3B32s2BHBB12B''"

record participant =
  pa_ai_controlled :: int
  pa_driver_id :: int
  pa_network_id :: int
  pa_team_id :: int
  pa_my_team :: int
  pa_race_number :: int
  pa_nationality :: int
  pa_name :: pystr
  pa_your_telemetry :: int
  pa_show_online_names :: int
  pa_tech_level :: int
  pa_platform :: int
  pa_num_colours :: int
  pa_livery_colours :: "int list list"

record participants_packet =
  pap_header :: packet_header
  pap_num_active_cars :: int
  pap_participants :: "participant list"

definition participant_of :: "pyval list \<Rightarrow> participant py" where
  "participant_of f = and_then (utf8_decode (rstrip_nul (bytes_at f 7))) (\<lambda>name. Inr
     \<lparr>pa_ai_controlled = int_at f 0, pa_driver_id = int_at f 1, pa_network_id = int_at f 2,
      pa_team_id = int_at f 3, pa_my_team = int_at f 4, pa_race_number = int_at f 5,
      pa_nationality = int_at f 6, pa_name = name, pa_your_telemetry = int_at f 8,
      pa_show_online_names = int_at f 9, pa_tech_level = int_at f 10, pa_platform = int_at f 11,
      pa_num_colours = int_at f 12,
      pa_livery_colours = map (\<lambda>i. ints_at f (13 + i) (13 + i + 3)) [0, 3, 6, 9]\<rparr>)"

definition unpack_participants :: "packet_header \<Rightarrow> byte list \<Rightarrow> participants_packet py" where
  "unpack_participants h data =
    and_then (struct_unpack ''<B'' (take 1 data)) (\<lambda>n.
    and_then (iter_unpack PARTICIPANT_FORMAT (drop 1 data)) (\<lambda>cars.
    and_then (map_py participant_of cars) (\<lambda>ps.
      Inr \<lparr>pap_header = h, pap_num_active_cars = int_at n 0, pap_participants = ps\<rparr>)))"

subsection \<open>Packet 5: car setup\<close>

definition CAR_SETUP_FORMAT :: string where
  "CAR_SETUP_FORMAT = ''<4B4f6B3B4fBf''"

definition CAR_SETUP_FORMAT_SIZE :: nat where
  "CAR_SETUP_FORMAT_SIZE = calcsize CAR_SETUP_FORMAT"

record car_setup_data =
  su_front_wing :: int
  su_rear_wing :: int
  su_on_throttle :: int
  su_off_throttle :: int
  su_front_camber :: pyfloat
  su_rear_camber :: pyfloat
  su_front_toe :: pyfloat
  su_rear_toe :: pyfloat
  su_front_suspension :: int
  su_rear_suspension :: int
  su_front_anti_roll_bar :: int
  su_rear_anti_roll_bar :: int
  su_front_ride_height :: int
  su_rear_ride_height :: int
  su_brake_pressure :: int
  su_brake_bias :: int
  su_engine_braking :: int
  su_rear_left_tyre_pressure :: pyfloat
  su_rear_right_tyre_pressure :: pyfloat
  su_front_left_tyre_pressure :: pyfloat
  su_front_right_tyre_pressure :: pyfloat
  su_ballast :: int
  su_fuel_load :: pyfloat

record car_setup_packet =
  sup_header :: packet_header
  sup_car_setups :: "car_setup_data list"
  sup_next_front_wing_value :: pyfloat

definition car_setup_of :: "pyval list \<Rightarrow> car_setup_data" where
  "car_setup_of f =
     \<lparr>su_front_wing = int_at f 0, su_rear_wing = int_at f 1, su_on_throttle = int_at f 2,
        su_off_throttle = int_at f 3, su_front_camber = float_at f 4,
        su_rear_camber = float_at f 5, su_front_toe = float_at f 6, su_rear_toe = float_at f 7,
        su_front_suspension = int_at f 8, su_rear_suspension = int_at f 9,
        su_front_anti_roll_bar = int_at f 10, su_rear_anti_roll_bar = int_at f 11,
        su_front_ride_height = int_at f 12, su_rear_ride_height = int_at f 13,
        su_brake_pressure = int_at f 14, su_brake_bias = int_at f 15,
        su_engine_braking = int_at f 16, su_rear_left_tyre_pressure = float_at f 17,
        su_rear_right_tyre_pressure = float_at f 18,
        su_front_left_tyre_pressure = float_at f 19,
        su_front_right_tyre_pressure = float_at f 20, su_ballast = int_at f 21,
        su_fuel_load = float_at f 22\<rparr>"

definition unpack_car_setup :: "packet_header \<Rightarrow> byte list \<Rightarrow> car_setup_packet py" where
  "unpack_car_setup h data =
    (let car_data_bytes = take (CAR_SETUP_FORMAT_SIZE * MAX_CARS) data;
         remaining = drop (CAR_SETUP_FORMAT_SIZE * MAX_CARS) data in
     and_then (iter_unpack CAR_SETUP_FORMAT car_data_bytes) (\<lambda>cars.
     and_then (struct_unpack ''<f'' (take 4 remaining)) (\<lambda>w.
       Inr \<lparr>sup_header = h, sup_car_setups = map car_setup_of cars,
            sup_next_front_wing_value = float_at w 0\<rparr>)))"

subsection \<open>Packet 8: final classification\<close>

definition MAX_TYRE_STINTS :: nat where
  "MAX_TYRE_STINTS = 8"

definition FINAL_CLASSIFICATION_FORMAT :: string where
  "FINAL_CLASSIFICATION_FORMAT = ''<7BLd3B24B''"

definition FINAL_CLASSIFICATION_FORMAT_SIZE :: nat where
  "FINAL_CLASSIFICATION_FORMAT_SIZE = calcsize FINAL_CLASSIFICATION_FORMAT"

record final_classification =
  fc_position :: int
  fc_num_of_laps :: int
  fc_grid_position :: int
  fc_points :: int
  fc_num_pit_stops :: int
  fc_result_status :: int
  fc_result_reason :: int
  fc_best_lap_time_in_ms :: int
  fc_total_race_time :: pyfloat
  fc_penalties_time :: int
  fc_num_of_penalties :: int
  fc_num_of_tyre_stints :: int
  fc_tyre_stints_actual :: "int list"
  fc_tyre_stints_visual :: "int list"
  fc_tyre_stints_end_laps :: "int list"

record final_classification_packet =
  fcp_header :: packet_header
  fcp_num_cars :: int
  fcp_final_classifications :: "final_classification list"

text \<open>The last 24 of the 36 values are the three stint arrays.\<close>

definition final_classification_of :: "pyval list \<Rightarrow> final_classification" where
  "final_classification_of u =
     \<lparr>fc_position = int_at u 0, fc_num_of_laps = int_at u 1, fc_grid_position = int_at u 2,
      fc_points = int_at u 3, fc_num_pit_stops = int_at u 4, fc_result_status = int_at u 5,
      fc_result_reason = int_at u 6, fc_best_lap_time_in_ms = int_at u 7,
      fc_total_race_time = float_at u 8, fc_penalties_time = int_at u 9,
      fc_num_of_penalties = int_at u 10, fc_num_of_tyre_stints = int_at u 11,
      fc_tyre_stints_actual = ints_at u 12 (12 + MAX_TYRE_STINTS),
      fc_tyre_stints_visual = ints_at u (12 + MAX_TYRE_STINTS) (12 + MAX_TYRE_STINTS * 2),
      fc_tyre_stints_end_laps = ints_at u (12 + MAX_TYRE_STINTS * 2) (12 + MAX_TYRE_STINTS * 3)\<rparr>"

definition unpack_final_classification :: "packet_header \<Rightarrow> byte list \<Rightarrow> final_classification_packet py" where
  "unpack_final_classification h data =
    and_then (struct_unpack ''<B'' (take 1 data)) (\<lambda>n.
      let num_cars = min (int_at n 0) (int MAX_CARS);
          size = FINAL_CLASSIFICATION_FORMAT_SIZE * nat num_cars in
      and_then (iter_unpack FINAL_CLASSIFICATION_FORMAT (py_slice 1 (1 + size) data)) (\<lambda>fcs.
        Inr \<lparr>fcp_header = h, fcp_num_cars = num_cars,
             fcp_final_classifications = map final_classification_of fcs\<rparr>))"

subsection \<open>Packet 9: lobby info\<close>

definition LOBBY_PLAYER_FORMAT :: string where
  "LOBBY_PLAYER_FORMAT = ''<BH2B32s3BHB''"

record lobby_player =
  lo_ai_controlled :: int
  lo_team_id :: int
  lo_nationality :: int
  lo_platform :: int
  lo_m_name :: pystr
  lo_car_number :: int
  lo_your_telemetry :: int
  lo_show_online_names :: int
  lo_tech_level :: int
  lo_ready_status :: int

record lobby_info_packet =
  lop_header :: packet_header
  lop_num_players :: int
  lop_lobby_players :: "lobby_player list"

definition lobby_player_of :: "pyval list \<Rightarrow> lobby_player py" where
  "lobby_player_of f = and_then (utf8_decode (rstrip_nul (bytes_at f 4))) (\<lambda>name. Inr
     \<lparr>lo_ai_controlled = int_at f 0, lo_team_id = int_at f 1, lo_nationality = int_at f 2,
      lo_platform = int_at f 3, lo_m_name = name, lo_car_number = int_at f 5,
      lo_your_telemetry = int_at f 6, lo_show_online_names = int_at f 7,
      lo_tech_level = int_at f 8, lo_ready_status = int_at f 9\<rparr>)"

definition unpack_lobby_info :: "packet_header \<Rightarrow> byte list \<Rightarrow> lobby_info_packet py" where
  "unpack_lobby_info h data =
    and_then (struct_unpack ''<B'' (take 1 data)) (\<lambda>n.
    and_then (iter_unpack LOBBY_PLAYER_FORMAT (drop 1 data)) (\<lambda>us.
    and_then (map_py lobby_player_of us) (\<lambda>ps.
      Inr \<lparr>lop_header = h, lop_num_players = int_at n 0, lop_lobby_players = ps\<rparr>)))"

subsection \<open>Packet 11: session history\<close>

definition LAP_HISTORY_FORMAT :: string where
  "LAP_HISTORY_FORMAT = ''<LHBHBHBB''"

definition LAP_HISTORY_FORMAT_SIZE :: nat where
  "LAP_HISTORY_FORMAT_SIZE = calcsize LAP_HISTORY_FORMAT"

definition TYRE_STINT_HISTORY_FORMAT :: string where
  "TYRE_STINT_HISTORY_FORMAT = ''<3B''"

record lap_history =
  lh_lap_time_in_ms :: int
  lh_sector_1_time_ms_part :: int
  lh_sector_1_time_minutes_part :: int
  lh_sector_2_time_ms_part :: int
  lh_sector_2_time_minutes_part :: int
  lh_sector_3_time_ms_part :: int
  lh_sector_3_time_minutes_part :: int
  lh_lap_valid_bit_flags :: int

record tyre_stint_history =
  ts_end_lap :: int
  ts_tyre_actual_compound :: int
  ts_tyre_visual_compound :: int

record session_history_packet =
  sh_header :: packet_header
  sh_car_index :: int
  sh_num_laps :: int
  sh_num_tyre_stints :: int
  sh_best_lap_time_lap_num :: int
  sh_best_sector_1_lap_num :: int
  sh_best_sector_2_lap_num :: int
  sh_best_sector_3_lap_num :: int
  sh_lap_history_list :: "lap_history list"
  sh_tyre_stints_list :: "tyre_stint_history list"

definition lap_history_of :: "pyval list \<Rightarrow> lap_history" where
  "lap_history_of f =
     \<lparr>lh_lap_time_in_ms = int_at f 0, lh_sector_1_time_ms_part = int_at f 1,
        lh_sector_1_time_minutes_part = int_at f 2, lh_sector_2_time_ms_part = int_at f 3,
        lh_sector_2_time_minutes_part = int_at f 4, lh_sector_3_time_ms_part = int_at f 5,
        lh_sector_3_time_minutes_part = int_at f 6, lh_lap_valid_bit_flags = int_at f 7\<rparr>"

definition tyre_stint_history_of :: "pyval list \<Rightarrow> tyre_stint_history" where
  "tyre_stint_history_of f =
     \<lparr>ts_end_lap = int_at f 0, ts_tyre_actual_compound = int_at f 1,
        ts_tyre_visual_compound = int_at f 2\<rparr>"

definition unpack_session_history :: "packet_header \<Rightarrow> byte list \<Rightarrow> session_history_packet py" where
  "unpack_session_history h data =
    and_then (struct_unpack ''<7B'' (take (calcsize ''<7B'') data)) (\<lambda>f.
    let size = LAP_HISTORY_FORMAT_SIZE * 100; start = calcsize ''<7B'' in
    and_then (iter_unpack LAP_HISTORY_FORMAT (py_slice start (start + size) data)) (\<lambda>laps.
    and_then (iter_unpack TYRE_STINT_HISTORY_FORMAT (drop (start + size) data)) (\<lambda>stints.
      Inr \<lparr>sh_header = h, sh_car_index = int_at f 0, sh_num_laps = int_at f 1,
        sh_num_tyre_stints = int_at f 2, sh_best_lap_time_lap_num = int_at f 3,
        sh_best_sector_1_lap_num = int_at f 4, sh_best_sector_2_lap_num = int_at f 5,
        sh_best_sector_3_lap_num = int_at f 6, sh_lap_history_list = map lap_history_of laps,
        sh_tyre_stints_list = map tyre_stint_history_of stints\<rparr>)))"

subsection \<open>Packet 12: tyre sets\<close>

definition TYRE_SET_FORMAT :: string where
  "TYRE_SET_FORMAT = ''<7BhB''"

definition TYRE_SET_FORMAT_SIZE :: nat where
  "TYRE_SET_FORMAT_SIZE = calcsize TYRE_SET_FORMAT"

record tyre_set_data =
  ty_actual_compound :: int
  ty_visual_compound :: int
  ty_wear :: int
  ty_available :: int
  ty_recommended_session :: int
  ty_life_span :: int
  ty_usable_life :: int
  ty_lap_delta_time :: int
  ty_fitted :: int

record tyre_sets_packet =
  typ_header :: packet_header
  typ_car_idx :: int
  typ_tyre_set_data :: "tyre_set_data list"
  typ_fitted_idx :: int

definition tyre_set_of :: "pyval list \<Rightarrow> tyre_set_data" where
  "tyre_set_of f =
     \<lparr>ty_actual_compound = int_at f 0, ty_visual_compound = int_at f 1,
        ty_wear = int_at f 2, ty_available = int_at f 3, ty_recommended_session = int_at f 4,
        ty_life_span = int_at f 5, ty_usable_life = int_at f 6, ty_lap_delta_time = int_at f 7,
        ty_fitted = int_at f 8\<rparr>"

definition unpack_tyre_sets :: "packet_header \<Rightarrow> byte list \<Rightarrow> tyre_sets_packet py" where
  "unpack_tyre_sets h data =
    and_then (struct_unpack ''<B'' (take 1 data)) (\<lambda>c.
    let set_data_bytes = py_slice 1 (1 + TYRE_SET_FORMAT_SIZE * 20) data;
        remaining = drop (1 + TYRE_SET_FORMAT_SIZE * 20) data in
    and_then (iter_unpack TYRE_SET_FORMAT set_data_bytes) (\<lambda>sets.
    and_then (struct_unpack ''<B'' (take 1 remaining)) (\<lambda>w.
      Inr \<lparr>typ_header = h, typ_car_idx = int_at c 0, typ_tyre_set_data = map tyre_set_of sets,
           typ_fitted_idx = int_at w 0\<rparr>)))"

subsection \<open>Packet 13: motion ex\<close>

definition MOTION_EX_FORMAT :: string where
  "MOTION_EX_FORMAT = ''<61f''"

record motion_ex_data =
  mx_suspension_position :: "pyfloat list"
  mx_suspension_velocity :: "pyfloat list"
  mx_suspension_acceleration :: "pyfloat list"
  mx_wheel_speed :: "pyfloat list"
  mx_wheel_slip_ratio :: "pyfloat list"
  mx_wheel_slip_angle :: "pyfloat list"
  mx_wheel_lat_force :: "pyfloat list"
  mx_wheel_long_force :: "pyfloat list"
  mx_height_of_cog_above_ground :: pyfloat
  mx_local_velocity_x :: pyfloat
  mx_local_velocity_y :: pyfloat
  mx_local_velocity_z :: pyfloat
  mx_angular_velocity_x :: pyfloat
  mx_angular_velocity_y :: pyfloat
  mx_angular_velocity_z :: pyfloat
  mx_angular_acceleration_x :: pyfloat
  mx_angular_acceleration_y :: pyfloat
  mx_angular_acceleration_z :: pyfloat
  mx_front_wheels_angle :: pyfloat
  mx_wheel_vert_force :: "pyfloat list"
  mx_front_aero_height :: pyfloat
  mx_rear_aero_height :: pyfloat
  mx_front_roll_angle :: pyfloat
  mx_rear_roll_angle :: pyfloat
  mx_chassis_yaw :: pyfloat
  mx_chassis_pitch :: pyfloat
  mx_wheel_camber :: "pyfloat list"
  mx_wheel_camber_gain :: "pyfloat list"

record motion_ex_packet =
  mxp_header :: packet_header
  mxp_motion_ex_data :: motion_ex_data

definition motion_ex_of :: "pyval list \<Rightarrow> motion_ex_data" where
  "motion_ex_of f =
     \<lparr>mx_suspension_position = floats_at f 0 4, mx_suspension_velocity = floats_at f 4 8,
        mx_suspension_acceleration = floats_at f 8 12, mx_wheel_speed = floats_at f 12 16,
        mx_wheel_slip_ratio = floats_at f 16 20, mx_wheel_slip_angle = floats_at f 20 24,
        mx_wheel_lat_force = floats_at f 24 28, mx_wheel_long_force = floats_at f 28 32,
        mx_height_of_cog_above_ground = float_at f 32, mx_local_velocity_x = float_at f 33,
        mx_local_velocity_y = float_at f 34, mx_local_velocity_z = float_at f 35,
        mx_angular_velocity_x = float_at f 36, mx_angular_velocity_y = float_at f 37,
        mx_angular_velocity_z = float_at f 38, mx_angular_acceleration_x = float_at f 39,
        mx_angular_acceleration_y = float_at f 40, mx_angular_acceleration_z = float_at f 41,
        mx_front_wheels_angle = float_at f 42, mx_wheel_vert_force = floats_at f 43 47,
        mx_front_aero_height = float_at f 47, mx_rear_aero_height = float_at f 48,
        mx_front_roll_angle = float_at f 49, mx_rear_roll_angle = float_at f 50,
        mx_chassis_yaw = float_at f 51, mx_chassis_pitch = float_at f 52,
        mx_wheel_camber = floats_at f 53 57, mx_wheel_camber_gain = floats_at f 57 61\<rparr>"

definition unpack_motion_ex :: "packet_header \<Rightarrow> byte list \<Rightarrow> motion_ex_packet py" where
  "unpack_motion_ex h data =
    and_then (unpack_from MOTION_EX_FORMAT data 0) (\<lambda>f.
      Inr \<lparr>mxp_header = h, mxp_motion_ex_data = motion_ex_of f\<rparr>)"

subsection \<open>Packet 15: lap positions\<close>

definition MAX_LAPS :: nat where
  "MAX_LAPS = 50"

record lap_positions_packet =
  lpp_header :: packet_header
  lpp_num_laps :: int
  lpp_lap_start :: int
  lpp_positions :: "int list list"

definition unpack_lap_positions :: "packet_header \<Rightarrow> byte list \<Rightarrow> lap_positions_packet py" where
  "unpack_lap_positions h data =
    (if length data < 1 + 1 + 50 * 24 then Inl PyValueError
     else and_then (struct_unpack ''<BB'' (take 2 data)) (\<lambda>f.
       let positions_bytes = py_slice 2 (2 + MAX_LAPS * MAX_CARS) data in
       Inr \<lparr>lpp_header = h, lpp_num_laps = int_at f 0, lpp_lap_start = int_at f 1,
            lpp_positions = map (\<lambda>i. map (\<lambda>b. int (unat b))
              (py_slice (i * MAX_CARS) ((i + 1) * MAX_CARS) positions_bytes)) [0..<MAX_LAPS]\<rparr>))"

subsection \<open>Formats\<close>

lemma other_formats_parse [simp]:
  "parse_format PARTICIPANT_FORMAT = Inr ([FB, FH, FH, FH, FB, FB, FB, Fs 32, FB, FB, FH, FB, FB] @ replicate 12 FB)"
  "parse_format CAR_SETUP_FORMAT = Inr (replicate 4 FB @ replicate 4 Ff @ replicate 6 FB @ replicate 3 FB
     @ replicate 4 Ff @ [FB, Ff])"
  "parse_format FINAL_CLASSIFICATION_FORMAT = Inr (replicate 7 FB @ [FI, Fd] @ replicate 3 FB @ replicate 24 FB)"
  "parse_format LOBBY_PLAYER_FORMAT = Inr [FB, FH, FB, FB, Fs 32, FB, FB, FB, FH, FB]"
  "parse_format LAP_HISTORY_FORMAT = Inr [FI, FH, FB, FH, FB, FH, FB, FB]"
  "parse_format TYRE_STINT_HISTORY_FORMAT = Inr [FB, FB, FB]"
  "parse_format TYRE_SET_FORMAT = Inr (replicate 7 FB @ [Fh, FB])"
  "parse_format MOTION_EX_FORMAT = Inr (replicate 61 Ff)"
  "parse_format ''<B'' = Inr [FB]"
  "parse_format ''<BB'' = Inr [FB, FB]"
  "parse_format ''<7B'' = Inr (replicate 7 FB)"
  "parse_format ''<f'' = Inr [Ff]"
  by (simp_all add: PARTICIPANT_FORMAT_def CAR_SETUP_FORMAT_def FINAL_CLASSIFICATION_FORMAT_def
      LOBBY_PLAYER_FORMAT_def LAP_HISTORY_FORMAT_def TYRE_STINT_HISTORY_FORMAT_def
      TYRE_SET_FORMAT_def MOTION_EX_FORMAT_def parse_format_def digit_of_char_def
      field_of_char_def numeral_eq_Suc)

lemma other_sizes [simp]:
  "CAR_SETUP_FORMAT_SIZE = 50" "FINAL_CLASSIFICATION_FORMAT_SIZE = 46"
  "LAP_HISTORY_FORMAT_SIZE = 14" "TYRE_SET_FORMAT_SIZE = 10"
  "calcsize PARTICIPANT_FORMAT = 60" "calcsize LOBBY_PLAYER_FORMAT = 43"
  "calcsize TYRE_STINT_HISTORY_FORMAT = 3" "calcsize ''<7B'' = 7"
  by (simp_all add: CAR_SETUP_FORMAT_SIZE_def FINAL_CLASSIFICATION_FORMAT_SIZE_def
      LAP_HISTORY_FORMAT_SIZE_def TYRE_SET_FORMAT_SIZE_def calcsize_def)

lemma iter_unpack_dvd:
  assumes "parse_format s = Inr fs" "0 < fields_size fs" "fields_size fs dvd length bs"
  shows "\<exists>vs. iter_unpack s bs = Inr vs \<and> length vs = length bs div fields_size fs"
  using assms by (simp add: iter_unpack_def Let_def mod_eq_0_iff_dvd)

subsection \<open>Bodies of the checked size parse\<close>

lemma unpack_car_setup_total:
  assumes "length data = 1204"
  shows "\<exists>p. unpack_car_setup h data = Inr p \<and> length (sup_car_setups p) = MAX_CARS \<and> sup_header p = h"
  using iter_unpack_dvd [of CAR_SETUP_FORMAT _ "take 1200 data"] assms
  by (auto simp: unpack_car_setup_def MAX_CARS_def struct_unpack_def Let_def)

lemma unpack_tyre_sets_total:
  assumes "length data = 202"
  shows "\<exists>p. unpack_tyre_sets h data = Inr p \<and> length (typ_tyre_set_data p) = 20 \<and> typ_header p = h"
  using iter_unpack_dvd [of TYRE_SET_FORMAT _ "py_slice 1 201 data"] assms
  by (auto simp: unpack_tyre_sets_def struct_unpack_def Let_def)

lemma unpack_motion_ex_total:
  assumes "length data = 244"
  shows "\<exists>p. unpack_motion_ex h data = Inr p \<and> mxp_header p = h"
  using assms by (simp add: unpack_motion_ex_def unpack_from_def)

lemma unpack_lap_positions_total:
  assumes "length data = 1202"
  shows "\<exists>p. unpack_lap_positions h data = Inr p \<and> length (lpp_positions p) = MAX_LAPS
    \<and> (\<forall>row \<in> set (lpp_positions p). length row = MAX_CARS)"
  using assms
  by (auto simp: unpack_lap_positions_def struct_unpack_def Let_def MAX_LAPS_def MAX_CARS_def)

text \<open>A participants body parses unless one of the 24 names is not valid UTF-8.\<close>

lemma unpack_participants_total:
  assumes "length data = 1441"
  shows "(\<exists>p. unpack_participants h data = Inr p \<and> length (pap_participants p) = MAX_CARS \<and> pap_header p = h)
    \<or> unpack_participants h data = Inl UnicodeDecodeError"
proof -
  obtain cars where c: "iter_unpack PARTICIPANT_FORMAT (drop 1 data) = Inr cars" "length cars = 24"
    using iter_unpack_dvd [of PARTICIPANT_FORMAT _ "drop 1 data"] assms by auto
  have "map_py participant_of us = Inl e \<Longrightarrow> e = UnicodeDecodeError" for us e
    by (induction us)
       (auto simp: and_then_Inl_iff participant_of_def utf8_decode_def dest: utf8_scan_error)
  then show ?thesis
    using c assms map_py_Inr_length [of participant_of cars]
    by (cases "map_py participant_of cars")
       (auto simp: unpack_participants_def struct_unpack_def MAX_CARS_def)
qed

end
