(* ===== verification/Participants_Service.thy ===== *)
theory Participants_Service
  imports Repositories Other_Packets
begin

text \<open>
  \<open>services/participants.py\<close>: the roster. Only human drivers get an entry, the user map holds only
  the rows the database confirmed, and a driver not yet confirmed is tried again with every packet.
\<close>

definition GENERIC_DRIVER_NAMES :: "pystr list" where
  "GENERIC_DRIVER_NAMES = [ascii ''player'', []]"

definition EMPTY_SLOT_TEAM_ID :: int where
  "EMPTY_SLOT_TEAM_ID = 65535"

record participants_service =
  ps_written_humans :: "(pystr, int set) bounded_dict"
  ps_user_map_cache :: "(pystr, user_map) bounded_dict"
  ps_player_counter :: "int option"
  ps_restricted_indices :: "(pystr, int set) bounded_dict"

definition new_participants_service :: participants_service where
  "new_participants_service =
     \<lparr>ps_written_humans = bd_new 200, ps_user_map_cache = bd_new 200, ps_player_counter = None,
      ps_restricted_indices = bd_new 200\<rparr>"

definition get_restricted_indices :: "participants_service \<Rightarrow> pystr \<Rightarrow> int set" where
  "get_restricted_indices s uid = (case bd_get (ps_restricted_indices s) uid of Some x \<Rightarrow> x | None \<Rightarrow> {})"

definition get_user_map :: "participants_service \<Rightarrow> pystr \<Rightarrow> user_map" where
  "get_user_map s uid = (case bd_get (ps_user_map_cache s) uid of Some m \<Rightarrow> m | None \<Rightarrow> [])"

definition written_humans :: "participants_service \<Rightarrow> pystr \<Rightarrow> int set" where
  "written_humans s uid = (case bd_get (ps_written_humans s) uid of Some x \<Rightarrow> x | None \<Rightarrow> {})"

definition next_generic_name :: "participants_service \<Rightarrow> world \<Rightarrow> pystr \<times> participants_service \<times> world" where
  "next_generic_name s w =
    (let (n, w') = (case ps_player_counter s of Some n \<Rightarrow> (n, w) | None \<Rightarrow> max_player_number w)
     in (ascii ''Player '' @ dec_int (n + 1), s\<lparr>ps_player_counter := Some (n + 1)\<rparr>, w'))"

definition restricted_of :: "participants_packet \<Rightarrow> int set" where
  "restricted_of p =
     set (map (\<lambda>(i, x). int i) (filter (\<lambda>(i, x). pa_your_telemetry x = 0) (enumerate 0 (pap_participants p))))
     - {hdr_player_car_index (pap_header p)}"

definition is_human :: "participant \<Rightarrow> bool" where
  "is_human x \<longleftrightarrow> pa_ai_controlled x = 0 \<and> \<not> (pa_team_id x = EMPTY_SLOT_TEAM_ID \<and> pa_race_number x = 0)"

text \<open>The name in the packet, or for a generic one the name of the weekend, or the next number.\<close>

definition driver_name_of ::
    "pystr \<Rightarrow> participant \<Rightarrow> participants_service \<Rightarrow> world \<Rightarrow> pystr \<times> participants_service \<times> world" where
  "driver_name_of session_uid x s w =
    (let name = strip (remove_nul (pa_name x)) in
     if lower name \<in> set GENERIC_DRIVER_NAMES
     then (case find_weekend_driver_name session_uid (pa_team_id x) (pa_race_number x) w of
             (Some n, w') \<Rightarrow> if n = [] then next_generic_name s w' else (n, s, w')
           | (None, w') \<Rightarrow> next_generic_name s w')
     else (name, s, w))"

text \<open>\<open>livery_colours[color_idx]\<close> raises when the packet holds fewer colours than it counts.\<close>

definition livery_colors_of :: "participant \<Rightarrow> int list py" where
  "livery_colors_of x =
     and_then (map_py (py_index (pa_livery_colours x)) [0..<nat (min (pa_num_colours x) 4)])
       (\<lambda>cs. Inr (concat cs))"

definition entry_of :: "pystr \<Rightarrow> nat \<Rightarrow> participant \<Rightarrow> pystr \<Rightarrow> int list \<Rightarrow> entry" where
  "entry_of session_uid i x name colors =
     \<lparr>en_session_uid = session_uid, en_car_index = int i, en_driver_name = name,
      en_team_id = pa_team_id x, en_race_number = pa_race_number x,
      en_nationality = pa_nationality x, en_driver_id = pa_driver_id x,
      en_network_id = pa_network_id x, en_my_team = (pa_my_team x \<noteq> 0),
      en_platform = pa_platform x, en_tech_level = pa_tech_level x,
      en_show_online_names = (pa_show_online_names x \<noteq> 0),
      en_telemetry_public = (pa_your_telemetry x \<noteq> 0),
      en_num_livery_colors = min (pa_num_colours x) 4, en_livery_colors = colors\<rparr>"

fun human_entries ::
    "pystr \<Rightarrow> (nat \<times> participant) list \<Rightarrow> participants_service \<Rightarrow> world
     \<Rightarrow> entry list py \<times> participants_service \<times> world" where
  "human_entries uid [] s w = (Inr [], s, w)"
| "human_entries uid ((i, x) # xs) s w =
    (if \<not> is_human x then human_entries uid xs s w
     else let (name, s1, w1) = driver_name_of uid x s w in
       case livery_colors_of x of
         Inl e \<Rightarrow> (Inl e, s1, w1)
       | Inr colors \<Rightarrow>
           let (r, s2, w2) = human_entries uid xs s1 w1
           in (and_then r (\<lambda>es. Inr (entry_of uid i x name colors # es)), s2, w2))"

definition record_entries ::
    "pystr \<Rightarrow> entry list \<Rightarrow> participants_service \<Rightarrow> world \<Rightarrow> user_map \<times> participants_service \<times> world" where
  "record_entries uid entries s w =
    (let current_humans = set (map en_car_index entries);
         written = written_humans s uid;
         new_entries = filter (\<lambda>e. en_car_index e \<notin> written) entries
     in if current_humans = written \<or> new_entries = [] then (get_user_map s uid, s, w)
        else let (new_mappings, w') = insert_entries_batch new_entries w in
          if new_mappings = [] then (get_user_map s uid, s, w')
          else let user_map = dict_merge (get_user_map s uid) new_mappings in
            (user_map,
             s\<lparr>ps_user_map_cache := bd_set (ps_user_map_cache s) uid user_map,
               ps_written_humans := bd_set (ps_written_humans s) uid (written \<union> set (map fst new_mappings))\<rparr>,
             w'))"

definition handle_participants_packet ::
    "participants_packet \<Rightarrow> participants_service \<Rightarrow> world
     \<Rightarrow> user_map py \<times> participants_service \<times> world" where
  "handle_participants_packet p s w =
    (let uid = session_key (pap_header p);
         s1 = s\<lparr>ps_restricted_indices := bd_set (ps_restricted_indices s) uid (restricted_of p)\<rparr>
     in case human_entries uid (enumerate 0 (pap_participants p)) s1 w of
          (Inl e, s2, w2) \<Rightarrow> (Inl e, s2, w2)
        | (Inr entries, s2, w2) \<Rightarrow>
            let (m, s3, w3) = record_entries uid entries s2 w2 in (Inr m, s3, w3))"

end
