(* ===== verification/Event_Packet.thy ===== *)
theory Event_Packet
  imports Packet_Header Enums
begin

text \<open>
  \<open>packets/events.py\<close> (packet 3): a four-character code and a union whose member the code selects.
  Packet 3 is the one type whose body size is not checked, so this parser raises on a short body.
\<close>

datatype event_details =
    NoDetails
  | FastestLap (fl_vehicle_index: int) (fl_lap_time: pyfloat)
  | Retirement (rt_vehicle_index: int) (rt_reason: int)
  | TeamMateInPits (tm_vehicle_index: int)
  | RaceWinner (rw_vehicle_index: int)
  | Penalty (pn_penalty_type: int) (pn_infringement_type: int) (pn_vehicle_index: int)
      (pn_other_vehicle_index: int) (pn_time: int) (pn_lap_num: int) (pn_places_gained: int)
  | SpeedTrap (st_vehicle_index: int) (st_speed: pyfloat) (st_is_overall_fastest_in_session: int)
      (st_is_driver_fastest_in_session: int) (st_fastest_vehicle_index_in_session: int)
      (st_fastest_speed_in_session: pyfloat)
  | StartLights (sl_num_of_lights: int)
  | DriveThroughPenaltyServed (dt_vehicle_index: int)
  | StopGoPenaltyServed (sg_vehicle_index: int) (sg_stop_time: pyfloat)
  | Flashback (fb_flashback_frame_identifier: int) (fb_flashback_session_time: pyfloat)
  | Buttons (bt_button_status: int)
  | Overtake (ot_overtaking_vehicle_index: int) (ot_being_overtaken_vehicle_index: int)
  | SafetyCar (sc_safety_car_type: int) (sc_event_type: int)
  | Collision (cl_vehicle_1_index: int) (cl_vehicle_2_index: int) (cl_severity: int)
  | DrsDisabled (dd_reason: int)

record event_packet =
  ev_header :: packet_header
  ev_event_string_code :: pystr
  ev_event :: event_details

text \<open>\<open>EventCodes.NAME.value\<close>.\<close>

definition event_code :: "string \<Rightarrow> pystr" where
  "event_code name = (case map_of EventCodes name of Some c \<Rightarrow> ascii c | None \<Rightarrow> [])"

text \<open>\<open>struct.unpack(FMT, event_bytes[:FMT_SIZE])\<close>.\<close>

definition event_fields :: "string \<Rightarrow> byte list \<Rightarrow> pyval list py" where
  "event_fields fmt bs = struct_unpack fmt (take (calcsize fmt) bs)"

definition unpack_event_details :: "pystr \<Rightarrow> byte list \<Rightarrow> event_details py" where
  "unpack_event_details code bs =
    (if code = event_code ''FASTEST_LAP'' then
       and_then (event_fields ''<Bf'' bs) (\<lambda>f. Inr (FastestLap (int_at f 0) (float_at f 1)))
     else if code = event_code ''RETIREMENT'' then
       and_then (event_fields ''<BB'' bs) (\<lambda>f. Inr (Retirement (int_at f 0) (int_at f 1)))
     else if code = event_code ''DRS_ENABLED'' then Inr NoDetails
     else if code = event_code ''DRS_DISABLED'' then
       and_then (event_fields ''<B'' bs) (\<lambda>f. Inr (DrsDisabled (int_at f 0)))
     else if code = event_code ''TEAM_MATE_IN_PITS'' then
       and_then (event_fields ''<B'' bs) (\<lambda>f. Inr (TeamMateInPits (int_at f 0)))
     else if code = event_code ''RACE_WINNER'' then
       and_then (event_fields ''<B'' bs) (\<lambda>f. Inr (RaceWinner (int_at f 0)))
     else if code = event_code ''PENALTY_ISSUED'' then
       and_then (event_fields ''<7B'' bs) (\<lambda>f. Inr (Penalty (int_at f 0) (int_at f 1) (int_at f 2)
         (int_at f 3) (int_at f 4) (int_at f 5) (int_at f 6)))
     else if code = event_code ''SPEED_TRAP_TRIGGERED'' then
       and_then (event_fields ''<Bf3Bf'' bs) (\<lambda>f. Inr (SpeedTrap (int_at f 0) (float_at f 1)
         (int_at f 2) (int_at f 3) (int_at f 4) (float_at f 5)))
     else if code = event_code ''START_LIGHTS'' then
       and_then (event_fields ''<B'' bs) (\<lambda>f. Inr (StartLights (int_at f 0)))
     else if code = event_code ''LIGHTS_OUT'' then Inr NoDetails
     else if code = event_code ''DRIVE_THROUGH_SERVED'' then
       and_then (event_fields ''<B'' bs) (\<lambda>f. Inr (DriveThroughPenaltyServed (int_at f 0)))
     else if code = event_code ''STOP_GO_SERVED'' then
       and_then (event_fields ''<Bf'' bs) (\<lambda>f. Inr (StopGoPenaltyServed (int_at f 0) (float_at f 1)))
     else if code = event_code ''FLASHBACK'' then
       and_then (event_fields ''<If'' bs) (\<lambda>f. Inr (Flashback (int_at f 0) (float_at f 1)))
     else if code = event_code ''RED_FLAG'' then Inr NoDetails
     else if code = event_code ''OVERTAKE'' then
       and_then (event_fields ''<2B'' bs) (\<lambda>f. Inr (Overtake (int_at f 0) (int_at f 1)))
     else if code = event_code ''SAFETY_CAR'' then
       and_then (event_fields ''<2B'' bs) (\<lambda>f. Inr (SafetyCar (int_at f 0) (int_at f 1)))
     else if code = event_code ''SESSION_STARTED'' then Inr NoDetails
     else if code = event_code ''SESSION_ENDED'' then Inr NoDetails
     else if code = event_code ''CHEQUERED_FLAG'' then Inr NoDetails
     else if code = event_code ''COLLISION'' then
       and_then (event_fields ''<3B'' bs) (\<lambda>f. Inr (Collision (int_at f 0) (int_at f 1) (int_at f 2)))
     else if code = event_code ''BUTTON_STATUS'' then
       and_then (event_fields ''<I'' bs) (\<lambda>f. Inr (Buttons (int_at f 0)))
     else Inr NoDetails)"

definition unpack_event_packet :: "packet_header \<Rightarrow> byte list \<Rightarrow> event_packet py" where
  "unpack_event_packet h data =
    and_then (struct_unpack ''<4B'' (take 4 data)) (\<lambda>f.
    and_then (ascii_decode (map (\<lambda>v. of_int (as_int v)) f)) (\<lambda>code.
    and_then (unpack_event_details code (drop 4 data)) (\<lambda>e.
      Inr \<lparr>ev_header = h, ev_event_string_code = code, ev_event = e\<rparr>)))"

lemma event_codes [simp]:
  "event_code ''FASTEST_LAP'' = ascii ''FTLP''" "event_code ''RETIREMENT'' = ascii ''RTMT''"
  "event_code ''DRS_ENABLED'' = ascii ''DRSE''" "event_code ''DRS_DISABLED'' = ascii ''DRSD''"
  "event_code ''TEAM_MATE_IN_PITS'' = ascii ''TMPT''" "event_code ''RACE_WINNER'' = ascii ''RCWN''"
  "event_code ''PENALTY_ISSUED'' = ascii ''PENA''" "event_code ''SPEED_TRAP_TRIGGERED'' = ascii ''SPTP''"
  "event_code ''START_LIGHTS'' = ascii ''STLG''" "event_code ''LIGHTS_OUT'' = ascii ''LGOT''"
  "event_code ''DRIVE_THROUGH_SERVED'' = ascii ''DTSV''" "event_code ''STOP_GO_SERVED'' = ascii ''SGSV''"
  "event_code ''FLASHBACK'' = ascii ''FLBK''" "event_code ''RED_FLAG'' = ascii ''RDFL''"
  "event_code ''OVERTAKE'' = ascii ''OVTK''" "event_code ''SAFETY_CAR'' = ascii ''SCAR''"
  "event_code ''SESSION_STARTED'' = ascii ''SSTA''" "event_code ''SESSION_ENDED'' = ascii ''SEND''"
  "event_code ''CHEQUERED_FLAG'' = ascii ''CHQF''" "event_code ''COLLISION'' = ascii ''COLL''"
  "event_code ''BUTTON_STATUS'' = ascii ''BUTN''"
  by (simp_all add: event_code_def EventCodes_def)

text \<open>Which member of the union a parsed code carries: only a flashback event has one.\<close>

lemma unpack_event_details_flashback:
  "unpack_event_details code bs = Inr (Flashback fr t) \<Longrightarrow> code = ascii ''FLBK''"
  unfolding unpack_event_details_def event_codes ascii_inj
  by (auto simp: and_then_Inr_iff split: if_splits)

lemma unpack_event_header: "unpack_event_packet h data = Inr p \<Longrightarrow> ev_header p = h"
  by (auto simp: unpack_event_packet_def and_then_Inr_iff)

end
