(* ===== verification/Events_Service.thy ===== *)
theory Events_Service
  imports Repositories Event_Packet
begin

text \<open>
  \<open>services/events.py\<close>: every event code goes to the table of its kind. Vehicle indices become user
  ids through the user map; an event about a car outside the map (an AI car) is skipped. An event
  whose details have another shape than its code promises raises inside the handler, which logs and
  drops it, so those cases write nothing.
\<close>

definition RACE_CONTROL_CODES :: "string list" where
  "RACE_CONTROL_CODES = [''SSTA'', ''SEND'', ''LGOT'', ''CHQF'', ''RDFL'', ''DRSE'', ''DRSD'', ''STLG'', ''SCAR'']"

definition DRIVER_ACTION_CODES :: "string list" where
  "DRIVER_ACTION_CODES = [''RCWN'', ''TMPT'', ''DTSV'', ''SGSV'']"

definition clean_event_code :: "event_packet \<Rightarrow> pystr" where
  "clean_event_code p = take 10 (strip (ev_event_string_code p))"

definition not_set_opt :: "int \<Rightarrow> int option" where
  "not_set_opt i = (if i \<noteq> 255 then Some i else None)"

definition handle_race_control ::
    "pystr \<Rightarrow> int \<Rightarrow> string \<Rightarrow> pyfloat \<Rightarrow> event_details \<Rightarrow> world \<Rightarrow> world" where
  "handle_race_control uid frame code t event w =
    (if code = ''SCAR'' \<and> event \<noteq> NoDetails then
       (case event of
          SafetyCar car_type event_type \<Rightarrow>
            events_race_control_insert uid frame code t (Some (safe_enum_name SafetyCarStatus car_type))
              (Some (safe_enum_name SafetyCarEventType event_type)) None None w
        | _ \<Rightarrow> w)
     else if code = ''STLG'' \<and> event \<noteq> NoDetails then
       (case event of
          StartLights n \<Rightarrow> events_race_control_insert uid frame code t None None (Some n) None w
        | _ \<Rightarrow> w)
     else if code = ''DRSD'' \<and> event \<noteq> NoDetails then
       (case event of
          DrsDisabled reason \<Rightarrow>
            events_race_control_insert uid frame code t None None None
              (Some (safe_enum_name DrsDisabledReason reason)) w
        | _ \<Rightarrow> w)
     else events_race_control_insert uid frame code t None None None None w)"

definition handle_overtake ::
    "pystr \<Rightarrow> int \<Rightarrow> pyfloat \<Rightarrow> event_details \<Rightarrow> user_map \<Rightarrow> world \<Rightarrow> world" where
  "handle_overtake uid frame t event m w = (case event of
      Overtake a b \<Rightarrow>
        (case (map_of m a, map_of m b) of
           (Some ua, Some ub) \<Rightarrow> events_overtakes_insert uid frame t ua ub w
         | _ \<Rightarrow> w)
    | _ \<Rightarrow> w)"

definition handle_collision ::
    "pystr \<Rightarrow> int \<Rightarrow> pyfloat \<Rightarrow> event_details \<Rightarrow> user_map \<Rightarrow> world \<Rightarrow> world" where
  "handle_collision uid frame t event m w = (case event of
      Collision a b severity \<Rightarrow>
        (case (map_of m a, map_of m b) of
           (Some ua, Some ub) \<Rightarrow> events_collisions_insert uid frame t ua ub (Some severity) w
         | _ \<Rightarrow> w)
    | _ \<Rightarrow> w)"

definition handle_penalty ::
    "pystr \<Rightarrow> int \<Rightarrow> pyfloat \<Rightarrow> event_details \<Rightarrow> user_map \<Rightarrow> world \<Rightarrow> world" where
  "handle_penalty uid frame t event m w = (case event of
      Penalty penalty_type infringement_type vehicle other_vehicle time_seconds lap_num places_gained \<Rightarrow>
        (case map_of m vehicle of
           Some user_id \<Rightarrow>
             events_penalties_insert uid frame t user_id
               (if other_vehicle \<noteq> 255 then map_of m other_vehicle else None)
               (safe_enum_name PenaltyType penalty_type)
               (safe_enum_name InfringementType infringement_type)
               (not_set_opt time_seconds) (not_set_opt lap_num) (not_set_opt places_gained) w
         | None \<Rightarrow> w)
    | _ \<Rightarrow> w)"

definition handle_fastest_lap ::
    "pystr \<Rightarrow> int \<Rightarrow> pyfloat \<Rightarrow> event_details \<Rightarrow> user_map \<Rightarrow> world \<Rightarrow> world" where
  "handle_fastest_lap uid frame t event m w = (case event of
      FastestLap vehicle lap_time \<Rightarrow>
        (case map_of m vehicle of
           Some user_id \<Rightarrow> events_fastest_laps_insert uid frame t user_id lap_time w
         | None \<Rightarrow> w)
    | _ \<Rightarrow> w)"

definition handle_retirement ::
    "pystr \<Rightarrow> int \<Rightarrow> pyfloat \<Rightarrow> event_details \<Rightarrow> user_map \<Rightarrow> world \<Rightarrow> world" where
  "handle_retirement uid frame t event m w = (case event of
      Retirement vehicle reason \<Rightarrow>
        (case map_of m vehicle of
           Some user_id \<Rightarrow>
             events_retirements_insert uid frame t user_id (safe_enum_name ResultReason reason) w
         | None \<Rightarrow> w)
    | _ \<Rightarrow> w)"

definition handle_speed_trap ::
    "pystr \<Rightarrow> int \<Rightarrow> pyfloat \<Rightarrow> event_details \<Rightarrow> user_map \<Rightarrow> world \<Rightarrow> world" where
  "handle_speed_trap uid frame t event m w = (case event of
      SpeedTrap vehicle speed overall driver fastest_vehicle fastest_speed \<Rightarrow>
        (case map_of m vehicle of
           Some user_id \<Rightarrow>
             events_speed_traps_insert uid frame t user_id speed (overall \<noteq> 0) (driver \<noteq> 0)
               (map_of m fastest_vehicle) fastest_speed w
         | None \<Rightarrow> w)
    | _ \<Rightarrow> w)"

text \<open>The car of a driver action, and the stop time a served stop-go carries.\<close>

fun action_vehicle :: "event_details \<Rightarrow> (int \<times> pyfloat option) option" where
  "action_vehicle (RaceWinner v) = Some (v, None)"
| "action_vehicle (TeamMateInPits v) = Some (v, None)"
| "action_vehicle (DriveThroughPenaltyServed v) = Some (v, None)"
| "action_vehicle (StopGoPenaltyServed v stop_time) = Some (v, Some stop_time)"
| "action_vehicle _ = None"

definition handle_driver_action ::
    "pystr \<Rightarrow> int \<Rightarrow> string \<Rightarrow> pyfloat \<Rightarrow> event_details \<Rightarrow> user_map \<Rightarrow> world \<Rightarrow> world" where
  "handle_driver_action uid frame code t event m w = (case action_vehicle event of
      Some (vehicle, stop_time) \<Rightarrow>
        (case map_of m vehicle of
           Some user_id \<Rightarrow> events_driver_actions_insert uid frame code t user_id stop_time w
         | None \<Rightarrow> w)
    | None \<Rightarrow> w)"

definition pressed_buttons :: "int \<Rightarrow> pystr list" where
  "pressed_buttons status = map (\<lambda>(name, _). ascii name) (filter (\<lambda>(_, v). and v status \<noteq> 0) ButtonFlags)"

definition handle_buttons :: "pystr \<Rightarrow> int \<Rightarrow> pyfloat \<Rightarrow> event_details \<Rightarrow> world \<Rightarrow> world" where
  "handle_buttons uid frame t event w = (case event of
      Buttons status \<Rightarrow> events_buttons_insert uid frame t status (pressed_buttons status) w
    | _ \<Rightarrow> w)"

definition handle_event_packet :: "event_packet \<Rightarrow> user_map \<Rightarrow> world \<Rightarrow> world" where
  "handle_event_packet p m w =
    (let uid = session_key (ev_header p); code = clean_event_code p;
         frame = hdr_overall_frame_identifier (ev_header p); t = hdr_session_time (ev_header p);
         event = ev_event p
     in case find (\<lambda>c. ascii c = code) RACE_CONTROL_CODES of
          Some c \<Rightarrow> handle_race_control uid frame c t event w
        | None \<Rightarrow>
            if code = ascii ''OVTK'' then handle_overtake uid frame t event m w
            else if code = ascii ''COLL'' then handle_collision uid frame t event m w
            else if code = ascii ''PENA'' then handle_penalty uid frame t event m w
            else if code = ascii ''FTLP'' then handle_fastest_lap uid frame t event m w
            else if code = ascii ''RTMT'' then handle_retirement uid frame t event m w
            else if code = ascii ''SPTP'' then handle_speed_trap uid frame t event m w
            else if code = ascii ''BUTN'' then handle_buttons uid frame t event w
            else (case find (\<lambda>c. ascii c = code) DRIVER_ACTION_CODES of
                Some c \<Rightarrow> handle_driver_action uid frame c t event m w
              | None \<Rightarrow> w))"

definition record_flashback ::
    "pystr \<Rightarrow> int \<Rightarrow> pyfloat \<Rightarrow> event_details \<Rightarrow> int \<Rightarrow> world \<Rightarrow> world" where
  "record_flashback uid frame t event rows_discarded w = (case event of
      Flashback fb_frame fb_time \<Rightarrow> events_flashbacks_insert uid frame t fb_frame fb_time rows_discarded w
    | _ \<Rightarrow> w)"

end
