(* ===== verification/Lap_Services.thy ===== *)
theory Lap_Services
  imports Repositories Other_Packets
begin

text \<open>
  The services that follow a driver's laps: \<open>services/lap_history.py\<close>, \<open>services/car_setup.py\<close>,
  \<open>services/tyre_sets.py\<close> and \<open>services/lap_positions.py\<close>.
\<close>

subsection \<open>Lap history\<close>

record lap_history_service =
  lhs_last_num_laps :: "(pystr \<times> int, int) bounded_dict"
  lhs_last_bests :: "(pystr \<times> int, pyval list) bounded_dict"
  lhs_warned_car_indices :: "(pystr \<times> int, bool) bounded_dict"

definition new_lap_history_service :: lap_history_service where
  "new_lap_history_service =
     \<lparr>lhs_last_num_laps = bd_new 500, lhs_last_bests = bd_new 500, lhs_warned_car_indices = bd_new 50\<rparr>"

definition sector_time :: "int \<Rightarrow> int \<Rightarrow> pyval" where
  "sector_time minutes_part ms_part =
     (if ms_part > 0 \<or> minutes_part > 0 then PInt (minutes_part * 60000 + ms_part) else PNone)"

definition lap_row :: "pystr \<Rightarrow> int \<Rightarrow> nat \<Rightarrow> lap_history \<Rightarrow> pyval list" where
  "lap_row session_uid user_id lap_num l =
    (let flags = lh_lap_valid_bit_flags l in
     [PStr session_uid, PInt user_id, PInt (int lap_num),
      (if lh_lap_time_in_ms l > 0 then PInt (lh_lap_time_in_ms l) else PNone),
      sector_time (lh_sector_1_time_minutes_part l) (lh_sector_1_time_ms_part l),
      sector_time (lh_sector_2_time_minutes_part l) (lh_sector_2_time_ms_part l),
      sector_time (lh_sector_3_time_minutes_part l) (lh_sector_3_time_ms_part l),
      PBool (and flags 1 = 1), PBool (and flags 2 = 2), PBool (and flags 4 = 4),
      PBool (and flags 8 = 8)])"

text \<open>\<open>lap_history_list[start_index:current_num_laps]\<close>, numbered from \<open>start_index + 1\<close>.\<close>

definition lap_batch :: "pystr \<Rightarrow> int \<Rightarrow> nat \<Rightarrow> session_history_packet \<Rightarrow> pyval list list" where
  "lap_batch session_uid user_id start_index p =
     map (\<lambda>(n, l). lap_row session_uid user_id n l)
       (filter (\<lambda>(n, l). lh_lap_time_in_ms l \<noteq> 0)
         (enumerate (start_index + 1) (py_slice start_index (nat (sh_num_laps p)) (sh_lap_history_list p))))"

definition upsert_laps ::
    "pystr \<Rightarrow> int \<Rightarrow> session_history_packet \<Rightarrow> lap_history_service \<Rightarrow> world \<Rightarrow> lap_history_service \<times> world" where
  "upsert_laps session_uid user_id p s w =
    (let key = (session_uid, user_id);
         last_num_laps = (case bd_get (lhs_last_num_laps s) key of Some n \<Rightarrow> n | None \<Rightarrow> 0);
         batch = lap_batch session_uid user_id (nat (max 0 (last_num_laps - 1))) p
     in (s\<lparr>lhs_last_num_laps := bd_set (lhs_last_num_laps s) key (sh_num_laps p)\<rparr>,
         if batch = [] then w else upsert_laps_batch batch w))"

definition lap_or_none :: "int \<Rightarrow> pyval" where
  "lap_or_none n = (if n = 0 then PNone else PInt n)"

definition session_bests :: "session_history_packet \<Rightarrow> pyval list" where
  "session_bests p =
     [lap_or_none (sh_best_lap_time_lap_num p), lap_or_none (sh_best_sector_1_lap_num p),
      lap_or_none (sh_best_sector_2_lap_num p), lap_or_none (sh_best_sector_3_lap_num p)]"

definition upsert_session_bests ::
    "pystr \<Rightarrow> int \<Rightarrow> session_history_packet \<Rightarrow> lap_history_service \<Rightarrow> world \<Rightarrow> lap_history_service \<times> world" where
  "upsert_session_bests session_uid user_id p s w =
    (let bests = session_bests p; key = (session_uid, user_id) in
     if bd_get (lhs_last_bests s) key = Some bests then (s, w)
     else (s\<lparr>lhs_last_bests := bd_set (lhs_last_bests s) key bests\<rparr>,
           session_bests_upsert ([PStr session_uid, PInt user_id] @ bests) w))"

definition handle_session_history_packet ::
    "session_history_packet \<Rightarrow> user_map \<Rightarrow> lap_history_service \<Rightarrow> world \<Rightarrow> lap_history_service \<times> world" where
  "handle_session_history_packet p user_map s w =
    (let session_uid = session_key (sh_header p); car_index = sh_car_index p in
     case map_of user_map car_index of
       None \<Rightarrow>
         (let key = (session_uid, car_index) in
          (if bd_contains (lhs_warned_car_indices s) key then s
           else s\<lparr>lhs_warned_car_indices := bd_set (lhs_warned_car_indices s) key True\<rparr>, w))
     | Some user_id \<Rightarrow>
         let (s1, w1) = upsert_laps session_uid user_id p s w
         in upsert_session_bests session_uid user_id p s1 w1)"

definition stint_batch :: "pystr \<Rightarrow> int \<Rightarrow> session_history_packet \<Rightarrow> pyval list list" where
  "stint_batch session_uid user_id p =
     map (\<lambda>(i, st). [PStr session_uid, PInt user_id, PInt (int i),
         (if ts_end_lap st \<noteq> 255 then PInt (ts_end_lap st) else PNone),
         PStr (safe_enum_name ActualTyreCompound (ts_tyre_actual_compound st)),
         PStr (safe_enum_name VisualTyreCompound (ts_tyre_visual_compound st))])
       (filter (\<lambda>(i, st). ts_tyre_actual_compound st \<noteq> 0)
         (enumerate 0 (take (nat (sh_num_tyre_stints p)) (sh_tyre_stints_list p))))"

definition handle_tyre_stints :: "session_history_packet \<Rightarrow> user_map \<Rightarrow> world \<Rightarrow> world" where
  "handle_tyre_stints p user_map w =
    (case map_of user_map (sh_car_index p) of
       None \<Rightarrow> w
     | Some user_id \<Rightarrow>
         let batch = stint_batch (session_key (sh_header p)) user_id p
         in if batch = [] then w else upsert_stints_batch batch w)"

subsection \<open>Car setups\<close>

text \<open>The cached setup of a driver: its digest, its 23 values, the next front wing value.\<close>

type_synonym cached_setup = "byte list \<times> pyval list \<times> pyfloat option"

type_synonym car_setup_service = "(pystr \<times> int, cached_setup) bounded_dict"

definition new_car_setup_service :: car_setup_service where
  "new_car_setup_service = bd_new 500"

definition SETUP_HASH_FORMAT :: string where
  "SETUP_HASH_FORMAT = ''<4B4f6B3B4fBf''"

definition setup_fields :: "car_setup_data \<Rightarrow> pyval list" where
  "setup_fields u =
     [PInt (su_front_wing u), PInt (su_rear_wing u), PInt (su_on_throttle u),
      PInt (su_off_throttle u), PFloat (su_front_camber u), PFloat (su_rear_camber u),
      PFloat (su_front_toe u), PFloat (su_rear_toe u), PInt (su_front_suspension u),
      PInt (su_rear_suspension u), PInt (su_front_anti_roll_bar u),
      PInt (su_rear_anti_roll_bar u), PInt (su_front_ride_height u),
      PInt (su_rear_ride_height u), PInt (su_brake_pressure u), PInt (su_brake_bias u),
      PInt (su_engine_braking u), PFloat (su_front_left_tyre_pressure u),
      PFloat (su_front_right_tyre_pressure u), PFloat (su_rear_left_tyre_pressure u),
      PFloat (su_rear_right_tyre_pressure u), PInt (su_ballast u), PFloat (su_fuel_load u)]"

fun py_nonzero :: "pyval \<Rightarrow> bool" where
  "py_nonzero (PInt i) = (i \<noteq> 0)"
| "py_nonzero (PFloat x) = f_nonzero x"
| "py_nonzero _ = True"

definition is_real_setup :: "pyval list \<Rightarrow> bool" where
  "is_real_setup vals = list_ex py_nonzero vals"

text \<open>\<open>hashlib.sha256(...).digest()\<close> is the parameter \<open>digest\<close>.\<close>

fun cache_setups ::
    "(byte list \<Rightarrow> byte list) \<Rightarrow> car_setup_packet \<Rightarrow> pystr \<Rightarrow> user_map \<Rightarrow> car_setup_service
     \<Rightarrow> unit py \<times> car_setup_service" where
  "cache_setups digest p uid [] s = (Inr (), s)"
| "cache_setups digest p uid ((car_index, user_id) # m) s =
    (if car_index \<ge> int (length (sup_car_setups p)) then cache_setups digest p uid m s
     else
       let vals = setup_fields (sup_car_setups p ! nat car_index) in
       if \<not> is_real_setup vals then cache_setups digest p uid m s
       else case struct_pack SETUP_HASH_FORMAT vals of
           Inl e \<Rightarrow> (Inl e, s)
         | Inr packed \<Rightarrow>
             let wing = (if car_index = hdr_player_car_index (sup_header p)
                         then Some (sup_next_front_wing_value p) else None)
             in cache_setups digest p uid m (bd_set s (uid, user_id) (digest packed, vals, wing)))"

definition handle_car_setup_packet ::
    "(byte list \<Rightarrow> byte list) \<Rightarrow> car_setup_packet \<Rightarrow> pystr \<Rightarrow> user_map \<Rightarrow> car_setup_service
     \<Rightarrow> unit py \<times> car_setup_service" where
  "handle_car_setup_packet = cache_setups"

definition car_setup_on_lap_complete ::
    "car_setup_service \<Rightarrow> pystr \<Rightarrow> int \<Rightarrow> int \<Rightarrow> int \<Rightarrow> world \<Rightarrow> world" where
  "car_setup_on_lap_complete s session_uid user_id lap_number track_id w =
    (case bd_get s (session_uid, user_id) of
       None \<Rightarrow> w
     | Some (setup_hash, vals, wing) \<Rightarrow>
         (case upsert_setup setup_hash track_id vals user_id session_uid w of
            (None, w') \<Rightarrow> w'
          | (Some setup_id, w') \<Rightarrow> insert_lap_setup session_uid user_id lap_number setup_id wing w'))"

subsection \<open>Tyre sets\<close>

type_synonym tyre_sets_service = "(pystr \<times> int, pyval list list) bounded_dict"

definition new_tyre_sets_service :: tyre_sets_service where
  "new_tyre_sets_service = bd_new 500"

definition available_sets :: "tyre_sets_packet \<Rightarrow> pyval list list" where
  "available_sets p =
     map (\<lambda>(i, ty). [PInt (int i),
         PStr (safe_enum_name ActualTyreCompound (ty_actual_compound ty)),
         PStr (safe_enum_name VisualTyreCompound (ty_visual_compound ty)),
         PInt (ty_wear ty), PInt (ty_life_span ty), PInt (ty_usable_life ty),
         PStr (safe_enum_name SessionTypeIDs (ty_recommended_session ty)),
         PInt (ty_lap_delta_time ty), PBool (int i = typ_fitted_idx p)])
       (filter (\<lambda>(i, ty). ty_available ty = 1) (enumerate 0 (typ_tyre_set_data p)))"

definition handle_tyre_sets_packet ::
    "tyre_sets_packet \<Rightarrow> user_map \<Rightarrow> int set \<Rightarrow> tyre_sets_service \<Rightarrow> tyre_sets_service" where
  "handle_tyre_sets_packet p user_map restricted s =
    (if map_of user_map (typ_car_idx p) = None \<or> typ_car_idx p \<in> restricted then s
     else bd_set s (session_key (typ_header p), typ_car_idx p) (available_sets p))"

definition tyre_sets_on_lap_complete ::
    "tyre_sets_service \<Rightarrow> pystr \<Rightarrow> int \<Rightarrow> int \<Rightarrow> int \<Rightarrow> world \<Rightarrow> world" where
  "tyre_sets_on_lap_complete s session_uid user_id car_index lap_number w =
    (case bd_get s (session_uid, car_index) of
       None \<Rightarrow> w
     | Some cached \<Rightarrow>
         if cached = [] then w
         else insert_snapshot (map (\<lambda>f. [PStr session_uid, PInt user_id, PInt lap_number] @ f) cached) w)"

subsection \<open>Lap positions\<close>

text \<open>\<open>a[i] = x\<close> with Python's index rules: a negative index counts from the end.\<close>

definition py_store :: "'a list \<Rightarrow> int \<Rightarrow> 'a \<Rightarrow> 'a list py" where
  "py_store xs i x =
    (if 0 \<le> i \<and> i < int (length xs) then Inr (xs[nat i := x])
     else if - int (length xs) \<le> i \<and> i < 0 then Inr (xs[nat (int (length xs) + i) := x])
     else Inl PyIndexError)"

fun place_cars :: "int list \<Rightarrow> user_map \<Rightarrow> nat list \<Rightarrow> int list \<Rightarrow> int list py" where
  "place_cars row m [] acc = Inr acc"
| "place_cars row m (c # cs) acc =
     and_then (py_index row c) (\<lambda>position.
       if position = 0 then place_cars row m cs acc
       else (case map_of m (int c) of
           None \<Rightarrow> place_cars row m cs acc
         | Some user_id \<Rightarrow> and_then (py_store acc (position - 1) user_id) (place_cars row m cs)))"

definition trim_zeros :: "int list \<Rightarrow> int list" where
  "trim_zeros xs = rev (dropWhile (\<lambda>x. x = 0) (rev xs))"

definition lap_positions_row :: "int list \<Rightarrow> user_map \<Rightarrow> int list py" where
  "lap_positions_row row m =
     and_then (place_cars row m [0..<MAX_CARS] (replicate MAX_CARS 0)) (\<lambda>a. Inr (trim_zeros a))"

fun write_lap_positions ::
    "lap_positions_packet \<Rightarrow> user_map \<Rightarrow> nat list \<Rightarrow> world \<Rightarrow> unit py \<times> world" where
  "write_lap_positions p m [] w = (Inr (), w)"
| "write_lap_positions p m (i # is) w =
    (case and_then (py_index (lpp_positions p) i) (\<lambda>row. lap_positions_row row m) of
       Inl e \<Rightarrow> (Inl e, w)
     | Inr a \<Rightarrow> write_lap_positions p m is
         (upsert_lap_positions (session_key (lpp_header p)) (lpp_lap_start p + int i + 1) a w))"

definition handle_lap_positions_packet ::
    "lap_positions_packet \<Rightarrow> user_map \<Rightarrow> world \<Rightarrow> unit py \<times> world" where
  "handle_lap_positions_packet p m w = write_lap_positions p m [0..<nat (lpp_num_laps p)] w"

end
