(* ===== verification/Classification_Service.thy ===== *)
theory Classification_Service
  imports Repositories Other_Packets Session_Service "HOL-Library.List_Lexorder"
begin

text \<open>
  \<open>services/final_classification.py\<close>: the result of a session, written once, with a dead-letter file
  when the database refuses it and a replay of those files at start-up. A dead letter is the
  dictionary the code dumps as JSON; \<open>w_files\<close> is the directory, and each file operation may fail.
\<close>

definition CLASSIFIED_RACE_TYPES :: "int list" where
  "CLASSIFIED_RACE_TYPES =
     List.map_filter (map_of SessionTypeIDs) [''RACE'', ''RACE_2'', ''RACE_3'', ''SPRINT_RACE'']"

record classification_service =
  fs_processed_sessions :: "pystr bounded_set"
  fs_dead_letter_dir :: bool      \<comment> \<open>whether one is configured\<close>

definition new_classification_service :: "bool \<Rightarrow> classification_service" where
  "new_classification_service dir = \<lparr>fs_processed_sessions = bs_new 100, fs_dead_letter_dir = dir\<rparr>"

definition classification_of ::
    "pystr \<Rightarrow> bool \<Rightarrow> int \<Rightarrow> final_classification \<Rightarrow> (string \<times> pyval) list" where
  "classification_of session_uid is_race user_id fc =
     [(''session_uid'', PStr session_uid), (''user_id'', PInt user_id),
      (''position'', PInt (fc_position fc)), (''num_laps'', PInt (fc_num_of_laps fc)),
      (''result_status'', PInt (fc_result_status fc)), (''result_reason'', PInt (fc_result_reason fc)),
      (''best_lap_time_ms'',
        if fc_best_lap_time_in_ms fc > 0 then PInt (fc_best_lap_time_in_ms fc) else PNone),
      (''game_points'', PInt (fc_points fc)),
      (''penalties_time'', if fc_penalties_time fc \<noteq> 255 then PInt (fc_penalties_time fc) else PInt 0),
      (''num_penalties'', PInt (fc_num_of_penalties fc))]
     @ (if \<not> is_race then []
        else
          let n = nat (fc_num_of_tyre_stints fc);
              end_laps = map (\<lambda>lap. if lap \<noteq> 255 then PInt lap else PNone) (take n (fc_tyre_stints_end_laps fc))
          in [(''grid_position'', PInt (fc_grid_position fc)),
              (''num_pit_stops'', PInt (fc_num_pit_stops fc)),
              (''total_race_time'', PFloat (fc_total_race_time fc)),
              (''num_tyre_stints'', PInt (fc_num_of_tyre_stints fc)),
              (''tyre_stints_actual'', PList (map PInt (take n (fc_tyre_stints_actual fc)))),
              (''tyre_stints_visual'', PList (map PInt (take n (fc_tyre_stints_visual fc)))),
              (''tyre_stints_end_laps'', PList end_laps)])"

definition classifications_of ::
    "pystr \<Rightarrow> bool \<Rightarrow> user_map \<Rightarrow> final_classification_packet \<Rightarrow> (string \<times> pyval) list list" where
  "classifications_of session_uid is_race user_map p =
     List.map_filter
       (\<lambda>(i, fc). if fc_result_status fc = 0 then None
          else map_option (\<lambda>u. classification_of session_uid is_race u fc) (map_of user_map (int i)))
       (enumerate 0 (fcp_final_classifications p))"

definition write_classifications ::
    "bool \<Rightarrow> (string \<times> pyval) list list \<Rightarrow> world \<Rightarrow> unit py \<times> world" where
  "write_classifications is_race cs w =
     (if is_race then insert_race_classification_batch cs w
      else insert_qualifying_classification_batch cs w)"

subsection \<open>Dead letters\<close>

definition file_op :: "world \<Rightarrow> bool \<times> world" where
  "file_op w = (\<not> w_io_fault w (w_io w), w\<lparr>w_io := w_io w + 1\<rparr>)"

definition dead_letter :: "pystr \<Rightarrow> (string \<times> pyval) list list \<Rightarrow> bool \<Rightarrow> pyval" where
  "dead_letter session_uid cs is_race =
     PDict [(''session_uid'', PStr session_uid), (''classifications'', PList (map PDict cs)),
            (''is_race'', PBool is_race)]"

definition dead_letter_name :: "pystr \<Rightarrow> int \<Rightarrow> pystr" where
  "dead_letter_name session_uid us = session_uid @ ascii ''_'' @ dec_int (us div 1000000) @ ascii ''.json''"

definition write_dead_letter ::
    "classification_service \<Rightarrow> pystr \<Rightarrow> (string \<times> pyval) list list \<Rightarrow> bool \<Rightarrow> world \<Rightarrow> world" where
  "write_dead_letter s session_uid cs is_race w =
    (if \<not> fs_dead_letter_dir s then w
     else let (now, w1) = utc_now w; (ok, w2) = file_op w1 in
       if ok then w2\<lparr>w_files := AList.update (dead_letter_name session_uid now)
                       (dead_letter session_uid cs is_race) (w_files w2)\<rparr>
       else w2)"

fun as_dict :: "pyval \<Rightarrow> (string \<times> pyval) list option" where
  "as_dict (PDict d) = Some d"
| "as_dict _ = None"

text \<open>\<open>data["is_race"]\<close> and \<open>data["classifications"]\<close>; anything else in the file raises.\<close>

definition read_dead_letter :: "pyval \<Rightarrow> (bool \<times> (string \<times> pyval) list list) option" where
  "read_dead_letter v = (case v of
      PDict d \<Rightarrow>
        (case (map_of d ''is_race'', map_of d ''classifications'', map_of d ''session_uid'') of
           (Some (PBool b), Some (PList cs), Some _) \<Rightarrow>
             if list_all (\<lambda>c. as_dict c \<noteq> None) cs then Some (b, List.map_filter as_dict cs) else None
         | _ \<Rightarrow> None)
    | _ \<Rightarrow> None)"

definition replay_dead_letter :: "pystr \<Rightarrow> world \<Rightarrow> world" where
  "replay_dead_letter filename w =
    (let (ok, w1) = file_op w in
     if \<not> ok then w1
     else case map_of (w_files w1) filename of
         None \<Rightarrow> w1
       | Some v \<Rightarrow>
           (case read_dead_letter v of
              None \<Rightarrow> w1
            | Some (is_race, cs) \<Rightarrow>
                (case write_classifications is_race cs w1 of
                   (Inl _, w2) \<Rightarrow> w2
                 | (Inr _, w2) \<Rightarrow>
                     let (removed, w3) = file_op w2 in
                     if removed then w3\<lparr>w_files := filter (\<lambda>p. fst p \<noteq> filename) (w_files w3)\<rparr> else w3)))"

definition replay_dead_letters :: "classification_service \<Rightarrow> world \<Rightarrow> world" where
  "replay_dead_letters s w =
     (if \<not> fs_dead_letter_dir s then w else fold replay_dead_letter (sort (map fst (w_files w))) w)"

subsection \<open>Handling a packet\<close>

definition handle_final_classification_packet ::
    "final_classification_packet \<Rightarrow> user_map \<Rightarrow> int option \<Rightarrow> classification_service \<Rightarrow> world
     \<Rightarrow> classification_service \<times> world" where
  "handle_final_classification_packet p user_map session_type s w =
    (let uid = session_key (fcp_header p);
         done_with = s\<lparr>fs_processed_sessions := bs_add uid (fs_processed_sessions s)\<rparr> in
     if bs_contains (fs_processed_sessions s) uid then (s, w)
     else case session_type of
         None \<Rightarrow> (s, w)
       | Some st \<Rightarrow>
           let is_race = (st \<in> set CLASSIFIED_RACE_TYPES);
               cs = classifications_of uid is_race user_map p in
           if cs = [] then (done_with, w)
           else case write_classifications is_race cs w of
               (Inl _, w') \<Rightarrow> (s, write_dead_letter s uid cs is_race w')
             | (Inr _, w') \<Rightarrow> (done_with, w'))"

end
