(* ===== verification/Small_Services.thy ===== *)
theory Small_Services
  imports Car_Frame Other_Packets
begin

text \<open>
  The stateless services: \<open>services/motion_ex.py\<close> (the player's extended motion) and
  \<open>services/lobby_info.py\<close> (the lobby roster).
\<close>

subsection \<open>Motion ex\<close>

definition motion_ex_fields :: "motion_ex_data \<Rightarrow> pyval list" where
  "motion_ex_fields d =
      map PFloat (mx_suspension_position d) @
      map PFloat (mx_suspension_velocity d) @
      map PFloat (mx_suspension_acceleration d) @
      map PFloat (mx_wheel_speed d) @
      map PFloat (mx_wheel_slip_ratio d) @
      map PFloat (mx_wheel_slip_angle d) @
      map PFloat (mx_wheel_lat_force d) @
      map PFloat (mx_wheel_long_force d) @
      map PFloat (mx_wheel_vert_force d) @
      map PFloat (mx_wheel_camber d) @
      map PFloat (mx_wheel_camber_gain d) @
      [PFloat (mx_height_of_cog_above_ground d), PFloat (mx_local_velocity_x d),
       PFloat (mx_local_velocity_y d), PFloat (mx_local_velocity_z d),
       PFloat (mx_angular_velocity_x d), PFloat (mx_angular_velocity_y d),
       PFloat (mx_angular_velocity_z d), PFloat (mx_angular_acceleration_x d),
       PFloat (mx_angular_acceleration_y d), PFloat (mx_angular_acceleration_z d),
       PFloat (mx_front_wheels_angle d), PFloat (mx_front_aero_height d),
       PFloat (mx_rear_aero_height d), PFloat (mx_front_roll_angle d),
       PFloat (mx_rear_roll_angle d), PFloat (mx_chassis_yaw d), PFloat (mx_chassis_pitch d)]"

definition write_motion_ex ::
    "motion_ex_packet \<Rightarrow> user_map \<Rightarrow> int option \<Rightarrow> world \<Rightarrow> unit py \<times> world" where
  "write_motion_ex p user_map session_start w =
    (let h = mxp_header p in
     case map_of user_map (hdr_player_car_index h) of
       None \<Rightarrow> (Inr (), w)
     | Some user_id \<Rightarrow>
         (case frame_timestamp session_start (hdr_session_time h) w of
            (Inl e, w1) \<Rightarrow> (Inl e, w1)
          | (Inr timestamp, w1) \<Rightarrow>
              (Inr (), motion_ex_insert
                (frame_meta timestamp (session_key h) user_id (hdr_session_time h)
                   (hdr_overall_frame_identifier h) @ motion_ex_fields (mxp_motion_ex_data p)) w1)))"

definition motion_ex_discard_after :: "pystr \<Rightarrow> pyfloat \<Rightarrow> int option \<Rightarrow> world \<Rightarrow> nat py \<times> world" where
  "motion_ex_discard_after = motion_ex_delete_after"

subsection \<open>Lobby\<close>

definition lobby_entry :: "lobby_player \<Rightarrow> (string \<times> pyval) list" where
  "lobby_entry x =
     [(''name'', PStr (lo_m_name x)), (''team_id'', PInt (lo_team_id x)),
      (''car_number'', PInt (lo_car_number x)),
      (''nationality'', PStr (safe_enum_name Nationalities (lo_nationality x))),
      (''platform'', PStr (safe_enum_name Platform (lo_platform x))),
      (''tech_level'', PInt (lo_tech_level x)), (''ready_status'', PInt (lo_ready_status x)),
      (''telemetry_public'', PBool (lo_your_telemetry x \<noteq> 0)),
      (''show_online_names'', PBool (lo_show_online_names x \<noteq> 0)),
      (''ai_controlled'', PBool (lo_ai_controlled x \<noteq> 0))]"

definition handle_lobby_info_packet :: "lobby_info_packet \<Rightarrow> world \<Rightarrow> world" where
  "handle_lobby_info_packet p w =
     lobby_info_upsert (session_key (lop_header p))
       (map lobby_entry (take (nat (lop_num_players p)) (lop_lobby_players p))) (lop_num_players p) w"

end
