(* ===== verification/Dispatcher.thy ===== *)
theory Dispatcher
  imports Frame_Buffer Car_Frame Session_Service Participants_Service Events_Service Lap_Services
    Classification_Service Small_Services
begin

text \<open>
  \<open>dispatcher.py\<close>, wired as \<open>main.py\<close> wires it (every optional service present). \<open>core\<close> is all the
  state the flush callback reaches: the services, the per-session tables of the dispatcher and the
  world; \<open>dispatcher\<close> adds the frame buffer and the rate-limit sets. An exception ends the handling
  of a packet and is logged, so every operation here returns the state it had reached.
\<close>

definition EXCLUDED_SESSION_TYPES :: "int list" where
  "EXCLUDED_SESSION_TYPES = [0, 18]"

definition RACE_SESSION_TYPES :: "int list" where
  "RACE_SESSION_TYPES = [15, 16, 17, 100]"

definition CAR_FRAME_PACKET_IDS :: "int list" where
  "CAR_FRAME_PACKET_IDS = [0, 2, 6, 7, 10, 16]"

definition SESSION_LEVEL_EVENT_CODES :: "string list" where
  "SESSION_LEVEL_EVENT_CODES =
     [''SSTA'', ''SEND'', ''LGOT'', ''CHQF'', ''RDFL'', ''DRSE'', ''DRSD'', ''STLG'', ''SCAR'', ''FLBK'', ''BUTN'']"

definition FORMATION_LAP_SAFETY_CAR :: int where
  "FORMATION_LAP_SAFETY_CAR = 3"

definition RESUME_RACE :: int where
  "RESUME_RACE = 3"

definition RACING_LAP_NUM :: int where
  "RACING_LAP_NUM = 2"

record core =
  co_session :: session_service
  co_participants :: participants_service
  co_lap_history :: lap_history_service
  co_classification :: classification_service
  co_car_setup :: car_setup_service
  co_tyre_sets :: tyre_sets_service
  co_known_sessions :: "pystr bounded_set"
  co_excluded_sessions :: "pystr bounded_set"
  co_user_maps :: "(pystr, user_map) bounded_dict"
  co_race_started :: "(pystr, bool) bounded_dict"
  co_classification_received :: "pystr bounded_set"
  co_last_lap_nums :: "(pystr \<times> int, int) bounded_dict"
  co_world :: world

type_synonym wire_packet = "packet_header \<times> byte list"

record dispatcher =
  dp_core :: core
  dp_buffer :: "wire_packet frame_buffer"
  dp_header_log :: header_log
  dp_logged_size_mismatches :: "(int \<times> int) bounded_set"

text \<open>Library functions the listener relies on: the hash of a tuple and SHA-256.\<close>

record library =
  lib_hash :: "int list list \<Rightarrow> int"
  lib_digest :: "byte list \<Rightarrow> byte list"

definition new_core :: "bool \<Rightarrow> world \<Rightarrow> core" where
  "new_core dead_letter_dir w =
     \<lparr>co_session = new_session_service, co_participants = new_participants_service,
      co_lap_history = new_lap_history_service,
      co_classification = new_classification_service dead_letter_dir,
      co_car_setup = new_car_setup_service, co_tyre_sets = new_tyre_sets_service,
      co_known_sessions = bs_new 100, co_excluded_sessions = bs_new 100,
      co_user_maps = bd_new 200, co_race_started = bd_new 200,
      co_classification_received = bs_new 100, co_last_lap_nums = bd_new 500, co_world = w\<rparr>"

text \<open>Creating the dispatcher reads the monotonic clock once, in the frame buffer.\<close>

definition new_dispatcher :: "bool \<Rightarrow> world \<Rightarrow> dispatcher" where
  "new_dispatcher dead_letter_dir w =
    (let (now, w') = monotonic_now w in
     \<lparr>dp_core = new_core dead_letter_dir w', dp_buffer = new_frame_buffer now,
      dp_header_log = header_log_init, dp_logged_size_mismatches = bs_new 200\<rparr>)"

definition user_map_of :: "core \<Rightarrow> pystr \<Rightarrow> user_map" where
  "user_map_of c uid = (case bd_get (co_user_maps c) uid of Some m \<Rightarrow> m | None \<Rightarrow> [])"

subsection \<open>Body sizes\<close>

definition body_size_ok :: "int \<Rightarrow> nat \<Rightarrow> bool" where
  "body_size_ok packet_id n = (case map_of EXPECTED_BODY_SIZE packet_id of
      None \<Rightarrow> True
    | Some expected \<Rightarrow> if packet_id \<in> set VARIABLE_LENGTH_PACKET_IDS then n \<le> expected else n = expected)"

definition validate_body_size :: "packet_header \<Rightarrow> byte list \<Rightarrow> dispatcher \<Rightarrow> bool \<times> dispatcher" where
  "validate_body_size h body d =
    (if body_size_ok (hdr_packet_id h) (length body) then (True, d)
     else let key = (hdr_session_uid h, hdr_packet_id h) in
       (False,
        if bs_contains (dp_logged_size_mismatches d) key then d
        else d\<lparr>dp_logged_size_mismatches := bs_add key (dp_logged_size_mismatches d),
               dp_header_log := (dp_header_log d)
                 \<lparr>hl_lines := hl_lines (dp_header_log d) @ [BodySizeMismatch (fst key) (snd key)]\<rparr>\<rparr>))"

subsection \<open>Race start and lap completion\<close>

definition mark_race_started :: "pystr \<Rightarrow> core \<Rightarrow> core" where
  "mark_race_started uid c =
    (if bd_get (co_race_started c) uid = Some True then c
     else c\<lparr>co_race_started := bd_set (co_race_started c) uid True\<rparr>)"

definition last_lap_of :: "core \<Rightarrow> pystr \<times> int \<Rightarrow> int" where
  "last_lap_of c key = (case bd_get (co_last_lap_nums c) key of Some n \<Rightarrow> n | None \<Rightarrow> 0)"

definition on_lap_complete :: "pystr \<Rightarrow> int \<Rightarrow> int \<Rightarrow> int \<Rightarrow> core \<Rightarrow> core" where
  "on_lap_complete uid user_id car_index completed_lap c =
    (let w1 = (case get_track_id (co_session c) uid of
           Some track_id \<Rightarrow>
             car_setup_on_lap_complete (co_car_setup c) uid user_id completed_lap track_id (co_world c)
         | None \<Rightarrow> co_world c)
     in c\<lparr>co_world := tyre_sets_on_lap_complete (co_tyre_sets c) uid user_id car_index completed_lap w1\<rparr>)"

definition check_lap_completion :: "pystr \<Rightarrow> user_map \<Rightarrow> nat \<times> lap_data \<Rightarrow> core \<Rightarrow> core" where
  "check_lap_completion uid m = (\<lambda>(i, lap) c. case map_of m (int i) of
      None \<Rightarrow> c
    | Some user_id \<Rightarrow>
        if lap_driver_status lap \<notin> {1, 4} then c
        else
          let key = (uid, user_id); current_lap = lap_current_lap_num lap; last_lap = last_lap_of c key;
              c1 = (if current_lap > last_lap \<and> last_lap > 0
                    then on_lap_complete uid user_id (int i) last_lap c else c)
          in c1\<lparr>co_last_lap_nums := bd_set (co_last_lap_nums c1) key current_lap\<rparr>)"

definition check_lap_completions :: "pystr \<Rightarrow> user_map \<Rightarrow> lap_data list \<Rightarrow> core \<Rightarrow> core" where
  "check_lap_completions uid m laps c = fold (check_lap_completion uid m) (enumerate 0 laps) c"

subsection \<open>Writing a buffered frame\<close>

definition opt_unpack :: "wire_packet packets \<Rightarrow> int \<Rightarrow> (packet_header \<Rightarrow> byte list \<Rightarrow> 'a py) \<Rightarrow> 'a option py" where
  "opt_unpack packets packet_id unpack = (case map_of packets packet_id of
      None \<Rightarrow> Inr None
    | Some (h, body) \<Rightarrow> and_then (unpack h body) (\<lambda>p. Inr (Some p)))"

definition frame_data_of :: "packet_header \<Rightarrow> wire_packet packets \<Rightarrow> frame_data py" where
  "frame_data_of first_header packets =
    and_then (opt_unpack packets 0 unpack_motion) (\<lambda>motion.
    and_then (opt_unpack packets 6 unpack_car_telemetry) (\<lambda>telemetry.
    and_then (opt_unpack packets 2 unpack_lap_data) (\<lambda>lap.
    and_then (opt_unpack packets 7 unpack_car_status) (\<lambda>status.
    and_then (opt_unpack packets 10 unpack_car_damage) (\<lambda>damage.
    and_then (opt_unpack packets 16 unpack_car_telemetry2) (\<lambda>telemetry2.
      Inr \<lparr>fd_motion = map_option mop_car_motion_data motion,
           fd_telemetry = map_option tep_car_telemetry_data telemetry,
           fd_lap = map_option lapp_lap_data lap,
           fd_status = map_option csp_car_status_data status,
           fd_damage = map_option dmp_car_damage_data damage,
           fd_telemetry2 = map_option t2p_car_telemetry2_data telemetry2,
           fd_telemetry_packet = telemetry,
           fd_player_car_index = Some (hdr_player_car_index first_header)\<rparr>))))))"

definition nonempty :: "'a list option \<Rightarrow> bool" where
  "nonempty xs = (case xs of None \<Rightarrow> False | Some ys \<Rightarrow> ys \<noteq> [])"

definition on_racing_lap :: "user_map \<Rightarrow> lap_data list \<Rightarrow> bool" where
  "on_racing_lap m laps =
     list_ex (\<lambda>(i, lap). map_of m (int i) \<noteq> None \<and> lap_current_lap_num lap \<ge> RACING_LAP_NUM) (enumerate 0 laps)"

text \<open>The backstop for a missed start event.\<close>

definition note_racing_lap :: "pystr \<Rightarrow> user_map \<Rightarrow> lap_data list option \<Rightarrow> core \<Rightarrow> core" where
  "note_racing_lap uid m laps c = (case laps of
      None \<Rightarrow> c
    | Some ls \<Rightarrow>
        if ls \<noteq> [] \<and> bd_get (co_race_started c) uid \<noteq> Some True \<and> on_racing_lap m ls
        then mark_race_started uid c else c)"

definition race_under_way :: "core \<Rightarrow> pystr \<Rightarrow> bool" where
  "race_under_way c uid = (case bd_get (co_race_started c) uid of Some b \<Rightarrow> b | None \<Rightarrow> True)"

definition write_frame_data :: "pystr \<Rightarrow> int \<Rightarrow> pyfloat \<Rightarrow> user_map \<Rightarrow> frame_data \<Rightarrow> core \<Rightarrow> core" where
  "write_frame_data uid frame_id session_time m fd c =
    (let c1 = note_racing_lap uid m (fd_lap fd) c;
         race_started = race_under_way c1 uid;
         (r, w1) =
           (if nonempty (fd_motion fd) \<or> nonempty (fd_telemetry fd) \<or> nonempty (fd_lap fd) \<or> nonempty (fd_status fd)
            then write_frame uid session_time frame_id m fd
                   (get_restricted_indices (co_participants c1) uid)
                   (get_session_start (co_session c1) uid) race_started (co_world c1)
            else (Inr (), co_world c1));
         c2 = c1\<lparr>co_world := w1\<rparr>
     in case r of
          Inl _ \<Rightarrow> c2
        | Inr _ \<Rightarrow>
            (case fd_lap fd of
               Some laps \<Rightarrow> if laps \<noteq> [] \<and> race_started then check_lap_completions uid m laps c2 else c2
             | None \<Rightarrow> c2))"

definition ONE :: pyfloat where
  "ONE = f_of_int 1"

definition dispatch_flush :: "(wire_packet, core) flush_callback" where
  "dispatch_flush uid frame_id packets c =
    (let m = user_map_of c uid in
     if m = [] then c
     else case packets of
         [] \<Rightarrow> c
       | (_, (first_header, _)) # _ \<Rightarrow>
           let session_time = hdr_session_time first_header in
           if f_lt session_time ONE then c
           else (case frame_data_of first_header packets of
               Inl _ \<Rightarrow> c
             | Inr fd \<Rightarrow> write_frame_data uid frame_id session_time m fd c))"

subsection \<open>Flashbacks\<close>

definition reset_lap_nums :: "pystr \<Rightarrow> core \<Rightarrow> core" where
  "reset_lap_nums uid c =
     c\<lparr>co_last_lap_nums :=
         fold (\<lambda>key ls. bd_set ls key 0) (filter (\<lambda>key. fst key = uid) (bd_keys (co_last_lap_nums c)))
           (co_last_lap_nums c)\<rparr>"

definition undo_recorded :: "pystr \<Rightarrow> packet_header \<Rightarrow> event_details \<Rightarrow> pyfloat \<Rightarrow> core \<Rightarrow> core" where
  "undo_recorded uid h event rewind_to c =
    (let start = get_session_start (co_session c) uid in
     case car_frame_discard_after uid rewind_to start (co_world c) of
       (Inl _, w1) \<Rightarrow> c\<lparr>co_world := w1\<rparr>
     | (Inr discarded, w1) \<Rightarrow>
         (case motion_ex_discard_after uid rewind_to start w1 of
            (Inl _, w2) \<Rightarrow> c\<lparr>co_world := w2\<rparr>
          | (Inr _, w2) \<Rightarrow>
              let c1 = reset_lap_nums uid (c\<lparr>co_world := w2\<rparr>) in
              c1\<lparr>co_world := record_flashback uid (hdr_overall_frame_identifier h) (hdr_session_time h)
                               event (int discarded) (co_world c1)\<rparr>))"

definition handle_flashback :: "pystr \<Rightarrow> event_packet \<Rightarrow> dispatcher \<Rightarrow> dispatcher" where
  "handle_flashback uid p d = (case ev_event p of
      Flashback _ rewind_to \<Rightarrow>
        d\<lparr>dp_buffer := discard_session uid (dp_buffer d),
          dp_core := undo_recorded uid (ev_header p) (ev_event p) rewind_to (dp_core d)\<rparr>
    | _ \<Rightarrow> d)"

subsection \<open>The handlers of the packet types\<close>

definition on_core :: "(core \<Rightarrow> core) \<Rightarrow> dispatcher \<Rightarrow> dispatcher" where
  "on_core f d = d\<lparr>dp_core := f (dp_core d)\<rparr>"

text \<open>A call into the frame buffer, whose callback works on the core.\<close>

definition on_buffer ::
    "(wire_packet frame_buffer \<times> core \<Rightarrow> wire_packet frame_buffer \<times> core) \<Rightarrow> dispatcher \<Rightarrow> dispatcher" where
  "on_buffer f d = (let (b, c) = f (dp_buffer d, dp_core d) in d\<lparr>dp_buffer := b, dp_core := c\<rparr>)"

definition on_session_packet :: "library \<Rightarrow> packet_header \<Rightarrow> byte list \<Rightarrow> core \<Rightarrow> core" where
  "on_session_packet lib h body c = (case unpack_session h body of
      Inl _ \<Rightarrow> c
    | Inr p \<Rightarrow>
        let uid = session_key h in
        if sp_session_type p \<in> set EXCLUDED_SESSION_TYPES
        then c\<lparr>co_excluded_sessions := bs_add uid (co_excluded_sessions c)\<rparr>
        else
          let (s, w) = handle_session_packet (lib_hash lib) p (co_session c) (co_world c);
              c1 = c\<lparr>co_known_sessions := bs_add uid (co_known_sessions c), co_session := s, co_world := w\<rparr>
          in if bd_contains (co_race_started c1) uid then c1
             else c1\<lparr>co_race_started :=
                 bd_set (co_race_started c1) uid (sp_session_type p \<notin> set RACE_SESSION_TYPES)\<rparr>)"

definition on_lobby_packet :: "packet_header \<Rightarrow> byte list \<Rightarrow> core \<Rightarrow> core" where
  "on_lobby_packet h body c = (case unpack_lobby_info h body of
      Inl _ \<Rightarrow> c
    | Inr p \<Rightarrow> c\<lparr>co_world := handle_lobby_info_packet p (co_world c)\<rparr>)"

definition on_participants_packet :: "packet_header \<Rightarrow> byte list \<Rightarrow> core \<Rightarrow> core" where
  "on_participants_packet h body c = (case unpack_participants h body of
      Inl _ \<Rightarrow> c
    | Inr p \<Rightarrow>
        let (r, s, w) = handle_participants_packet p (co_participants c) (co_world c);
            c1 = c\<lparr>co_participants := s, co_world := w\<rparr>
        in (case r of
              Inl _ \<Rightarrow> c1
            | Inr m \<Rightarrow> if m = [] then c1
                       else c1\<lparr>co_user_maps := bd_set (co_user_maps c1) (session_key h) m\<rparr>))"

text \<open>What a session-level event does beside its row.\<close>

definition after_session_event :: "pystr \<Rightarrow> pystr \<Rightarrow> event_packet \<Rightarrow> dispatcher \<Rightarrow> dispatcher" where
  "after_session_event uid code p d =
    (if code = ascii ''SEND'' then on_buffer (flush_session dispatch_flush uid) d
     else if code = ascii ''FLBK'' then handle_flashback uid p d
     else if code = ascii ''LGOT'' then on_core (mark_race_started uid) d
     else if code = ascii ''SCAR'' then
       (case ev_event p of
          SafetyCar car_type event_type \<Rightarrow>
            if car_type = FORMATION_LAP_SAFETY_CAR \<and> event_type = RESUME_RACE
            then on_core (mark_race_started uid) d else d
        | _ \<Rightarrow> d)
     else d)"

definition on_event_packet :: "packet_header \<Rightarrow> byte list \<Rightarrow> dispatcher \<Rightarrow> dispatcher" where
  "on_event_packet h body d = (case unpack_event_packet h body of
      Inl _ \<Rightarrow> d
    | Inr p \<Rightarrow>
        let uid = session_key h; code = clean_event_code p; m = user_map_of (dp_core d) uid;
            store = on_core (\<lambda>c. c\<lparr>co_world := handle_event_packet p m (co_world c)\<rparr>)
        in if code \<in> set (map ascii SESSION_LEVEL_EVENT_CODES) then after_session_event uid code p (store d)
           else if m = [] then d else store d)"

definition on_driver_packet :: "library \<Rightarrow> packet_header \<Rightarrow> byte list \<Rightarrow> user_map \<Rightarrow> core \<Rightarrow> core" where
  "on_driver_packet lib h body m c =
    (let uid = session_key h; packet_id = hdr_packet_id h in
     if packet_id = 5 then
       (case unpack_car_setup h body of
          Inl _ \<Rightarrow> c
        | Inr p \<Rightarrow> c\<lparr>co_car_setup := snd (handle_car_setup_packet (lib_digest lib) p uid m (co_car_setup c))\<rparr>)
     else if packet_id = 12 then
       (case unpack_tyre_sets h body of
          Inl _ \<Rightarrow> c
        | Inr p \<Rightarrow> c\<lparr>co_tyre_sets := handle_tyre_sets_packet p m
                       (get_restricted_indices (co_participants c) uid) (co_tyre_sets c)\<rparr>)
     else if packet_id = 13 then
       (case unpack_motion_ex h body of
          Inl _ \<Rightarrow> c
        | Inr p \<Rightarrow> c\<lparr>co_world := snd (write_motion_ex p m (get_session_start (co_session c) uid) (co_world c))\<rparr>)
     else if packet_id = 8 then
       (case unpack_final_classification h body of
          Inl _ \<Rightarrow> c
        | Inr p \<Rightarrow>
            let (s, w) = handle_final_classification_packet p m (get_session_type (co_session c) uid)
                           (co_classification c) (co_world c)
            in c\<lparr>co_classification := s, co_world := w,
                 co_classification_received := bs_add uid (co_classification_received c)\<rparr>)
     else if packet_id = 11 then
       (case unpack_session_history h body of
          Inl _ \<Rightarrow> c
        | Inr p \<Rightarrow>
            let (s, w) = handle_session_history_packet p m (co_lap_history c) (co_world c)
            in c\<lparr>co_lap_history := s,
                 co_world := (if bs_contains (co_classification_received c) uid
                              then handle_tyre_stints p m w else w)\<rparr>)
     else if packet_id = 15 then
       (case get_session_type (co_session c) uid of
          Some session_type \<Rightarrow>
            if session_type \<in> set RACE_SESSION_TYPES then
              (case unpack_lap_positions h body of
                 Inl _ \<Rightarrow> c
               | Inr p \<Rightarrow> c\<lparr>co_world := snd (handle_lap_positions_packet p m (co_world c))\<rparr>)
            else c
        | None \<Rightarrow> c)
     else c)"

text \<open>A car frame packet enters the buffer; then the sweep reads the monotonic clock.\<close>

definition on_car_frame_packet :: "packet_header \<Rightarrow> byte list \<Rightarrow> dispatcher \<Rightarrow> dispatcher" where
  "on_car_frame_packet h body d =
    (let d1 = on_buffer (fb_add dispatch_flush (session_key h) (hdr_overall_frame_identifier h)
                           (hdr_packet_id h) (h, body)) d;
         (now, w) = monotonic_now (co_world (dp_core d1));
         d2 = on_core (\<lambda>c. c\<lparr>co_world := w\<rparr>) d1
     in on_buffer (check_periodic_flush dispatch_flush now) d2)"

definition route_packet :: "library \<Rightarrow> packet_header \<Rightarrow> byte list \<Rightarrow> dispatcher \<Rightarrow> dispatcher" where
  "route_packet lib h body d =
    (let uid = session_key h; c = dp_core d; m = user_map_of c uid; packet_id = hdr_packet_id h in
     if bs_contains (co_excluded_sessions c) uid then d
     else if packet_id = 1 then on_core (on_session_packet lib h body) d
     else if packet_id = 9 then on_core (on_lobby_packet h body) d
     else if \<not> bs_contains (co_known_sessions c) uid then d
     else if packet_id = 4 then on_core (on_participants_packet h body) d
     else if packet_id = 3 then on_event_packet h body d
     else if m = [] then d
     else if packet_id \<in> set CAR_FRAME_PACKET_IDS then on_car_frame_packet h body d
     else on_core (on_driver_packet lib h body m) d)"

definition handle_packet :: "library \<Rightarrow> byte list \<Rightarrow> dispatcher \<Rightarrow> dispatcher" where
  "handle_packet lib data d =
    (if length data < PACKET_HEADER_FORMAT_SIZE then d
     else case unpack_packet_header (take PACKET_HEADER_FORMAT_SIZE data) of
         Inl _ \<Rightarrow> d
       | Inr h \<Rightarrow>
           (case validate_packet_header h (dp_header_log d) of
              (Inl _, l) \<Rightarrow> d\<lparr>dp_header_log := l\<rparr>
            | (Inr _, l) \<Rightarrow>
                let body = drop PACKET_HEADER_FORMAT_SIZE data;
                    (ok, d1) = validate_body_size h body (d\<lparr>dp_header_log := l\<rparr>)
                in if ok then route_packet lib h body d1 else d1))"

text \<open>A run of the listener: the datagrams in the order the worker takes them.\<close>

definition handle_packets :: "library \<Rightarrow> byte list list \<Rightarrow> dispatcher \<Rightarrow> dispatcher" where
  "handle_packets lib datas d = fold (handle_packet lib) datas d"

end
