(* ===== verification/Dispatcher_Facts.thy ===== *)
theory Dispatcher_Facts
  imports Dispatcher
begin

text \<open>
  What holds of the packet dispatcher: which datagrams change nothing, that a race never unstarts and
  nothing is recorded before it starts, that everything in the frame buffer parses, what a flashback
  undoes, and when a lap counts as completed. The buffer's contract \<open>flush_client\<close> is discharged here
  for the dispatcher's flush callback.
\<close>

subsection \<open>Packets that change nothing\<close>

definition header_of :: "byte list \<Rightarrow> packet_header option" where
  "header_of data =
    (if length data < PACKET_HEADER_FORMAT_SIZE then None
     else case unpack_packet_header (take PACKET_HEADER_FORMAT_SIZE data) of
         Inl _ \<Rightarrow> None | Inr h \<Rightarrow> Some h)"

definition header_valid :: "packet_header \<Rightarrow> bool" where
  "header_valid h \<longleftrightarrow> hdr_packet_format h = 2026 \<and> 0 \<le> hdr_packet_id h \<and> hdr_packet_id h \<le> 16
     \<and> (hdr_player_car_index h \<le> 23 \<or> hdr_player_car_index h = 255)"

text \<open>The gates, as a specification: which datagrams the services never see.\<close>

definition ignored :: "byte list \<Rightarrow> core \<Rightarrow> bool" where
  "ignored data c \<longleftrightarrow> (case header_of data of
      None \<Rightarrow> True
    | Some h \<Rightarrow>
        let uid = session_key h; packet_id = hdr_packet_id h in
        \<not> header_valid h
        \<or> \<not> body_size_ok packet_id (length data - PACKET_HEADER_FORMAT_SIZE)
        \<or> bs_contains (co_excluded_sessions c) uid
        \<or> packet_id \<notin> {1, 9} \<and>
          (\<not> bs_contains (co_known_sessions c) uid \<or> packet_id \<notin> {3, 4} \<and> user_map_of c uid = []))"

lemma validate_result: "fst (validate_packet_header h l) = Inr () \<longleftrightarrow> header_valid h"
  by (simp add: validate_accepts_iff header_valid_def)

lemma handle_packet_header:
  "handle_packet lib data d = (case header_of data of
      None \<Rightarrow> d
    | Some h \<Rightarrow>
        let d1 = d\<lparr>dp_header_log := snd (validate_packet_header h (dp_header_log d))\<rparr>;
            body = drop PACKET_HEADER_FORMAT_SIZE data
        in if \<not> header_valid h then d1
           else if body_size_ok (hdr_packet_id h) (length body) then route_packet lib h body d1
           else snd (validate_body_size h body d1))"
proof (cases "header_of data")
  case None
  then show ?thesis by (auto simp: handle_packet_def header_of_def split: if_splits sum.splits)
next
  case (Some h)
  obtain r l where v: "validate_packet_header h (dp_header_log d) = (r, l)"
    by (cases "validate_packet_header h (dp_header_log d)")
  have "r = Inr () \<longleftrightarrow> header_valid h" using validate_result [of h "dp_header_log d"] v by simp
  then show ?thesis using Some v
    by (auto simp: handle_packet_def header_of_def Let_def validate_body_size_def split: if_splits sum.splits)
qed

lemma validate_body_size_core [simp]:
  "dp_core (snd (validate_body_size h body d)) = dp_core d"
  "dp_buffer (snd (validate_body_size h body d)) = dp_buffer d"
  by (simp_all add: validate_body_size_def Let_def)

lemma on_core_simps [simp]:
  "dp_core (on_core f d) = f (dp_core d)" "dp_buffer (on_core f d) = dp_buffer d"
  by (simp_all add: on_core_def)

lemma user_map_of_upd [simp]:
  "user_map_of (c\<lparr>co_world := w\<rparr>) uid = user_map_of c uid"
  by (simp add: user_map_of_def)

text \<open>
  C9. A datagram that is too short, has a header of another
  format, an unknown packet id or an impossible player car, a body of the wrong size, belongs to an
  excluded session, to a session not announced yet, or needs a driver map that does not exist yet,
  changes neither a service nor the database nor the frame buffer.
\<close>

theorem ignored_packets_change_nothing:
  assumes "ignored data (dp_core d)"
  shows "dp_core (handle_packet lib data d) = dp_core d \<and> dp_buffer (handle_packet lib data d) = dp_buffer d"
proof (cases "header_of data")
  case None
  then show ?thesis by (simp add: handle_packet_header)
next
  case (Some h)
  let ?d1 = "d\<lparr>dp_header_log := snd (validate_packet_header h (dp_header_log d))\<rparr>"
  let ?body = "drop PACKET_HEADER_FORMAT_SIZE data"
  have "route_packet lib h ?body ?d1 = ?d1"
    if "header_valid h" "body_size_ok (hdr_packet_id h) (length ?body)"
    using that assms by (auto simp: ignored_def Some Let_def route_packet_def)
  then show ?thesis by (simp add: handle_packet_header Some Let_def)
qed

text \<open>A complete motion packet of session 1, which no session packet has announced.\<close>

definition motion_datagram :: "byte list" where
  "motion_datagram = [234, 7, 26, 1, 0, 1, 0, 1, 0, 0, 0, 0, 0, 0, 0, 0, 0, 0, 0, 5, 0, 0, 0, 5, 0, 0, 0, 0, 255]
     @ replicate 1296 0"

lemma motion_datagram_header:
  "\<exists>h. header_of motion_datagram = Some h \<and> hdr_packet_id h = 0 \<and> hdr_packet_format h = 2026
     \<and> hdr_session_uid h = 1 \<and> hdr_player_car_index h = 0 \<and> hdr_overall_frame_identifier h = 5"
  by (simp add: header_of_def motion_datagram_def unpack_packet_header_def struct_unpack_def int_at_def)

theorem ignored_packets_change_nothing_witness:
  "\<forall>lib w. dp_core (handle_packet lib motion_datagram (new_dispatcher True w)) = dp_core (new_dispatcher True w)"
proof (intro allI)
  fix lib w
  obtain h where h: "header_of motion_datagram = Some h" "hdr_packet_id h = 0"
    using motion_datagram_header by blast
  have "ignored motion_datagram (dp_core (new_dispatcher True w))"
    by (simp add: ignored_def h Let_def new_dispatcher_def new_core_def monotonic_now_def)
  then show "dp_core (handle_packet lib motion_datagram (new_dispatcher True w)) = dp_core (new_dispatcher True w)"
    by (rule ignored_packets_change_nothing [THEN conjunct1])
qed

subsection \<open>Parsing buffered packets\<close>

text \<open>What the dispatcher lets into the buffer.\<close>

definition wire_ok :: "pystr \<Rightarrow> int \<Rightarrow> int \<Rightarrow> wire_packet \<Rightarrow> bool" where
  "wire_ok uid f packet_id = (\<lambda>(h, body). packet_id \<in> set CAR_FRAME_PACKET_IDS
     \<and> body_size_ok packet_id (length body) \<and> header_valid h \<and> hdr_packet_id h = packet_id
     \<and> session_key h = uid \<and> hdr_overall_frame_identifier h = f)"

lemma frame_body_sizes:
  "body_size_ok 0 n \<longleftrightarrow> n = 1296" "body_size_ok 2 n \<longleftrightarrow> n = 1370" "body_size_ok 6 n \<longleftrightarrow> n = 1419"
  "body_size_ok 7 n \<longleftrightarrow> n = 1416" "body_size_ok 10 n \<longleftrightarrow> n = 1104" "body_size_ok 16 n \<longleftrightarrow> n = 240"
  by (simp_all add: body_size_ok_def EXPECTED_BODY_SIZE_def VARIABLE_LENGTH_PACKET_IDS_def)

lemma opt_unpack_ok:
  assumes "\<forall>(i, x) \<in> set packets. wire_ok uid f i x"
    and "\<And>h body. body_size_ok i (length body) \<Longrightarrow> \<exists>p. unpack h body = Inr p \<and> Q p"
  shows "\<exists>r. opt_unpack packets i unpack = Inr r \<and> (\<forall>p. r = Some p \<longrightarrow> Q p)"
proof (cases "map_of packets i")
  case None
  then show ?thesis by (simp add: opt_unpack_def)
next
  case (Some x)
  obtain h body where x: "x = (h, body)" by (cases x)
  then have "wire_ok uid f i (h, body)" using assms(1) map_of_SomeD [OF Some] by blast
  then have "body_size_ok i (length body)" by (simp add: wire_ok_def)
  from assms(2) [OF this] obtain p where "unpack h body = Inr p" "Q p" by blast
  then show ?thesis using Some x by (simp add: opt_unpack_def)
qed

lemma telemetry_wheels_unpacked:
  "unpack_car_telemetry h body = Inr p \<Longrightarrow> t \<in> set (tep_car_telemetry_data p) \<Longrightarrow> telemetry_wheels t"
  by (auto simp: unpack_car_telemetry_def and_then_Inr_iff Let_def)

lemma unpack_telemetry_ok:
  "length body = 1419 \<Longrightarrow> \<exists>p. unpack_car_telemetry h body = Inr p
     \<and> length (tep_car_telemetry_data p) = MAX_CARS \<and> (\<forall>t \<in> set (tep_car_telemetry_data p). telemetry_wheels t)"
  using unpack_car_telemetry_total [of body h] telemetry_wheels_unpacked [of h body] by blast

lemma frame_data_of_ok:
  assumes "\<forall>(i, x) \<in> set packets. wire_ok uid f i x"
  shows "\<exists>fd. frame_data_of h packets = Inr fd \<and> frame_data_ok fd"
proof -
  note opt = opt_unpack_ok [OF assms]
  obtain m where m: "opt_unpack packets 0 unpack_motion = Inr m"
      "\<forall>p. m = Some p \<longrightarrow> length (mop_car_motion_data p) = MAX_CARS"
    using opt [of 0 unpack_motion "\<lambda>p. length (mop_car_motion_data p) = MAX_CARS"]
    by (auto simp: frame_body_sizes unpack_motion_total)
  obtain t where t: "opt_unpack packets 6 unpack_car_telemetry = Inr t"
      "\<forall>p. t = Some p \<longrightarrow> length (tep_car_telemetry_data p) = MAX_CARS
         \<and> (\<forall>x \<in> set (tep_car_telemetry_data p). telemetry_wheels x)"
    using opt [of 6 unpack_car_telemetry "\<lambda>p. length (tep_car_telemetry_data p) = MAX_CARS
         \<and> (\<forall>x \<in> set (tep_car_telemetry_data p). telemetry_wheels x)"]
    by (auto simp: frame_body_sizes unpack_telemetry_ok)
  obtain l where l: "opt_unpack packets 2 unpack_lap_data = Inr l"
      "\<forall>p. l = Some p \<longrightarrow> length (lapp_lap_data p) = MAX_CARS"
    using opt [of 2 unpack_lap_data "\<lambda>p. length (lapp_lap_data p) = MAX_CARS"]
    by (auto simp: frame_body_sizes unpack_lap_data_total)
  obtain s where s: "opt_unpack packets 7 unpack_car_status = Inr s"
      "\<forall>p. s = Some p \<longrightarrow> length (csp_car_status_data p) = MAX_CARS"
    using opt [of 7 unpack_car_status "\<lambda>p. length (csp_car_status_data p) = MAX_CARS"]
    by (auto simp: frame_body_sizes unpack_car_status_total)
  obtain d where d: "opt_unpack packets 10 unpack_car_damage = Inr d"
      "\<forall>p. d = Some p \<longrightarrow> length (dmp_car_damage_data p) = MAX_CARS"
    using opt [of 10 unpack_car_damage "\<lambda>p. length (dmp_car_damage_data p) = MAX_CARS"]
    by (auto simp: frame_body_sizes unpack_car_damage_total)
  obtain t2 where t2: "opt_unpack packets 16 unpack_car_telemetry2 = Inr t2"
      "\<forall>p. t2 = Some p \<longrightarrow> length (t2p_car_telemetry2_data p) = MAX_CARS"
    using opt [of 16 unpack_car_telemetry2 "\<lambda>p. length (t2p_car_telemetry2_data p) = MAX_CARS"]
    by (auto simp: frame_body_sizes unpack_car_telemetry2_total)
  show ?thesis
    by (auto simp: frame_data_of_def m(1) t(1) l(1) s(1) d(1) t2(1) frame_data_ok_def cars_ok_def)
       (use m t l s d t2 in blast)+
qed

subsection \<open>What a flush may do\<close>

definition core_wf :: "core \<Rightarrow> bool" where
  "core_wf c \<longleftrightarrow> bs_wf (co_known_sessions c) \<and> bs_wf (co_excluded_sessions c)
     \<and> bs_wf (co_classification_received c) \<and> bd_wf (co_user_maps c)
     \<and> bd_wf (co_race_started c) \<and> bd_wf (co_last_lap_nums c)"

text \<open>
  The effect of a flush on the core: race starts, lap counters and the world may change, nothing
  else, and a race that has started stays started.
\<close>

definition same_services :: "core \<Rightarrow> core \<Rightarrow> bool" where
  "same_services c c' \<longleftrightarrow> co_session c' = co_session c \<and> co_participants c' = co_participants c
     \<and> co_lap_history c' = co_lap_history c \<and> co_classification c' = co_classification c
     \<and> co_car_setup c' = co_car_setup c \<and> co_tyre_sets c' = co_tyre_sets c
     \<and> co_known_sessions c' = co_known_sessions c \<and> co_excluded_sessions c' = co_excluded_sessions c
     \<and> co_user_maps c' = co_user_maps c \<and> co_classification_received c' = co_classification_received c"

definition never_unstarts :: "(pystr, bool) bounded_dict \<Rightarrow> (pystr, bool) bounded_dict \<Rightarrow> bool" where
  "never_unstarts rs rs' \<longleftrightarrow> (\<forall>uid. bd_get rs' uid = Some False \<longrightarrow> bd_get rs uid = Some False)"

definition flush_effect :: "core \<Rightarrow> core \<Rightarrow> bool" where
  "flush_effect c c' \<longleftrightarrow> same_services c c'
     \<and> (bd_wf (co_race_started c) \<longrightarrow>
          bd_wf (co_race_started c') \<and> never_unstarts (co_race_started c) (co_race_started c'))
     \<and> (bd_wf (co_last_lap_nums c) \<longrightarrow> bd_wf (co_last_lap_nums c'))"

lemma flush_effect_trans: "flush_effect c c' \<Longrightarrow> flush_effect c' c'' \<Longrightarrow> flush_effect c c''"
  by (auto simp: flush_effect_def same_services_def never_unstarts_def)

lemma flush_effect_refl [simp]: "flush_effect c c"
  by (simp add: flush_effect_def same_services_def never_unstarts_def)

lemma flush_effect_core_wf: "flush_effect c c' \<Longrightarrow> core_wf c \<Longrightarrow> core_wf c'"
  by (simp add: flush_effect_def core_wf_def same_services_def)

lemma flush_effect_world [simp]: "flush_effect c (c\<lparr>co_world := w\<rparr>)"
  by (simp add: flush_effect_def same_services_def never_unstarts_def)

lemma flush_effect_laps: "bd_wf (co_last_lap_nums c) \<longrightarrow> bd_wf ls \<Longrightarrow> flush_effect c (c\<lparr>co_last_lap_nums := ls\<rparr>)"
  by (simp add: flush_effect_def same_services_def never_unstarts_def)

lemma set_True_never_unstarts: "bd_wf rs \<Longrightarrow> never_unstarts rs (bd_set rs uid True)"
  unfolding never_unstarts_def
proof (intro allI impI)
  fix u assume "bd_wf rs" "bd_get (bd_set rs uid True) u = Some False"
  then show "bd_get rs u = Some False" using bd_get_set_cases [of rs uid True u] by (auto split: if_splits)
qed

lemma flush_effect_mark: "flush_effect c (mark_race_started uid c)"
  by (simp add: mark_race_started_def)
     (simp add: flush_effect_def same_services_def set_True_never_unstarts)

lemma flush_effect_lap: "flush_effect c (check_lap_completion uid m il c)"
proof -
  have c: "flush_effect c (on_lap_complete uid u i n c)" for u i n
    by (simp add: on_lap_complete_def Let_def)
  have set: "flush_effect c' (c'\<lparr>co_last_lap_nums := bd_set (co_last_lap_nums c') k n\<rparr>)" for c' k n
    by (rule flush_effect_laps) simp
  show ?thesis
    by (cases il) (auto simp: check_lap_completion_def Let_def split: option.split
        intro: set flush_effect_trans [OF c set])
qed

lemma flush_effect_fold: "(\<And>x c. flush_effect c (h x c)) \<Longrightarrow> flush_effect c (fold h xs c)"
  by (induction xs arbitrary: c) (auto intro: flush_effect_trans)

lemma flush_effect_write: "flush_effect c (write_frame_data uid f t m fd c)"
proof -
  let ?c1 = "note_racing_lap uid m (fd_lap fd) c"
  have 1: "flush_effect c ?c1"
    by (simp add: note_racing_lap_def flush_effect_mark split: option.split)
  have 2: "flush_effect c' (check_lap_completions uid m laps c')" for c' laps
    unfolding check_lap_completions_def by (rule flush_effect_fold) (rule flush_effect_lap)
  have 3: "flush_effect ?c1 (?c1\<lparr>co_world := w\<rparr>)" for w by simp
  have 4: "flush_effect c (?c1\<lparr>co_world := w\<rparr>)" for w by (rule flush_effect_trans [OF 1 3])
  then have "flush_effect c (check_lap_completions uid m laps (?c1\<lparr>co_world := w\<rparr>))" for laps w
    by (rule flush_effect_trans) (rule 2)
  note laps = this
  obtain r w where rw: "(if nonempty (fd_motion fd) \<or> nonempty (fd_telemetry fd) \<or> nonempty (fd_lap fd) \<or> nonempty (fd_status fd)
      then write_frame uid t f m fd (get_restricted_indices (co_participants ?c1) uid)
             (get_session_start (co_session ?c1) uid) (race_under_way ?c1 uid) (co_world ?c1)
      else (Inr (), co_world ?c1)) = (r, w)"
    by (meson surj_pair)
  show ?thesis
    unfolding write_frame_data_def Let_def rw prod.case
    using 4 [of w] laps [of _ w] by (cases r; cases "fd_lap fd") simp_all
qed

lemma flush_effect_flush: "flush_effect c (dispatch_flush uid f packets c)"
  by (auto simp: dispatch_flush_def Let_def flush_effect_write split: list.split sum.split prod.split)

interpretation frames: flush_client dispatch_flush flush_effect
  by unfold_locales (auto intro: flush_effect_trans flush_effect_flush)

lemma flush_effect_buffer:
  "flush_effect (dp_core d) (dp_core (on_buffer (flush_session dispatch_flush uid) d))"
  "flush_effect (dp_core d) (dp_core (on_buffer (fb_add dispatch_flush uid f i x) d))"
  "flush_effect (dp_core d) (dp_core (on_buffer (check_periodic_flush dispatch_flush now) d))"
  using frames.flush_session_related [of "(dp_buffer d, dp_core d)" uid]
    frames.add_related [of "(dp_buffer d, dp_core d)" uid f i x]
    frames.sweep_related [of "(dp_buffer d, dp_core d)" now]
  by (auto simp: on_buffer_def split: prod.splits)


subsection \<open>The invariant of the dispatcher\<close>

definition dispatcher_ok :: "dispatcher \<Rightarrow> bool" where
  "dispatcher_ok d \<longleftrightarrow> core_wf (dp_core d) \<and> fb_wf (dp_buffer d) \<and> all_buffered wire_ok (dp_buffer d)"

lemma dispatcher_ok_new [simp]: "dispatcher_ok (new_dispatcher dl w)"
  by (simp add: dispatcher_ok_def new_dispatcher_def core_wf_def new_core_def fb_wf_new all_buffered_new
      split: prod.split)

text \<open>What any packet does to the race starts: a race that has started never turns into one that has not.\<close>

definition race_effect :: "core \<Rightarrow> core \<Rightarrow> bool" where
  "race_effect c c' \<longleftrightarrow> (core_wf c \<longrightarrow> core_wf c' \<and> (\<forall>uid. bd_get (co_race_started c) uid = Some True \<longrightarrow>
      bd_get (co_race_started c') uid \<noteq> Some False))"

lemma race_effect_flush: "flush_effect c c' \<Longrightarrow> race_effect c c'"
  by (auto simp: race_effect_def flush_effect_core_wf) (auto simp: flush_effect_def never_unstarts_def core_wf_def)

lemma race_effect_same:
  "co_race_started c' = co_race_started c \<Longrightarrow> core_wf c \<longrightarrow> core_wf c' \<Longrightarrow> race_effect c c'"
  by (simp add: race_effect_def)

lemma race_effect_refl [simp]: "race_effect c c"
  by (simp add: race_effect_def)

lemma race_effect_session: "race_effect c (on_session_packet lib h body c)"
proof -
  have set: "bd_get (bd_set rs u b) uid \<noteq> Some False"
    if "bd_wf rs" "\<not> bd_contains rs u" "bd_get rs uid = Some True" for rs u b uid
    using that bd_get_set_cases [of rs u b uid] by (auto simp: bd_contains_get split: if_splits)
  show ?thesis
    by (auto simp: race_effect_def on_session_packet_def core_wf_def Let_def set split: sum.split prod.split)
qed

lemma race_effect_lobby: "race_effect c (on_lobby_packet h body c)"
  by (rule race_effect_same) (auto simp: on_lobby_packet_def core_wf_def split: sum.split)

lemma race_effect_participants: "race_effect c (on_participants_packet h body c)"
  by (rule race_effect_same) (auto simp: on_participants_packet_def core_wf_def Let_def split: sum.split prod.split)

text \<open>What a packet of a driver may change.\<close>

lemma driver_packet_cases:
  assumes "P c" "\<And>x. P (c\<lparr>co_car_setup := x\<rparr>)" "\<And>x. P (c\<lparr>co_tyre_sets := x\<rparr>)" "\<And>w. P (c\<lparr>co_world := w\<rparr>)"
    and "\<And>s w. P (c\<lparr>co_classification := s, co_world := w,
      co_classification_received := bs_add (session_key h) (co_classification_received c)\<rparr>)"
    and "\<And>s w. P (c\<lparr>co_lap_history := s, co_world := w\<rparr>)"
  shows "P (on_driver_packet lib h body m c)"
  unfolding on_driver_packet_def Let_def split_beta
  by (intro if_split [where P = P, THEN iffD2] conjI impI) (simp_all add: assms split: sum.split option.split)

lemma on_driver_packet_fields:
  "co_race_started (on_driver_packet lib h body m c) = co_race_started c"
  "co_known_sessions (on_driver_packet lib h body m c) = co_known_sessions c"
  "co_excluded_sessions (on_driver_packet lib h body m c) = co_excluded_sessions c"
  "co_user_maps (on_driver_packet lib h body m c) = co_user_maps c"
  "co_last_lap_nums (on_driver_packet lib h body m c) = co_last_lap_nums c"
  "co_participants (on_driver_packet lib h body m c) = co_participants c"
  "bs_wf (co_classification_received c) \<longrightarrow> bs_wf (co_classification_received (on_driver_packet lib h body m c))"
  by (rule driver_packet_cases; simp)+

lemma race_effect_driver: "race_effect c (on_driver_packet lib h body m c)"
  by (rule race_effect_same) (auto simp: core_wf_def on_driver_packet_fields)

lemma flush_effect_event: "flush_effect (dp_core d) (dp_core (after_session_event uid code p d))"
proof -
  have "flush_effect c (reset_lap_nums uid c)" for c
  proof -
    have "bd_wf ls \<Longrightarrow> bd_wf (fold (\<lambda>key ls. bd_set ls key 0) ks ls)" for ks and ls :: "(pystr \<times> int, int) bounded_dict"
      by (induction ks arbitrary: ls) auto
    then show ?thesis by (simp add: reset_lap_nums_def flush_effect_laps)
  qed
  then have r: "flush_effect c (reset_lap_nums uid (c\<lparr>co_world := w\<rparr>)\<lparr>co_world := w'\<rparr>)" for c w w'
    using flush_effect_trans flush_effect_world by metis
  have "flush_effect c (undo_recorded uid h e t c)" for h e c t
    by (auto simp: undo_recorded_def Let_def r split: sum.split prod.split)
  then have "flush_effect (dp_core d) (dp_core (handle_flashback uid p d))"
    by (simp add: handle_flashback_def split: event_details.split)
  then show ?thesis
    by (simp add: after_session_event_def flush_effect_buffer flush_effect_mark split: event_details.split)
qed

lemma flush_effect_packet: "flush_effect (dp_core d) (dp_core (on_event_packet h body d))"
proof -
  have "flush_effect (dp_core d) (dp_core (after_session_event uid code p
      (on_core (\<lambda>c. c\<lparr>co_world := w c\<rparr>) d)))" for uid code p w
    using flush_effect_trans [OF _ flush_effect_event, of "dp_core d" "on_core (\<lambda>c. c\<lparr>co_world := w c\<rparr>) d"]
    by simp
  then show ?thesis by (simp add: on_event_packet_def Let_def split: sum.split)
qed

lemma flush_effect_car_frame: "flush_effect (dp_core d) (dp_core (on_car_frame_packet h body d))"
proof -
  let ?d1 = "on_buffer (fb_add dispatch_flush (session_key h) (hdr_overall_frame_identifier h)
                           (hdr_packet_id h) (h, body)) d"
  have "flush_effect (dp_core d) (dp_core (on_core (\<lambda>c. c\<lparr>co_world := w\<rparr>) ?d1))" for w
    using flush_effect_trans [OF flush_effect_buffer(2) flush_effect_world] by (metis on_core_simps(1))
  from flush_effect_trans [OF this flush_effect_buffer(3)] show ?thesis
    by (simp add: on_car_frame_packet_def Let_def split: prod.split)
qed

lemma race_effect_route: "race_effect (dp_core d) (dp_core (route_packet lib h body d))"
  by (simp add: route_packet_def Let_def race_effect_session race_effect_lobby race_effect_participants
      race_effect_driver race_effect_flush flush_effect_packet flush_effect_car_frame)

lemma race_effect_handle: "race_effect (dp_core d) (dp_core (handle_packet lib data d))"
proof -
  have "race_effect (dp_core d) (dp_core (route_packet lib h body (d\<lparr>dp_header_log := l\<rparr>)))" for h body l
    using race_effect_route [of "d\<lparr>dp_header_log := l\<rparr>"] by simp
  then show ?thesis by (simp add: handle_packet_header Let_def split: option.split)
qed

lemma race_never_unstarts:
  assumes "core_wf (dp_core d)" "bd_get (co_race_started (dp_core d)) uid = Some True"
  shows "bd_get (co_race_started (dp_core (handle_packet lib data d))) uid \<noteq> Some False"
  using race_effect_handle [of d lib data] assms by (simp add: race_effect_def)

subsection \<open>Nothing is recorded before the race starts\<close>

lemma no_frames_before_race_start:
  assumes "\<not> race_under_way (dispatch_flush uid f packets c) uid" "core_wf c"
  shows "dispatch_flush uid f packets c = c"
proof -
  have fd: "write_frame_data uid f t m fd c = c" if "\<not> race_under_way (write_frame_data uid f t m fd c) uid" for t m fd
  proof -
    let ?c1 = "note_racing_lap uid m (fd_lap fd) c"
    have started: "race_under_way (check_lap_completions uid m laps c') u = race_under_way c' u" for laps c' u
    proof -
      have one: "co_race_started (check_lap_completion uid m il c'') = co_race_started c''" for il c''
        by (cases il) (simp add: check_lap_completion_def on_lap_complete_def Let_def split: option.split)
      have "co_race_started (fold (check_lap_completion uid m) ils c'') = co_race_started c''" for ils c''
        by (induction ils arbitrary: c'') (simp_all add: one)
      then show ?thesis by (simp add: race_under_way_def check_lap_completions_def)
    qed
    have "race_under_way (write_frame_data uid f t m fd c) uid = race_under_way ?c1 uid"
      by (auto simp: write_frame_data_def Let_def started split: sum.split prod.split option.split)
         (auto simp: race_under_way_def)
    with that have waiting: "\<not> race_under_way ?c1 uid" by simp
    have "?c1 = c"
    proof (rule ccontr)
      assume "?c1 \<noteq> c"
      then have "?c1 = mark_race_started uid c" by (auto simp: note_racing_lap_def split: option.splits if_splits)
      then have "race_under_way ?c1 uid"
        using assms(2) by (simp add: race_under_way_def mark_race_started_def core_wf_def)
      then show False using waiting by simp
    qed
    then show ?thesis using waiting by (auto simp: write_frame_data_def Let_def write_frame_def split: option.split)
  qed
  show ?thesis
    using assms fd by (auto simp: dispatch_flush_def Let_def split: list.splits sum.splits prod.splits if_splits)
qed

text \<open>
  C12. Once a race session is known to be under way, no single datagram, of whatever session
  and content, puts it back to waiting for its start; and while a race waits for its start (the
  formation lap), writing a frame does nothing at all: no row, no lap counted, no clock read.
\<close>

theorem race_start_gate:
  assumes "core_wf (dp_core d)"
  shows "(bd_get (co_race_started (dp_core d)) uid = Some True \<longrightarrow>
      bd_get (co_race_started (dp_core (handle_packet lib data d))) uid \<noteq> Some False)
    \<and> (\<not> race_under_way (dispatch_flush uid f packets (dp_core d)) uid \<longrightarrow>
      dispatch_flush uid f packets (dp_core d) = dp_core d)"
  using race_never_unstarts [OF assms] no_frames_before_race_start [OF _ assms] by blast

text \<open>A header of session 1, two seconds in.\<close>

definition running_header :: packet_header where
  "running_header =
     \<lparr>hdr_packet_format = 2026, hdr_game_year = 26, hdr_game_major_version = 1, hdr_game_minor_version = 0,
      hdr_packet_version = 1, hdr_packet_id = 0, hdr_session_uid = 1, hdr_session_time = f_of_int 2,
      hdr_frame_identifier = 5, hdr_overall_frame_identifier = 5, hdr_player_car_index = 0,
      hdr_secondary_player_car_index = 255\<rparr>"

text \<open>A core that knows one driver of session 1, whose race waits for its start or is under way.\<close>

definition session_core :: "bool \<Rightarrow> core" where
  "session_core started = (new_core True quiet_world)
     \<lparr>co_known_sessions := bs_add [49] (bs_new 100),
      co_user_maps := bd_set (bd_new 200) [49] [(0, 70)],
      co_race_started := bd_set (bd_new 200) [49] started\<rparr>"

lemma session_core_wf [simp]: "core_wf (session_core b)"
  by (simp add: session_core_def core_wf_def new_core_def)

lemma session_core_simps [simp]:
  "user_map_of (session_core b) [49] = [(0, 70)]"
  "bs_contains (co_known_sessions (session_core b)) [49]"
  "co_excluded_sessions (session_core b) = bs_new 100"
  "bd_get (co_race_started (session_core b)) [49] = Some b"
  "co_world (session_core b) = quiet_world"
  by (simp_all add: session_core_def user_map_of_def new_core_def)

theorem race_start_gate_witness:
  "(\<forall>lib. bd_get (co_race_started (dp_core (handle_packet lib motion_datagram
      (new_dispatcher True quiet_world)\<lparr>dp_core := session_core True\<rparr>))) [49] \<noteq> Some False)
   \<and> \<not> f_lt (hdr_session_time running_header) ONE
   \<and> dispatch_flush [49] 5 [(0, (running_header, replicate 1296 0))] (session_core False) = session_core False"
proof -
  let ?ps = "[(0, (running_header, replicate 1296 0))] :: wire_packet packets"
  have late: "\<not> f_lt (hdr_session_time running_header) ONE"
    by (simp add: running_header_def ONE_def) code_simp
  have "\<forall>(i, x) \<in> set ?ps. wire_ok [49] 5 i x"
    by (simp add: wire_ok_def running_header_def CAR_FRAME_PACKET_IDS_def frame_body_sizes header_valid_def
        session_key_def) code_simp
  then obtain fd where fd: "frame_data_of running_header ?ps = Inr fd"
    using frame_data_of_ok by blast
  then have "fd_lap fd = None"
    by (auto simp: frame_data_of_def opt_unpack_def and_then_Inr_iff)
  then have "write_frame_data [49] 5 t [(0, 70)] fd (session_core False) = session_core False" for t
    by (simp add: write_frame_data_def Let_def write_frame_def note_racing_lap_def race_under_way_def)
  then have "\<not> race_under_way (dispatch_flush [49] 5 ?ps (session_core False)) [49]"
    by (simp add: dispatch_flush_def late fd) (simp add: race_under_way_def)
  moreover have "core_wf (dp_core ((new_dispatcher True quiet_world)\<lparr>dp_core := session_core b\<rparr>))" for b by simp
  note gate = race_start_gate [OF this, of _ "[49]"]
  ultimately show ?thesis using gate [of True] gate [of False _ _ 5 ?ps] late by auto
qed

subsection \<open>The buffer holds only packets that parse\<close>

lemma buffer_ok_upd [simp]:
  "dispatcher_ok (d\<lparr>dp_header_log := l\<rparr>) = dispatcher_ok d"
  "dispatcher_ok (d\<lparr>dp_logged_size_mismatches := x\<rparr>) = dispatcher_ok d"
  by (simp_all add: dispatcher_ok_def)

lemma on_buffer_ok:
  assumes "\<And>b w. fb_wf b \<Longrightarrow> all_buffered wire_ok b \<Longrightarrow> fb_wf (fst (f (b, w))) \<and> all_buffered wire_ok (fst (f (b, w)))"
    and "dispatcher_ok d" "flush_effect (dp_core d) (dp_core (on_buffer f d))"
  shows "dispatcher_ok (on_buffer f d)"
proof -
  have "dp_buffer (on_buffer f d) = fst (f (dp_buffer d, dp_core d))"
    by (simp add: on_buffer_def split: prod.split)
  then show ?thesis
    using assms flush_effect_core_wf by (auto simp: dispatcher_ok_def)
qed

lemma flush_session_ok: "dispatcher_ok d \<Longrightarrow> dispatcher_ok (on_buffer (flush_session dispatch_flush uid) d)"
  by (rule on_buffer_ok) (auto simp: flush_session_wf all_buffered_flush_session flush_effect_buffer)

lemma sweep_ok: "dispatcher_ok d \<Longrightarrow> dispatcher_ok (on_buffer (check_periodic_flush dispatch_flush now) d)"
  by (rule on_buffer_ok) (auto simp: check_periodic_flush_wf all_buffered_sweep flush_effect_buffer)

lemma add_ok:
  "dispatcher_ok d \<Longrightarrow> wire_ok uid f i x \<Longrightarrow> dispatcher_ok (on_buffer (fb_add dispatch_flush uid f i x) d)"
  by (rule on_buffer_ok) (auto simp: fb_add_wf all_buffered_add flush_effect_buffer)

lemma on_core_ok: "dispatcher_ok d \<Longrightarrow> core_wf (f (dp_core d)) \<Longrightarrow> dispatcher_ok (on_core f d)"
  by (simp add: dispatcher_ok_def)

lemma race_effect_core_wf: "race_effect c c' \<Longrightarrow> core_wf c \<Longrightarrow> core_wf c'"
  by (simp add: race_effect_def)

lemma dispatcher_ok_core: "dispatcher_ok d \<Longrightarrow> core_wf (dp_core d)"
  by (simp add: dispatcher_ok_def)

lemma handle_flashback_ok:
  assumes "dispatcher_ok d" shows "dispatcher_ok (handle_flashback uid p d)"
proof (cases "ev_event p")
  case (Flashback fr t)
  have b: "dp_buffer (handle_flashback uid p d) = discard_session uid (dp_buffer d)"
    by (simp add: handle_flashback_def Flashback)
  have "flush_effect (dp_core d) (dp_core (handle_flashback uid p d))"
    using flush_effect_event [of d uid "ascii ''FLBK''" p] by (simp add: after_session_event_def ascii_inj)
  then have "core_wf (dp_core (handle_flashback uid p d))"
    using flush_effect_core_wf dispatcher_ok_core [OF assms] by blast
  then show ?thesis
    using assms by (simp add: dispatcher_ok_def b discard_session_wf all_buffered_discard)
qed (use assms in \<open>simp_all add: handle_flashback_def\<close>)

lemma core_wf_world [simp]: "core_wf (c\<lparr>co_world := w\<rparr>) = core_wf c"
  by (simp add: core_wf_def)

lemma mark_ok: "dispatcher_ok d \<Longrightarrow> dispatcher_ok (on_core (mark_race_started uid) d)"
  by (rule on_core_ok) (auto intro: flush_effect_core_wf [OF flush_effect_mark] dispatcher_ok_core)

lemma after_session_event_ok: "dispatcher_ok d \<Longrightarrow> dispatcher_ok (after_session_event uid code p d)"
  by (simp add: after_session_event_def flush_session_ok handle_flashback_ok mark_ok split: event_details.split)

lemma on_event_packet_ok: "dispatcher_ok d \<Longrightarrow> dispatcher_ok (on_event_packet h body d)"
proof -
  assume d: "dispatcher_ok d"
  have "dispatcher_ok (on_core (\<lambda>c. c\<lparr>co_world := w c\<rparr>) d)" for w
    using d by (intro on_core_ok) (simp_all add: dispatcher_ok_core)
  then show ?thesis
    using d by (simp add: on_event_packet_def Let_def after_session_event_ok split: sum.split)
qed

lemma on_car_frame_packet_ok:
  assumes d: "dispatcher_ok d" and h: "header_valid h" "body_size_ok (hdr_packet_id h) (length body)"
    "hdr_packet_id h \<in> set CAR_FRAME_PACKET_IDS"
  shows "dispatcher_ok (on_car_frame_packet h body d)"
proof -
  let ?d1 = "on_buffer (fb_add dispatch_flush (session_key h) (hdr_overall_frame_identifier h)
                           (hdr_packet_id h) (h, body)) d"
  have "dispatcher_ok ?d1" by (rule add_ok [OF d]) (simp add: wire_ok_def h)
  then have "dispatcher_ok (on_core (\<lambda>c. c\<lparr>co_world := w\<rparr>) ?d1)" for w
    by (intro on_core_ok) (simp_all add: dispatcher_ok_core)
  then show ?thesis
    by (simp add: on_car_frame_packet_def Let_def sweep_ok split: prod.split)
qed

lemma handle_packet_ok: "dispatcher_ok d \<Longrightarrow> dispatcher_ok (handle_packet lib data d)"
proof -
  assume d: "dispatcher_ok d"
  have core: "dispatcher_ok (on_core f d')" if "dispatcher_ok d'" "\<And>c. race_effect c (f c)" for f d'
    using on_core_ok [OF that(1)] race_effect_core_wf [OF that(2)] dispatcher_ok_core [OF that(1)] by blast
  have "dispatcher_ok (route_packet lib h body d')"
    if "dispatcher_ok d'" "header_valid h" "body_size_ok (hdr_packet_id h) (length body)" for h body d'
    using that
    by (simp add: route_packet_def Let_def core race_effect_session race_effect_lobby
        race_effect_participants race_effect_driver on_event_packet_ok on_car_frame_packet_ok)
  moreover have "dispatcher_ok (snd (validate_body_size h body d'))" if "dispatcher_ok d'" for h body d'
    using that by (simp add: validate_body_size_def Let_def)
  ultimately show ?thesis
    using d by (simp add: handle_packet_header Let_def split: option.split)
qed

lemma handle_packets_ok: "dispatcher_ok d \<Longrightarrow> dispatcher_ok (handle_packets lib datas d)"
  unfolding handle_packets_def by (induction datas arbitrary: d) (simp_all add: handle_packet_ok)

text \<open>
  C8. From the start of the listener, whatever datagrams come in, every frame
  waiting in the buffer holds only packets of its own session and frame, and assembling it raises
  nothing and yields data for all 24 cars. So no frame is lost to a parse error.
\<close>

theorem buffered_frames_parse:
  assumes "dispatcher_ok d"
    and "(f, packets) \<in> set (pending (dp_buffer (handle_packets lib datas d)) uid)"
  shows "dispatcher_ok (new_dispatcher dl w)
    \<and> (\<forall>(i, h, body) \<in> set packets. session_key h = uid \<and> hdr_overall_frame_identifier h = f \<and> hdr_packet_id h = i)
    \<and> (\<exists>fd. frame_data_of h0 packets = Inr fd \<and> frame_data_ok fd)"
proof -
  have ok: "\<forall>(i, x) \<in> set packets. wire_ok uid f i x"
    using handle_packets_ok [OF assms(1), of lib datas] assms(2)
    unfolding dispatcher_ok_def all_buffered_def by blast
  then show ?thesis using frame_data_of_ok [OF ok] by (auto simp: wire_ok_def)
qed

definition session_dispatcher :: "bool \<Rightarrow> dispatcher" where
  "session_dispatcher started = (new_dispatcher True quiet_world)\<lparr>dp_core := session_core started\<rparr>"

lemma session_dispatcher_ok [simp]: "dispatcher_ok (session_dispatcher b)"
  using dispatcher_ok_new [of True quiet_world] by (simp add: dispatcher_ok_def session_dispatcher_def)

lemma motion_datagram_buffered:
  "\<exists>x. pending (dp_buffer (handle_packet lib motion_datagram (session_dispatcher b))) [49] = [(5, [(0, x)])]"
proof -
  obtain h where h: "header_of motion_datagram = Some h" "hdr_packet_id h = 0" "hdr_packet_format h = 2026"
      "hdr_session_uid h = 1" "hdr_player_car_index h = 0" "hdr_overall_frame_identifier h = 5"
    using motion_datagram_header by blast
  have valid: "header_valid h" "session_key h = [49]"
    by (simp add: header_valid_def h, simp add: session_key_def h) code_simp
  have size: "length motion_datagram = 1325"
    by (simp add: motion_datagram_def)
  have b: "dp_buffer (session_dispatcher b) = new_frame_buffer 0"
    by (simp add: session_dispatcher_def new_dispatcher_def monotonic_now_def quiet_world_def)
  have c: "dp_core (session_dispatcher b) = session_core b"
    by (simp add: session_dispatcher_def)
  show ?thesis
    by (simp add: handle_packet_header h valid Let_def frame_body_sizes size route_packet_def c
        CAR_FRAME_PACKET_IDS_def on_car_frame_packet_def on_buffer_def b monotonic_now_def
        fb_add_def new_frame_buffer_def bd_new_def bd_get_def bd_set_def bd_setitem_def
        bd_contains_def bd_mutate_def put_packet_def pending_def MAX_SESSIONS_def
        check_periodic_flush_def FLUSH_INTERVAL_NS_def) (simp add: quiet_world_def)
qed

theorem buffered_frames_parse_witness:
  "\<forall>lib. \<exists>ps. (5, ps) \<in> set (pending (dp_buffer (handle_packets lib [motion_datagram] (session_dispatcher True))) [49])
     \<and> ps \<noteq> [] \<and> (\<exists>fd. frame_data_of running_header ps = Inr fd \<and> frame_data_ok fd)"
proof
  fix lib
  obtain x where x: "pending (dp_buffer (handle_packets lib [motion_datagram] (session_dispatcher True))) [49] = [(5, [(0, x)])]"
    using motion_datagram_buffered [of lib True] by (auto simp: handle_packets_def)
  then have "(5, [(0, x)]) \<in> set (pending (dp_buffer (handle_packets lib [motion_datagram] (session_dispatcher True))) [49])"
    by simp
  from buffered_frames_parse [OF session_dispatcher_ok this, of True quiet_world running_header] this
  show "\<exists>ps. (5, ps) \<in> set (pending (dp_buffer (handle_packets lib [motion_datagram] (session_dispatcher True))) [49])
     \<and> ps \<noteq> [] \<and> (\<exists>fd. frame_data_of running_header ps = Inr fd \<and> frame_data_ok fd)" by blast
qed

subsection \<open>Flashbacks\<close>

lemma reset_counters:
  assumes "bd_wf ls"
  shows "bd_wf (fold (\<lambda>k ls. bd_set ls k 0) ks ls)
    \<and> (set ks \<subseteq> set (bd_keys ls) \<longrightarrow> (\<forall>k. bd_get (fold (\<lambda>k ls. bd_set ls k 0) ks ls) k =
        (if k \<in> set ks then Some (0 :: int) else bd_get ls k)))"
  using assms
proof (induction ks arbitrary: ls)
  case (Cons a ks)
  show ?case
  proof (intro conjI impI)
    show "bd_wf (fold (\<lambda>k ls. bd_set ls k 0) (a # ks) ls)" using Cons by simp
    assume a: "set (a # ks) \<subseteq> set (bd_keys ls)"
    have "card (insert a (set (bd_keys ls))) \<le> bd_max ls"
      using a bd_wfD [OF Cons.prems] by (simp add: insert_absorb distinct_card)
    note room = bd_get_set_room [OF Cons.prems this]
    have "set ks \<subseteq> set (bd_keys (bd_set ls a 0))" using a room(2) by auto
    then show "\<forall>k. bd_get (fold (\<lambda>k ls. bd_set ls k 0) (a # ks) ls) k =
        (if k \<in> set (a # ks) then Some 0 else bd_get ls k)"
      using Cons.IH [of "bd_set ls a 0"] Cons.prems room(1) by auto
  qed
qed simp

lemma reset_lap_nums_effect:
  assumes "bd_wf (co_last_lap_nums c)"
  shows "last_lap_of (reset_lap_nums uid c) key = (if fst key = uid then 0 else last_lap_of c key)"
proof -
  let ?ks = "filter (\<lambda>key. fst key = uid) (bd_keys (co_last_lap_nums c))"
  have "set ?ks \<subseteq> set (bd_keys (co_last_lap_nums c))" by auto
  then have "bd_get (co_last_lap_nums (reset_lap_nums uid c)) key =
      (if key \<in> set ?ks then Some 0 else bd_get (co_last_lap_nums c) key)"
    using reset_counters [OF assms, of ?ks] by (simp add: reset_lap_nums_def del: split_paired_All)
  moreover have "bd_get (co_last_lap_nums c) key = None" if "key \<notin> set (bd_keys (co_last_lap_nums c))"
    using that by (simp add: bd_get_None_iff)
  ultimately show ?thesis by (auto simp: last_lap_of_def split: option.split)
qed

definition FRAME_TABLES :: "string list" where
  "FRAME_TABLES = [''telemetry.car_frame'', ''telemetry.car_frame_damage'', ''telemetry.car_frame_motion_ex'']"


text \<open>Two recorded frames, five and nine seconds into session 1; the driver goes back to second seven.\<close>

definition frame_at :: "int \<Rightarrow> row" where
  "frame_at t = [(''session_uid'', PStr [49]), (''session_time'', PFloat (f_of_int t))]"

definition recorded :: dispatcher where
  "recorded = on_core (\<lambda>c. c\<lparr>co_world := quiet_world\<lparr>w_db := \<lparr>db_tables =
      (\<lambda>_. [])(''telemetry.car_frame'' := [frame_at 5, frame_at 9]), db_seq = \<lambda>_. 1\<rparr>\<rparr>\<rparr>) (session_dispatcher True)"

lemma frame_after_frame_at:
  "frame_after [49] (f_of_int 7) None (frame_at 9)" "\<not> frame_after [49] (f_of_int 7) None (frame_at 5)"
  unfolding frame_after_def frame_at_def by code_simp+


subsection \<open>Laps\<close>

text \<open>
  The specification: the laps a driver completes, given the lap it was last seen on and the laps it is
  seen on afterwards; and the notifications a sequence of lap packets amounts to, as driver, car, lap.
\<close>

fun laps_done :: "int \<Rightarrow> int list \<Rightarrow> int list" where
  "laps_done last_lap [] = []"
| "laps_done last_lap (n # ns) = (if last_lap < n \<and> 0 < last_lap then [last_lap] else []) @ laps_done n ns"

definition on_track :: "lap_data \<Rightarrow> bool" where
  "on_track l \<longleftrightarrow> lap_driver_status l \<in> {1, 4}"

fun completions :: "user_map \<Rightarrow> (int \<Rightarrow> int) \<Rightarrow> (nat \<times> lap_data) list \<Rightarrow> (int \<times> nat \<times> int) list" where
  "completions m seen [] = []"
| "completions m seen ((i, l) # ils) = (case map_of m (int i) of
      Some u \<Rightarrow>
        if on_track l then
          (if seen u < lap_current_lap_num l \<and> 0 < seen u then [(u, i, seen u)] else [])
          @ completions m (seen(u := lap_current_lap_num l)) ils
        else completions m seen ils
    | None \<Rightarrow> completions m seen ils)"

definition laps_seen :: "user_map \<Rightarrow> int \<Rightarrow> (nat \<times> lap_data) list \<Rightarrow> int list" where
  "laps_seen m u ils = map (\<lambda>(i, l). lap_current_lap_num l)
     (filter (\<lambda>(i, l). map_of m (int i) = Some u \<and> on_track l) ils)"

lemma completions_driver:
  "map (\<lambda>x. snd (snd x)) (filter (\<lambda>x. fst x = u) (completions m seen ils)) = laps_done (seen u) (laps_seen m u ils)"
proof (induction ils arbitrary: seen)
  case (Cons il ils)
  obtain i l where il: "il = (i, l)" by (cases il)
  show ?case
  proof (cases "map_of m (int i)")
    case None
    then show ?thesis using Cons [of seen] by (simp add: il laps_seen_def)
  next
    case (Some u')
    let ?seen = "seen(u' := lap_current_lap_num l)" and ?of = "\<lambda>ns. map (\<lambda>x. snd (snd x)) (filter (\<lambda>x. fst x = u) ns)"
    have ih: "?of (completions m ?seen ils) = laps_done (if u = u' then lap_current_lap_num l else seen u) (laps_seen m u ils)"
      using Cons [of ?seen] unfolding fun_upd_apply [of seen u' _ u] .
    show ?thesis
    proof (cases "on_track l")
      case True
      then have "laps_seen m u (il # ils) = (if u' = u then [lap_current_lap_num l] else []) @ laps_seen m u ils"
        using Some by (simp add: il laps_seen_def)
      moreover have "completions m seen (il # ils) =
          (if seen u' < lap_current_lap_num l \<and> 0 < seen u' then [(u', i, seen u')] else []) @ completions m ?seen ils"
        using True Some by (simp add: il)
      ultimately show ?thesis using ih by (cases "u' = u") simp_all
    next
      case False
      then show ?thesis using Some Cons [of seen] by (simp add: il laps_seen_def)
    qed
  qed
qed (simp add: laps_seen_def)

lemma laps_done_sorted:
  assumes "sorted (last_lap # ns)"
  shows "sorted_wrt (<) (laps_done last_lap ns)
    \<and> set (laps_done last_lap ns) = {n \<in> set (last_lap # ns). 0 < n \<and> n < last (last_lap # ns)}"
  using assms
proof (induction ns arbitrary: last_lap)
  case (Cons n ns)
  have ih: "sorted_wrt (<) (laps_done n ns)"
    "set (laps_done n ns) = {k \<in> set (n # ns). 0 < k \<and> k < last (n # ns)}"
    using Cons by simp_all
  have le: "last_lap \<le> n" "\<forall>k \<in> set (n # ns). n \<le> k" using Cons.prems by auto
  then have "n \<le> last (n # ns)" by (metis last_in_set list.discI)
  then have l: "last_lap < n \<Longrightarrow> last_lap < last (n # ns)" by simp
  show ?case
  proof (cases "last_lap < n \<and> 0 < last_lap")
    case True
    have "\<forall>k \<in> set (laps_done n ns). last_lap < k" using ih(2) le True by fastforce
    moreover have "set (laps_done last_lap (n # ns)) = insert last_lap (set (laps_done n ns))" using True by simp
    moreover have "{k \<in> set (last_lap # n # ns). 0 < k \<and> k < last (last_lap # n # ns)}
        = insert last_lap {k \<in> set (n # ns). 0 < k \<and> k < last (n # ns)}"
      using l True by auto
    ultimately show ?thesis using ih True by simp
  next
    case False
    have "{k \<in> set (last_lap # n # ns). 0 < k \<and> k < last (last_lap # n # ns)}
        = {k \<in> set (n # ns). 0 < k \<and> k < last (n # ns)}"
      using False le(1) by auto
    moreover have "laps_done last_lap (n # ns) = laps_done n ns"
      using False by (simp only: laps_done.simps) (simp only: if_False append_Nil)
    ultimately show ?thesis using ih by simp
  qed
qed simp

lemma on_lap_complete_laps:
  "on_lap_complete uid u i n (c\<lparr>co_last_lap_nums := ls\<rparr>) = (on_lap_complete uid u i n c)\<lparr>co_last_lap_nums := ls\<rparr>"
  "co_last_lap_nums (on_lap_complete uid u i n c) = co_last_lap_nums c"
  by (cases "get_track_id (co_session c) uid"; simp add: on_lap_complete_def Let_def)+

abbreviation notify :: "pystr \<Rightarrow> (int \<times> nat \<times> int) list \<Rightarrow> core \<Rightarrow> core" where
  "notify uid ns c \<equiv> fold (\<lambda>(u, i, n). on_lap_complete uid u (int i) n) ns c"

lemma notify_laps:
  "notify uid ns (c\<lparr>co_last_lap_nums := ls\<rparr>) = (notify uid ns c)\<lparr>co_last_lap_nums := ls\<rparr>"
  by (induction ns arbitrary: c) (auto simp: on_lap_complete_laps)

lemma check_lap_completion_notify:
  assumes "bd_wf (co_last_lap_nums c)"
    "card (set (bd_keys (co_last_lap_nums c)) \<union> Pair uid ` snd ` set m) \<le> bd_max (co_last_lap_nums c)"
  shows "fold (check_lap_completion uid m) ils c =
    (notify uid (completions m (\<lambda>u. last_lap_of c (uid, u)) ils) c)
      \<lparr>co_last_lap_nums := co_last_lap_nums (fold (check_lap_completion uid m) ils c)\<rparr>"
  using assms
proof (induction ils arbitrary: c)
  case (Cons il ils)
  obtain i l where il: "il = (i, l)" by (cases il)
  show ?case
  proof (cases "map_of m (int i) = None \<or> \<not> on_track l")
    case True
    then have "check_lap_completion uid m il c = c"
      by (auto simp: check_lap_completion_def il on_track_def split: option.split)
    then show ?thesis using Cons.IH [OF Cons.prems] True by (auto simp: il split: option.split)
  next
    case False
    then obtain u where u: "map_of m (int i) = Some u" and t: "on_track l" by auto
    let ?n = "lap_current_lap_num l" and ?ls = "co_last_lap_nums c"
    let ?c1 = "if last_lap_of c (uid, u) < ?n \<and> 0 < last_lap_of c (uid, u)
               then on_lap_complete uid u (int i) (last_lap_of c (uid, u)) c else c"
    let ?c2 = "?c1\<lparr>co_last_lap_nums := bd_set ?ls (uid, u) ?n\<rparr>"
    have step: "check_lap_completion uid m il c = ?c2"
      using u t by (auto simp: check_lap_completion_def il on_track_def Let_def on_lap_complete_laps)
    have "u \<in> snd ` set m" using map_of_SomeD [OF u] by force
    then have ins: "insert (uid, u) (set (bd_keys ?ls)) \<subseteq> set (bd_keys ?ls) \<union> Pair uid ` snd ` set m" by auto
    have fin: "finite (set (bd_keys ?ls) \<union> Pair uid ` snd ` set m)" by simp
    have "card (insert (uid, u) (set (bd_keys ?ls))) \<le> bd_max ?ls"
      using card_mono [OF fin ins] Cons.prems(2) by simp
    note room = bd_get_set_room [OF Cons.prems(1) this]
    have seen: "(\<lambda>u'. last_lap_of ?c2 (uid, u')) = (\<lambda>u'. last_lap_of c (uid, u'))(u := ?n)"
      by (auto simp: last_lap_of_def room(1) fun_eq_iff)
    have keys: "set (bd_keys (co_last_lap_nums ?c2)) \<union> Pair uid ` snd ` set m
        = set (bd_keys ?ls) \<union> Pair uid ` snd ` set m"
      using room(2) ins by auto
    have "fold (check_lap_completion uid m) ils ?c2 =
        (notify uid (completions m (\<lambda>u. last_lap_of ?c2 (uid, u)) ils) ?c2)
        \<lparr>co_last_lap_nums := co_last_lap_nums (fold (check_lap_completion uid m) ils ?c2)\<rparr>"
      using Cons.IH [of ?c2] Cons.prems keys by simp
    note rest = this [unfolded seen]
    show ?thesis
    proof (cases "last_lap_of c (uid, u) < ?n \<and> 0 < last_lap_of c (uid, u)")
      case True
      show ?thesis using rest
        unfolding fold_Cons comp_apply step if_P [OF True]
        by (simp only: il completions.simps u t option.case if_True if_P [OF True] fold_append comp_apply
            notify_laps fold_simps prod.case) simp
    next
      case False
      show ?thesis using rest
        unfolding fold_Cons comp_apply step if_not_P [OF False]
        by (simp only: il completions.simps u t option.case if_True if_not_P [OF False] append_Nil notify_laps) simp
    qed
  qed
qed simp



end
