(* ===== verification/World_Steps.thy ===== *)
theory World_Steps
  imports Dispatcher_Facts
begin

text \<open>
  What the listener can do to the world, whatever arrives: the statements its repositories run, as a
  contract (\<open>insert_allowed\<close>, \<open>update_allowed\<close>), and a locale in which every operation of the listener,
  from a repository to \<open>handle_packet\<close>, is shown to stay within any relation between worlds that is closed
  under those statements, failed transactions, clock reads and file operations.
\<close>

named_theorems walk \<open>introduction rules that follow the world through an operation\<close>

subsection \<open>What the statements leave alone\<close>

text \<open>The unique key each table's \<open>ON CONFLICT\<close> clauses name (\<open>schema/telemetry/*.sql\<close>).\<close>

definition TABLE_KEYS :: "(string \<times> string list) list" where
  "TABLE_KEYS =
    [(''telemetry.car_frame'', FRAME_KEY), (''telemetry.car_frame_damage'', FRAME_KEY),
     (''telemetry.car_frame_motion_ex'', FRAME_KEY), (''telemetry.car_setups'', SETUP_KEY),
     (''telemetry.teams'', [''team_id'']), (''telemetry.entries'', [''session_uid'', ''car_index'']),
     (''telemetry.events_buttons'', [''session_uid'', ''overall_frame_identifier'']),
     (''telemetry.events_collisions'', [''session_uid'', ''overall_frame_identifier'', ''user1_id'']),
     (''telemetry.events_driver_actions'', [''session_uid'', ''overall_frame_identifier'', ''event_code'', ''user_id'']),
     (''telemetry.events_fastest_laps'', [''session_uid'', ''overall_frame_identifier'', ''user_id'']),
     (''telemetry.events_flashbacks'', [''session_uid'', ''overall_frame_identifier'']),
     (''telemetry.events_overtakes'', [''session_uid'', ''overall_frame_identifier'', ''overtaking_user_id'']),
     (''telemetry.events_penalties'', [''session_uid'', ''overall_frame_identifier'', ''user_id'', ''penalty_type'']),
     (''telemetry.events_race_control'', [''session_uid'', ''overall_frame_identifier'', ''event_code'']),
     (''telemetry.events_retirements'', [''session_uid'', ''overall_frame_identifier'', ''user_id'']),
     (''telemetry.events_speed_traps'', [''session_uid'', ''overall_frame_identifier'', ''user_id'']),
     (''telemetry.race_classification'', [''session_uid'', ''user_id'']),
     (''telemetry.qualifying_classification'', [''session_uid'', ''user_id'']),
     (''telemetry.lap_positions'', [''session_uid'', ''lap_number'']),
     (''telemetry.lap_setups'', [''session_uid'', ''user_id'', ''lap_number'']),
     (''telemetry.laps'', LAP_KEY), (''telemetry.lobby_info'', [''session_uid'']),
     (''telemetry.session_bests'', BESTS_KEY), (''telemetry.session_timeline'', [''timestamp'', ''session_uid'']),
     (''telemetry.tyre_sets'', [''session_uid'', ''user_id'', ''lap_number'', ''set_index'']),
     (''telemetry.tyre_stints'', STINT_KEY), (''telemetry.sessions'', [''session_uid'']),
     (''telemetry.weather_forecast'', FORECAST_KEY), (''telemetry.tracks'', [''track_id''])]"

text \<open>The columns no statement changes once a row is there.\<close>

definition fixed_columns :: "string \<Rightarrow> string set" where
  "fixed_columns t =
     (case map_of TABLE_KEYS t of None \<Rightarrow> {} | Some ks \<Rightarrow> set ks)
     \<union> (if t = ''telemetry.sessions'' then {''session_start_utc''}
        else if t = ''identity.users'' then {''id'', ''driver_name''} else {})"

definition insert_allowed :: "string \<Rightarrow> on_conflict \<Rightarrow> bool" where
  "insert_allowed t oc = (case map_of TABLE_KEYS t of
      None \<Rightarrow> False
    | Some key \<Rightarrow> (case oc of
          DoNothing ks \<Rightarrow> ks = key
        | DoUpdate ks cs \<Rightarrow> ks = key \<and> set cs \<inter> fixed_columns t = {}))"

definition update_allowed :: "string \<Rightarrow> (row \<Rightarrow> row) \<Rightarrow> bool" where
  "update_allowed t f \<longleftrightarrow> other_unique_keys t = [] \<and> (\<forall>r. \<forall>k \<in> fixed_columns t. col (f r) k = col r k)"

text \<open>A transaction that takes the database where the relation allows, whenever it commits.\<close>

definition obeys :: "(db \<Rightarrow> db \<Rightarrow> bool) \<Rightarrow> (db \<Rightarrow> ('a \<times> db) py) \<Rightarrow> bool" where
  "obeys D q \<longleftrightarrow> (\<forall>d x d'. q d = Inr (x, d') \<longrightarrow> D d d')"

subsection \<open>The statements of the repositories\<close>

lemma insert_allowed_other:
  assumes "map_of TABLE_KEYS t = Some ks" "t \<noteq> ''telemetry.sessions''" "t \<noteq> ''identity.users''"
  shows "insert_allowed t (DoUpdate ks (other_columns ks cols))"
  using assms other_columns_disjoint [of ks cols] by (simp add: insert_allowed_def fixed_columns_def)

lemma allowed_inserts [walk]:
  "insert_allowed ''telemetry.car_frame'' (DoNothing FRAME_KEY)"
  "insert_allowed ''telemetry.car_frame_damage'' (DoNothing FRAME_KEY)"
  "insert_allowed ''telemetry.car_frame_motion_ex'' (DoNothing FRAME_KEY)"
  "insert_allowed ''telemetry.car_setups'' (DoNothing SETUP_KEY)"
  "insert_allowed ''telemetry.teams'' (DoNothing [''team_id''])"
  "insert_allowed ''telemetry.entries'' ENTRY_CONFLICT"
  "insert_allowed ''telemetry.sessions'' (DoUpdate [''session_uid''] session_update_columns)"
  by (simp_all add: insert_allowed_def TABLE_KEYS_def fixed_columns_def ENTRY_CONFLICT_def session_update_columns_def
      other_columns_def Let_def)

lemma allowed_lap_inserts [walk]:
  "insert_allowed ''telemetry.lap_positions'' (DoUpdate [''session_uid'', ''lap_number''] [''positions''])"
  "insert_allowed ''telemetry.lap_setups'' (DoNothing [''session_uid'', ''user_id'', ''lap_number''])"
  "insert_allowed ''telemetry.laps'' (DoUpdate LAP_KEY (other_columns LAP_KEY LAP_COLUMNS))"
  "insert_allowed ''telemetry.lobby_info'' (DoUpdate [''session_uid''] [''num_players'', ''players''])"
  "insert_allowed ''telemetry.session_bests'' (DoUpdate BESTS_KEY (other_columns BESTS_KEY BESTS_COLUMNS))"
  "insert_allowed ''telemetry.session_timeline'' (DoNothing [''timestamp'', ''session_uid''])"
  "insert_allowed ''telemetry.tyre_sets'' (DoNothing [''session_uid'', ''user_id'', ''lap_number'', ''set_index''])"
  "insert_allowed ''telemetry.tyre_stints'' (DoUpdate STINT_KEY (other_columns STINT_KEY STINT_COLUMNS))"
  "insert_allowed ''telemetry.weather_forecast'' (DoUpdate FORECAST_KEY (other_columns FORECAST_KEY FORECAST_COLUMNS))"
  by (rule insert_allowed_other; simp add: TABLE_KEYS_def; fail |
      simp add: insert_allowed_def TABLE_KEYS_def fixed_columns_def)+

lemma allowed_event_inserts [walk]:
  "insert_allowed ''telemetry.events_buttons'' (DoNothing [''session_uid'', ''overall_frame_identifier''])"
  "insert_allowed ''telemetry.events_collisions'' (DoNothing [''session_uid'', ''overall_frame_identifier'', ''user1_id''])"
  "insert_allowed ''telemetry.events_driver_actions'' (DoNothing [''session_uid'', ''overall_frame_identifier'', ''event_code'', ''user_id''])"
  "insert_allowed ''telemetry.events_fastest_laps'' (DoNothing [''session_uid'', ''overall_frame_identifier'', ''user_id''])"
  "insert_allowed ''telemetry.events_flashbacks'' (DoNothing [''session_uid'', ''overall_frame_identifier''])"
  "insert_allowed ''telemetry.events_overtakes'' (DoNothing [''session_uid'', ''overall_frame_identifier'', ''overtaking_user_id''])"
  "insert_allowed ''telemetry.events_penalties'' (DoNothing [''session_uid'', ''overall_frame_identifier'', ''user_id'', ''penalty_type''])"
  "insert_allowed ''telemetry.events_race_control'' (DoNothing [''session_uid'', ''overall_frame_identifier'', ''event_code''])"
  "insert_allowed ''telemetry.events_retirements'' (DoNothing [''session_uid'', ''overall_frame_identifier'', ''user_id''])"
  "insert_allowed ''telemetry.events_speed_traps'' (DoNothing [''session_uid'', ''overall_frame_identifier'', ''user_id''])"
  by (simp_all add: insert_allowed_def TABLE_KEYS_def)

lemma col_fill_null: "k \<notin> fst ` set cs \<Longrightarrow> col (fill_null cs r) k = col r k"
proof -
  assume k: "k \<notin> fst ` set cs"
  have "map_of (map (\<lambda>(c, v). (c, if col r c = PNone then v else col r c)) cs) k = None"
    using k by (force simp: map_of_eq_None_iff)
  moreover have "map_of (filter (\<lambda>p. fst p \<notin> fst ` set cs) r) k = map_of r k"
    using k by (induction r) auto
  ultimately show "col (fill_null cs r) k = col r k" by (simp add: fill_null_def col_def map_add_def)
qed

lemma update_fill: "other_unique_keys t = [] \<Longrightarrow> fixed_columns t \<inter> fst ` set cs = {} \<Longrightarrow> update_allowed t (fill_null cs)"
  unfolding update_allowed_def by (metis IntI col_fill_null empty_iff)

lemma update_excluded: "other_unique_keys t = [] \<Longrightarrow> fixed_columns t \<inter> set cs = {} \<Longrightarrow> update_allowed t (set_excluded cs new)"
  unfolding update_allowed_def by (metis IntI col_set_excluded empty_iff)

subsection \<open>The contract\<close>

text \<open>
  A relation between the database before and after the statements the listener runs, and one between
  the worlds, closed under what an operation can do: read a clock, use a file, let a transaction fail,
  commit one that obeys the relation on databases.
\<close>

locale world_step =
  fixes D :: "db \<Rightarrow> db \<Rightarrow> bool" and R :: "world \<Rightarrow> world \<Rightarrow> bool"
  assumes D_refl: "D d d"
    and D_trans: "D d1 d2 \<Longrightarrow> D d2 d3 \<Longrightarrow> D d1 d3"
    and D_insert: "insert_allowed t oc \<Longrightarrow> obeys D (sql_insert t cols oc vals)"
    and D_update: "update_allowed t f \<Longrightarrow> obeys D (sql_update t P f)"
    and D_delete: "t \<in> set FRAME_TABLES \<Longrightarrow> obeys D (sql_delete t (frame_after uid x bound))"
    and D_seq: "D d (d\<lparr>db_seq := (db_seq d)(''telemetry.car_setups'' := n)\<rparr>)"
    and D_user: "D d (snd (get_or_create_driver name d))"
    and R_refl: "R w w"
    and R_trans: "R w1 w2 \<Longrightarrow> R w2 w3 \<Longrightarrow> R w1 w3"
    and R_failed: "R w (w\<lparr>w_txn := Suc (w_txn w)\<rparr>)"
    and R_committed: "w_enabled w \<Longrightarrow> \<not> w_fault w (w_txn w) \<Longrightarrow> D (w_db w) d
      \<Longrightarrow> R w (w\<lparr>w_txn := Suc (w_txn w), w_db := d\<rparr>)"
    and R_clock: "R w (w\<lparr>w_utc_reads := Suc (w_utc_reads w)\<rparr>)" "R w (w\<lparr>w_mono_reads := Suc (w_mono_reads w)\<rparr>)"
    and R_file: "R w (w\<lparr>w_io := Suc (w_io w)\<rparr>)" "R w (w\<lparr>w_files := fs\<rparr>)"
begin

lemma walk_if [walk]:
  "(b \<Longrightarrow> R v x) \<Longrightarrow> (\<not> b \<Longrightarrow> R v y) \<Longrightarrow> R v (if b then x else y)"
  "(b \<Longrightarrow> R v (snd x')) \<Longrightarrow> (\<not> b \<Longrightarrow> R v (snd y')) \<Longrightarrow> R v (snd (if b then x' else y'))"
  "(b \<Longrightarrow> R v (snd (snd x''))) \<Longrightarrow> (\<not> b \<Longrightarrow> R v (snd (snd y''))) \<Longrightarrow> R v (snd (snd (if b then x'' else y'')))"
  by simp_all

lemma walk_option [walk]:
  "R v x \<Longrightarrow> (\<And>a. z = Some a \<Longrightarrow> R v (f a)) \<Longrightarrow> R v (case_option x f z)"
  "R v (snd x') \<Longrightarrow> (\<And>a. z = Some a \<Longrightarrow> R v (snd (f' a))) \<Longrightarrow> R v (snd (case_option x' f' z))"
  "R v (snd (snd x'')) \<Longrightarrow> (\<And>a. z = Some a \<Longrightarrow> R v (snd (snd (f'' a)))) \<Longrightarrow> R v (snd (snd (case_option x'' f'' z)))"
  by (simp_all split: option.split)

lemma walk_sum [walk]:
  "(\<And>a. R v (f a)) \<Longrightarrow> (\<And>b. z = Inr b \<Longrightarrow> R v (g b)) \<Longrightarrow> R v (case_sum f g z)"
  "(\<And>a. R v (snd (f' a))) \<Longrightarrow> (\<And>b. z = Inr b \<Longrightarrow> R v (snd (g' b))) \<Longrightarrow> R v (snd (case_sum f' g' z))"
  "(\<And>a. R v (snd (snd (f'' a)))) \<Longrightarrow> (\<And>b. z = Inr b \<Longrightarrow> R v (snd (snd (g'' b)))) \<Longrightarrow> R v (snd (snd (case_sum f'' g'' z)))"
  by (simp_all split: sum.split)

lemma walk_list [walk]:
  "R v x \<Longrightarrow> (\<And>a as. R v (f a as)) \<Longrightarrow> R v (case_list x f zs)"
  "R v (snd x') \<Longrightarrow> (\<And>a as. R v (snd (f' a as))) \<Longrightarrow> R v (snd (case_list x' f' zs))"
  by (simp_all split: list.split)

lemma walk_refl [walk]: "R w w"
  by (rule R_refl)

lemma walk_txn [walk]: "w_enabled w \<Longrightarrow> obeys D q \<Longrightarrow> R v w \<Longrightarrow> R v (snd (run_txn q w))"
proof -
  assume "w_enabled w" "obeys D q"
  then have "R w (snd (run_txn q w))"
    by (auto simp: run_txn_def Let_def obeys_def intro!: R_failed R_committed split: sum.split)
  then show "R v w \<Longrightarrow> R v (snd (run_txn q w))" by (blast intro: R_trans)
qed

lemma walk_clock [walk]:
  "R v w \<Longrightarrow> R v (snd (utc_now w))" "R v w \<Longrightarrow> R v (snd (monotonic_now w))" "R v w \<Longrightarrow> R v (snd (file_op w))"
  "R v w \<Longrightarrow> R v (w\<lparr>w_files := fs\<rparr>)"
  using R_clock [of w] R_file [of w] by (auto simp: utc_now_def monotonic_now_def file_op_def intro: R_trans)

lemma obeys_many [walk]: "(\<And>q. q \<in> set qs \<Longrightarrow> obeys D q) \<Longrightarrow> obeys D (sql_many qs)"
proof (induction qs)
  case (Cons q qs)
  then have "obeys D q" "obeys D (sql_many qs)" by auto
  then show ?case unfolding obeys_def by (auto simp: and_then_Inr_iff) (blast intro: D_trans)
qed (auto simp: obeys_def D_refl)

lemma obeys_read [walk]: "obeys D (\<lambda>d. Inr (f d, d))"
  by (simp add: obeys_def D_refl)

lemma walk_execute [walk]:
  "obeys D q \<Longrightarrow> R v w \<Longrightarrow> R v (snd (execute q w))"
  "(\<And>q. q \<in> set qs \<Longrightarrow> obeys D q) \<Longrightarrow> R v w \<Longrightarrow> R v (execute_many qs w)"
  "(\<And>q. q \<in> set qs \<Longrightarrow> obeys D q) \<Longrightarrow> R v w \<Longrightarrow> R v (snd (execute_many_strict qs w))"
  "R v w \<Longrightarrow> R v (snd (query f w))"
  unfolding execute_def execute_many_def execute_many_strict_def query_def split_beta
  by (auto intro!: walk)

lemma walk_insert [walk]:
  "insert_allowed t oc \<Longrightarrow> R v w \<Longrightarrow> R v (insert_row t cols oc vals w)"
  "insert_allowed t oc \<Longrightarrow> R v w \<Longrightarrow> R v (insert_rows t cols oc rows w)"
  "t \<in> set FRAME_TABLES \<Longrightarrow> R v w \<Longrightarrow> R v (snd (delete_frames_after t uid x start w))"
  unfolding insert_row_def insert_rows_def delete_frames_after_def split_beta Let_def
  by (auto intro!: walk D_insert D_delete)

lemma walk_frames [walk]:
  "R v w \<Longrightarrow> R v (car_frame_insert_batch rows w)" "R v w \<Longrightarrow> R v (car_frame_damage_insert_batch rows w)"
  "R v w \<Longrightarrow> R v (motion_ex_insert vals w)"
  "R v w \<Longrightarrow> R v (snd (car_frame_delete_after uid x start w))"
  "R v w \<Longrightarrow> R v (snd (car_frame_damage_delete_after uid x start w))"
  "R v w \<Longrightarrow> R v (snd (motion_ex_delete_after uid x start w))"
  unfolding car_frame_insert_batch_def car_frame_damage_insert_batch_def motion_ex_insert_def
    car_frame_delete_after_def car_frame_damage_delete_after_def motion_ex_delete_after_def
  by (auto intro!: walk simp: FRAME_TABLES_def)

lemma obeys_setup [walk]: "obeys D (upsert_setup_txn vals)"
proof -
  have "D d (d\<lparr>db_seq := (db_seq d)(''telemetry.car_setups'' := n)\<rparr>)" for d n by (rule D_seq)
  moreover have "obeys D (sql_insert ''telemetry.car_setups'' cols (DoNothing SETUP_KEY) vals')" for cols vals'
    by (intro D_insert walk)
  ultimately show ?thesis
    unfolding obeys_def upsert_setup_txn_def Let_def
    by (auto simp: and_then_Inr_iff split: if_splits) (blast intro: D_trans)+
qed

lemma obeys_users [walk]: "obeys D (\<lambda>d. Inr (resolve_names names d))"
proof -
  have "D d (snd (resolve_names names d))" for d
  proof (induction names arbitrary: d)
    case (Cons n ns)
    show ?case using D_trans [OF D_user Cons] by (simp add: split_beta Let_def)
  qed (simp add: D_refl)
  then show ?thesis by (auto simp: obeys_def) (metis snd_conv)
qed

lemma walk_entries [walk]:
  "R v w \<Longrightarrow> R v (snd (upsert_setup hash tid vals user uid w))"
  "R v w \<Longrightarrow> R v (snd (find_weekend_driver_name uid team num w))"
  "R v w \<Longrightarrow> R v (snd (max_player_number w))"
  "R v w \<Longrightarrow> R v (ensure_teams ts w)"
  "R v w \<Longrightarrow> R v (snd (resolve_user_ids es w))"
  unfolding upsert_setup_def find_weekend_driver_name_def max_player_number_def ensure_teams_def
    resolve_user_ids_def split_beta Let_def
  by (auto intro!: walk)

lemma obeys_nationality [walk]: "obeys D (set_nationality country u)"
  unfolding set_nationality_def
  by (intro D_update update_excluded) (simp_all add: fixed_columns_def TABLE_KEYS_def other_unique_keys_def)

lemma walk_entries_batch [walk]: "R v w \<Longrightarrow> R v (snd (insert_entries_batch es w))"
proof -
  have "obeys D (sql_insert ''telemetry.entries'' ENTRY_COLUMNS ENTRY_CONFLICT vals)" for vals
    by (intro D_insert walk)
  then show "R v w \<Longrightarrow> R v (snd (insert_entries_batch es w))"
    unfolding insert_entries_batch_def split_beta Let_def by (auto intro!: walk)
qed

lemma walk_classifications [walk]: "R v w \<Longrightarrow> R v (snd (write_classifications b cs w))"
proof -
  note [walk] = insert_allowed_other [where ks = "[''session_uid'', ''user_id'']"]
  show "R v w \<Longrightarrow> R v (snd (write_classifications b cs w))"
    unfolding write_classifications_def insert_race_classification_batch_def
      insert_qualifying_classification_batch_def insert_classification_batch_def Let_def
    by (auto intro!: walk D_insert simp: TABLE_KEYS_def)
qed

lemma walk_laps [walk]:
  "R v w \<Longrightarrow> R v (upsert_lap_positions uid n ps w)" "R v w \<Longrightarrow> R v (insert_lap_setup uid u n sid wing w)"
  "R v w \<Longrightarrow> R v (upsert_laps_batch rows w)" "R v w \<Longrightarrow> R v (lobby_info_upsert uid infos n w)"
  "R v w \<Longrightarrow> R v (session_bests_upsert vals w)" "R v w \<Longrightarrow> R v (insert_timeline_entry vals w)"
  "R v w \<Longrightarrow> R v (insert_snapshot rows w)" "R v w \<Longrightarrow> R v (upsert_stints_batch rows w)"
  unfolding upsert_lap_positions_def insert_lap_setup_def upsert_laps_batch_def lobby_info_upsert_def
    session_bests_upsert_def insert_timeline_entry_def insert_snapshot_def upsert_stints_batch_def Let_def
  by (auto intro!: walk)

lemma walk_session_rows [walk]:
  "R v w \<Longrightarrow> R v (snd (update_track_technical_data a b c d e f g h i j w))"
  "R v w \<Longrightarrow> R v (insert_session vals w)" "R v w \<Longrightarrow> R v (snd (repo_get_session_start uid w))"
  "R v w \<Longrightarrow> R v (capture_start_reaction_time uid x w)"
  "R v w \<Longrightarrow> R v (upsert_weather_forecast uid n samples w)"
  unfolding update_track_technical_data_def insert_session_def repo_get_session_start_def
    capture_start_reaction_time_def upsert_weather_forecast_def split_beta Let_def
  by (auto intro!: walk D_update update_fill simp: fixed_columns_def TABLE_KEYS_def other_unique_keys_def)

subsection \<open>Services\<close>

lemma walk_car_frame [walk]:
  "R v w \<Longrightarrow> R v (snd (frame_timestamp start x w))"
  "R v w \<Longrightarrow> R v (snd (write_frame uid x n m fd restricted start b w))"
  "R v w \<Longrightarrow> R v (snd (car_frame_discard_after uid x start w))"
  "R v w \<Longrightarrow> R v (snd (write_motion_ex p m start w))"
  "R v w \<Longrightarrow> R v (snd (motion_ex_discard_after uid x start w))"
  "R v w \<Longrightarrow> R v (handle_lobby_info_packet lobby w)"
  unfolding frame_timestamp_def write_frame_def car_frame_discard_after_def write_motion_ex_def
    motion_ex_discard_after_def handle_lobby_info_packet_def split_beta Let_def
  by (auto intro!: walk)

lemma walk_session [walk]:
  "R v w \<Longrightarrow> R v (snd (insert_session_row sp st ss w))"
  "R v w \<Longrightarrow> R v (insert_timeline sp ss w)"
  "R v w \<Longrightarrow> R v (snd (update_weather_forecast hash sp ss w))"
  "R v w \<Longrightarrow> R v (snd (capture_reaction sp ss w))"
  unfolding insert_session_row_def insert_timeline_def update_weather_forecast_def capture_reaction_def split_beta Let_def
  by (auto intro!: walk)

lemma walk_session_packet [walk]:
  "R v w \<Longrightarrow> R v (snd (first_session_packet sp ss w))"
  "R v w \<Longrightarrow> R v (snd (handle_session_packet hash sp ss w))"
  unfolding handle_session_packet_def first_session_packet_def split_beta Let_def
  by (auto intro!: walk)

lemma walk_names [walk]:
  "R v w \<Longrightarrow> R v (snd (snd (next_generic_name ps w)))"
  "R v w \<Longrightarrow> R v (snd (snd (driver_name_of uid x ps w)))"
  "R v w \<Longrightarrow> R v (snd (snd (record_entries uid es ps w)))"
  unfolding driver_name_of_def next_generic_name_def record_entries_def split_beta Let_def
  by (auto intro!: walk)

lemma walk_human_entries [walk]: "R v w \<Longrightarrow> R v (snd (snd (human_entries uid xs ps w)))"
proof (induction xs arbitrary: ps w)
  case (Cons ix xs)
  show ?case using Cons.prems by (cases ix) (auto simp: split_beta Let_def intro!: walk Cons.IH)
qed (auto intro!: walk)

lemma walk_participants [walk]: "R v w \<Longrightarrow> R v (snd (snd (handle_participants_packet p ps w)))"
  unfolding handle_participants_packet_def split_beta Let_def by (auto intro!: walk)

lemma walk_event_rows [walk]:
  "R v w \<Longrightarrow> R v (events_buttons_insert uid n x b bs w)"
  "R v w \<Longrightarrow> R v (events_collisions_insert uid n x u1 u2 sev w)"
  "R v w \<Longrightarrow> R v (events_driver_actions_insert uid n code x u1 st w)"
  "R v w \<Longrightarrow> R v (events_fastest_laps_insert uid n x u1 y w)"
  "R v w \<Longrightarrow> R v (events_flashbacks_insert uid n x n' y k w)"
  "R v w \<Longrightarrow> R v (events_overtakes_insert uid n x u1 u2 w)"
  "R v w \<Longrightarrow> R v (events_penalties_insert uid n x u1 ou p1 p2 o1 o2 o3 w)"
  "R v w \<Longrightarrow> R v (events_race_control_insert uid n code x a1 a2 a3 a4 w)"
  "R v w \<Longrightarrow> R v (events_retirements_insert uid n x u1 s w)"
  "R v w \<Longrightarrow> R v (events_speed_traps_insert uid n x u1 y b1 b2 ou z w)"
  unfolding events_buttons_insert_def events_collisions_insert_def events_driver_actions_insert_def
    events_fastest_laps_insert_def events_flashbacks_insert_def events_overtakes_insert_def
    events_penalties_insert_def events_race_control_insert_def events_retirements_insert_def
    events_speed_traps_insert_def Let_def
  by (auto intro!: walk)

lemma walk_event_kinds [walk]:
  "R v w \<Longrightarrow> R v (handle_race_control uid n code x ev w)"
  "R v w \<Longrightarrow> R v (handle_overtake uid n x ev m w)"
  "R v w \<Longrightarrow> R v (handle_collision uid n x ev m w)"
  "R v w \<Longrightarrow> R v (handle_penalty uid n x ev m w)"
  "R v w \<Longrightarrow> R v (handle_fastest_lap uid n x ev m w)"
  "R v w \<Longrightarrow> R v (handle_retirement uid n x ev m w)"
  "R v w \<Longrightarrow> R v (handle_speed_trap uid n x ev m w)"
  "R v w \<Longrightarrow> R v (handle_driver_action uid n code x ev m w)"
  "R v w \<Longrightarrow> R v (handle_buttons uid n x ev w)"
  "R v w \<Longrightarrow> R v (record_flashback uid n x ev k w)"
  unfolding handle_race_control_def handle_overtake_def handle_collision_def handle_penalty_def
    handle_fastest_lap_def handle_retirement_def handle_speed_trap_def handle_driver_action_def
    handle_buttons_def record_flashback_def split_beta
  by (cases ev; auto intro!: walk)+

lemma walk_event_packet [walk]: "R v w \<Longrightarrow> R v (handle_event_packet p m w)"
  unfolding handle_event_packet_def Let_def by (auto intro!: walk)

lemma walk_lap_history [walk]:
  "R v w \<Longrightarrow> R v (snd (upsert_laps uid u p ls w))" "R v w \<Longrightarrow> R v (snd (upsert_session_bests uid u p ls w))"
  "R v w \<Longrightarrow> R v (handle_tyre_stints p m w)"
  "R v w \<Longrightarrow> R v (car_setup_on_lap_complete cs uid u n tid w)"
  "R v w \<Longrightarrow> R v (tyre_sets_on_lap_complete ts uid u i n w)"
  unfolding upsert_laps_def upsert_session_bests_def handle_tyre_stints_def car_setup_on_lap_complete_def
    tyre_sets_on_lap_complete_def split_beta Let_def
  by (auto intro!: walk)

lemma walk_history_packet [walk]: "R v w \<Longrightarrow> R v (snd (handle_session_history_packet p m ls w))"
  unfolding handle_session_history_packet_def split_beta Let_def by (auto intro!: walk)

lemma walk_lap_positions [walk]: "R v w \<Longrightarrow> R v (snd (handle_lap_positions_packet p m w))"
proof -
  have "R v w \<Longrightarrow> R v (snd (write_lap_positions p m is w))" for "is"
    by (induction p m "is" w rule: write_lap_positions.induct) (auto split: sum.split intro!: walk)
  then show "R v w \<Longrightarrow> R v (snd (handle_lap_positions_packet p m w))"
    by (simp add: handle_lap_positions_packet_def)
qed

lemma walk_dead_letters [walk]:
  "R v w \<Longrightarrow> R v (write_dead_letter cs uid rows b w)"
  "R v w \<Longrightarrow> R v (replay_dead_letter name w)"
  unfolding write_dead_letter_def replay_dead_letter_def split_beta Let_def by (auto intro!: walk)

lemma walk_fold: "(\<And>x w. R v w \<Longrightarrow> R v (h x w)) \<Longrightarrow> R v w \<Longrightarrow> R v (fold h xs w)"
  by (induction xs arbitrary: w) auto

lemma walk_classification [walk]:
  "R v w \<Longrightarrow> R v (replay_dead_letters cs w)"
  "R v w \<Longrightarrow> R v (snd (handle_final_classification_packet p m st cs w))"
  unfolding replay_dead_letters_def handle_final_classification_packet_def split_beta Let_def
  by (auto intro!: walk intro: walk_fold)

subsection \<open>The dispatcher\<close>

definition core_step :: "core \<Rightarrow> core \<Rightarrow> bool" where
  "core_step c c' \<longleftrightarrow> R (co_world c) (co_world c')"

lemma core_step_lap: "core_step c (check_lap_completion uid m il c)"
  unfolding check_lap_completion_def on_lap_complete_def core_step_def split_beta Let_def
  by (auto split: option.split intro!: walk)

lemma core_step_fold: "(\<And>x c. core_step c (h x c)) \<Longrightarrow> core_step c (fold h xs c)"
proof (induction xs arbitrary: c)
  case (Cons x xs)
  have "core_step c (h x c)" "core_step (h x c) (fold h xs (h x c))" using Cons by blast+
  then show ?case using R_trans by (auto simp: core_step_def)
qed (simp add: core_step_def R_refl)

lemma note_racing_lap_world [simp]: "co_world (note_racing_lap uid m laps c) = co_world c"
  by (simp add: note_racing_lap_def mark_race_started_def split: option.split)

lemma mark_world [simp]: "co_world (mark_race_started uid c) = co_world c"
  by (simp add: mark_race_started_def)

lemma core_step_write: "core_step c (write_frame_data uid n x m fd c)"
proof -
  have laps: "core_step c c' \<Longrightarrow> core_step c (check_lap_completions uid m laps c')" for c' laps
    unfolding check_lap_completions_def
    using core_step_fold [of "check_lap_completion uid m", OF core_step_lap] R_trans by (auto simp: core_step_def)
  show ?thesis
    unfolding write_frame_data_def split_beta Let_def
    by (auto split: option.split sum.split simp: core_step_def intro!: laps [unfolded core_step_def] walk)
qed

lemma core_step_flush: "core_step c (dispatch_flush uid n ps c)"
  unfolding dispatch_flush_def Let_def
  by (auto split: list.split sum.split intro: core_step_write) (simp_all add: core_step_def R_refl)

end

sublocale world_step \<subseteq> buffers: flush_client dispatch_flush core_step
  by unfold_locales (auto simp: core_step_def intro: R_refl R_trans core_step_flush [unfolded core_step_def])

context world_step
begin

definition disp_step :: "dispatcher \<Rightarrow> dispatcher \<Rightarrow> bool" where
  "disp_step d d' \<longleftrightarrow> R (co_world (dp_core d)) (co_world (dp_core d'))"

lemma disp_step_trans: "disp_step d d1 \<Longrightarrow> disp_step d1 d2 \<Longrightarrow> disp_step d d2"
  by (auto simp: disp_step_def intro: R_trans)

lemma disp_step_core:
  "core_step (dp_core d) (f (dp_core d)) \<Longrightarrow> disp_step d (on_core f d)"
  by (simp add: disp_step_def core_step_def on_core_def)

lemma disp_step_buffer:
  "core_step (dp_core d) (snd (f (dp_buffer d, dp_core d))) \<Longrightarrow> disp_step d (on_buffer f d)"
  by (simp add: disp_step_def core_step_def on_buffer_def split_beta)

lemma disp_step_refl: "disp_step d d"
  by (simp add: disp_step_def R_refl)

lemma core_step_packets:
  "core_step c (on_session_packet lib h body c)" "core_step c (on_lobby_packet h body c)"
  "core_step c (on_participants_packet h body c)" "core_step c (on_driver_packet lib h body m c)"
  unfolding on_session_packet_def on_lobby_packet_def on_participants_packet_def on_driver_packet_def
    core_step_def split_beta Let_def
  by (auto split: sum.split option.split intro!: walk)

lemma undo_world: "core_step c (undo_recorded uid h ev x c)"
  unfolding undo_recorded_def core_step_def split_beta Let_def reset_lap_nums_def
  by (auto split: sum.split intro!: walk)

lemma disp_step_event: "disp_step d (on_event_packet h body d)"
proof -
  have flash: "disp_step d (handle_flashback uid p d)" for uid p d
    using undo_world [of "dp_core d" uid "ev_header p" "ev_event p"]
    by (auto simp: handle_flashback_def disp_step_def core_step_def R_refl split: event_details.split)
  have after: "disp_step d (after_session_event uid code p d)" for uid code p d
    unfolding after_session_event_def
    using buffers.flush_session_related [of "(dp_buffer d, dp_core d)"]
    by (auto intro!: disp_step_buffer disp_step_core disp_step_refl flash split: event_details.split
        simp: core_step_def R_refl)
  have store: "disp_step d (on_core (\<lambda>c. c\<lparr>co_world := handle_event_packet p m (co_world c)\<rparr>) d)" for p m
    by (rule disp_step_core) (auto simp: core_step_def intro!: walk)
  show ?thesis
    unfolding on_event_packet_def Let_def
    by (auto split: sum.split intro: disp_step_refl store disp_step_trans [OF store after])
qed

lemma disp_step_car_frame: "disp_step d (on_car_frame_packet h body d)"
proof -
  have add: "disp_step d (on_buffer (fb_add dispatch_flush uid f i x) d)" for uid f i x d
    using buffers.add_related [of "(dp_buffer d, dp_core d)"] by (intro disp_step_buffer) simp
  have sweep: "disp_step d (on_buffer (check_periodic_flush dispatch_flush now) d)" for now d
    using buffers.sweep_related [of "(dp_buffer d, dp_core d)"] by (intro disp_step_buffer) simp
  have clock: "disp_step d (on_core (\<lambda>c. c\<lparr>co_world := snd (monotonic_now (co_world (dp_core d)))\<rparr>) d)" for d
    by (auto simp: disp_step_def on_core_def intro!: walk)
  show ?thesis
    unfolding on_car_frame_packet_def Let_def split_beta
    by (rule disp_step_trans [OF disp_step_trans [OF add clock] sweep])
qed

lemma disp_step_handle: "disp_step d (handle_packet lib data d)"
proof -
  have route: "disp_step d (route_packet lib h body d)" for h body d
    unfolding route_packet_def Let_def
    by (auto intro: disp_step_refl disp_step_event disp_step_car_frame disp_step_core core_step_packets)
  have valid: "disp_step d (snd (validate_body_size h body (d\<lparr>dp_header_log := l\<rparr>)))" for h body l
    by (simp add: validate_body_size_def disp_step_def R_refl Let_def)
  show ?thesis
    unfolding handle_packet_def Let_def split_beta
    by (auto split: sum.split intro: disp_step_refl valid disp_step_trans [OF valid route])
       (simp_all add: disp_step_def R_refl)
qed

lemma disp_step_packets: "disp_step d (handle_packets lib datas d)"
  unfolding handle_packets_def
proof (induction datas arbitrary: d)
  case (Cons data datas)
  show ?case using disp_step_trans [OF disp_step_handle Cons] by simp
qed (simp add: disp_step_refl)

end

end
