(* ===== verification/Guarantees.thy ===== *)
theory Guarantees
  imports World_Steps
begin

text \<open>
  Three readings of the contract in \<open>World_Steps\<close>: an unreachable database is left alone, keys stay
  unique, and recorded rows are never lost; with the last two, the anchor of a session survives a restart.
\<close>

subsection \<open>An unreachable database\<close>

definition unreachable :: "world \<Rightarrow> bool" where
  "unreachable w \<longleftrightarrow> \<not> w_enabled w \<or> (\<forall>n. w_fault w n)"

definition outage_step :: "world \<Rightarrow> world \<Rightarrow> bool" where
  "outage_step w w' \<longleftrightarrow> w_enabled w' = w_enabled w \<and> w_fault w' = w_fault w
     \<and> (unreachable w \<longrightarrow> w_db w' = w_db w)"

interpretation outage: world_step "\<lambda>_ _. True" outage_step
  by unfold_locales (auto simp: outage_step_def unreachable_def obeys_def)

text \<open>
  C19. While the database cannot be reached (no pool, or every transaction
  fails), the listener goes through whatever datagrams arrive, its own state stays well-formed, and no
  table changes.
\<close>

theorem outage_changes_no_table:
  assumes "unreachable (co_world (dp_core d))" "dispatcher_ok d"
  shows "w_db (co_world (dp_core (handle_packets lib datas d))) = w_db (co_world (dp_core d))
    \<and> dispatcher_ok (handle_packets lib datas d)"
  using outage.disp_step_packets [of d lib datas] assms handle_packets_ok
  by (auto simp: outage.disp_step_def outage_step_def)

definition offline_world :: world where
  "offline_world = quiet_world\<lparr>w_enabled := False\<rparr>"

theorem outage_changes_no_table_witness:
  "\<forall>lib datas. w_db (co_world (dp_core (handle_packets lib datas (new_dispatcher True offline_world)))) = w_db quiet_world"
proof (intro allI)
  fix lib datas
  have w: "w_db (co_world (dp_core (new_dispatcher True offline_world))) = w_db quiet_world"
    "unreachable (co_world (dp_core (new_dispatcher True offline_world)))"
    by (simp_all add: new_dispatcher_def new_core_def offline_world_def monotonic_now_def unreachable_def)
  show "w_db (co_world (dp_core (handle_packets lib datas (new_dispatcher True offline_world)))) = w_db quiet_world"
    using outage_changes_no_table [OF w(2) dispatcher_ok_new] w(1) by simp
qed

subsection \<open>Keys\<close>

lemma same_key_map: "same_key ks r r' \<longleftrightarrow> map (col r) ks = map (col r') ks"
  by (auto simp: same_key_def)

lemma unique_on_insert_nothing: "unique_on ks rows \<Longrightarrow> unique_on ks (insert_nothing ks r rows)"
  by (auto simp: unique_on_def insert_nothing_def has_key_def same_key_map)

lemma unique_on_map: "(\<And>r. r \<in> set rows \<Longrightarrow> map (col (f r)) ks = map (col r) ks) \<Longrightarrow> unique_on ks (map f rows) = unique_on ks rows"
  by (simp add: unique_on_def comp_def cong: map_cong)

lemma unique_on_insert_update:
  assumes "set cs \<inter> set ks = {}" "unique_on ks rows"
  shows "unique_on ks (insert_update ks cs r rows)"
proof (cases "has_key ks r rows")
  case True
  have "map (col (if same_key ks r r' then set_excluded cs r r' else r')) ks = map (col r') ks" for r'
    using set_excluded_key [OF assms(1), of r' r r'] by (simp add: same_key_map)
  then show ?thesis using True assms(2) by (simp add: insert_update_def unique_on_map)
next
  case False
  then show ?thesis using assms(2) by (auto simp: insert_update_def unique_on_def has_key_def same_key_map)
qed

lemma unique_on_filter: "unique_on ks rows \<Longrightarrow> unique_on ks (filter P rows)"
  by (simp add: unique_on_def distinct_map_filter)

text \<open>
  Users are numbered by their sequence and no two have the same name up to case
  (\<open>schema/identity/users.sql\<close>).
\<close>

definition user_name :: "row \<Rightarrow> pystr" where
  "user_name r = (case col r ''driver_name'' of PStr s \<Rightarrow> lower s | _ \<Rightarrow> [])"

definition users_ok :: "db \<Rightarrow> bool" where
  "users_ok d \<longleftrightarrow>
     distinct (map (\<lambda>r. col r ''id'') (db_tables d ''identity.users''))
     \<and> distinct (map user_name (db_tables d ''identity.users''))
     \<and> (\<forall>r \<in> set (db_tables d ''identity.users''). \<exists>i s. col r ''id'' = PInt i
          \<and> i < db_seq d ''identity.users'' \<and> col r ''driver_name'' = PStr s)"

definition keyed :: "db \<Rightarrow> bool" where
  "keyed d \<longleftrightarrow> (\<forall>t ks. map_of TABLE_KEYS t = Some ks \<longrightarrow> unique_on ks (db_tables d t))
     \<and> (\<forall>t. \<forall>ks \<in> set (other_unique_keys t). unique_on ks (db_tables d t)) \<and> users_ok d"

lemma users_no_key [simp]: "map_of TABLE_KEYS ''identity.users'' = None"
  by (simp add: TABLE_KEYS_def)

lemma keyed_insert:
  assumes "insert_allowed t oc" shows "obeys (\<lambda>d d'. keyed d \<longrightarrow> keyed d') (sql_insert t cols oc vals)"
proof -
  obtain key where key: "map_of TABLE_KEYS t = Some key" using assms by (auto simp: insert_allowed_def split: option.splits)
  then have t: "t \<noteq> ''identity.users''" by auto
  have "keyed d'" if ins: "sql_insert t cols oc vals d = Inr (n, d')" and d: "keyed d" for d n d'
  proof -
    obtain rows where d': "d' = d\<lparr>db_tables := (db_tables d)(t := rows)\<rparr>"
      and extra: "\<forall>ks \<in> set (other_unique_keys t). unique_on ks rows"
      and rows: "rows = (case oc of DoNothing ks \<Rightarrow> insert_nothing ks (zip cols vals) (db_tables d t)
          | DoUpdate ks cs \<Rightarrow> insert_update ks cs (zip cols vals) (db_tables d t))"
      using ins by (auto simp: sql_insert_def Let_def list_all_iff split: if_splits on_conflict.splits)
    have "unique_on key (db_tables d t)" using d key by (simp add: keyed_def)
    then have "unique_on key rows"
      using assms key unfolding rows insert_allowed_def fixed_columns_def
      by (auto split: on_conflict.splits if_splits intro!: unique_on_insert_nothing unique_on_insert_update)
    then show ?thesis
      using d extra key t unfolding d' keyed_def users_ok_def by auto
  qed
  then show ?thesis by (auto simp: obeys_def)
qed

lemma users_ok_map:
  assumes "\<And>r. col (g r) ''id'' = col r ''id''" "\<And>r. col (g r) ''driver_name'' = col r ''driver_name''" "users_ok d"
  shows "users_ok (d\<lparr>db_tables := (db_tables d)(''identity.users'' := map g (db_tables d ''identity.users''))\<rparr>)"
proof -
  have "user_name (g r) = user_name r" for r by (simp add: user_name_def assms)
  then show ?thesis using assms by (simp add: users_ok_def comp_def)
qed

lemma keyed_update:
  assumes "update_allowed t f" shows "obeys (\<lambda>d d'. keyed d \<longrightarrow> keyed d') (sql_update t P f)"
proof -
  let ?f = "\<lambda>r. if P r then f r else r"
  have cols: "col (?f r) k = col r k" if "k \<in> fixed_columns t" for r k
    using assms that by (simp add: update_allowed_def)
  have keys: "map_of TABLE_KEYS t = Some ks \<Longrightarrow> unique_on ks (map ?f rows) = unique_on ks rows" for ks rows
    by (rule unique_on_map) (use cols in \<open>auto simp: fixed_columns_def simp del: if_split\<close>)
  have "keyed (d\<lparr>db_tables := (db_tables d)(t := map ?f (db_tables d t))\<rparr>)" if d: "keyed d" for d
  proof (cases "t = ''identity.users''")
    case True
    have "col (?f r) ''id'' = col r ''id''" "col (?f r) ''driver_name'' = col r ''driver_name''" for r
      using cols True by (simp_all add: fixed_columns_def del: if_split)
    then have "users_ok (d\<lparr>db_tables := (db_tables d)(''identity.users'' := map ?f (db_tables d ''identity.users''))\<rparr>)"
      using d by (intro users_ok_map) (simp_all add: keyed_def)
    then show ?thesis using d assms unfolding True by (auto simp: keyed_def update_allowed_def simp del: if_split)
  next
    case False
    then show ?thesis using d keys assms by (auto simp: keyed_def users_ok_def update_allowed_def simp del: if_split)
  qed
  then show ?thesis by (auto simp: obeys_def sql_update_def)
qed

lemma keyed_delete:
  assumes "t \<in> set FRAME_TABLES" shows "obeys (\<lambda>d d'. keyed d \<longrightarrow> keyed d') (sql_delete t P)"
proof -
  have t: "t \<noteq> ''identity.users''" using assms by (auto simp: FRAME_TABLES_def)
  show ?thesis using t by (auto simp: obeys_def sql_delete_def keyed_def users_ok_def unique_on_filter)
qed

lemma keyed_user: "keyed d \<Longrightarrow> keyed (snd (get_or_create_driver name d))"
proof (cases "find (same_driver name) (db_tables d ''identity.users'')")
  case None
  assume k: "keyed d"
  let ?rows = "db_tables d ''identity.users''"
  have "\<forall>r \<in> set ?rows. \<not> same_driver name r" using None by (simp add: find_None_iff)
  then have "\<forall>r \<in> set ?rows. user_name r \<noteq> lower name"
    using k by (fastforce simp: keyed_def users_ok_def same_driver_def user_name_def)
  moreover have "\<forall>r \<in> set ?rows. col r ''id'' \<noteq> PInt (db_seq d ''identity.users'')"
    using k by (auto simp: keyed_def users_ok_def)
  ultimately show "keyed (snd (get_or_create_driver name d))"
    using k None by (auto simp: get_or_create_driver_def Let_def keyed_def users_ok_def other_unique_keys_def
        user_name_def col_def)
qed (simp add: get_or_create_driver_def)

interpretation keys: world_step "\<lambda>d d'. keyed d \<longrightarrow> keyed d'" "\<lambda>w w'. keyed (w_db w) \<longrightarrow> keyed (w_db w')"
  by unfold_locales
     (auto simp: keyed_insert keyed_update keyed_delete keyed_user, auto simp: keyed_def users_ok_def)

text \<open>
  C17. Whatever datagrams arrive and whichever transactions fail, the statements of
  the repositories never leave two rows with the same key in any table, nor two drivers whose names
  differ only by case, nor two users with one number.
\<close>

theorem keys_stay_unique:
  assumes "keyed (w_db (co_world (dp_core d)))"
  shows "keyed (w_db (co_world (dp_core (handle_packets lib datas d))))"
  using keys.disp_step_packets [of d lib datas] assms by (simp add: keys.disp_step_def)


lemma keyed_empty: "keyed \<lparr>db_tables = \<lambda>_. [], db_seq = \<lambda>_. 1\<rparr>"
  by (simp add: keyed_def users_ok_def unique_on_def)

theorem keys_stay_unique_witness:
  "\<forall>lib datas. keyed (w_db (co_world (dp_core (handle_packets lib datas (new_dispatcher True quiet_world)))))"
proof (intro allI)
  fix lib datas
  have "keyed (w_db (co_world (dp_core (new_dispatcher True quiet_world))))"
    using keyed_empty by (simp add: new_dispatcher_def new_core_def monotonic_now_def quiet_world_def)
  then show "keyed (w_db (co_world (dp_core (handle_packets lib datas (new_dispatcher True quiet_world)))))"
    by (rule keys_stay_unique)
qed

subsection \<open>What is never lost\<close>

lemma find_SomeD: "find P xs = Some x \<Longrightarrow> P x \<and> x \<in> set xs"
  by (induction xs) (auto split: if_splits)

definition same_fixed :: "string \<Rightarrow> row \<Rightarrow> row \<Rightarrow> bool" where
  "same_fixed t r r' \<longleftrightarrow> (\<forall>k \<in> fixed_columns t. col r' k = col r k)"

definition still_there :: "string \<Rightarrow> row list \<Rightarrow> row \<Rightarrow> bool" where
  "still_there t rows r \<longleftrightarrow> (\<exists>r' \<in> set rows. same_fixed t r r')"

definition keeps_rows :: "db \<Rightarrow> db \<Rightarrow> bool" where
  "keeps_rows d d' \<longleftrightarrow> (\<forall>t. t \<notin> set FRAME_TABLES \<longrightarrow>
     (\<forall>r \<in> set (db_tables d t). still_there t (db_tables d' t) r))"

lemma same_fixed_refl [simp]: "same_fixed t r r"
  by (simp add: same_fixed_def)

lemma still_there: "r \<in> set rows \<Longrightarrow> still_there t rows r"
  unfolding still_there_def using same_fixed_refl by blast

lemma still_there_map: "r \<in> set rows \<Longrightarrow> same_fixed t r (f r) \<Longrightarrow> still_there t (map f rows) r"
  unfolding still_there_def by auto

lemma keeps_rows_fixed:
  "keeps_rows d d' \<Longrightarrow> t \<notin> set FRAME_TABLES \<Longrightarrow> r \<in> set (db_tables d t)
    \<Longrightarrow> \<exists>r' \<in> set (db_tables d' t). \<forall>k \<in> fixed_columns t. col r' k = col r k"
  by (simp add: keeps_rows_def still_there_def same_fixed_def)

lemma keeps_rows_trans: "keeps_rows d1 d2 \<Longrightarrow> keeps_rows d2 d3 \<Longrightarrow> keeps_rows d1 d3"
  unfolding keeps_rows_def still_there_def same_fixed_def by (metis (no_types, lifting))

lemma keeps_rows_tables: "db_tables d' = db_tables d \<Longrightarrow> keeps_rows d d'"
  by (simp add: keeps_rows_def still_there)

lemma keeps_rows_table:
  "(\<And>r. t \<notin> set FRAME_TABLES \<Longrightarrow> r \<in> set (db_tables d t) \<Longrightarrow> still_there t rows r)
    \<Longrightarrow> keeps_rows d (d\<lparr>db_tables := (db_tables d)(t := rows)\<rparr>)"
  by (simp add: keeps_rows_def still_there)

lemma still_there_nothing: "r \<in> set rows \<Longrightarrow> still_there t (insert_nothing ks new rows) r"
  by (simp add: insert_nothing_def still_there)

lemma keeps_rows_insert:
  assumes allowed: "insert_allowed t oc" shows "obeys keeps_rows (sql_insert t cols oc vals)"
proof -
  have update: "still_there t (insert_update ks cs new rows) r"
    if "oc = DoUpdate ks cs" "r \<in> set rows" for ks cs new rows r
  proof -
    have "same_fixed t r (set_excluded cs new r)"
      using allowed that(1) by (auto simp: insert_allowed_def same_fixed_def col_set_excluded split: option.splits)
    then show ?thesis using that(2) by (simp add: insert_update_def still_there still_there_map)
  qed
  show ?thesis
    unfolding obeys_def sql_insert_def Let_def
    by (cases oc) (auto simp: still_there_nothing update split: if_splits intro!: keeps_rows_table)
qed

lemma keeps_rows_update: "update_allowed t f \<Longrightarrow> obeys keeps_rows (sql_update t P f)"
  by (auto simp: obeys_def sql_update_def update_allowed_def same_fixed_def intro!: keeps_rows_table still_there_map)

lemma keeps_rows_delete: "t \<in> set FRAME_TABLES \<Longrightarrow> obeys keeps_rows (sql_delete t P)"
  by (auto simp: obeys_def sql_delete_def intro!: keeps_rows_table)

lemma keeps_rows_user: "keeps_rows d (snd (get_or_create_driver name d))"
proof (cases "find (same_driver name) (db_tables d ''identity.users'')")
  case None
  have "keeps_rows d (d\<lparr>db_tables := (db_tables d)(''identity.users'' := db_tables d ''identity.users'' @ rows)\<rparr>)" for rows
    by (rule keeps_rows_table) (simp add: still_there)
  note added = keeps_rows_trans [OF this keeps_rows_tables]
  have "keeps_rows d (d\<lparr>db_tables := (db_tables d)(''identity.users'' := db_tables d ''identity.users'' @ rows),
      db_seq := s\<rparr>)" for rows s
    by (rule added) simp
  then show ?thesis using None by (simp add: get_or_create_driver_def Let_def)
qed (simp add: get_or_create_driver_def keeps_rows_tables)

interpretation rows: world_step keeps_rows "\<lambda>w w'. keeps_rows (w_db w) (w_db w')"
  by unfold_locales
     (auto intro: keeps_rows_tables keeps_rows_insert keeps_rows_update keeps_rows_delete keeps_rows_user
       keeps_rows_trans)

text \<open>
  C18. Apart from the frames a flashback deletes, nothing recorded is lost: every row
  of every other table is still there after whatever datagrams arrive, with the same key, a session
  with the same anchor, a user with the same number and name.
\<close>

theorem recorded_rows_are_kept:
  assumes "t \<notin> set FRAME_TABLES" "r \<in> set (table (co_world (dp_core d)) t)"
  shows "\<exists>r' \<in> set (table (co_world (dp_core (handle_packets lib datas d))) t).
    \<forall>k \<in> fixed_columns t. col r' k = col r k"
  using rows.disp_step_packets [of d lib datas] assms
  by (simp add: rows.disp_step_def keeps_rows_fixed)

text \<open>The same, for the anchor the session service reads back when the listener has been restarted.\<close>

lemma stored_start_kept:
  assumes "keeps_rows d d'" "keyed d'" "stored_session_start uid d = Some t"
  shows "stored_session_start uid d' = Some t"
proof -
  let ?P = "\<lambda>r. col r ''session_uid'' = PStr uid"
  obtain r where r: "r \<in> set (db_tables d ''telemetry.sessions'')" "?P r" "as_time (col r ''session_start_utc'') = Some t"
    using assms(3) by (auto simp: stored_session_start_def dest: find_SomeD split: option.splits)
  have fixed: "fixed_columns ''telemetry.sessions'' = {''session_uid'', ''session_start_utc''}"
    "map_of TABLE_KEYS ''telemetry.sessions'' = Some [''session_uid'']"
    by (auto simp: fixed_columns_def TABLE_KEYS_def)
  obtain r' where r': "r' \<in> set (db_tables d' ''telemetry.sessions'')" "?P r'"
      "as_time (col r' ''session_start_utc'') = Some t"
    using keeps_rows_fixed [OF assms(1) _ r(1)] r(2,3) by (auto simp: fixed FRAME_TABLES_def)
  obtain r'' where r'': "find ?P (db_tables d' ''telemetry.sessions'') = Some r''"
    using r' using find_None_iff [of ?P "db_tables d' ''telemetry.sessions''"] by (cases "find ?P (db_tables d' ''telemetry.sessions'')") auto
  then have found: "r'' \<in> set (db_tables d' ''telemetry.sessions'')" "?P r''" by (auto dest: find_SomeD)
  have "unique_on [''session_uid''] (db_tables d' ''telemetry.sessions'')"
    using assms(2) fixed(2) by (auto simp: keyed_def)
  then have "inj_on (\<lambda>r. [col r ''session_uid'']) (set (db_tables d' ''telemetry.sessions''))"
    by (simp add: unique_on_def distinct_map)
  then have "r'' = r'"
    by (rule inj_onD) (simp_all add: found r'(1,2))
  then show ?thesis using r' r'' by (simp add: stored_session_start_def)
qed

text \<open>A session whose row is stored, for the examples.\<close>

definition stored_session :: row where
  "stored_session = [(''session_uid'', PStr [49]), (''session_start_utc'', PTime 1000)]"

definition session_stored_world :: world where
  "session_stored_world = quiet_world\<lparr>w_db := \<lparr>db_tables = (\<lambda>_. [])(''telemetry.sessions'' := [stored_session]),
     db_seq = \<lambda>_. 1\<rparr>\<rparr>"

lemma session_stored_world:
  "keyed (w_db session_stored_world)" "stored_session_start [49] (w_db session_stored_world) = Some 1000"
  "stored_session \<in> set (table session_stored_world ''telemetry.sessions'')"
proof -
  have "unique_on ks [r]" for ks r by (simp add: unique_on_def)
  moreover have "unique_on ks []" for ks by (simp add: unique_on_def)
  ultimately show "keyed (w_db session_stored_world)"
    by (auto simp: keyed_def users_ok_def session_stored_world_def)
  show "stored_session_start [49] (w_db session_stored_world) = Some 1000"
    "stored_session \<in> set (table session_stored_world ''telemetry.sessions'')"
    by (simp_all add: stored_session_start_def session_stored_world_def stored_session_def col_def)
qed

lemma new_dispatcher_db [simp]: "w_db (co_world (dp_core (new_dispatcher b w))) = w_db w"
  by (simp add: new_dispatcher_def new_core_def monotonic_now_def)

theorem recorded_rows_are_kept_witness:
  "\<forall>lib datas. \<exists>r' \<in> set (table (co_world (dp_core (handle_packets lib datas (new_dispatcher True session_stored_world))))
      ''telemetry.sessions''). col r' ''session_start_utc'' = PTime 1000"
proof (intro allI)
  fix lib datas
  have "''session_start_utc'' \<in> fixed_columns ''telemetry.sessions''" "col stored_session ''session_start_utc'' = PTime 1000"
    by (simp_all add: fixed_columns_def stored_session_def col_def)
  then show "\<exists>r' \<in> set (table (co_world (dp_core (handle_packets lib datas (new_dispatcher True session_stored_world))))
      ''telemetry.sessions''). col r' ''session_start_utc'' = PTime 1000"
    using recorded_rows_are_kept [of "''telemetry.sessions''" stored_session "new_dispatcher True session_stored_world" lib datas]
      session_stored_world(3) by (force simp: FRAME_TABLES_def)
qed

lemma repo_get_session_start_healthy:
  "healthy w \<Longrightarrow> fst (repo_get_session_start uid w) = stored_session_start uid (w_db w)"
  by (simp add: repo_get_session_start_def query_def run_txn_def healthy_def Let_def)

definition anchored :: "pystr \<Rightarrow> int \<Rightarrow> world \<Rightarrow> bool" where
  "anchored uid t w \<longleftrightarrow> stored_session_start uid (w_db w) = Some t \<and> keyed (w_db w) \<and> healthy w"

lemma anchored_step:
  "anchored uid t w \<Longrightarrow> keeps_rows (w_db w) (w_db w') \<Longrightarrow> (keyed (w_db w) \<longrightarrow> keyed (w_db w')) \<Longrightarrow> healthy w' = healthy w
    \<Longrightarrow> anchored uid t w'"
  using stored_start_kept by (auto simp: anchored_def)

lemma anchored_tracks: "anchored uid t w \<Longrightarrow> anchored uid t (snd (update_track_technical_data a b c d e f g h i j w))"
  (is "_ \<Longrightarrow> anchored uid t ?w'")
proof (erule anchored_step)
  show "keeps_rows (w_db w) (w_db ?w')" by (rule rows.walk_session_rows(1) [OF rows.walk_refl])
  show "keyed (w_db w) \<longrightarrow> keyed (w_db ?w')" by (rule keys.walk_session_rows(1) [OF keys.walk_refl])
  show "healthy ?w' = healthy w" by (simp add: update_track_technical_data_def split_beta)
qed

lemma anchored_session: "anchored uid t w \<Longrightarrow> anchored uid t (insert_session vals w)" (is "_ \<Longrightarrow> anchored uid t ?w'")
proof (erule anchored_step)
  show "keeps_rows (w_db w) (w_db ?w')" by (rule rows.walk_session_rows(2) [OF rows.walk_refl])
  show "keyed (w_db w) \<longrightarrow> keyed (w_db ?w')" by (rule keys.walk_session_rows(2) [OF keys.walk_refl])
  show "healthy ?w' = healthy w" by (simp add: insert_session_def insert_row_def)
qed

lemma first_packet_adopts_anchor:
  assumes "anchored (session_key (sp_header p)) t w"
    and anchor: "session_anchor (w_utc w (w_utc_reads w)) (hdr_session_time (sp_header p)) = Inr now"
  shows "get_session_start (fst (insert_session_row p st (note_session p new_session_service) w)) (session_key (sp_header p)) = Some t"
proof -
  have "anchored (session_key (sp_header p)) t (w\<lparr>w_utc_reads := n\<rparr>)" for n
    using assms(1) by (simp add: anchored_def healthy_def)
  note kept = this [THEN anchored_tracks, THEN anchored_session]
  have "fst (repo_get_session_start uid w') = Some t'" if "anchored uid t' w'" for uid t' w'
    using that by (simp add: anchored_def repo_get_session_start_healthy)
  from this [OF kept] show ?thesis
    using anchor by (simp add: insert_session_row_def Let_def utc_now_def split_beta
        get_session_start_def note_session_def new_session_service_def)
qed

lemma later_steps_keep_anchor [simp]:
  "ss_session_starts (fst (capture_reaction p s w)) = ss_session_starts s"
  "ss_session_starts (fst (update_weather_forecast hash p s w)) = ss_session_starts s"
  by (simp_all add: capture_reaction_def update_weather_forecast_def Let_def)



end
