(* ===== verification/Server.thy ===== *)
theory Server
  imports Dispatcher "HOL-Library.Sublist"
begin

text \<open>
  \<open>server.py\<close>: the receive loop moves datagrams onto a bounded queue, a worker thread hands them to
  the packet handler. The two threads are the rules of a step relation, so every interleaving is a
  sequence of steps; the receive loop has a program counter, because the worker can take a datagram
  between any two of its statements. \<open>sv_received\<close>, \<open>sv_accepted\<close>, \<open>sv_handled\<close> and \<open>sv_lost\<close>
  record the history; the code keeps none of them.
\<close>

definition DEFAULT_QUEUE_SIZE :: int where
  "DEFAULT_QUEUE_SIZE = 20000"

definition REPORT_INTERVAL_NS :: int where
  "REPORT_INTERVAL_NS = 5000000000"

datatype report = KernelDropped int | PacketsDropped nat | BacklogPeaked nat

text \<open>Where the receive loop stands; \<open>Closed\<close> is past the \<open>finally\<close> clause.\<close>

datatype 'd receiver = Receiving | Putting 'd | Measuring | Reporting | Closed

record ('d, 's) server =
  sv_receiver :: "'d receiver"
  sv_queue :: "'d option list"        \<comment> \<open>\<open>None\<close> is the sentinel\<close>
  sv_maxsize :: int
  sv_dropped :: nat
  sv_backlog_peak :: nat
  sv_last_report :: int
  sv_last_kernel_drops :: int
  sv_reports :: "report list"
  sv_working :: bool
  sv_handler :: 's
  sv_received :: "'d list"
  sv_accepted :: "'d list"
  sv_handled :: "'d list"
  sv_lost :: nat                      \<comment> \<open>datagrams refused by a full queue\<close>

definition start_server :: "int \<Rightarrow> int \<Rightarrow> int \<Rightarrow> 's \<Rightarrow> ('d, 's) server" where
  "start_server queue_size now kernel_drops h =
     \<lparr>sv_receiver = Receiving, sv_queue = [], sv_maxsize = queue_size, sv_dropped = 0, sv_backlog_peak = 0,
      sv_last_report = now, sv_last_kernel_drops = kernel_drops, sv_reports = [],
      sv_working = True, sv_handler = h,
      sv_received = [], sv_accepted = [], sv_handled = [], sv_lost = 0\<rparr>"

text \<open>\<open>queue.Full\<close>: a maximum of zero or less is no maximum.\<close>

definition queue_full :: "('d, 's) server \<Rightarrow> bool" where
  "queue_full s \<longleftrightarrow> 0 < sv_maxsize s \<and> sv_maxsize s \<le> int (length (sv_queue s))"

definition put_datagram :: "'d \<Rightarrow> ('d, 's) server \<Rightarrow> ('d, 's) server" where
  "put_datagram d s =
    (if queue_full s then s\<lparr>sv_dropped := sv_dropped s + 1, sv_lost := sv_lost s + 1\<rparr>
     else s\<lparr>sv_queue := sv_queue s @ [Some d], sv_accepted := sv_accepted s @ [d]\<rparr>)"

definition measure_backlog :: "('d, 's) server \<Rightarrow> ('d, 's) server" where
  "measure_backlog s = s\<lparr>sv_backlog_peak := max (sv_backlog_peak s) (length (sv_queue s))\<rparr>"

definition make_report :: "int \<Rightarrow> int \<Rightarrow> ('d, 's) server \<Rightarrow> ('d, 's) server" where
  "make_report now kernel_drops s =
    (if now - sv_last_report s < REPORT_INTERVAL_NS then s
     else s\<lparr>sv_reports := sv_reports s
              @ (if sv_last_kernel_drops s < kernel_drops
                 then [KernelDropped (kernel_drops - sv_last_kernel_drops s)] else [])
              @ (if sv_dropped s \<noteq> 0 then [PacketsDropped (sv_dropped s)]
                 else if sv_maxsize s div 2 \<le> int (sv_backlog_peak s) then [BacklogPeaked (sv_backlog_peak s)]
                 else []),
            sv_dropped := 0, sv_backlog_peak := 0, sv_last_kernel_drops := kernel_drops,
            sv_last_report := now\<rparr>)"

text \<open>The \<open>finally\<close> clause: the sentinel is put unless the queue is full.\<close>

definition shut_down :: "('d, 's) server \<Rightarrow> ('d, 's) server" where
  "shut_down s =
     (let s1 = s\<lparr>sv_receiver := Closed\<rparr> in
      if queue_full s1 then s1 else s1\<lparr>sv_queue := sv_queue s1 @ [None]\<rparr>)"

text \<open>
  A signal, or an exception the loop does not catch, ends it at any point. The worker is a daemon
  thread: once the receive loop is over, the process may end with the worker in mid-queue.
  Whatever the handler raises is caught, so all that is left of a call is the state it reached.
\<close>

inductive server_step :: "('d \<Rightarrow> 's \<Rightarrow> 's) \<Rightarrow> ('d, 's) server \<Rightarrow> ('d, 's) server \<Rightarrow> bool"
  for handler :: "'d \<Rightarrow> 's \<Rightarrow> 's" where
  receive: "sv_receiver s = Receiving \<Longrightarrow>
    server_step handler s (s\<lparr>sv_receiver := Putting d, sv_received := sv_received s @ [d]\<rparr>)"
| put: "sv_receiver s = Putting d \<Longrightarrow>
    server_step handler s ((put_datagram d s)\<lparr>sv_receiver := Measuring\<rparr>)"
| measure: "sv_receiver s = Measuring \<Longrightarrow>
    server_step handler s ((measure_backlog s)\<lparr>sv_receiver := Reporting\<rparr>)"
| report: "sv_receiver s = Reporting \<Longrightarrow>
    server_step handler s ((make_report now kernel_drops s)\<lparr>sv_receiver := Receiving\<rparr>)"
| close: "sv_receiver s \<noteq> Closed \<Longrightarrow> server_step handler s (shut_down s)"
| work: "sv_working s \<Longrightarrow> sv_queue s = Some d # q \<Longrightarrow>
    server_step handler s (s\<lparr>sv_queue := q, sv_handler := handler d (sv_handler s),
                             sv_handled := sv_handled s @ [d]\<rparr>)"
| stop: "sv_working s \<Longrightarrow> sv_queue s = None # q \<Longrightarrow>
    server_step handler s (s\<lparr>sv_queue := q, sv_working := False\<rparr>)"
| exit: "sv_receiver s = Closed \<Longrightarrow> sv_working s \<Longrightarrow> server_step handler s (s\<lparr>sv_working := False\<rparr>)"

inductive_cases server_stepE: "server_step handler s s'"

inductive reachable :: "('d \<Rightarrow> 's \<Rightarrow> 's) \<Rightarrow> ('d, 's) server \<Rightarrow> ('d, 's) server \<Rightarrow> bool"
  for handler :: "'d \<Rightarrow> 's \<Rightarrow> 's" and s0 :: "('d, 's) server" where
  start: "reachable handler s0 s0"
| step: "reachable handler s0 s \<Longrightarrow> server_step handler s s' \<Longrightarrow> reachable handler s0 s'"

subsection \<open>The kernel's counter\<close>

text \<open>\<open>str.split()\<close>, and \<open>int\<close> of a decimal number.\<close>

fun split_words :: "pystr \<Rightarrow> pystr \<Rightarrow> pystr list" where
  "split_words w [] = (if w = [] then [] else [w])"
| "split_words w (c # cs) =
    (if is_space c then (if w = [] then split_words [] cs else w # split_words [] cs)
     else split_words (w @ [c]) cs)"

definition int_of_digits :: "pystr \<Rightarrow> int py" where
  "int_of_digits s =
     (if s \<noteq> [] \<and> list_all (\<lambda>c. 48 \<le> c \<and> c \<le> 57) s then Inr (int (undec s)) else Inl PyValueError)"

definition starts_with :: "pystr \<Rightarrow> pystr \<Rightarrow> bool" where
  "starts_with s p \<longleftrightarrow> take (length p) s = p"

fun rcvbuf_errors :: "(pystr \<times> pystr) list \<Rightarrow> int py" where
  "rcvbuf_errors [] = Inr 0"
| "rcvbuf_errors ((header, vals) # rest) =
    (let udp = ascii ''Udp:''; names = split_words [] header; col_name = ascii ''RcvbufErrors'' in
     if starts_with header udp \<and> starts_with vals udp \<and> col_name \<in> set names
     then and_then (py_index (split_words [] vals) (length (takeWhile (\<lambda>n. n \<noteq> col_name) names))) int_of_digits
     else rcvbuf_errors rest)"

text \<open>\<open>None\<close> stands for a file that cannot be opened.\<close>

definition kernel_rcvbuf_errors :: "pystr list option \<Rightarrow> int py" where
  "kernel_rcvbuf_errors file = (case file of
      None \<Rightarrow> Inr 0
    | Some ls \<Rightarrow> rcvbuf_errors (zip ls (tl ls)))"

subsection \<open>What the queue keeps\<close>

text \<open>
  The specification the two threads refine: a stream of received datagrams from which the full queue
  takes some away, handled one after the other in the order of their arrival.
\<close>

definition queued :: "('d, 's) server \<Rightarrow> 'd list" where
  "queued s = List.map_filter id (sv_queue s)"

definition in_hand :: "('d, 's) server \<Rightarrow> 'd list" where
  "in_hand s = (case sv_receiver s of Putting d \<Rightarrow> [d] | _ \<Rightarrow> [])"

definition reported_drops :: "report list \<Rightarrow> nat" where
  "reported_drops rs = sum_list (map (\<lambda>r. case r of PacketsDropped n \<Rightarrow> n | _ \<Rightarrow> 0) rs)"

definition queue_ok :: "int \<Rightarrow> ('d, 's) server \<Rightarrow> bool" where
  "queue_ok maxsize s \<longleftrightarrow>
     sv_maxsize s = maxsize
     \<and> sv_accepted s = sv_handled s @ queued s
     \<and> (\<exists>xs. sv_received s = xs @ in_hand s \<and> subseq (sv_accepted s) xs)
     \<and> (0 < maxsize \<longrightarrow> int (length (sv_queue s)) \<le> maxsize)
     \<and> sv_lost s = reported_drops (sv_reports s) + sv_dropped s
     \<and> length (sv_received s) \<le> length (sv_accepted s) + sv_lost s + 1
     \<and> (sv_receiver s \<noteq> Closed \<longrightarrow>
          length (sv_received s) = length (sv_accepted s) + sv_lost s + length (in_hand s)
          \<and> None \<notin> set (sv_queue s))"

lemma queued_simps [simp]:
  "queued (s\<lparr>sv_receiver := r\<rparr>) = queued s" "queued (s\<lparr>sv_received := ds\<rparr>) = queued s"
  "queued (s\<lparr>sv_accepted := ds\<rparr>) = queued s" "queued (s\<lparr>sv_handled := ds\<rparr>) = queued s"
  "queued (s\<lparr>sv_handler := h\<rparr>) = queued s" "queued (s\<lparr>sv_working := b\<rparr>) = queued s"
  "queued (s\<lparr>sv_dropped := n\<rparr>) = queued s" "queued (s\<lparr>sv_lost := n\<rparr>) = queued s"
  "queued (s\<lparr>sv_queue := q\<rparr>) = List.map_filter id q"
  by (simp_all add: queued_def)

lemma map_filter_id_simps [simp]:
  "List.map_filter id [] = []" "List.map_filter id (Some x # q) = x # List.map_filter id q"
  "List.map_filter id (None # q) = List.map_filter id q"
  "List.map_filter id (q @ q') = List.map_filter id q @ List.map_filter id q'"
  by (simp_all add: List.map_filter_def)

lemma reported_drops_append [simp]: "reported_drops (rs @ rs') = reported_drops rs + reported_drops rs'"
  by (simp add: reported_drops_def)

lemma reported_drops_simps [simp]:
  "reported_drops [] = 0" "reported_drops [KernelDropped k] = 0" "reported_drops [PacketsDropped n] = n"
  "reported_drops [BacklogPeaked n] = 0"
  by (simp_all add: reported_drops_def)

lemma make_report_keeps:
  "sv_maxsize (make_report now k s) = sv_maxsize s" "sv_accepted (make_report now k s) = sv_accepted s"
  "sv_handled (make_report now k s) = sv_handled s" "sv_handler (make_report now k s) = sv_handler s"
  "sv_received (make_report now k s) = sv_received s" "sv_queue (make_report now k s) = sv_queue s"
  "sv_lost (make_report now k s) = sv_lost s" "sv_working (make_report now k s) = sv_working s"
  "reported_drops (sv_reports (make_report now k s)) + sv_dropped (make_report now k s)
     = reported_drops (sv_reports s) + sv_dropped s"
  by (simp_all add: make_report_def)

lemma queue_ok_start: "queue_ok maxsize (start_server maxsize now k h)"
  by (simp add: queue_ok_def start_server_def queued_def in_hand_def)

lemma queue_ok_step: "server_step handler s s' \<Longrightarrow> queue_ok maxsize s \<Longrightarrow> queue_ok maxsize s'"
proof (induction rule: server_step.induct)
  case (receive s d)
  then show ?case by (auto simp: queue_ok_def in_hand_def)
next
  case (put s d)
  then obtain xs where xs: "sv_received s = xs @ [d]" "subseq (sv_accepted s) xs"
    by (auto simp: queue_ok_def in_hand_def)
  have "subseq (sv_accepted s) (xs @ [d])" "subseq (sv_accepted s @ [d]) (xs @ [d])"
    using xs(2) by (simp_all add: subseq_rev_drop_many)
  moreover have "sv_accepted s = sv_handled s @ List.map_filter id (sv_queue s)"
    using put by (simp add: queue_ok_def queued_def)
  ultimately have "subseq (sv_handled s @ List.map_filter id (sv_queue s)) (xs @ [d])"
    "subseq (sv_handled s @ List.map_filter id (sv_queue s) @ [d]) (xs @ [d])" by simp_all
  then show ?case
    using put xs by (auto simp: queue_ok_def in_hand_def put_datagram_def queue_full_def queued_def)
next
  case (measure s)
  then show ?case by (auto simp: queue_ok_def in_hand_def measure_backlog_def queued_def)
next
  case (report s now k)
  then show ?case
    using make_report_keeps [of now k s] by (auto simp: queue_ok_def in_hand_def queued_def)
next
  case (close s)
  then obtain xs where xs: "sv_received s = xs @ in_hand s" "subseq (sv_accepted s) xs"
    by (auto simp: queue_ok_def)
  have "subseq (sv_accepted s) (xs @ in_hand s)" using xs(2) by (simp add: subseq_rev_drop_many)
  moreover have "length (in_hand s) \<le> 1" by (simp add: in_hand_def split: receiver.split)
  ultimately show ?case
    using close xs(1) by (auto simp: queue_ok_def shut_down_def Let_def queue_full_def queued_def) (auto simp: in_hand_def)
next
  case (work s d q)
  then show ?case by (auto simp: queue_ok_def in_hand_def queued_def)
next
  case (stop s q)
  then show ?case by (auto simp: queue_ok_def in_hand_def queued_def)
next
  case (exit s)
  then show ?case by (auto simp: queue_ok_def in_hand_def)
qed

lemma handler_step:
  "server_step handler s s' \<Longrightarrow> sv_handler s = fold handler (sv_handled s) h \<Longrightarrow> sv_handler s' = fold handler (sv_handled s') h"
  by (induction rule: server_step.induct)
     (simp_all add: put_datagram_def measure_backlog_def make_report_keeps shut_down_def Let_def)

lemma server_ok_reachable:
  "reachable handler (start_server maxsize now k h) s \<Longrightarrow> queue_ok maxsize s \<and> sv_handler s = fold handler (sv_handled s) h"
proof (induction rule: reachable.induct)
  case start
  show ?case using queue_ok_start by (simp add: start_server_def)
next
  case (step s s')
  show ?case using step.IH queue_ok_step [OF step.hyps(2)] handler_step [OF step.hyps(2)] by simp
qed

lemma queue_ok_handler [simp]: "queue_ok maxsize (s\<lparr>sv_handler := x\<rparr>) = queue_ok maxsize s"
  by (simp add: queue_ok_def queued_def in_hand_def)

text \<open>
  C14. Under every interleaving of the two threads, the state the packet
  handler has reached is the one that handling some of the received datagrams in the order of their
  arrival reaches; what is handled and what still waits are together what the queue accepted, and the
  queue never holds more than its maximum.
\<close>

theorem server_handles_in_order:
  assumes "reachable handler (start_server maxsize now k h) s"
  shows "sv_handler s = fold handler (sv_handled s) h
    \<and> sv_handled s @ queued s = sv_accepted s
    \<and> subseq (sv_accepted s) (sv_received s)
    \<and> (0 < maxsize \<longrightarrow> int (length (sv_queue s)) \<le> maxsize)"
  using server_ok_reachable [OF assms] by (auto simp: queue_ok_def intro: subseq_rev_drop_many)

text \<open>A run: two datagrams come into a queue of one, the first is handled, the second refused.\<close>

definition busy :: "(nat, nat list) server" where
  "busy =
    (let s0 = start_server 1 0 0 [];
         s1 = s0\<lparr>sv_receiver := Putting 7, sv_received := sv_received s0 @ [7]\<rparr>;
         s2 = (put_datagram 7 s1)\<lparr>sv_receiver := Measuring\<rparr>;
         s3 = (measure_backlog s2)\<lparr>sv_receiver := Reporting\<rparr>;
         s4 = (make_report 1 0 s3)\<lparr>sv_receiver := Receiving\<rparr>;
         s5 = s4\<lparr>sv_receiver := Putting 8, sv_received := sv_received s4 @ [8]\<rparr>
     in (put_datagram 8 s5)\<lparr>sv_receiver := Measuring\<rparr>)"

lemma busy_reachable: "reachable (#) (start_server 1 0 0 []) busy"
proof -
  let ?s0 = "start_server 1 0 0 [] :: (nat, nat list) server"
  have r1: "reachable (#) ?s0 (?s0\<lparr>sv_receiver := Putting 7, sv_received := sv_received ?s0 @ [7]\<rparr>)"
    by (rule reachable.step [OF reachable.start server_step.receive]) (simp add: start_server_def)
  note r2 = reachable.step [OF r1 server_step.put [of _ 7], simplified]
  note r3 = reachable.step [OF r2 server_step.measure, simplified]
  note r4 = reachable.step [OF r3 server_step.report [of _ "(#)" 1 0], simplified]
  note r5 = reachable.step [OF r4 server_step.receive [of _ "(#)" 8], simplified]
  note r6 = reachable.step [OF r5 server_step.put [of _ 8], simplified]
  show ?thesis using r6 by (simp add: busy_def Let_def)
qed

lemma busy_simps [simp]:
  "sv_queue busy = [Some 7]" "sv_received busy = [7, 8]" "sv_accepted busy = [7]" "sv_handled busy = []"
  "sv_lost busy = 1" "sv_working busy" "sv_handler busy = []" "sv_receiver busy = Measuring"
  "sv_reports busy = []" "sv_dropped busy = 1"
  by (simp_all add: busy_def Let_def start_server_def put_datagram_def queue_full_def measure_backlog_def
      make_report_def REPORT_INTERVAL_NS_def)

theorem server_handles_in_order_witness:
  "reachable (#) (start_server 1 0 0 []) busy \<and> sv_received busy = [7, 8]
    \<and> subseq (sv_accepted busy) [7, 8] \<and> int (length (sv_queue busy)) \<le> 1"
  using server_handles_in_order [OF busy_reachable] busy_reachable by simp

text \<open>
  C15. No datagram disappears without a trace: while the receive loop runs, every
  received datagram was accepted by the queue, is about to be put, or was refused by a full queue, and
  every refusal is either in a report already written or in the counter of the next one.
\<close>

theorem drops_accounted:
  assumes "reachable handler (start_server maxsize now k h) s" "sv_receiver s \<noteq> Closed"
  shows "length (sv_received s) =
    length (sv_accepted s) + length (in_hand s) + (reported_drops (sv_reports s) + sv_dropped s)"
  using server_ok_reachable [OF assms(1)] assms(2) by (simp add: queue_ok_def)

theorem drops_accounted_witness:
  "length (sv_received busy) = length (sv_accepted busy) + length (in_hand busy) + 1"
  using drops_accounted [OF busy_reachable] by simp

subsection \<open>The worker catches up\<close>

definition queue_shape :: "('d, 's) server \<Rightarrow> bool" where
  "queue_shape s \<longleftrightarrow> (\<exists>ds. sv_queue s = map Some ds \<or> sv_receiver s = Closed \<and> sv_queue s = map Some ds @ [None])"

lemma queue_shape_step: "server_step handler s s' \<Longrightarrow> queue_shape s \<Longrightarrow> queue_shape s'"
proof (induction rule: server_step.induct)
  case (put s d)
  then obtain ds where "sv_queue s = map Some ds" by (auto simp: queue_shape_def)
  then have "sv_queue (put_datagram d s) = map Some ds \<or> sv_queue (put_datagram d s) = map Some (ds @ [d])"
    by (simp add: put_datagram_def)
  then show ?case by (auto simp: queue_shape_def simp del: map_append)
next
  case (close s)
  then show ?case by (auto simp: queue_shape_def shut_down_def Let_def)
next
  case (work s d q)
  then obtain ds where "sv_queue s = map Some ds \<or> sv_receiver s = Closed \<and> sv_queue s = map Some ds @ [None]"
    unfolding queue_shape_def by blast
  with work(2) show ?case by (cases ds) (auto simp: queue_shape_def)
next
  case (stop s q)
  then obtain ds where "sv_queue s = map Some ds \<or> sv_receiver s = Closed \<and> sv_queue s = map Some ds @ [None]"
    unfolding queue_shape_def by blast
  with stop(2) show ?case by (cases ds) (auto simp: queue_shape_def)
qed (auto simp: queue_shape_def measure_backlog_def make_report_keeps)

lemma queue_shape_reachable: "reachable handler (start_server maxsize now k h) s \<Longrightarrow> queue_shape s"
proof (induction rule: reachable.induct)
  case start
  show ?case by (simp add: queue_shape_def start_server_def)
qed (rule queue_shape_step)

lemma worker_drains_queue:
  assumes "sv_working s" "sv_queue s = map Some ds @ tail"
  shows "(server_step handler)\<^sup>*\<^sup>* s (s\<lparr>sv_queue := tail, sv_handler := fold handler ds (sv_handler s),
      sv_handled := sv_handled s @ ds\<rparr>)"
  using assms
proof (induction ds arbitrary: s)
  case (Cons d ds)
  let ?s = "s\<lparr>sv_queue := map Some ds @ tail, sv_handler := handler d (sv_handler s), sv_handled := sv_handled s @ [d]\<rparr>"
  have "server_step handler s ?s" using Cons.prems by (intro server_step.work) simp_all
  moreover have "(server_step handler)\<^sup>*\<^sup>* ?s (?s\<lparr>sv_queue := tail, sv_handler := fold handler ds (sv_handler ?s),
      sv_handled := sv_handled ?s @ ds\<rparr>)"
    using Cons.prems by (intro Cons.IH) simp_all
  ultimately show ?case by (simp add: converse_rtranclp_into_rtranclp)
next
  case Nil
  then have "s\<lparr>sv_queue := tail, sv_handler := fold handler [] (sv_handler s), sv_handled := sv_handled s @ []\<rparr> = s"
    by simp
  then show ?case by simp
qed

text \<open>
  C16. As long as the worker runs, its own steps alone take it, from any reachable
  state, to one where everything the queue had accepted has been handled: accepted datagrams are
  never stuck behind the receive loop or the sentinel.
\<close>

theorem worker_catches_up:
  assumes "reachable handler (start_server maxsize now k h) s" "sv_working s"
  shows "\<exists>s'. (server_step handler)\<^sup>*\<^sup>* s s' \<and> sv_receiver s' = sv_receiver s
    \<and> sv_handled s' = sv_accepted s \<and> sv_handler s' = fold handler (sv_accepted s) h"
proof -
  obtain ds tail where q: "sv_queue s = map Some ds @ tail" "tail = [] \<or> tail = [None]"
    using queue_shape_reachable [OF assms(1)] unfolding queue_shape_def by (metis append_Nil2)
  have "queued s = ds"
  proof -
    have "List.map_filter id (map Some xs) = xs" for xs :: "'a list" by (induction xs) simp_all
    then show ?thesis using q by (auto simp: queued_def)
  qed
  then have h: "sv_handler s = fold handler (sv_handled s) h" and acc: "sv_handled s @ ds = sv_accepted s"
    using server_ok_reachable [OF assms(1)] by (simp_all add: queue_ok_def)
  have "fold handler ds (sv_handler s) = fold handler (sv_accepted s) h"
    unfolding h acc [symmetric] by simp
  with acc show ?thesis
    using worker_drains_queue [OF assms(2) q(1), of handler]
    by (intro exI [of _ "s\<lparr>sv_queue := tail, sv_handler := fold handler ds (sv_handler s), sv_handled := sv_handled s @ ds\<rparr>"])
       (simp add: acc)
qed

theorem worker_catches_up_witness:
  "\<exists>s'. (server_step (#))\<^sup>*\<^sup>* busy s' \<and> sv_handled s' = [7] \<and> sv_handler s' = [7]"
  using worker_catches_up [OF busy_reachable] by auto

subsection \<open>Shutting down\<close>

definition steps_left :: "('d, 's) server \<Rightarrow> nat" where
  "steps_left s = length (sv_queue s) + of_bool (sv_working s)"

lemma closed_step:
  "server_step handler s s' \<Longrightarrow> sv_receiver s = Closed \<Longrightarrow> sv_receiver s' = Closed \<and> steps_left s' < steps_left s"
  by (erule server_stepE) (auto simp: steps_left_def)



end
