(* ===== verification/Listener.thy ===== *)
theory Listener
  imports Guarantees Server Config
begin

text \<open>
  The process: \<open>main.py\<close> puts the parts together, \<open>database/client.py\<close> owns the connection pool,
  \<open>logging_config.py\<close> sets up the log. What the operating system and the pool answer is a parameter.
\<close>

subsection \<open>Logging\<close>

record platform =
  pf_makes_directory :: "pystr \<Rightarrow> bool"
  pf_opens_file :: "pystr \<Rightarrow> bool"
  pf_psycopg :: bool                                     \<comment> \<open>whether \<open>psycopg_pool\<close> is installed\<close>
  pf_opens_pool :: "pystr \<Rightarrow> int \<Rightarrow> int \<Rightarrow> bool"
  pf_answers :: bool                                     \<comment> \<open>the \<open>SELECT 1\<close> of the health check\<close>
  pf_binds :: "pystr \<Rightarrow> int \<Rightarrow> bool"
  pf_now :: int
  pf_kernel_drops :: int

definition LEVEL_NAMES :: "pystr list" where
  "LEVEL_NAMES = map ascii [''CRITICAL'', ''FATAL'', ''ERROR'', ''WARN'', ''WARNING'', ''INFO'', ''DEBUG'', ''NOTSET'']"

text \<open>\<open>os.path.dirname\<close>: up to the last slash, without the slashes it ends in unless there is nothing else.\<close>

definition dirname :: "pystr \<Rightarrow> pystr" where
  "dirname path =
    (let head = rev (dropWhile (\<lambda>c. c \<noteq> 47) (rev path)) in
     if list_all (\<lambda>c. c = 47) head then head else rev (dropWhile (\<lambda>c. c = 47) (rev head)))"

definition configure_logging :: "platform \<Rightarrow> pystr \<Rightarrow> pystr \<Rightarrow> unit py" where
  "configure_logging pf level path =
    (let log_dir = dirname path in
     if log_dir \<noteq> [] \<and> \<not> pf_makes_directory pf log_dir then Inl PyOSError
     else if \<not> pf_opens_file pf path then Inl PyOSError
     else if level \<notin> set LEVEL_NAMES then Inl PyValueError
     else Inr ())"

subsection \<open>The connection pool\<close>

record client =
  cl_enabled :: bool
  cl_pool :: bool

definition new_client :: "platform \<Rightarrow> pystr \<Rightarrow> int \<Rightarrow> int \<Rightarrow> client" where
  "new_client pf uri pool_min pool_max =
    (if \<not> pf_psycopg pf \<or> \<not> pf_opens_pool pf uri pool_min pool_max then \<lparr>cl_enabled = False, cl_pool = False\<rparr>
     else \<lparr>cl_enabled = pf_answers pf, cl_pool = True\<rparr>)"

text \<open>\<open>connection\<close> yields a connection, or nothing.\<close>

definition connection :: "client \<Rightarrow> bool" where
  "connection c \<longleftrightarrow> cl_enabled c \<and> cl_pool c"

definition client_close :: "client \<Rightarrow> client" where
  "client_close c = (if cl_pool c then c\<lparr>cl_enabled := False\<rparr> else c)"

text \<open>The world as the repositories see it through the client.\<close>

definition through :: "client \<Rightarrow> world \<Rightarrow> world" where
  "through c w = w\<lparr>w_enabled := connection c\<rparr>"

subsection \<open>Starting\<close>

record listener =
  li_client :: client
  li_server :: "(byte list, dispatcher) server"
  li_stopped :: bool          \<comment> \<open>the pool has been closed\<close>

text \<open>
  An exception before the server starts is not caught. One the server raises is: the pool is closed and
  the exit status is 1.
\<close>

datatype outcome = Uncaught pyexn | ServerFailed | Serving listener

definition assemble :: "environ \<Rightarrow> client \<Rightarrow> world \<Rightarrow> dispatcher" where
  "assemble env c w =
     on_core (\<lambda>k. k\<lparr>co_world := replay_dead_letters (co_classification k) (co_world k)\<rparr>)
       (new_dispatcher (get_dead_letter_dir env \<noteq> []) (through c w))"

definition settings :: "environ \<Rightarrow> platform \<Rightarrow> (pystr \<times> int \<times> int) py" where
  "settings env pf =
     and_then (configure_logging pf (get_log_level env) (get_log_path env)) (\<lambda>_.
     and_then (get_postgres_uri env) (\<lambda>uri.
     and_then (get_postgres_pool_min env) (\<lambda>pool_min.
     and_then (get_postgres_pool_max env) (\<lambda>pool_max. Inr (uri, pool_min, pool_max)))))"

definition main :: "environ \<Rightarrow> platform \<Rightarrow> world \<Rightarrow> outcome" where
  "main env pf w = (case settings env pf of
      Inl e \<Rightarrow> Uncaught e
    | Inr (uri, pool_min, pool_max) \<Rightarrow>
        let c = new_client pf uri pool_min pool_max; d = assemble env c w in
        (case get_listen_port env of
           Inl e \<Rightarrow> Uncaught e
         | Inr port \<Rightarrow>
             if pf_binds pf (get_listen_ip env) port
             then Serving \<lparr>li_client = c,
                           li_server = start_server DEFAULT_QUEUE_SIZE (pf_now pf) (pf_kernel_drops pf) d,
                           li_stopped = False\<rparr>
             else ServerFailed))"

subsection \<open>Running and stopping\<close>

text \<open>
  \<open>signal_handler\<close> closes the pool and raises \<open>SystemExit\<close> in the thread of the receive loop, whose
  \<open>finally\<close> clause runs; an exception out of the loop closes the pool too. The worker goes on until it
  meets the sentinel or the process ends, with a client that no longer hands out connections. A packet
  is handled as a whole before or after the pool is closed.
\<close>

definition disconnect :: "dispatcher \<Rightarrow> client \<Rightarrow> dispatcher" where
  "disconnect d c = on_core (\<lambda>k. k\<lparr>co_world := through c (co_world k)\<rparr>) d"

definition close_pool :: "listener \<Rightarrow> listener" where
  "close_pool l =
    (let c = client_close (li_client l) in
     l\<lparr>li_client := c, li_stopped := True,
       li_server := (li_server l)\<lparr>sv_handler := disconnect (sv_handler (li_server l)) c\<rparr>\<rparr>)"

inductive listener_step :: "library \<Rightarrow> listener \<Rightarrow> listener \<Rightarrow> bool" for lib :: library where
  serve: "server_step (handle_packet lib) (li_server l) s
    \<Longrightarrow> listener_step lib l (l\<lparr>li_server := s\<rparr>)"
| signal: "sv_receiver (li_server l) \<noteq> Closed
    \<Longrightarrow> listener_step lib l ((close_pool l)\<lparr>li_server := shut_down (li_server (close_pool l))\<rparr>)"
| failure: "sv_receiver (li_server l) = Closed \<Longrightarrow> listener_step lib l (close_pool l)"

inductive_cases listener_stepE: "listener_step lib l l'"

subsection \<open>What the process guarantees\<close>


lemma assemble_ok: "dispatcher_ok (assemble env c w)"
  unfolding assemble_def by (rule on_core_ok) (simp_all add: dispatcher_ok_core)

text \<open>A listener all of whose settings are the defaults, on a platform with or without a database.\<close>

definition plain_platform :: "bool \<Rightarrow> platform" where
  "plain_platform db =
     \<lparr>pf_makes_directory = \<lambda>_. True, pf_opens_file = \<lambda>_. True, pf_psycopg = True,
      pf_opens_pool = \<lambda>_ _ _. db, pf_answers = db, pf_binds = \<lambda>_ port. 0 \<le> port \<and> port < 65536,
      pf_now = 0, pf_kernel_drops = 0\<rparr>"

lemma default_level: "get_log_level (\<lambda>_. None) \<in> set LEVEL_NAMES"
proof -
  have "get_log_level (\<lambda>_. None) = ascii ''INFO''" by (simp add: get_log_level_def getenv_def upper_def ascii_def)
  then show ?thesis by (simp add: LEVEL_NAMES_def)
qed

lemma default_starts: "\<exists>l. main (\<lambda>_. None) (plain_platform db) w = Serving l"
  using default_level
  by (auto simp: main_def settings_def configure_logging_def plain_platform_def Let_def get_postgres_uri_def postgres_uri_def
      getenv_def quote_plus_postgres get_postgres_pool_min_def get_postgres_pool_max_def getenv_int_def get_listen_port_def)

subsection \<open>Serving\<close>

lemma connection_closed [simp]: "\<not> connection (client_close c)"
  by (simp add: connection_def client_close_def)

lemma disconnect_simps [simp]:
  "w_db (co_world (dp_core (disconnect d c))) = w_db (co_world (dp_core d))"
  "w_enabled (co_world (dp_core (disconnect d c))) = connection c"
  by (simp_all add: disconnect_def on_core_def through_def)

lemma disconnect_ok: "dispatcher_ok d \<Longrightarrow> dispatcher_ok (disconnect d c)"
  unfolding disconnect_def by (rule on_core_ok) (auto dest: dispatcher_ok_core)

text \<open>
  The invariant of a listener that began with the dispatcher \<open>d\<close>: the queue keeps its promises and,
  until the pool is closed, the dispatcher is the one that has handled the worker's datagrams; from then
  on its repositories are disabled.
\<close>

definition listener_ok :: "library \<Rightarrow> dispatcher \<Rightarrow> listener \<Rightarrow> bool" where
  "listener_ok lib d l \<longleftrightarrow>
     queue_ok DEFAULT_QUEUE_SIZE (li_server l) \<and> dispatcher_ok (sv_handler (li_server l))
     \<and> (if li_stopped l then \<not> w_enabled (co_world (dp_core (sv_handler (li_server l))))
        else sv_handler (li_server l) = handle_packets lib (sv_handled (li_server l)) d)"

lemma server_step_handler:
  "server_step handler s s' \<Longrightarrow>
     (sv_handler s' = sv_handler s \<and> sv_handled s' = sv_handled s)
     \<or> (\<exists>x. sv_handler s' = handler x (sv_handler s) \<and> sv_handled s' = sv_handled s @ [x])"
  by (induction rule: server_step.induct)
     (simp_all add: put_datagram_def measure_backlog_def make_report_keeps shut_down_def Let_def)

lemma offline_handle:
  assumes "\<not> w_enabled (co_world (dp_core d))"
  shows "\<not> w_enabled (co_world (dp_core (handle_packet lib x d)))
    \<and> w_db (co_world (dp_core (handle_packet lib x d))) = w_db (co_world (dp_core d))"
  using outage.disp_step_handle [of d lib x] assms by (auto simp: outage.disp_step_def outage_step_def unreachable_def)

lemma listener_ok_serve:
  assumes "listener_ok lib d l" "server_step (handle_packet lib) (li_server l) s"
  shows "listener_ok lib d (l\<lparr>li_server := s\<rparr>)"
proof -
  have q: "queue_ok DEFAULT_QUEUE_SIZE s" using assms queue_ok_step by (auto simp: listener_ok_def)
  from server_step_handler [OF assms(2)] show ?thesis
  proof
    assume "sv_handler s = sv_handler (li_server l) \<and> sv_handled s = sv_handled (li_server l)"
    then show ?thesis using assms(1) q by (simp add: listener_ok_def)
  next
    assume "\<exists>x. sv_handler s = handle_packet lib x (sv_handler (li_server l)) \<and> sv_handled s = sv_handled (li_server l) @ [x]"
    then obtain x where x: "sv_handler s = handle_packet lib x (sv_handler (li_server l))"
      "sv_handled s = sv_handled (li_server l) @ [x]" by blast
    have "dispatcher_ok (sv_handler s)" using assms(1) x handle_packet_ok by (simp add: listener_ok_def)
    then show ?thesis
      using assms(1) q offline_handle [of "sv_handler (li_server l)" lib x]
      by (auto simp: listener_ok_def x handle_packets_def)
  qed
qed

lemma listener_ok_close_pool: "listener_ok lib d l \<Longrightarrow> listener_ok lib d (close_pool l)"
  by (auto simp: listener_ok_def close_pool_def Let_def disconnect_ok split: if_splits intro: exI [of _ "[]"])

lemma queue_ok_shut_down:
  "sv_receiver s \<noteq> Closed \<Longrightarrow> queue_ok m s \<Longrightarrow> queue_ok m (shut_down s)"
  by (rule queue_ok_step [OF server_step.close])

lemma listener_ok_step: "listener_step lib l l' \<Longrightarrow> listener_ok lib d l \<Longrightarrow> listener_ok lib d l'"
proof (induction rule: listener_step.induct)
  case (signal l)
  have "listener_ok lib d (close_pool l)" using signal listener_ok_close_pool by blast
  moreover have "sv_receiver (li_server (close_pool l)) \<noteq> Closed" using signal by (simp add: close_pool_def Let_def)
  ultimately show ?case by (intro listener_ok_serve server_step.close)
qed (simp_all add: listener_ok_serve listener_ok_close_pool)

lemma listener_ok_main:
  "main env pf w = Serving l \<Longrightarrow> listener_ok lib (sv_handler (li_server l)) l"
  using assemble_ok queue_ok_start
  by (auto simp: main_def listener_ok_def Let_def start_server_def handle_packets_def split: sum.splits if_splits)

lemma listener_ok_run: "(listener_step lib)\<^sup>*\<^sup>* l l' \<Longrightarrow> listener_ok lib d l \<Longrightarrow> listener_ok lib d l'"
  by (induction rule: rtranclp_induct) (auto intro: listener_ok_step)

text \<open>
  C21. From start to shutdown, under every interleaving of the receive loop,
  the worker and the signals: the dispatcher is well-formed; while the pool is open it is the dispatcher
  \<open>main\<close> assembled after some of the received datagrams, one after the other in the order of their arrival.
\<close>

theorem listener_serves_in_order:
  assumes "main env pf w = Serving l0" "(listener_step lib)\<^sup>*\<^sup>* l0 l"
  shows "dispatcher_ok (sv_handler (li_server l))
    \<and> subseq (sv_handled (li_server l)) (sv_received (li_server l))
    \<and> (\<not> li_stopped l \<longrightarrow>
         sv_handler (li_server l) = handle_packets lib (sv_handled (li_server l)) (sv_handler (li_server l0)))"
proof -
  have ok: "listener_ok lib (sv_handler (li_server l0)) l"
    using listener_ok_run [OF assms(2) listener_ok_main [OF assms(1)]] .
  then have "queue_ok DEFAULT_QUEUE_SIZE (li_server l)" by (simp add: listener_ok_def)
  then obtain xs where "sv_received (li_server l) = xs @ in_hand (li_server l)"
    "subseq (sv_handled (li_server l) @ queued (li_server l)) xs"
    by (auto simp: queue_ok_def)
  moreover have "subseq (sv_handled (li_server l)) (sv_handled (li_server l) @ queued (li_server l))"
    by (simp add: subseq_rev_drop_many)
  ultimately have "subseq (sv_handled (li_server l)) (sv_received (li_server l))"
    by (metis subseq_order.trans subseq_rev_drop_many)
  then show ?thesis using ok by (simp add: listener_ok_def)
qed

lemma default_run:
  obtains c d where "main (\<lambda>_. None) (plain_platform True) w
    = Serving \<lparr>li_client = c, li_server = start_server DEFAULT_QUEUE_SIZE 0 0 d, li_stopped = False\<rparr>"
  using default_starts [of True w]
  by (auto simp: main_def plain_platform_def Let_def split: sum.splits if_splits)

text \<open>A run: a datagram is received and put on the queue.\<close>

definition putting :: "byte list \<Rightarrow> listener \<Rightarrow> listener" where
  "putting data l = l\<lparr>li_server := (li_server l)\<lparr>sv_receiver := Putting data, sv_received := [data]\<rparr>\<rparr>"

definition queueing :: "byte list \<Rightarrow> listener \<Rightarrow> listener" where
  "queueing data l = (putting data l)\<lparr>li_server :=
     (put_datagram data (li_server (putting data l)))\<lparr>sv_receiver := Measuring\<rparr>\<rparr>"

lemma queueing_run:
  assumes "l0 = \<lparr>li_client = c, li_server = start_server DEFAULT_QUEUE_SIZE 0 0 d, li_stopped = False\<rparr>"
  shows "(listener_step lib)\<^sup>*\<^sup>* l0 (queueing data l0)"
proof -
  have "listener_step lib l0 (putting data l0)"
    using listener_step.serve [OF server_step.receive [of "li_server l0" "handle_packet lib" data]]
    by (simp add: assms putting_def start_server_def)
  moreover have "listener_step lib (putting data l0) (queueing data l0)"
    unfolding queueing_def by (intro listener_step.serve server_step.put) (simp add: putting_def)
  ultimately show ?thesis by (meson converse_rtranclp_into_rtranclp r_into_rtranclp)
qed

theorem listener_serves_in_order_witness:
  "\<forall>lib w data. \<exists>l0 (l :: listener). main (\<lambda>_. None) (plain_platform True) w = Serving l0 \<and> (listener_step lib)\<^sup>*\<^sup>* l0 l
     \<and> sv_received (li_server l) = [data]
     \<and> dispatcher_ok (sv_handler (li_server l)) \<and> subseq (sv_handled (li_server l)) [data]"
proof (intro allI)
  fix lib w and data :: "byte list"
  obtain c d where l0: "main (\<lambda>_. None) (plain_platform True) w
      = Serving \<lparr>li_client = c, li_server = start_server DEFAULT_QUEUE_SIZE 0 0 d, li_stopped = False\<rparr>" (is "_ = Serving ?first")
    by (rule default_run)
  have "sv_received (li_server (queueing data ?first)) = [data]"
    by (simp add: queueing_def putting_def put_datagram_def)
  moreover from this have "dispatcher_ok (sv_handler (li_server (queueing data ?first)))
      \<and> subseq (sv_handled (li_server (queueing data ?first))) [data]"
    using listener_serves_in_order [OF l0 queueing_run [OF refl, where lib = lib and data = data]] by simp
  ultimately show "\<exists>l0 (l :: listener). main (\<lambda>_. None) (plain_platform True) w = Serving l0 \<and> (listener_step lib)\<^sup>*\<^sup>* l0 l
     \<and> sv_received (li_server l) = [data]
     \<and> dispatcher_ok (sv_handler (li_server l)) \<and> subseq (sv_handled (li_server l)) [data]"
    using l0 queueing_run [OF refl, where lib = lib and data = data] by blast
qed

subsection \<open>Stopping\<close>

lemma close_pool_db:
  "listener_step lib l l1 \<Longrightarrow> \<not> li_stopped l \<Longrightarrow> li_stopped l1 \<Longrightarrow>
     w_db (co_world (dp_core (sv_handler (li_server l1)))) = w_db (co_world (dp_core (sv_handler (li_server l))))"
  by (induction rule: listener_step.induct) (simp_all add: close_pool_def shut_down_def Let_def)

lemma stopped_step:
  "listener_step lib l l' \<Longrightarrow> listener_ok lib d l \<Longrightarrow> li_stopped l \<Longrightarrow>
     li_stopped l' \<and> w_db (co_world (dp_core (sv_handler (li_server l')))) = w_db (co_world (dp_core (sv_handler (li_server l))))"
proof (induction rule: listener_step.induct)
  case (serve l s)
  have off: "\<not> w_enabled (co_world (dp_core (sv_handler (li_server l))))" using serve by (simp add: listener_ok_def)
  show ?case using server_step_handler [OF serve(1)] offline_handle [OF off, of lib] serve by auto
qed (simp_all add: close_pool_def shut_down_def Let_def)

lemma stopped_run:
  "(listener_step lib)\<^sup>*\<^sup>* l l' \<Longrightarrow> listener_ok lib d l \<Longrightarrow> li_stopped l \<Longrightarrow>
     li_stopped l' \<and> w_db (co_world (dp_core (sv_handler (li_server l')))) = w_db (co_world (dp_core (sv_handler (li_server l))))"
proof (induction rule: rtranclp_induct)
  case (step l1 l2)
  have "listener_ok lib d l1" using listener_ok_run [OF step.hyps(1) step.prems(1)] .
  then show ?case using stopped_step [OF step.hyps(2)] step by metis
qed simp


text \<open>A signal comes while a datagram waits; the worker takes it afterwards.\<close>

definition signalled :: "listener \<Rightarrow> listener" where
  "signalled l = (close_pool l)\<lparr>li_server := shut_down (li_server (close_pool l))\<rparr>"


end
