(* ===== verification/Schema_Runner.thy ===== *)
theory Schema_Runner
  imports Config
begin

text \<open>
  \<open>schema/run_schema.py\<close>: applies the SQL files to the database in a fixed order, each file in a
  transaction of its own. The file system is a set of directories and a map from files to their text; the
  database is a parameter: what executing the text of a file does to a state of type \<open>'d\<close>, or how
  PostgreSQL refuses it.
\<close>

type_synonym sql_file = "string \<times> string"

definition SCHEMA_EXECUTION_ORDER :: "(string \<times> string list) list" where
  "SCHEMA_EXECUTION_ORDER =
    [(''identity'',
      [''users.sql'', ''get_or_create_driver.sql'']),
     (''telemetry'',
      [''tracks.sql'', ''teams.sql'', ''sessions.sql'', ''entries.sql'', ''laps.sql'',
       ''events_race_control.sql'', ''events_overtakes.sql'', ''events_collisions.sql'',
       ''events_penalties.sql'', ''events_fastest_laps.sql'', ''events_retirements.sql'',
       ''events_speed_traps.sql'', ''events_driver_actions.sql'', ''events_flashbacks.sql'',
       ''events_buttons.sql'', ''race_classification.sql'', ''qualifying_classification.sql'',
       ''weather_forecast.sql'', ''lap_positions.sql'', ''session_timeline.sql'',
       ''session_bests.sql'', ''car_frame.sql'', ''car_frame_damage.sql'',
       ''car_frame_motion_ex.sql'', ''tyre_stints.sql'', ''car_setups.sql'',
       ''lap_setups.sql'', ''tyre_sets.sql'', ''lobby_info.sql'']),
     (''bot'',
      [''discord_weekends.sql'', ''discord_session_messages.sql''])]"

text \<open>Duplicate tables and objects are their own exception classes; everything else is raised again.\<close>

datatype sql_error = DuplicateSql | OtherSqlError

datatype schema_error =
    NoConnection | DirectoryMissing string | FileMissing sql_file | SqlFailed sql_file

record 'd schema_world =
  sc_connects :: "pystr \<Rightarrow> bool"
  sc_directories :: "string set"
  sc_files :: "sql_file \<Rightarrow> string option"
  sc_execute :: "string \<Rightarrow> 'd \<Rightarrow> sql_error + 'd"

text \<open>One file: rolled back with a warning on a duplicate, rolled back and raised on any other error.\<close>

definition run_file :: "'d schema_world \<Rightarrow> sql_file \<Rightarrow> 'd \<Rightarrow> (schema_error + unit) \<times> 'd" where
  "run_file e f d = (case sc_files e f of
      None \<Rightarrow> (Inl (FileMissing f), d)
    | Some sql \<Rightarrow> (case sc_execute e sql d of
        Inr d' \<Rightarrow> (Inr (), d')
      | Inl DuplicateSql \<Rightarrow> (Inr (), d)
      | Inl OtherSqlError \<Rightarrow> (Inl (SqlFailed f), d)))"

fun run_files :: "'d schema_world \<Rightarrow> sql_file list \<Rightarrow> 'd \<Rightarrow> (schema_error + unit) \<times> 'd" where
  "run_files e [] d = (Inr (), d)"
| "run_files e (f # fs) d = (case run_file e f d of
      (Inl x, d') \<Rightarrow> (Inl x, d')
    | (Inr _, d') \<Rightarrow> run_files e fs d')"

fun run_schemas :: "'d schema_world \<Rightarrow> (string \<times> string list) list \<Rightarrow> 'd \<Rightarrow> (schema_error + unit) \<times> 'd" where
  "run_schemas e [] d = (Inr (), d)"
| "run_schemas e ((schema, files) # rest) d =
    (if schema \<notin> sc_directories e then (Inl (DirectoryMissing schema), d)
     else case run_files e (map (Pair schema) files) d of
         (Inl x, d') \<Rightarrow> (Inl x, d')
       | (Inr _, d') \<Rightarrow> run_schemas e rest d')"

definition get_database_url :: "environ \<Rightarrow> pystr py" where
  "get_database_url env =
    (let host = getenv env ''POSTGRES_HOST'' ''localhost''; port = getenv env ''POSTGRES_PORT'' ''5432'';
         user = getenv env ''POSTGRES_USER'' ''postgres''; password = getenv env ''POSTGRES_PASSWORD'' ''postgres'';
         dbname = getenv env ''POSTGRES_DB'' ''f1_app''
     in and_then (quote_plus user) (\<lambda>u. and_then (quote_plus password) (\<lambda>p.
       Inr (ascii ''postgresql://'' @ u @ ascii '':'' @ p @ ascii ''@'' @ host @ ascii '':'' @ port
            @ ascii ''/'' @ dbname))))"

lemma runner_and_listener_agree: "get_database_url env = get_postgres_uri env"
  by (simp add: get_database_url_def get_postgres_uri_def postgres_uri_def)

text \<open>Credentials that cannot be encoded raise before there is a connection.\<close>

definition run_schema :: "environ \<Rightarrow> 'd schema_world \<Rightarrow> 'd \<Rightarrow> (schema_error + unit) \<times> 'd" where
  "run_schema env e d = (case get_database_url env of
      Inl _ \<Rightarrow> (Inl NoConnection, d)
    | Inr url \<Rightarrow>
        if sc_connects e url then run_schemas e SCHEMA_EXECUTION_ORDER d else (Inl NoConnection, d))"

text \<open>The exit status of the script.\<close>

definition schema_exit_status :: "environ \<Rightarrow> 'd schema_world \<Rightarrow> 'd \<Rightarrow> nat \<times> 'd" where
  "schema_exit_status env e d = (case run_schema env e d of (Inl _, d') \<Rightarrow> (1, d') | (Inr _, d') \<Rightarrow> (0, d'))"

subsection \<open>Order and foreign keys\<close>

definition schema_files :: "(string \<times> string list) list \<Rightarrow> sql_file list" where
  "schema_files order = concat (map (\<lambda>(schema, files). map (Pair schema) files) order)"

text \<open>The files whose tables a file names in its \<open>REFERENCES\<close> clauses (\<open>schema/*/*.sql\<close>).\<close>

definition SCHEMA_REFERENCES :: "(sql_file \<times> sql_file list) list" where
  "SCHEMA_REFERENCES =
    [((''telemetry'', ''sessions.sql''), [(''telemetry'', ''tracks.sql'')]),
     ((''telemetry'', ''entries.sql''), [(''identity'', ''users.sql''), (''telemetry'', ''sessions.sql''), (''telemetry'', ''teams.sql'')]),
     ((''telemetry'', ''laps.sql''), [(''identity'', ''users.sql''), (''telemetry'', ''sessions.sql'')]),
     ((''telemetry'', ''events_race_control.sql''), [(''telemetry'', ''sessions.sql'')]),
     ((''telemetry'', ''events_overtakes.sql''), [(''identity'', ''users.sql''), (''telemetry'', ''sessions.sql'')]),
     ((''telemetry'', ''events_collisions.sql''), [(''identity'', ''users.sql''), (''telemetry'', ''sessions.sql'')]),
     ((''telemetry'', ''events_penalties.sql''), [(''identity'', ''users.sql''), (''telemetry'', ''sessions.sql'')]),
     ((''telemetry'', ''events_fastest_laps.sql''), [(''identity'', ''users.sql''), (''telemetry'', ''sessions.sql'')]),
     ((''telemetry'', ''events_retirements.sql''), [(''identity'', ''users.sql''), (''telemetry'', ''sessions.sql'')]),
     ((''telemetry'', ''events_speed_traps.sql''), [(''identity'', ''users.sql''), (''telemetry'', ''sessions.sql'')]),
     ((''telemetry'', ''events_driver_actions.sql''), [(''identity'', ''users.sql''), (''telemetry'', ''sessions.sql'')]),
     ((''telemetry'', ''events_flashbacks.sql''), [(''telemetry'', ''sessions.sql'')]),
     ((''telemetry'', ''events_buttons.sql''), [(''telemetry'', ''sessions.sql'')]),
     ((''telemetry'', ''race_classification.sql''), [(''identity'', ''users.sql''), (''telemetry'', ''sessions.sql'')]),
     ((''telemetry'', ''qualifying_classification.sql''), [(''identity'', ''users.sql''), (''telemetry'', ''sessions.sql'')]),
     ((''telemetry'', ''weather_forecast.sql''), [(''telemetry'', ''sessions.sql'')]),
     ((''telemetry'', ''lap_positions.sql''), [(''telemetry'', ''sessions.sql'')]),
     ((''telemetry'', ''session_timeline.sql''), [(''telemetry'', ''sessions.sql'')]),
     ((''telemetry'', ''session_bests.sql''), [(''identity'', ''users.sql''), (''telemetry'', ''sessions.sql'')]),
     ((''telemetry'', ''car_frame.sql''), [(''telemetry'', ''sessions.sql'')]),
     ((''telemetry'', ''car_frame_damage.sql''), [(''telemetry'', ''sessions.sql'')]),
     ((''telemetry'', ''car_frame_motion_ex.sql''), [(''telemetry'', ''sessions.sql'')]),
     ((''telemetry'', ''tyre_stints.sql''), [(''identity'', ''users.sql''), (''telemetry'', ''sessions.sql'')]),
     ((''telemetry'', ''lap_setups.sql''), [(''identity'', ''users.sql''), (''telemetry'', ''car_setups.sql''), (''telemetry'', ''sessions.sql'')]),
     ((''telemetry'', ''tyre_sets.sql''), [(''identity'', ''users.sql''), (''telemetry'', ''sessions.sql'')]),
     ((''bot'', ''discord_session_messages.sql''), [(''telemetry'', ''sessions.sql'')])]"

definition references :: "sql_file \<Rightarrow> sql_file set" where
  "references f = (case map_of SCHEMA_REFERENCES f of None \<Rightarrow> {} | Some fs \<Rightarrow> set fs)"

fun respects_references :: "sql_file list \<Rightarrow> sql_file list \<Rightarrow> bool" where
  "respects_references seen [] = True"
| "respects_references seen (f # fs) =
     ((case map_of SCHEMA_REFERENCES f of None \<Rightarrow> True | Some rs \<Rightarrow> list_all (\<lambda>r. r \<in> set seen) rs)
      \<and> respects_references (f # seen) fs)"

lemma order_respects_references: "respects_references [] (schema_files SCHEMA_EXECUTION_ORDER)"
  by code_simp

lemma run_schemas_files:
  assumes "fst ` set order \<subseteq> sc_directories e"
  shows "run_schemas e order d = run_files e (schema_files order) d"
proof -
  have append: "run_files e (fs @ gs) d = (case run_files e fs d of
      (Inl x, d') \<Rightarrow> (Inl x, d') | (Inr _, d') \<Rightarrow> run_files e gs d')" for fs gs d
    by (induction fs arbitrary: d) (auto split: prod.split sum.split)
  show ?thesis
    using assms by (induction order arbitrary: d) (auto simp: schema_files_def append split: prod.split sum.split)
qed

text \<open>
  What the runner needs of PostgreSQL: a file whose foreign keys point to tables that exist is
  accepted, and its own objects exist afterwards.
\<close>

definition accepts_when_referenced :: "'d schema_world \<Rightarrow> ('d \<Rightarrow> sql_file set) \<Rightarrow> bool" where
  "accepts_when_referenced e objects \<longleftrightarrow> (\<forall>f sql d. sc_files e f = Some sql \<and> references f \<subseteq> objects d \<longrightarrow>
     (\<exists>d'. sc_execute e sql d = Inr d' \<and> objects d' = insert f (objects d)))"

lemma run_files_all:
  assumes "accepts_when_referenced e objects" "\<forall>f \<in> set fs. sc_files e f \<noteq> None"
    "respects_references seen fs" "set seen \<subseteq> objects d"
  shows "\<exists>d'. run_files e fs d = (Inr (), d') \<and> objects d' = set fs \<union> objects d"
  using assms(2-)
proof (induction fs arbitrary: seen d)
  case (Cons f fs)
  obtain sql where sql: "sc_files e f = Some sql" using Cons.prems(1) by auto
  have "references f \<subseteq> objects d"
    using Cons.prems(2,3) by (auto simp: references_def list_all_iff split: option.splits)
  then obtain d1 where d1: "sc_execute e sql d = Inr d1" "objects d1 = insert f (objects d)"
    using assms(1) sql unfolding accepts_when_referenced_def by blast
  have "\<exists>d'. run_files e fs d1 = (Inr (), d') \<and> objects d' = set fs \<union> objects d1"
    using Cons.prems d1(2) by (intro Cons.IH [of "f # seen"]) auto
  then show ?case using d1 by (auto simp: run_file_def sql)
qed simp


text \<open>
  A database that knows which files it has seen. The text of a file is its name, and a file whose
  references are missing is refused.
\<close>

definition file_text :: "sql_file \<Rightarrow> string" where
  "file_text f = fst f @ ''/'' @ snd f"

definition file_of_text :: "string \<Rightarrow> sql_file option" where
  "file_of_text sql = List.find (\<lambda>f. file_text f = sql) (schema_files SCHEMA_EXECUTION_ORDER)"

definition naming_database :: "sql_file set schema_world" where
  "naming_database =
     \<lparr>sc_connects = (\<lambda>url. url \<noteq> []), sc_directories = UNIV,
      sc_files = (\<lambda>f. if f \<in> set (schema_files SCHEMA_EXECUTION_ORDER) then Some (file_text f) else None),
      sc_execute = (\<lambda>sql d. case file_of_text sql of
          None \<Rightarrow> Inl OtherSqlError
        | Some f \<Rightarrow> if references f \<subseteq> d then Inr (insert f d) else Inl OtherSqlError)\<rparr>"

lemma file_of_text_file_text:
  "f \<in> set (schema_files SCHEMA_EXECUTION_ORDER) \<Longrightarrow> file_of_text (file_text f) = Some f"
proof -
  have "list_all (\<lambda>f. file_of_text (file_text f) = Some f) (schema_files SCHEMA_EXECUTION_ORDER)"
    by code_simp
  then show "f \<in> set (schema_files SCHEMA_EXECUTION_ORDER) \<Longrightarrow> file_of_text (file_text f) = Some f"
    by (simp add: list_all_iff)
qed

lemma naming_database_accepts: "accepts_when_referenced naming_database id"
  by (auto simp: accepts_when_referenced_def naming_database_def file_of_text_file_text
      split: if_splits)




end
