(* ===== verification/Upserts.thy ===== *)
theory Upserts
  imports Repositories
begin

text \<open>
  Batches of \<open>INSERT ... ON CONFLICT DO UPDATE\<close>: the locale \<open>insert_latest\<close> is the contract of an
  upsert, interpreted on \<open>insert_update\<close>; \<open>recorded\<close> says that a table shows a row.
\<close>

subsection \<open>The latest write of a key wins\<close>

text \<open>
  What an \<open>ON CONFLICT DO UPDATE\<close> batch promises: a row is there as it was last written, whatever
  rows of other keys are written after it.
\<close>

locale insert_latest =
  fixes ins :: "'r \<Rightarrow> 't \<Rightarrow> 't" and key :: "'r \<Rightarrow> 'k" and shows_row :: "'r \<Rightarrow> 't \<Rightarrow> bool"
  assumes shows_ins: "shows_row r (ins r t)"
    and shows_other: "shows_row r t \<Longrightarrow> key r' \<noteq> key r \<Longrightarrow> shows_row r (ins r' t)"
begin

lemma shows_fold_other: "shows_row r t \<Longrightarrow> key r \<notin> key ` set rs \<Longrightarrow> shows_row r (fold ins rs t)"
  by (induction rs arbitrary: t) (auto intro: shows_other [OF _ not_sym])

lemma shows_fold: "distinct (map key rs) \<Longrightarrow> r \<in> set rs \<Longrightarrow> shows_row r (fold ins rs t)"
  by (induction rs arbitrary: t) (auto intro: shows_fold_other shows_ins)

end

definition row_key :: "string list \<Rightarrow> row \<Rightarrow> pyval list" where
  "row_key ks r = map (col r) ks"

text \<open>The table has the row's key, and only with the row's values.\<close>

definition recorded :: "string list \<Rightarrow> string list \<Rightarrow> row \<Rightarrow> row list \<Rightarrow> bool" where
  "recorded ks cs r rows \<longleftrightarrow>
     has_key ks r rows \<and> (\<forall>r' \<in> set rows. same_key ks r r' \<longrightarrow> (\<forall>c \<in> set cs. col r' c = col r c))"

lemma same_key_row_key: "same_key ks r r' \<longleftrightarrow> row_key ks r = row_key ks r'"
  by (simp add: same_key_def row_key_def)

lemma recorded_insert:
  assumes "set cs \<inter> set ks = {}"
  shows "recorded ks cs r (insert_update ks cs r rows)"
proof (cases "has_key ks r rows")
  case True
  then obtain r' where "r' \<in> set rows" "same_key ks r r'" by (auto simp: has_key_def)
  then have "has_key ks r (insert_update ks cs r rows)"
    using True set_excluded_key [OF assms, of r r r'] by (force simp: insert_update_def has_key_def)
  then show ?thesis
    using True by (auto simp: recorded_def insert_update_def col_set_excluded split: if_splits)
next
  case False
  then show ?thesis by (auto simp: recorded_def insert_update_def has_key_def)
qed

lemma recorded_insert_other:
  assumes "set cs \<inter> set ks = {}" "recorded ks cs r rows" "\<not> same_key ks r' r"
  shows "recorded ks cs r (insert_update ks cs r' rows)"
proof -
  have ne: "\<not> (same_key ks r x \<and> same_key ks r' x)" for x
    using assms(3) same_key_sym same_key_trans by blast
  have "has_key ks r (insert_update ks cs r' rows)"
    using assms(2) ne by (force simp: recorded_def insert_update_def has_key_def)
  then show ?thesis
    using assms(2) ne same_key_sym [of ks r r'] assms(3)
    by (auto simp: recorded_def insert_update_def set_excluded_key [OF assms(1)] split: if_splits)
qed

interpretation latest: insert_latest "insert_update ks (other_columns ks cs)" "row_key ks" "recorded ks (other_columns ks cs)"
    for ks cs
  by unfold_locales
     (auto intro: recorded_insert [OF other_columns_disjoint] recorded_insert_other [OF other_columns_disjoint]
       simp: same_key_row_key [symmetric])

lemma sql_insert_update:
  assumes "other_unique_keys t = []" "length vals = length cols"
  shows "sql_insert t cols (DoUpdate ks cs) vals d =
    Inr (1, d\<lparr>db_tables := (db_tables d)(t := insert_update ks cs (zip cols vals) (db_tables d t))\<rparr>)"
  using assms by (simp add: sql_insert_def Let_def)

lemma sql_many_update:
  assumes "other_unique_keys t = []" "\<forall>r \<in> set rows. length r = length cols"
  shows "\<exists>n. sql_many (map (sql_insert t cols (DoUpdate ks cs)) rows) d
    = Inr (n, d\<lparr>db_tables := (db_tables d)(t := fold (insert_update ks cs) (map (zip cols) rows) (db_tables d t))\<rparr>)"
  using assms(2)
proof (induction rows arbitrary: d)
  case (Cons r rows)
  let ?d = "d\<lparr>db_tables := (db_tables d)(t := insert_update ks cs (zip cols r) (db_tables d t))\<rparr>"
  have "\<forall>r \<in> set rows. length r = length cols" using Cons.prems by simp
  from Cons.IH [OF this, of ?d] obtain n where
    "sql_many (map (sql_insert t cols (DoUpdate ks cs)) rows) ?d = Inr (n, ?d\<lparr>db_tables :=
      (db_tables ?d)(t := fold (insert_update ks cs) (map (zip cols) rows) (db_tables ?d t))\<rparr>)"
    by blast
  moreover have "db_tables ?d = (db_tables d)(t := insert_update ks cs (zip cols r) (db_tables d t))" by simp
  ultimately have "sql_many (map (sql_insert t cols (DoUpdate ks cs)) rows) ?d = Inr (n, d\<lparr>db_tables :=
      (db_tables d)(t := fold (insert_update ks cs) (map (zip cols) (r # rows)) (db_tables d t))\<rparr>)"
    by (simp only: fun_upd_upd fun_upd_same) simp
  then show ?case
    using Cons.prems by (intro exI [of _ "1 + n"], simp add: sql_insert_update [OF assms(1)]) (simp add: fun_upd_def)
qed simp

lemma table_upserts:
  assumes "healthy w" "other_unique_keys t = []" "\<forall>r \<in> set rows. length r = length cols"
  shows "table (insert_rows t cols (DoUpdate ks cs) rows w)
    = (table w)(t := fold (insert_update ks cs) (map (zip cols) rows) (table w t))"
proof -
  obtain n where "sql_many (map (sql_insert t cols (DoUpdate ks cs)) rows) (w_db w)
    = Inr (n, w_db w\<lparr>db_tables := (table w)(t := fold (insert_update ks cs) (map (zip cols) rows) (table w t))\<rparr>)"
    using sql_many_update [OF assms(2,3)] by blast
  then show ?thesis
    using assms(1) by (auto simp: insert_rows_def execute_many_def run_txn_def healthy_def Let_def)
qed

end
