(* ===== verification/Lap_Facts.thy ===== *)
theory Lap_Facts
  imports Lap_Services Upserts
begin

text \<open>
  What the services of \<open>Lap_Services\<close> achieve: setups are packed and cached faithfully, the
  incremental lap writes leave the table a full write would, lap positions are the inversion of the
  positions the game reports.
\<close>


subsection \<open>Setups on the wire\<close>

text \<open>The values the setup formats carry: bytes and floats that came from a binary32.\<close>

fun wire_value :: "field \<Rightarrow> pyval \<Rightarrow> bool" where
  "wire_value FB (PInt i) = (0 \<le> i \<and> i < 256)"
| "wire_value Ff (PFloat x) = (\<exists>w < 2 ^ 32. x = f32_decode w)"
| "wire_value _ _ = False"

lemma f32_parts:
  assumes "ex < 256" "fr < 2 ^ 23"
  shows "(of_bool s * 2 ^ 31 + ex * 2 ^ 23 + fr) div 2 ^ 31 mod 2 = (of_bool s :: nat)"
    "(of_bool s * 2 ^ 31 + ex * 2 ^ 23 + fr) div 2 ^ 23 mod 256 = ex"
    "(of_bool s * 2 ^ 31 + ex * 2 ^ 23 + fr) mod 2 ^ 23 = fr"
    "of_bool s * 2 ^ 31 + ex * 2 ^ 23 + fr < 2 ^ 32"
proof -
  define t where "t = (of_bool s * 256 + ex :: nat)"
  have w: "of_bool s * 2 ^ 31 + ex * 2 ^ 23 + fr = fr + t * 2 ^ 23" by (simp add: t_def)
  have d: "(fr + t * 2 ^ 23) div 2 ^ 23 = t" using div_mult_self1 [of "2 ^ 23 :: nat" fr t] assms(2) by simp
  show "(of_bool s * 2 ^ 31 + ex * 2 ^ 23 + fr) mod 2 ^ 23 = fr"
    unfolding w mod_mult_self1 using assms(2) by (rule mod_less)
  show "(of_bool s * 2 ^ 31 + ex * 2 ^ 23 + fr) div 2 ^ 23 mod 256 = ex"
    unfolding w d using assms(1) by (simp add: t_def)
  have "(fr + t * 2 ^ 23) div 2 ^ 31 = (fr + t * 2 ^ 23) div 2 ^ 23 div 2 ^ 8"
    unfolding div_mult2_eq [symmetric] power_add [symmetric] by simp
  then show "(of_bool s * 2 ^ 31 + ex * 2 ^ 23 + fr) div 2 ^ 31 mod 2 = (of_bool s :: nat)"
    unfolding w d using assms(1) by (cases s) (simp_all add: t_def)
  show "of_bool s * 2 ^ 31 + ex * 2 ^ 23 + fr < 2 ^ 32" using assms by (cases s) simp_all
qed

lemma f32_signalling:
  assumes "w div 2 ^ 23 mod 256 = 255" "w mod 2 ^ 23 \<noteq> 0" "w mod 2 ^ 23 < 2 ^ 22"
  shows "f32_decode w = PyNaN (w div 2 ^ 31 mod 2 = 1) (w mod 2 ^ 23 + 2 ^ 22)"
  using assms by (simp add: f32_decode_def Let_def)

lemma f32_encode_bound:
  assumes "w < 2 ^ 32" shows "f32_encode (f32_decode w) < 2 ^ 32"
proof (cases "w div 2 ^ 23 mod 256 = 255 \<longrightarrow> w mod 2 ^ 23 = 0 \<or> 2 ^ 22 \<le> w mod 2 ^ 23")
  case True
  then have "f32_encode (f32_decode w) = w" by (intro f32_encode_decode [OF assms]) simp
  then show ?thesis using assms by simp
next
  case False
  then show ?thesis
    using f32_parts(4) [of 255 "w mod 2 ^ 23 + 2 ^ 22" "w div 2 ^ 31 mod 2 = 1"]
    by (simp add: f32_signalling f32_encode_def)
qed

lemma f32_decode_encode:
  assumes "w < 2 ^ 32" shows "f32_decode (f32_encode (f32_decode w)) = f32_decode w"
proof (cases "w div 2 ^ 23 mod 256 = 255 \<longrightarrow> w mod 2 ^ 23 = 0 \<or> 2 ^ 22 \<le> w mod 2 ^ 23")
  case True
  then have "f32_encode (f32_decode w) = w" by (intro f32_encode_decode [OF assms]) simp
  then show ?thesis by simp
next
  case False
  define s where "s \<longleftrightarrow> w div 2 ^ 31 mod 2 = 1"
  define fr where "fr = w mod 2 ^ 23"
  have fr: "fr \<noteq> 0" "fr < 2 ^ 22" and ex: "w div 2 ^ 23 mod 256 = 255" using False by (simp_all add: fr_def)
  have d: "f32_decode w = PyNaN s (fr + 2 ^ 22)"
    using fr ex by (simp add: f32_decode_def Let_def s_def fr_def)
  have "f32_encode (f32_decode w) = of_bool s * 2 ^ 31 + 255 * 2 ^ 23 + (fr + 2 ^ 22)"
    by (simp add: d f32_encode_def)
  moreover have "fr + 2 ^ 22 < 2 ^ 23" using fr by simp
  note parts = f32_parts [of 255, OF _ this, of s, simplified]
  ultimately show ?thesis
    unfolding d by (simp add: f32_decode_def Let_def parts)
qed

lemma unpack_fields_wire:
  assumes "set fs \<subseteq> {FB, Ff}" "fields_size fs \<le> length bs"
  shows "list_all2 wire_value fs (unpack_fields fs bs)"
  using assms
proof (induction fs arbitrary: bs)
  case (Cons f fs)
  have "le_nat (take n bs) < 256 ^ n" for n
    using le_nat_bound power_increasing by (rule less_le_trans) simp_all
  from this [of 1] this [of 4] have "wire_value f (decode_field f (take (field_size f) bs))"
    using Cons.prems(1) by auto
  then show ?case using Cons by simp
qed simp

lemma pack_fields_wire:
  assumes "set fs \<subseteq> {FB, Ff}" "list_all2 wire_value fs vs"
  shows "\<exists>bs. pack_fields fs vs = Inr bs \<and> length bs = fields_size fs \<and> unpack_fields fs bs = vs"
  using assms(2,1)
proof (induction rule: list_all2_induct)
  case (Cons f fs v vs)
  obtain bs where bs: "pack_fields fs vs = Inr bs" "length bs = fields_size fs" "unpack_fields fs bs = vs"
    using Cons by auto
  consider i where "f = FB" "v = PInt i" "0 \<le> i" "i < 256" | w where "f = Ff" "w < 2 ^ 32" "v = PFloat (f32_decode w)"
    using Cons.hyps(1) by (cases "(f, v)" rule: wire_value.cases) auto
  then show ?case
  proof cases
    case 1
    then have "le_nat (le_bytes 1 (nat i)) = nat i" by (intro le_nat_le_bytes) auto
    then show ?thesis using 1 bs by simp
  next
    case 2
    have "f32_encode (f32_decode w) < 256 ^ 4" using f32_encode_bound [OF 2(2)] by simp
    then have "le_nat (le_bytes 4 (f32_encode (f32_decode w))) = f32_encode (f32_decode w)" by (rule le_nat_le_bytes)
    then show ?thesis using 2 bs f32_decode_encode [OF 2(2)] by simp
  qed
qed simp

definition SETUP_FIELDS :: "field list" where
  "SETUP_FIELDS = replicate 4 FB @ replicate 4 Ff @ replicate 6 FB @ replicate 3 FB @ replicate 4 Ff @ [FB, Ff]"

lemma setup_fields_wire:
  assumes "list_all2 wire_value SETUP_FIELDS vs"
  shows "list_all2 wire_value SETUP_FIELDS (setup_fields (car_setup_of vs))"
proof -
  have "length vs = 23" using list_all2_lengthD [OF assms] by (simp add: SETUP_FIELDS_def)
  then obtain a1 a2 a3 a4 a5 a6 a7 a8 a9 a10 a11 a12 a13 a14 a15 a16 a17 a18 a19 a20 a21 a22 a23
    where vs: "vs = [a1,a2,a3,a4,a5,a6,a7,a8,a9,a10,a11,a12,a13,a14,a15,a16,a17,a18,a19,a20,a21,a22,a23]"
    by (auto simp: numeral_eq_Suc length_Suc_conv)
  have int: "wire_value FB v \<Longrightarrow> PInt (as_int v) = v" for v by (cases v) auto
  have float: "wire_value Ff v \<Longrightarrow> PFloat (as_float v) = v" for v by (cases v) auto
  show ?thesis
    using assms unfolding vs
    by (simp add: SETUP_FIELDS_def numeral_eq_Suc setup_fields_def car_setup_of_def int_at_def float_at_def int float
        del: wire_value.simps)
qed


lemma setup_format_fields:
  "parse_format CAR_SETUP_FORMAT = Inr SETUP_FIELDS" "parse_format SETUP_HASH_FORMAT = Inr SETUP_FIELDS"
  "fields_size SETUP_FIELDS = 50" "set SETUP_FIELDS \<subseteq> {FB, Ff}"
  using other_formats_parse(2) unfolding SETUP_HASH_FORMAT_def CAR_SETUP_FORMAT_def
  by (simp_all add: SETUP_FIELDS_def)

lemma setups_count:
  assumes "unpack_car_setup h data = Inr p"
  shows "length (sup_car_setups p) = MAX_CARS"
  using assms
  by (auto simp: unpack_car_setup_def Let_def and_then_Inr_iff struct_unpack_def MAX_CARS_def
      dest!: iter_unpack_length(1) [OF _ setup_format_fields(1)] split: if_splits)
     (simp add: setup_format_fields)

lemma unpacked_setup_at:
  assumes "unpack_car_setup h data = Inr p" "i < MAX_CARS"
  shows "sup_car_setups p ! i = car_setup_of (unpack_fields SETUP_FIELDS (take 50 (drop (i * 50) data)))"
    and "50 \<le> length (take 50 (drop (i * 50) data))"
proof -
  let ?bs = "take (CAR_SETUP_FORMAT_SIZE * MAX_CARS) data"
  obtain cars where cars: "iter_unpack CAR_SETUP_FORMAT ?bs = Inr cars" "sup_car_setups p = map car_setup_of cars"
    using assms(1) by (auto simp: unpack_car_setup_def Let_def and_then_Inr_iff)
  have i: "i < length cars" using setups_count [OF assms(1)] assms(2) cars(2) by simp
  have "cars = map (unpack_fields SETUP_FIELDS) (chunks (length ?bs div 50) 50 ?bs)" and m: "50 dvd length ?bs"
    using cars(1) unfolding iter_unpack_def setup_format_fields
    by (auto simp: setup_format_fields Let_def split: if_splits)
  moreover from this have l: "length ?bs div 50 * 50 = length ?bs" by (simp only: dvd_div_mult_self)
  ultimately have at: "cars ! i = unpack_fields SETUP_FIELDS (take 50 (drop (i * 50) ?bs))" and "i < length ?bs div 50"
    using i by (simp_all add: nth_chunks)
  with l have i50: "i * 50 + 50 \<le> length ?bs" by linarith
  then show "50 \<le> length (take 50 (drop (i * 50) data))" by simp linarith
  have "take 50 (drop (i * 50) ?bs) = take 50 (drop (i * 50) data)" using assms(2) by (simp add: drop_take min_def)
  then show "sup_car_setups p ! i = car_setup_of (unpack_fields SETUP_FIELDS (take 50 (drop (i * 50) data)))"
    using i cars(2) at by simp
qed

lemma unpacked_setup_wire:
  assumes "unpack_car_setup h data = Inr p" "i < MAX_CARS"
  shows "list_all2 wire_value SETUP_FIELDS (setup_fields (sup_car_setups p ! i))"
  unfolding unpacked_setup_at(1) [OF assms]
  using unpack_fields_wire [OF setup_format_fields(4)] unpacked_setup_at(2) [OF assms] setup_format_fields(3)
  by (simp add: setup_fields_wire)

lemma setup_packs:
  assumes "unpack_car_setup h data = Inr p" "i < MAX_CARS"
  shows "\<exists>bs. struct_pack SETUP_HASH_FORMAT (setup_fields (sup_car_setups p ! i)) = Inr bs \<and> length bs = 50
    \<and> struct_unpack SETUP_HASH_FORMAT bs = Inr (setup_fields (sup_car_setups p ! i))"
  using pack_fields_wire [OF setup_format_fields(4) unpacked_setup_wire [OF assms]]
  by (auto simp: struct_pack_def struct_unpack_def setup_format_fields)

subsection \<open>The cache of setups\<close>

text \<open>The writes one setup packet makes, given how its setups pack.\<close>

definition setup_writes ::
    "(byte list \<Rightarrow> byte list) \<Rightarrow> car_setup_packet \<Rightarrow> pystr \<Rightarrow> user_map \<Rightarrow> ((pystr \<times> int) \<times> cached_setup) list" where
  "setup_writes digest p uid m =
     map (\<lambda>(c, u). let vals = setup_fields (sup_car_setups p ! nat c) in
         ((uid, u), (case struct_pack SETUP_HASH_FORMAT vals of Inl _ \<Rightarrow> [] | Inr packed \<Rightarrow> digest packed), vals,
          if c = hdr_player_car_index (sup_header p) then Some (sup_next_front_wing_value p) else None))
       (filter (\<lambda>(c, u). c < int MAX_CARS \<and> is_real_setup (setup_fields (sup_car_setups p ! nat c))) m)"

lemma length_setup_writes: "length (setup_writes digest p uid m) \<le> length m"
  by (simp add: setup_writes_def)

lemma cache_setups_writes:
  assumes "unpack_car_setup h data = Inr p"
  shows "cache_setups digest p uid m s = (Inr (), fold bd_put (setup_writes digest p uid m) s)"
proof (induction m arbitrary: s)
  case (Cons cu m)
  obtain c u where cu: "cu = (c, u)" by (cases cu)
  show ?case
  proof (cases "c < int MAX_CARS")
    case True
    then have "nat c < MAX_CARS" by (simp add: MAX_CARS_def)
    with setup_packs [OF assms] obtain bs where
      "struct_pack SETUP_HASH_FORMAT (setup_fields (sup_car_setups p ! nat c)) = Inr bs" by blast
    then show ?thesis
      using True Cons by (simp add: cu setup_writes_def Let_def setups_count [OF assms])
  next
    case False
    then show ?thesis using Cons by (simp add: cu setup_writes_def setups_count [OF assms])
  qed
qed (simp add: setup_writes_def)

text \<open>
  C29. A parsed setup packet never raises in \<open>handle_car_setup_packet\<close>. For every
  tracked driver whose setup is not blank the cache afterwards holds the digest of 50 bytes that
  \<open>struct\<close> reads back to the setup's 23 values, those values themselves, and the next front wing
  value for the player's car only; the order of the hash is that of the database's columns, so two
  setups with the same bytes are the same setup.
\<close>

theorem setups_cached:
  assumes p: "unpack_car_setup h data = Inr p"
    and s: "bd_wf s" "length m < bd_max s"
    and m: "distinct (map snd m)" "(c, u) \<in> set m"
    and c: "0 \<le> c" "c < int MAX_CARS" "is_real_setup (setup_fields (sup_car_setups p ! nat c))"
  shows "\<exists>s' packed wing.
      handle_car_setup_packet digest p uid m s = (Inr (), s')
    \<and> bd_get s' (uid, u) = Some (digest packed, setup_fields (sup_car_setups p ! nat c), wing)
    \<and> (wing \<noteq> None \<longleftrightarrow> c = hdr_player_car_index h)
    \<and> length packed = 50
    \<and> struct_unpack SETUP_HASH_FORMAT packed = Inr (setup_fields (sup_car_setups p ! nat c))"
proof -
  have "nat c < MAX_CARS" using c by simp
  then obtain bs where bs: "struct_pack SETUP_HASH_FORMAT (setup_fields (sup_car_setups p ! nat c)) = Inr bs"
    "length bs = 50" "struct_unpack SETUP_HASH_FORMAT bs = Inr (setup_fields (sup_car_setups p ! nat c))"
    using setup_packs [OF p] by blast
  have hd: "sup_header p = h" using p by (auto simp: unpack_car_setup_def Let_def and_then_Inr_iff)
  obtain m1 m2 where split: "m = m1 @ (c, u) # m2" using m(2) by (meson split_list)
  define v where "v = (digest bs, setup_fields (sup_car_setups p ! nat c),
    if c = hdr_player_car_index h then Some (sup_next_front_wing_value p) else None)"
  have w: "setup_writes digest p uid m
      = setup_writes digest p uid m1 @ ((uid, u), v) # setup_writes digest p uid m2"
    using c by (simp add: split setup_writes_def Let_def bs v_def hd)
  let ?w2 = "setup_writes digest p uid m2"
  have keys: "fst ` set ?w2 \<subseteq> Pair uid ` snd ` set m2" by (force simp: setup_writes_def Let_def)
  then have "(uid, u) \<notin> fst ` set ?w2" using m(1) split by auto
  moreover have "card (fst ` set ?w2) \<le> length m2"
    using order_trans [OF card_length [of "map fst ?w2"], of "length m2"] by (simp add: length_setup_writes)
  moreover have "bd_wf (fold bd_put (setup_writes digest p uid m1) s)"
    "bd_max (fold bd_put (setup_writes digest p uid m1) s) = bd_max s"
    using s(1) by (simp_all add: bd.inv_fold bd.cap_fold)
  ultimately have "bd_get (fold bd_put (setup_writes digest p uid m) s) (uid, u) = Some v"
    unfolding w using s(2) split
      bd.get_fold_survives [of "fold bd_put (setup_writes digest p uid m1) s" ?w2 "(uid, u)" v] by simp
  then show ?thesis
    using bs by (auto simp: handle_car_setup_packet_def cache_setups_writes [OF p] v_def)
qed

text \<open>A packet of ones, for a driver in car 0: nothing in it is blank.\<close>

lemma setups_cached_witness:
  "\<forall>(h :: packet_header) digest. \<exists>p s' packed wing.
      unpack_car_setup h (replicate 1204 1) = Inr p
    \<and> handle_car_setup_packet digest p [55] [(0, 3)] new_car_setup_service = (Inr (), s')
    \<and> bd_get s' ([55], 3) = Some (digest packed, setup_fields (sup_car_setups p ! 0), wing)
    \<and> length packed = 50"
proof (intro allI)
  fix h :: packet_header and digest :: "byte list \<Rightarrow> byte list"
  obtain p where p: "unpack_car_setup h (replicate 1204 1) = Inr p"
    using unpack_car_setup_total [of "replicate 1204 1" h] by auto
  have "take 50 (drop (0 * 50) (replicate 1204 1)) = (1 # replicate 49 1 :: byte list)"
    by (simp add: take_replicate numeral_eq_Suc)
  then have "unpack_fields (FB # fs) (take 50 (drop (0 * 50) (replicate 1204 1)))
      = PInt 1 # unpack_fields fs (replicate 49 1)" for fs
    by (simp only: unpack_fields.simps) simp
  moreover have "\<exists>fs. SETUP_FIELDS = FB # fs" by (simp add: SETUP_FIELDS_def numeral_eq_Suc)
  ultimately have "\<exists>vs. unpack_fields SETUP_FIELDS (take 50 (drop (0 * 50) (replicate 1204 1))) = PInt 1 # vs"
    by metis
  then obtain vs where "sup_car_setups p ! 0 = car_setup_of (PInt 1 # vs)"
    using unpacked_setup_at(1) [OF p, of 0] by (simp only: MAX_CARS_def) force
  then have "is_real_setup (setup_fields (sup_car_setups p ! nat 0))"
    by (simp add: is_real_setup_def setup_fields_def car_setup_of_def int_at_def)
  moreover have "bd_wf (new_car_setup_service :: car_setup_service)" "1 < bd_max (new_car_setup_service :: car_setup_service)"
    by (simp_all add: new_car_setup_service_def) (simp add: bd_new_def)
  moreover note setups_cached [OF p, of new_car_setup_service "[(0, 3)]" 0 3 digest "[55]"]
  ultimately obtain s' packed wing where
    "handle_car_setup_packet digest p [55] [(0, 3)] new_car_setup_service = (Inr (), s')"
    "bd_get s' ([55], 3) = Some (digest packed, setup_fields (sup_car_setups p ! 0), wing)" "length packed = 50"
    by (auto simp: MAX_CARS_def)
  with p show "\<exists>p s' packed wing.
      unpack_car_setup h (replicate 1204 1) = Inr p
    \<and> handle_car_setup_packet digest p [55] [(0, 3)] new_car_setup_service = (Inr (), s')
    \<and> bd_get s' ([55], 3) = Some (digest packed, setup_fields (sup_car_setups p ! 0), wing)
    \<and> length packed = 50"
    by blast
qed


subsection \<open>Laps\<close>

definition lap_recorded :: "pyval list \<Rightarrow> world \<Rightarrow> bool" where
  "lap_recorded r w \<longleftrightarrow>
     recorded LAP_KEY (other_columns LAP_KEY LAP_COLUMNS) (zip LAP_COLUMNS r) (table w ''telemetry.laps'')"

lemma in_lap_batch:
  "r \<in> set (lap_batch uid u start p) \<longleftrightarrow>
    (\<exists>i. start \<le> i \<and> i < nat (sh_num_laps p) \<and> i < length (sh_lap_history_list p)
       \<and> lh_lap_time_in_ms (sh_lap_history_list p ! i) \<noteq> 0 \<and> r = lap_row uid u (Suc i) (sh_lap_history_list p ! i))"
proof -
  have "(n, l) \<in> set (enumerate (start + 1) (py_slice start (nat (sh_num_laps p)) (sh_lap_history_list p))) \<longleftrightarrow>
    (\<exists>i. start \<le> i \<and> i < nat (sh_num_laps p) \<and> i < length (sh_lap_history_list p)
       \<and> n = Suc i \<and> l = sh_lap_history_list p ! i)" for n l
    by (auto simp: in_set_enumerate_eq py_slice_def intro!: exI [of _ "n - 1"])
  then show ?thesis by (fastforce simp: lap_batch_def)
qed

lemma lap_row_shape [simp]: "length (lap_row uid u n l) = length LAP_COLUMNS"
  by (simp add: lap_row_def LAP_COLUMNS_def Let_def)

lemma lap_row_key: "row_key LAP_KEY (zip LAP_COLUMNS (lap_row uid u n l)) = [PStr uid, PInt u, PInt (int n)]"
  by (simp add: row_key_def LAP_KEY_def LAP_COLUMNS_def lap_row_def Let_def col_def)

lemma lap_batch_keys:
  "distinct (map (row_key LAP_KEY) (map (zip LAP_COLUMNS) (lap_batch uid u start p)))"
proof -
  have "distinct (map fst (filter P (enumerate k xs)))" for P k and xs :: "lap_history list"
    by (simp add: distinct_map_filter)
  moreover have "map (row_key LAP_KEY) (map (zip LAP_COLUMNS) (lap_batch uid u start p)) =
    map (\<lambda>n. [PStr uid, PInt u, PInt (int n)]) (map fst (filter (\<lambda>(n, l). lh_lap_time_in_ms l \<noteq> 0)
      (enumerate (start + 1) (py_slice start (nat (sh_num_laps p)) (sh_lap_history_list p)))))"
    by (auto simp: lap_batch_def lap_row_key)
  ultimately show ?thesis by (simp add: distinct_map inj_on_def)
qed

lemma table_laps:
  assumes "healthy w"
  shows "table (upsert_laps_batch (lap_batch uid u start p) w)
    = (table w)(''telemetry.laps'' := fold (insert_update LAP_KEY (other_columns LAP_KEY LAP_COLUMNS))
        (map (zip LAP_COLUMNS) (lap_batch uid u start p)) (table w ''telemetry.laps''))"
proof -
  have "\<forall>r \<in> set (lap_batch uid u start p). length r = length LAP_COLUMNS" by (auto simp: in_lap_batch)
  then show ?thesis
    by (cases "lap_batch uid u start p = []")
       (auto simp: upsert_laps_batch_def table_upserts [OF assms] other_unique_keys_def)
qed

lemma lap_key_of: "row_key LAP_KEY (zip LAP_COLUMNS (lap_row uid u n l)) \<in> row_key LAP_KEY ` zip LAP_COLUMNS ` set (lap_batch uid' u' start p)
    \<Longrightarrow> uid' = uid \<and> u' = u \<and> start < n"
  by (auto simp: in_lap_batch lap_row_key)

lemma upsert_records:
  assumes "healthy w" "r \<in> set (lap_batch uid u start p)"
  shows "lap_recorded r (upsert_laps_batch (lap_batch uid u start p) w)"
  using latest.shows_fold [OF lap_batch_keys, of "zip LAP_COLUMNS r" uid u start p LAP_COLUMNS] assms
  by (simp add: lap_recorded_def table_laps)

lemma upsert_keeps_recorded:
  assumes "healthy w" "lap_recorded (lap_row uid u n l) w" "uid' \<noteq> uid \<or> u' \<noteq> u \<or> n \<le> start"
  shows "lap_recorded (lap_row uid u n l) (upsert_laps_batch (lap_batch uid' u' start p) w)"
proof -
  have "row_key LAP_KEY (zip LAP_COLUMNS (lap_row uid u n l))
      \<notin> row_key LAP_KEY ` set (map (zip LAP_COLUMNS) (lap_batch uid' u' start p))"
    using assms(3) lap_key_of [of uid u n l uid' u' start p] by auto
  with latest.shows_fold_other assms(2) show ?thesis
    unfolding lap_recorded_def table_laps [OF assms(1)] fun_upd_same by blast
qed

lemma lap_recorded_other_table:
  "table w' ''telemetry.laps'' = table w ''telemetry.laps'' \<Longrightarrow> lap_recorded r w' = lap_recorded r w"
  by (simp add: lap_recorded_def)

text \<open>
  The packets of the game: a later history agrees with the one before on the laps before the one
  then being driven, whether the driver has gone on or a flashback has taken laps back.
\<close>

definition history_goes_on :: "session_history_packet \<Rightarrow> session_history_packet \<Rightarrow> bool" where
  "history_goes_on p q \<longleftrightarrow> (\<forall>i. Suc i < nat (sh_num_laps p) \<longrightarrow> Suc i < nat (sh_num_laps q) \<longrightarrow>
     i < length (sh_lap_history_list q) \<longrightarrow>
     i < length (sh_lap_history_list p) \<and> sh_lap_history_list q ! i = sh_lap_history_list p ! i)"

text \<open>What the tables hold of a history: its laps, but for the last when laps were just taken back.\<close>

definition laps_in_db :: "pystr \<Rightarrow> int \<Rightarrow> session_history_packet \<Rightarrow> bool \<Rightarrow> world \<Rightarrow> bool" where
  "laps_in_db uid u p whole w \<longleftrightarrow>
     (\<forall>i. i < length (sh_lap_history_list p) \<longrightarrow> lh_lap_time_in_ms (sh_lap_history_list p ! i) \<noteq> 0 \<longrightarrow>
        (if whole then i < nat (sh_num_laps p) else Suc i < nat (sh_num_laps p)) \<longrightarrow>
        lap_recorded (lap_row uid u (Suc i) (sh_lap_history_list p ! i)) w)"

lemma upsert_laps_own:
  assumes w: "healthy w" and s: "bd_wf (lhs_last_num_laps s)"
    and get: "bd_get (lhs_last_num_laps s) (uid, u) = None \<or>
      (\<exists>p whole. bd_get (lhs_last_num_laps s) (uid, u) = Some (sh_num_laps p) \<and> history_goes_on p q
         \<and> laps_in_db uid u p whole w \<and> (whole' \<longrightarrow> sh_num_laps p \<le> sh_num_laps q))"
  shows "laps_in_db uid u q whole' (snd (upsert_laps uid u q s w))"
  unfolding laps_in_db_def
proof (intro allI impI)
  fix i
  let ?start = "nat (max 0 ((case bd_get (lhs_last_num_laps s) (uid, u) of Some n \<Rightarrow> n | None \<Rightarrow> 0) - 1))"
  assume i: "i < length (sh_lap_history_list q)" "lh_lap_time_in_ms (sh_lap_history_list q ! i) \<noteq> 0"
    "if whole' then i < nat (sh_num_laps q) else Suc i < nat (sh_num_laps q)"
  let ?r = "lap_row uid u (Suc i) (sh_lap_history_list q ! i)"
  have after: "snd (upsert_laps uid u q s w) = upsert_laps_batch (lap_batch uid u ?start q) w"
    by (simp add: upsert_laps_def Let_def upsert_laps_batch_def)
  show "lap_recorded ?r (snd (upsert_laps uid u q s w))"
  proof (cases "?start \<le> i")
    case True
    then have "?r \<in> set (lap_batch uid u ?start q)"
      using i by (auto simp: in_lap_batch split: if_splits intro!: exI [of _ i])
    then show ?thesis unfolding after by (rule upsert_records [OF w])
  next
    case False
    then obtain p whole where p: "bd_get (lhs_last_num_laps s) (uid, u) = Some (sh_num_laps p)"
      "history_goes_on p q" "laps_in_db uid u p whole w" "whole' \<longrightarrow> sh_num_laps p \<le> sh_num_laps q"
      using get by auto
    with False have "Suc i < nat (sh_num_laps p)" by simp
    moreover from this have "Suc i < nat (sh_num_laps q)" using p(4) i(3) by (auto split: if_splits)
    ultimately have "lap_recorded ?r w"
      using p(2,3) i unfolding history_goes_on_def laps_in_db_def by (metis Suc_lessD)
    then show ?thesis unfolding after using False by (intro upsert_keeps_recorded [OF w]) auto
  qed
qed


text \<open>Two more steps of the service: another driver's laps, and the bests.\<close>

lemma upsert_laps_service [simp]:
  "fst (upsert_laps uid u p s w) = s\<lparr>lhs_last_num_laps := bd_set (lhs_last_num_laps s) (uid, u) (sh_num_laps p)\<rparr>"
  by (simp add: upsert_laps_def Let_def)

lemma upsert_laps_other:
  assumes "healthy w" "(uid', u') \<noteq> (uid, u)" "laps_in_db uid u p whole w"
  shows "laps_in_db uid u p whole (snd (upsert_laps uid' u' q s w))"
  using assms upsert_keeps_recorded [OF assms(1), of uid u _ _ uid' u']
  unfolding laps_in_db_def upsert_laps_def
  by (auto simp: Let_def upsert_laps_batch_def [of "[]"] split: if_splits)

lemma bests_keep_laps:
  "laps_in_db uid u p whole (snd (upsert_session_bests uid' u' q s w)) = laps_in_db uid u p whole w"
  by (simp add: laps_in_db_def upsert_session_bests_def Let_def session_bests_upsert_def insert_row_def
      lap_recorded_other_table [OF table_insert_other])

lemma bests_keep_counters [simp]:
  "lhs_last_num_laps (fst (upsert_session_bests uid' u' q s w)) = lhs_last_num_laps s"
  by (simp add: upsert_session_bests_def Let_def)

lemma healthy_history_step [simp]:
  "healthy (snd (upsert_laps uid u q s w)) = healthy w"
  "healthy (snd (upsert_session_bests uid u q s w)) = healthy w"
  by (simp_all add: upsert_laps_def upsert_session_bests_def upsert_laps_batch_def session_bests_upsert_def
      insert_row_def insert_rows_def Let_def)

definition of_driver :: "pystr \<Rightarrow> int \<Rightarrow> session_history_packet \<times> user_map \<Rightarrow> bool" where
  "of_driver uid u pm \<longleftrightarrow>
     session_key (sh_header (fst pm)) = uid \<and> map_of (snd pm) (sh_car_index (fst pm)) = Some u"

definition history_run ::
    "(session_history_packet \<times> user_map) list \<Rightarrow> lap_history_service \<times> world \<Rightarrow> lap_history_service \<times> world" where
  "history_run pms st = fold (\<lambda>(p, m) (s, w). handle_session_history_packet p m s w) pms st"

text \<open>The packets of the driver seen so far; what the service and the tables then hold.\<close>

definition laps_state :: "pystr \<Rightarrow> int \<Rightarrow> session_history_packet list \<Rightarrow> lap_history_service \<Rightarrow> world \<Rightarrow> bool" where
  "laps_state uid u qs s w \<longleftrightarrow> healthy w \<and> bd_wf (lhs_last_num_laps s)
     \<and> (bd_get (lhs_last_num_laps s) (uid, u) = None
        \<or> qs \<noteq> [] \<and> bd_get (lhs_last_num_laps s) (uid, u) = Some (sh_num_laps (last qs)))
     \<and> (qs \<noteq> [] \<longrightarrow>
        laps_in_db uid u (last qs) (butlast qs = [] \<or> sh_num_laps (last (butlast qs)) \<le> sh_num_laps (last qs)) w)"

lemma laps_state_own:
  assumes "laps_state uid u qs s w" "of_driver uid u (q, m)" "qs \<noteq> [] \<longrightarrow> history_goes_on (last qs) q"
  shows "case handle_session_history_packet q m s w of (s', w') \<Rightarrow> laps_state uid u (qs @ [q]) s' w'"
proof -
  let ?whole = "qs = [] \<or> sh_num_laps (last qs) \<le> sh_num_laps q"
  have "laps_in_db uid u q ?whole (snd (upsert_laps uid u q s w))"
    using assms by (intro upsert_laps_own) (auto simp: laps_state_def)
  then show ?thesis
    using assms(1,2)
    by (auto simp: laps_state_def handle_session_history_packet_def of_driver_def Let_def bests_keep_laps
        case_prod_beta)
qed

lemma laps_state_other:
  assumes "laps_state uid u qs s w" "\<not> of_driver uid u (q, m)"
  shows "case handle_session_history_packet q m s w of (s', w') \<Rightarrow> laps_state uid u qs s' w'"
proof (cases "map_of m (sh_car_index q)")
  case None
  then show ?thesis using assms(1) by (simp add: laps_state_def handle_session_history_packet_def Let_def)
next
  case (Some u')
  let ?k' = "(session_key (sh_header q), u')"
  have ne: "?k' \<noteq> (uid, u)" using assms(2) Some by (auto simp: of_driver_def)
  have wf: "bd_wf (lhs_last_num_laps s)" "healthy w" using assms(1) by (simp_all add: laps_state_def)
  show ?thesis
    using assms(1) Some ne upsert_laps_other [OF wf(2) ne]
      bd_get_set_cases [OF wf(1), of ?k' "sh_num_laps q" "(uid, u)"]
    by (auto simp: laps_state_def handle_session_history_packet_def Let_def bests_keep_laps case_prod_beta)
qed


lemma laps_state_run:
  assumes "healthy w" "successively history_goes_on (map fst (filter (of_driver uid u) pms))"
    "history_run pms (new_lap_history_service, w) = (s', w')"
  shows "laps_state uid u (map fst (filter (of_driver uid u) pms)) s' w'"
  using assms(2,3)
proof (induction pms arbitrary: s' w' rule: rev_induct)
  case Nil
  then show ?case using assms(1) by (auto simp: laps_state_def history_run_def new_lap_history_service_def)
next
  case (snoc pm pms)
  obtain q m where pm: "pm = (q, m)" by (cases pm)
  obtain s1 w1 where run: "history_run pms (new_lap_history_service, w) = (s1, w1)" by fastforce
  then have last: "handle_session_history_packet q m s1 w1 = (s', w')"
    using snoc.prems(2) by (simp add: history_run_def pm)
  have before: "laps_state uid u (map fst (filter (of_driver uid u) pms)) s1 w1"
    using snoc.IH [OF _ run] snoc.prems(1) by (auto simp: successively_append_iff)
  show ?case
  proof (cases "of_driver uid u pm")
    case True
    then show ?thesis
      using laps_state_own [OF before, of q m] snoc.prems(1) last by (auto simp: pm successively_append_iff)
  next
    case False
    then show ?thesis using laps_state_other [OF before, of q m] last by (simp add: pm)
  qed
qed



text \<open>A driver finishes the first lap while the second is being driven.\<close>

definition example_laps :: "packet_header \<Rightarrow> int list \<Rightarrow> session_history_packet" where
  "example_laps h ms =
     \<lparr>sh_header = h, sh_car_index = 0, sh_num_laps = int (length ms), sh_num_tyre_stints = 0,
      sh_best_lap_time_lap_num = 0, sh_best_sector_1_lap_num = 0, sh_best_sector_2_lap_num = 0,
      sh_best_sector_3_lap_num = 0,
      sh_lap_history_list = map (\<lambda>t. \<lparr>lh_lap_time_in_ms = t, lh_sector_1_time_ms_part = 0,
        lh_sector_1_time_minutes_part = 0, lh_sector_2_time_ms_part = 0, lh_sector_2_time_minutes_part = 0,
        lh_sector_3_time_ms_part = 0, lh_sector_3_time_minutes_part = 0, lh_lap_valid_bit_flags = 15\<rparr>) ms,
      sh_tyre_stints_list = []\<rparr>"



text \<open>
  The counter of laps advances whether or not the batch was written: whatever became of the laps of one
  history packet, the next packet of the driver sends only laps from the one then being driven on.
\<close>

theorem refused_laps_not_sent_again:
  assumes "bd_wf (lhs_last_num_laps s)" "handle_session_history_packet p m s w = (s1, w1)"
    and "map_of m (sh_car_index p) = Some u"
  shows "\<exists>batch. snd (upsert_laps (session_key (sh_header p)) u q s1 w2)
        = (if batch = [] then w2 else upsert_laps_batch batch w2)
      \<and> (\<forall>r \<in> set batch. \<exists>n. r ! 2 = PInt n \<and> sh_num_laps p \<le> n)"
proof -
  let ?uid = "session_key (sh_header p)"
  have "bd_get (lhs_last_num_laps s1) (?uid, u) = Some (sh_num_laps p)"
    using assms bests_keep_counters [of ?uid u p "fst (upsert_laps ?uid u p s w)" "snd (upsert_laps ?uid u p s w)"]
    by (auto simp: handle_session_history_packet_def Let_def split_beta split: prod.splits)
  then have "snd (upsert_laps ?uid u q s1 w2) = (let batch = lap_batch ?uid u (nat (max 0 (sh_num_laps p - 1))) q
      in if batch = [] then w2 else upsert_laps_batch batch w2)"
    by (simp add: upsert_laps_def Let_def)
  moreover have "\<exists>n. r ! 2 = PInt n \<and> sh_num_laps p \<le> n"
    if "r \<in> set (lap_batch ?uid u (nat (max 0 (sh_num_laps p - 1))) q)" for r
    using that by (auto simp: in_lap_batch lap_row_def Let_def)
  ultimately show ?thesis by (auto simp: Let_def)
qed


subsection \<open>Lap positions\<close>

lemma trim_zeros_pad: "trim_zeros xs @ replicate (length xs - length (trim_zeros xs)) 0 = xs"
proof -
  have "\<forall>x \<in> set (takeWhile (\<lambda>x. x = 0) (rev xs)). x = (0 :: int)" by (auto dest: set_takeWhileD)
  then have zeros: "takeWhile (\<lambda>x. x = 0) (rev xs) = replicate (length (takeWhile (\<lambda>x. x = 0) (rev xs))) 0"
    by (simp add: replicate_length_same)
  have "xs = rev (dropWhile (\<lambda>x. x = 0) (rev xs)) @ rev (takeWhile (\<lambda>x. x = 0) (rev xs))"
    by (simp flip: rev_append)
  moreover have "length (takeWhile (\<lambda>x. x = 0) (rev xs)) = length xs - length (trim_zeros xs)"
    using arg_cong [OF takeWhile_dropWhile_id [of "\<lambda>x. x = 0" "rev xs"], of length]
    unfolding trim_zeros_def length_rev length_append by linarith
  ultimately show ?thesis using zeros unfolding trim_zeros_def by (metis rev_replicate)
qed

lemma trim_zeros_nth: "k < length xs \<Longrightarrow> (trim_zeros xs @ replicate (length xs) 0) ! k = xs ! k"
proof -
  assume "k < length xs"
  then show ?thesis
    using trim_zeros_pad [of xs] by (metis (no_types, lifting) length_append length_replicate nth_append nth_replicate
        diff_less_mono2 less_diff_conv2 add.commute le_add_diff_inverse leI less_imp_diff_less nat_add_left_cancel_less)
qed

lemma trim_zeros_last: "trim_zeros xs = [] \<or> last (trim_zeros xs) \<noteq> 0"
  using hd_dropWhile [of "\<lambda>x. x = 0" "rev xs"] by (auto simp: trim_zeros_def last_rev)

text \<open>The position of a car that counts: one of a mapped car.\<close>

definition placed :: "int list \<Rightarrow> user_map \<Rightarrow> nat \<Rightarrow> int \<Rightarrow> int \<Rightarrow> bool" where
  "placed row m c p u \<longleftrightarrow> row ! c = p \<and> p \<noteq> 0 \<and> map_of m (int c) = Some u"

lemma place_cars_returns:
  assumes "\<forall>x \<in> set row. 0 \<le> x" "\<forall>c \<in> set cs. c < length row"
  shows "returns (place_cars row m cs acc) \<longleftrightarrow>
    (\<forall>c \<in> set cs. map_of m (int c) \<noteq> None \<longrightarrow> row ! c \<le> int (length acc))"
  using assms(2)
proof (induction cs arbitrary: acc)
  case (Cons c cs)
  have "0 \<le> row ! c" using assms(1) Cons.prems by simp
  then show ?case
    using Cons by (auto simp: py_store_def split: option.split)
qed simp

lemma place_cars_at:
  assumes "\<forall>x \<in> set row. 0 \<le> x" "\<forall>c \<in> set cs. c < length row" "place_cars row m cs acc = Inr a"
  shows "length a = length acc"
    and "\<forall>k < length acc. if \<exists>c \<in> set cs. \<exists>u. placed row m c (int k + 1) u
      then \<exists>c \<in> set cs. placed row m c (int k + 1) (a ! k) else a ! k = acc ! k"
proof -
  have "length a = length acc \<and> (\<forall>k < length acc. if \<exists>c \<in> set cs. \<exists>u. placed row m c (int k + 1) u
      then \<exists>c \<in> set cs. placed row m c (int k + 1) (a ! k) else a ! k = acc ! k)"
    using assms(2,3)
  proof (induction cs arbitrary: acc)
    case (Cons c cs)
    have c: "0 \<le> row ! c" "c < length row" using assms(1) Cons.prems by simp_all
    consider "row ! c = 0 \<or> map_of m (int c) = None" | u where "row ! c \<noteq> 0" "map_of m (int c) = Some u" by blast
    then show ?case
    proof cases
      case 1
      then have "place_cars row m cs acc = Inr a" using Cons.prems c by (auto split: if_splits option.splits)
      moreover have "Ex (placed row m c (int k + 1)) \<longleftrightarrow> False" "placed row m c (int k + 1) u \<longleftrightarrow> False" for k u
        using 1 by (auto simp: placed_def)
      ultimately show ?thesis using Cons.IH [of acc] Cons.prems(1) by auto
    next
      case 2
      let ?k = "nat (row ! c - 1)"
      have st: "?k < length acc" "place_cars row m cs (acc[?k := u]) = Inr a"
        using 2 Cons.prems c by (auto simp: py_store_def and_then_Inr_iff split: if_splits)
      have pl: "placed row m c (int k + 1) u' \<longleftrightarrow> k = ?k \<and> u' = u" for k u'
        using 2 c by (auto simp: placed_def)
      have IH: "length a = length acc"
        "\<forall>k < length acc. if \<exists>c \<in> set cs. \<exists>u. placed row m c (int k + 1) u
          then \<exists>c \<in> set cs. placed row m c (int k + 1) (a ! k) else a ! k = acc[?k := u] ! k"
        using Cons.IH [OF _ st(2)] Cons.prems by simp_all
      show ?thesis using IH pl by (auto simp: nth_list_update split: if_splits)
    qed
  qed simp
  then show "length a = length acc" "\<forall>k < length acc. if \<exists>c \<in> set cs. \<exists>u. placed row m c (int k + 1) u
      then \<exists>c \<in> set cs. placed row m c (int k + 1) (a ! k) else a ! k = acc ! k" by blast+
qed

lemma byte_range [simp]: "uint (b :: byte) < 256"
  using uint_lt2p [of b] by simp

lemma positions_shape:
  assumes "unpack_lap_positions h data = Inr p" "i < MAX_LAPS"
  shows "length (lpp_positions p ! i) = MAX_CARS" "\<forall>x \<in> set (lpp_positions p ! i). 0 \<le> x \<and> x < 256"
  using assms by (auto simp: unpack_lap_positions_def MAX_LAPS_def MAX_CARS_def Let_def and_then_Inr_iff
      length_py_slice split: if_splits)

text \<open>
  C30. The game reports a position for each car; the row written for a
  lap of a parsed packet lists the driver at each position. Building it raises exactly when a tracked
  car reports a position above 24. Otherwise, when no two tracked cars share a position, the driver
  \<open>u\<close> stands at position \<open>k + 1\<close> of the row exactly when the car of \<open>u\<close> reported that position, and
  the row ends with a driver.
\<close>

theorem lap_positions_inverted:
  assumes "unpack_lap_positions h data = Inr p" "i < MAX_LAPS"
    and "row = lpp_positions p ! i"
  shows "(returns (lap_positions_row row m) \<longleftrightarrow>
      (\<forall>c < MAX_CARS. map_of m (int c) \<noteq> None \<longrightarrow> row ! c \<le> int MAX_CARS))
    \<and> (\<forall>a. lap_positions_row row m = Inr a \<longrightarrow>
        inj_on (\<lambda>c. row ! c) {c. c < MAX_CARS \<and> map_of m (int c) \<noteq> None \<and> row ! c \<noteq> 0} \<longrightarrow>
        (a = [] \<or> last a \<noteq> 0)
        \<and> (\<forall>k < MAX_CARS. \<forall>u. u \<noteq> 0 \<longrightarrow>
            ((a @ replicate MAX_CARS 0) ! k = u \<longleftrightarrow>
             (\<exists>c < MAX_CARS. row ! c = int k + 1 \<and> map_of m (int c) = Some u))))"
proof (intro conjI allI impI)
  note shape = positions_shape [OF assms(1,2), folded assms(3)]
  have row: "\<forall>x \<in> set row. 0 \<le> x" "\<forall>c \<in> set [0..<MAX_CARS]. c < length row" using shape by simp_all
  show "returns (lap_positions_row row m) \<longleftrightarrow>
      (\<forall>c < MAX_CARS. map_of m (int c) \<noteq> None \<longrightarrow> row ! c \<le> int MAX_CARS)"
    using place_cars_returns [OF row, of m "replicate MAX_CARS 0"]
    by (simp add: lap_positions_row_def returns_and_then) (auto simp: returns_iff)
  fix a
  assume "lap_positions_row row m = Inr a"
  then obtain b where b: "place_cars row m [0..<MAX_CARS] (replicate MAX_CARS 0) = Inr b" "a = trim_zeros b"
    by (auto simp: lap_positions_row_def and_then_Inr_iff)
  note at = place_cars_at [OF row b(1)]
  show "a = [] \<or> last a \<noteq> 0" using trim_zeros_last [of b] b(2) by simp
  fix k u
  assume inj: "inj_on (\<lambda>c. row ! c) {c. c < MAX_CARS \<and> map_of m (int c) \<noteq> None \<and> row ! c \<noteq> 0}"
    and k: "k < MAX_CARS" and u: "u \<noteq> (0 :: int)"
  have "(a @ replicate MAX_CARS 0) ! k = b ! k" using trim_zeros_nth [of k b] at(1) k b(2) by simp
  moreover have "b ! k = u \<longleftrightarrow> (\<exists>c < MAX_CARS. placed row m c (int k + 1) u)"
  proof (cases "\<exists>c < MAX_CARS. \<exists>u. placed row m c (int k + 1) u")
    case True
    then have "\<exists>c \<in> set [0..<MAX_CARS]. \<exists>u. placed row m c (int k + 1) u" by auto
    with at(2) k have "\<exists>c \<in> set [0..<MAX_CARS]. placed row m c (int k + 1) (b ! k)" by (metis length_replicate)
    then obtain c where c: "c < MAX_CARS" "placed row m c (int k + 1) (b ! k)" by auto
    have "u = b ! k" if "c' < MAX_CARS" "placed row m c' (int k + 1) u" for c'
      using inj_onD [OF inj, of c' c] c that by (auto simp: placed_def)
    then show ?thesis using c by blast
  next
    case False
    then show ?thesis using at(2) k u by auto
  qed
  ultimately show "(a @ replicate MAX_CARS 0) ! k = u \<longleftrightarrow>
             (\<exists>c < MAX_CARS. row ! c = int k + 1 \<and> map_of m (int c) = Some u)"
    by (auto simp: placed_def)
qed


text \<open>One lap, a tracked driver in car 0 at position 2.\<close>

lemma lap_positions_inverted_witness:
  "\<forall>h. \<exists>p. unpack_lap_positions h (1 # 0 # 2 # replicate 1199 0) = Inr p
    \<and> returns (lap_positions_row (lpp_positions p ! 0) [(0, 7)])"
proof
  fix h
  have "struct_unpack ''<BB'' [1, 0] = Inr [PInt 1, PInt 0]" by (simp add: struct_unpack_def)
  then obtain p where p: "unpack_lap_positions h (1 # 0 # 2 # replicate 1199 0) = Inr p"
    "lpp_positions p ! 0 = map (\<lambda>b. int (unat b)) (2 # replicate 23 (0 :: byte))"
    by (auto simp: unpack_lap_positions_def Let_def MAX_LAPS_def MAX_CARS_def py_slice_def take_Cons' drop_Cons')
  have "\<forall>c < MAX_CARS. map_of [(0, 7 :: int)] (int c) \<noteq> None \<longrightarrow> lpp_positions p ! 0 ! c \<le> int MAX_CARS"
    by (auto simp: p(2) MAX_CARS_def)
  then show "\<exists>p. unpack_lap_positions h (1 # 0 # 2 # replicate 1199 0) = Inr p
    \<and> returns (lap_positions_row (lpp_positions p ! 0) [(0, 7)])"
    using p(1) lap_positions_inverted [OF p(1), of 0 _ "[(0, 7)]"] by (auto simp: MAX_LAPS_def)
qed

end
