(* ===== verification/Classification_Facts.thy ===== *)
theory Classification_Facts
  imports Classification_Service Upserts
begin

text \<open>
  What \<open>services/final_classification.py\<close> achieves: a result is recorded once, and a refused one is
  recorded by the replay of its dead letter. A result is shown by the database when the table of
  its kind has the driver's key, with the values of the classification.
\<close>


definition result_columns :: "bool \<Rightarrow> string list" where
  "result_columns is_race = (if is_race then RACE_CLASSIFICATION_COLUMNS else QUALIFYING_CLASSIFICATION_COLUMNS)"

definition result_table :: "bool \<Rightarrow> string" where
  "result_table is_race = (if is_race then ''telemetry.race_classification'' else ''telemetry.qualifying_classification'')"

abbreviation RESULT_KEY :: "string list" where
  "RESULT_KEY \<equiv> [''session_uid'', ''user_id'']"

lemma classification_params_return:
  "list_all (\<lambda>k. returns (classification_param (classification_of uid is_race u fc) k)) (result_columns is_race)"
proof (cases is_race)
  case True
  then show ?thesis
    by (simp add: result_columns_def RACE_CLASSIFICATION_COLUMNS_def classification_param_def
        classification_of_def dict_get_def Let_def)
next
  case False
  then show ?thesis
    by (simp add: result_columns_def QUALIFYING_CLASSIFICATION_COLUMNS_def classification_param_def
        classification_of_def dict_get_def)
qed

definition result_values :: "bool \<Rightarrow> (string \<times> pyval) list \<Rightarrow> pyval list" where
  "result_values is_race c =
     map (\<lambda>k. case classification_param c k of Inr v \<Rightarrow> v | Inl _ \<Rightarrow> PNone) (result_columns is_race)"

text \<open>The database shows a driver's result.\<close>

definition result_in_db :: "bool \<Rightarrow> (string \<times> pyval) list \<Rightarrow> world \<Rightarrow> bool" where
  "result_in_db is_race c w \<longleftrightarrow>
     recorded RESULT_KEY (other_columns RESULT_KEY (result_columns is_race))
       (zip (result_columns is_race) (result_values is_race c)) (table w (result_table is_race))"

lemma classification_params_values:
  "map_py (classification_param (classification_of uid is_race u fc)) (result_columns is_race)
    = Inr (result_values is_race (classification_of uid is_race u fc))"
  unfolding result_values_def
  by (rule map_py_cong_Inr) (use classification_params_return [of uid is_race u fc] in \<open>auto simp: list_all_iff returns_iff\<close>)

lemma in_classifications:
  "c \<in> set (classifications_of uid is_race m p) \<longleftrightarrow>
    (\<exists>i u. i < length (fcp_final_classifications p) \<and> fc_result_status (fcp_final_classifications p ! i) \<noteq> 0
       \<and> map_of m (int i) = Some u \<and> c = classification_of uid is_race u (fcp_final_classifications p ! i))"
proof -
  let ?f = "\<lambda>(i, fc). if fc_result_status fc = 0 then None
          else map_option (\<lambda>u. classification_of uid is_race u fc) (map_of m (int i))"
  have "c \<in> set (classifications_of uid is_race m p) \<longleftrightarrow>
      (\<exists>x \<in> set (enumerate 0 (fcp_final_classifications p)). ?f x = Some c)"
    unfolding classifications_of_def List.map_filter_def by force
  also have "\<dots> \<longleftrightarrow> (\<exists>i. i < length (fcp_final_classifications p) \<and> ?f (i, fcp_final_classifications p ! i) = Some c)"
    unfolding Bex_def split_paired_Ex by (simp only: in_set_enumerate_eq fst_conv snd_conv) auto
  finally have "c \<in> set (classifications_of uid is_race m p) \<longleftrightarrow>
      (\<exists>i. i < length (fcp_final_classifications p) \<and> ?f (i, fcp_final_classifications p ! i) = Some c)" .
  moreover have "?f (i, fc) = Some c \<longleftrightarrow> fc_result_status fc \<noteq> 0
      \<and> (\<exists>u. map_of m (int i) = Some u \<and> c = classification_of uid is_race u fc)" for i fc
    by auto
  ultimately show ?thesis by (simp only:) blast
qed

lemma result_key:
  "row_key RESULT_KEY (zip (result_columns is_race) (result_values is_race (classification_of uid is_race u fc)))
    = [PStr uid, PInt u]"
  by (simp add: row_key_def result_values_def result_columns_def RACE_CLASSIFICATION_COLUMNS_def
      QUALIFYING_CLASSIFICATION_COLUMNS_def classification_param_def classification_of_def dict_get_def
      col_def)


lemma distinct_map_filter_keys:
  assumes "distinct (map fst ps)"
    and "\<And>x y c d. f x = Some c \<Longrightarrow> f y = Some d \<Longrightarrow> k c = k d \<Longrightarrow> fst x = fst y"
  shows "distinct (map k (List.map_filter f ps))"
  using assms(1)
proof (induction ps)
  case (Cons x ps)
  have "k c \<noteq> k d" if "f x = Some c" "f y = Some d" "y \<in> set ps" for c d y
    using assms(2) [OF that(1,2)] that(3) Cons.prems by auto
  then show ?case using Cons by (force simp: List.map_filter_def)
qed (simp add: List.map_filter_def)

lemma result_keys_distinct:
  assumes "distinct (map snd m)"
  shows "distinct (map (\<lambda>c. row_key RESULT_KEY (zip (result_columns is_race) (result_values is_race c)))
    (classifications_of uid is_race m p))"
  unfolding classifications_of_def
proof (rule distinct_map_filter_keys)
  have inj: "i = j" if "map_of m i = Some u" "map_of m j = Some u" for i j u
    using that assms map_of_SomeD [of m i u] map_of_SomeD [of m j u]
    by (metis distinct_map fst_conv inj_onD snd_conv)
  show "fst x = fst y"
    if eq: "(case x of (i, fc) \<Rightarrow> if fc_result_status fc = 0 then None
          else map_option (\<lambda>u. classification_of uid is_race u fc) (map_of m (int i))) = Some c"
      "(case y of (i, fc) \<Rightarrow> if fc_result_status fc = 0 then None
          else map_option (\<lambda>u. classification_of uid is_race u fc) (map_of m (int i))) = Some d"
      "row_key RESULT_KEY (zip (result_columns is_race) (result_values is_race c))
        = row_key RESULT_KEY (zip (result_columns is_race) (result_values is_race d))" for x y c d
  proof -
    obtain u where u: "map_of m (int (fst x)) = Some u" "c = classification_of uid is_race u (snd x)"
      using eq(1) by (cases x) (auto split: if_splits)
    obtain v where v: "map_of m (int (fst y)) = Some v" "d = classification_of uid is_race v (snd y)"
      using eq(2) by (cases y) (auto split: if_splits)
    have "u = v" using eq(3) unfolding u(2) v(2) result_key by simp
    then show ?thesis using inj u(1) v(1) by (metis of_nat_eq_iff)
  qed
qed simp

lemma write_classifications_healthy:
  assumes "healthy w" "distinct (map snd m)"
  shows "\<exists>w'. write_classifications is_race (classifications_of uid is_race m p) w = (Inr (), w')
    \<and> (\<forall>c \<in> set (classifications_of uid is_race m p). result_in_db is_race c w')
    \<and> (\<forall>t. t \<noteq> result_table is_race \<longrightarrow> table w' t = table w t)
    \<and> w_files w' = w_files w \<and> w_io_fault w' = w_io_fault w"
proof (cases "classifications_of uid is_race m p = []")
  case True
  then show ?thesis
    by (simp add: write_classifications_def insert_race_classification_batch_def
        insert_qualifying_classification_batch_def insert_classification_batch_def)
next
  case False
  let ?cs = "classifications_of uid is_race m p" and ?cols = "result_columns is_race" and ?t = "result_table is_race"
  let ?oc = "other_columns RESULT_KEY ?cols" and ?rows = "map (result_values is_race) ?cs"
  have rows: "map_py (\<lambda>c. map_py (classification_param c) ?cols) ?cs = Inr ?rows"
    by (rule map_py_cong_Inr) (auto simp: in_classifications classification_params_values)
  have "\<forall>r \<in> set ?rows. length r = length ?cols" by (simp add: result_values_def)
  moreover have "other_unique_keys ?t = []" by (simp add: result_table_def other_unique_keys_def)
  ultimately obtain n where n: "sql_many (map (sql_insert ?t ?cols (DoUpdate RESULT_KEY ?oc)) ?rows) (w_db w)
    = Inr (n, w_db w\<lparr>db_tables := (table w)(?t := fold (insert_update RESULT_KEY ?oc) (map (zip ?cols) ?rows) (table w ?t))\<rparr>)"
    using sql_many_update by blast
  define w' where "w' = w\<lparr>w_txn := w_txn w + 1, w_db := w_db w\<lparr>db_tables := (table w)(?t :=
      fold (insert_update RESULT_KEY ?oc) (map (zip ?cols) ?rows) (table w ?t))\<rparr>\<rparr>"
  have "write_classifications is_race ?cs w = insert_classification_batch ?t ?cols ?cs w"
    by (simp add: write_classifications_def insert_race_classification_batch_def
        insert_qualifying_classification_batch_def result_table_def result_columns_def)
  then have "write_classifications is_race ?cs w = (Inr (), w')"
    using False rows n assms(1)
    by (simp add: insert_classification_batch_def execute_many_strict_def run_txn_def healthy_def Let_def w'_def)
  moreover have "result_in_db is_race c w'" if "c \<in> set ?cs" for c
    using latest.shows_fold [of RESULT_KEY "map (zip ?cols) ?rows" "zip ?cols (result_values is_race c)" ?cols "table w ?t"]
      result_keys_distinct [OF assms(2), of is_race uid p] that
    unfolding map_map by (simp add: result_in_db_def w'_def o_def)
  ultimately show ?thesis by (intro exI [of _ w']) (simp add: w'_def)
qed

lemma write_classifications_fails:
  assumes "write_classifications is_race cs w = (Inl e, w')"
  shows "table w' = table w \<and> w_files w' = w_files w \<and> w_io_fault w' = w_io_fault w"
  using assms
  by (auto simp: write_classifications_def insert_race_classification_batch_def execute_many_strict_def run_txn_def
      insert_qualifying_classification_batch_def insert_classification_batch_def Let_def
      split: if_splits sum.splits prod.splits)

lemma read_written_letter: "read_dead_letter (dead_letter uid cs is_race) = Some (is_race, cs)"
proof -
  have "List.map_filter as_dict (map PDict cs) = cs"
    by (induction cs) (simp_all add: List.map_filter_simps)
  moreover have "list_all (\<lambda>c. as_dict c \<noteq> None) (map PDict cs)" by (simp add: list_all_iff)
  ultimately show ?thesis by (simp add: read_dead_letter_def dead_letter_def)
qed

text \<open>One dead letter, on a database that answers.\<close>

lemma replay_one:
  assumes "healthy w" "\<forall>n. \<not> w_io_fault w n" "w_files w = [(name, dead_letter uid cs is_race)]"
    and "cs = classifications_of uid is_race m p" "distinct (map snd m)"
  shows "w_files (replay_dead_letter name w) = []
    \<and> (\<forall>c \<in> set cs. result_in_db is_race c (replay_dead_letter name w))
    \<and> (\<forall>t. t \<noteq> result_table is_race \<longrightarrow> table (replay_dead_letter name w) t = table w t)"
proof -
  let ?w1 = "w\<lparr>w_io := w_io w + 1\<rparr>"
  have "healthy ?w1" using assms(1) by (simp add: healthy_def)
  then obtain w2 where w2: "write_classifications is_race cs ?w1 = (Inr (), w2)"
    "\<forall>c \<in> set cs. result_in_db is_race c w2" "\<forall>t. t \<noteq> result_table is_race \<longrightarrow> table w2 t = table w t"
    "w_files w2 = w_files w" "w_io_fault w2 = w_io_fault w"
    using write_classifications_healthy [OF _ assms(5), of ?w1 is_race uid p] unfolding assms(4) by auto
  have "replay_dead_letter name w = w2\<lparr>w_io := w_io w2 + 1, w_files := []\<rparr>"
    using assms(2,3) w2(1,4,5) by (simp add: replay_dead_letter_def file_op_def Let_def read_written_letter)
  then show ?thesis using w2(2,3) by (simp add: result_in_db_def)
qed

text \<open>One driver, in car 0, third in a session of type 15.\<close>

definition example_result :: "packet_header \<Rightarrow> final_classification_packet" where
  "example_result h = \<lparr>fcp_header = h, fcp_num_cars = 1, fcp_final_classifications =
     [\<lparr>fc_position = 3, fc_num_of_laps = 5, fc_grid_position = 7, fc_points = 15, fc_num_pit_stops = 1,
       fc_result_status = 3, fc_result_reason = 2, fc_best_lap_time_in_ms = 81234,
       fc_total_race_time = f_of_int 430, fc_penalties_time = 0, fc_num_of_penalties = 0,
       fc_num_of_tyre_stints = 0, fc_tyre_stints_actual = [], fc_tyre_stints_visual = [],
       fc_tyre_stints_end_laps = []\<rparr>]\<rparr>"

lemma example_result_header: "fcp_header (example_result h) = h"
  by (simp add: example_result_def)

lemma example_result_rows [simp]:
  "classifications_of uid is_race [(0, 3)] (example_result h)
    = [classification_of uid is_race 3 (hd (fcp_final_classifications (example_result h)))]"
  by (simp add: classifications_of_def example_result_def List.map_filter_def)





end
