(* ===== verification/Drivers.thy ===== *)
theory Drivers
  imports Guarantees
begin

text \<open>
  The drivers the listener tracks (\<open>services/participants.py\<close>, \<open>database/repositories/entries.py\<close>): a
  car enters the user map of a session only for a human driver, and every number in a map is that
  of a user and an entry the database holds, in every state a run of the dispatcher reaches.
\<close>


subsection \<open>Registered drivers\<close>

text \<open>The database has an entry for the car and a user with the number.\<close>

definition has_user :: "int \<Rightarrow> db \<Rightarrow> bool" where
  "has_user u d \<longleftrightarrow> (\<exists>r \<in> set (db_tables d ''identity.users''). col r ''id'' = PInt u)"

definition has_entry :: "pystr \<Rightarrow> int \<Rightarrow> db \<Rightarrow> bool" where
  "has_entry uid i d \<longleftrightarrow> (\<exists>r \<in> set (db_tables d ''telemetry.entries'').
     col r ''session_uid'' = PStr uid \<and> col r ''car_index'' = PInt i)"

definition registered :: "pystr \<Rightarrow> user_map \<Rightarrow> db \<Rightarrow> bool" where
  "registered uid m d \<longleftrightarrow> (\<forall>(i, u) \<in> set m. has_entry uid i d \<and> has_user u d)"

lemma row_kept:
  assumes "keeps_rows d d'" "t \<notin> set FRAME_TABLES" "set ks \<subseteq> fixed_columns t"
    and "\<exists>r \<in> set (db_tables d t). map (col r) ks = vs"
  shows "\<exists>r \<in> set (db_tables d' t). map (col r) ks = vs"
proof -
  obtain r where r: "r \<in> set (db_tables d t)" "map (col r) ks = vs" using assms(4) by blast
  obtain r' where r': "r' \<in> set (db_tables d' t)" "\<forall>k \<in> fixed_columns t. col r' k = col r k"
    using keeps_rows_fixed [OF assms(1,2) r(1)] by blast
  have "map (col r') ks = map (col r) ks" using r'(2) assms(3) by (intro map_cong) auto
  then show ?thesis using r' r(2) by metis
qed

lemma has_user_kept: "keeps_rows d d' \<Longrightarrow> has_user u d \<Longrightarrow> has_user u d'"
  using row_kept [of d d' "''identity.users''" "[''id'']" "[PInt u]"]
  by (simp add: has_user_def FRAME_TABLES_def fixed_columns_def)

lemma has_entry_kept: "keeps_rows d d' \<Longrightarrow> has_entry uid i d \<Longrightarrow> has_entry uid i d'"
  using row_kept [of d d' "''telemetry.entries''" "[''session_uid'', ''car_index'']" "[PStr uid, PInt i]"]
  by (simp add: has_entry_def FRAME_TABLES_def fixed_columns_def TABLE_KEYS_def)

lemma registered_kept: "keeps_rows d d' \<Longrightarrow> registered uid m d \<Longrightarrow> registered uid m d'"
  by (auto simp: registered_def has_user_kept has_entry_kept)

lemma registered_Nil [simp]: "registered uid [] d"
  by (simp add: registered_def)

lemma set_dict_merge: "set (dict_merge d ps) \<subseteq> set d \<union> set ps"
proof (induction ps arbitrary: d)
  case (Cons p ps)
  show ?case using Cons [of "AList.update (fst p) (snd p) d"] set_update [of "fst p" "snd p" d]
    by (cases p) auto
qed simp

lemma registered_merge:
  "registered uid m d \<Longrightarrow> registered uid m' d \<Longrightarrow> registered uid (dict_merge m m') d"
  using set_dict_merge [of m m'] by (fastforce simp: registered_def)

lemma set_dict_of: "set (dict_of ps) \<subseteq> set ps"
  unfolding dict_of_def using set_dict_merge [of "[]" ps] by simp

lemma registered_dict_of: "registered uid ps d \<Longrightarrow> registered uid (dict_of ps) d"
  unfolding dict_of_def by (rule registered_merge) simp_all

subsection \<open>Looking a driver up, or creating one\<close>

lemma created_user: "keyed d \<Longrightarrow> get_or_create_driver name d = (i, d') \<Longrightarrow> has_user i d'"
proof (cases "find (same_driver name) (db_tables d ''identity.users'')")
  case (Some r)
  assume k: "keyed d" and g: "get_or_create_driver name d = (i, d')"
  have r: "r \<in> set (db_tables d ''identity.users'')" using Some by (auto dest: find_SomeD)
  then obtain j where "col r ''id'' = PInt j" using k by (auto simp: keyed_def users_ok_def)
  then show ?thesis using g Some r by (auto simp: get_or_create_driver_def has_user_def)
next
  case None
  assume "get_or_create_driver name d = (i, d')"
  then show ?thesis using None by (auto simp: get_or_create_driver_def has_user_def Let_def col_def)
qed

lemma resolved_users:
  assumes "keyed d" "resolve_names ns d = (ids, d')" "(n, i) \<in> set ids"
  shows "has_user i d'"
  using assms
proof (induction ns arbitrary: d ids d')
  case (Cons a ns)
  obtain j d1 where 1: "get_or_create_driver a d = (j, d1)" by fastforce
  obtain rest d2 where 2: "resolve_names ns d1 = (rest, d2)" by fastforce
  have out: "ids = (a, j) # rest" "d' = d2" using Cons.prems(2) by (simp_all add: 1 2)
  have k: "keyed d1" using keyed_user [OF Cons.prems(1), of a] by (simp add: 1)
  have "obeys keeps_rows (\<lambda>d. Inr (resolve_names ns d))" by (rule rows.obeys_users)
  then have keep: "keeps_rows d1 d2" using 2 unfolding obeys_def by (metis prod.collapse)
  show ?case
  proof (cases "(n, i) \<in> set rest")
    case True
    then show ?thesis using Cons.IH [OF k 2] out by simp
  next
    case False
    then have "i = j" using Cons.prems(3) out by simp
    then show ?thesis using created_user [OF Cons.prems(1) 1] has_user_kept [OF keep] out by simp
  qed
qed simp

lemma resolved_ids:
  assumes "keyed (w_db w)" "resolve_user_ids es w = (ids, w')" "(n, i) \<in> set ids"
  shows "has_user i (w_db w')"
  using assms(2,3)
  by (auto simp: resolve_user_ids_def run_txn_def Let_def split: if_splits prod.splits sum.splits
      intro: resolved_users [OF assms(1)])

subsection \<open>Entries\<close>

lemma has_key_insert_update:
  assumes "set cs \<inter> set ks = {}"
  shows "has_key ks r (insert_update ks cs r rows)"
    and "has_key ks r' rows \<Longrightarrow> has_key ks r' (insert_update ks cs r rows)"
proof -
  show kept: "has_key ks r' (insert_update ks cs r rows)" if "has_key ks r' rows" for r'
  proof -
    have "\<exists>x \<in> set rows. same_key ks r' x" using that by (simp add: has_key_def)
    then obtain x where x: "x \<in> set rows" "same_key ks r' x" by blast
    show ?thesis
    proof (cases "has_key ks r rows")
      case True
      define g where "g = (\<lambda>x. if same_key ks r x then set_excluded cs r x else x)"
      have "same_key ks r' (g x)" using x(2) set_excluded_key [OF assms] by (simp add: g_def)
      moreover have "insert_update ks cs r rows = map g rows" using True by (simp add: insert_update_def g_def)
      ultimately show ?thesis using x(1) by (auto simp: has_key_def)
    next
      case False
      then show ?thesis using that by (simp add: insert_update_def has_key_append)
    qed
  qed
  show "has_key ks r (insert_update ks cs r rows)"
    using kept by (cases "has_key ks r rows") (auto simp: insert_update_def has_key_def)
qed

lemma inserted_keys:
  assumes "set cs \<inter> set ks = {}" "sql_many (map (sql_insert t cols (DoUpdate ks cs)) rows) d = Inr (n, d')"
  shows "(\<forall>r. has_key ks r (db_tables d t) \<longrightarrow> has_key ks r (db_tables d' t))
    \<and> (\<forall>r \<in> set rows. has_key ks (zip cols r) (db_tables d' t))"
  using assms(2)
proof (induction rows arbitrary: d n)
  case (Cons a rows)
  let ?d = "d\<lparr>db_tables := (db_tables d)(t := insert_update ks cs (zip cols a) (db_tables d t))\<rparr>"
  obtain k d1 m where 1: "sql_insert t cols (DoUpdate ks cs) a d = Inr (k, d1)"
    "sql_many (map (sql_insert t cols (DoUpdate ks cs)) rows) d1 = Inr (m, d')"
    using Cons.prems by (auto simp: and_then_Inr_iff)
  moreover have "d1 = ?d" using 1(1) by (auto simp: sql_insert_def Let_def split: if_splits)
  ultimately have "sql_many (map (sql_insert t cols (DoUpdate ks cs)) rows) ?d = Inr (m, d')" by simp
  from Cons.IH [OF this] show ?case using has_key_insert_update [OF assms(1)] by auto
qed simp

lemma entry_key:
  "has_key [''session_uid'', ''car_index''] (zip ENTRY_COLUMNS (entry_params e i)) rows
    \<longleftrightarrow> (\<exists>r \<in> set rows. col r ''session_uid'' = PStr (en_session_uid e) \<and> col r ''car_index'' = PInt (en_car_index e))"
proof -
  have "col (zip ENTRY_COLUMNS (entry_params e i)) ''session_uid'' = PStr (en_session_uid e)"
    "col (zip ENTRY_COLUMNS (entry_params e i)) ''car_index'' = PInt (en_car_index e)"
    by (simp_all add: ENTRY_COLUMNS_def entry_params_def col_def)
  then show ?thesis by (auto simp: has_key_def same_key_def) metis+
qed

text \<open>What the batch returns is what it has committed.\<close>

lemma inserted_entries_registered:
  assumes "keyed (w_db w)" "insert_entries_batch es w = (m, w')" "\<forall>e \<in> set es. en_session_uid e = uid"
  shows "registered uid m (w_db w')"
proof -
  let ?es = "map (\<lambda>e. e\<lparr>en_driver_name := remove_nul (en_driver_name e)\<rparr>) es"
  let ?w1 = "ensure_teams (map en_team_id ?es) w"
  obtain ids w2 where ids: "resolve_user_ids ?es ?w1 = (ids, w2)" by fastforce
  define known where "known = List.map_filter (\<lambda>e. map_option (Pair e) (map_of ids (en_driver_name e))) ?es"
  define inserts where "inserts = map (\<lambda>(e, i). sql_insert ''telemetry.entries'' ENTRY_COLUMNS ENTRY_CONFLICT (entry_params e i)) known"
  obtain r w3 where w3: "execute_many_strict inserts w2 = (r, w3)" by fastforce
  show ?thesis
  proof (cases "es = [] \<or> known = [] \<or> r \<noteq> Inr ()")
    case True
    then have "m = []"
      using assms(2) ids w3 unfolding insert_entries_batch_def
      by (auto simp: Let_def known_def [symmetric] inserts_def [symmetric] split: if_splits sum.splits)
    then show ?thesis by simp
  next
    case False
    then have r: "r = Inr ()" and ne: "es \<noteq> []" "known \<noteq> []" by auto
    define nats where "nats = map (\<lambda>(e, i). set_nationality (safe_enum_name Nationalities (en_nationality e)) i) known"
    have out: "m = dict_of (map (\<lambda>(e, i). (en_car_index e, i)) known)" "w' = execute_many nats w3"
      using assms(2) ids w3 r ne unfolding insert_entries_batch_def
      by (simp_all add: Let_def known_def [symmetric] inserts_def [symmetric] nats_def [symmetric] split_beta)
    have k: "keyed (w_db ?w1)" using keys.walk_entries(4) [OF keys.walk_refl] assms(1) by blast
    have keep1: "keeps_rows (w_db w2) (w_db w3)"
    proof -
      have "obeys keeps_rows (sql_insert ''telemetry.entries'' ENTRY_COLUMNS ENTRY_CONFLICT vals)" for vals
        by (intro keeps_rows_insert walk)
      then have "keeps_rows (w_db w2) (w_db (snd (execute_many_strict inserts w2)))"
        by (intro rows.walk_execute(3) rows.walk_refl) (auto simp: inserts_def)
      then show ?thesis by (simp add: w3)
    qed
    have keep2: "keeps_rows (w_db w3) (w_db w')"
      unfolding out(2) by (intro rows.walk_execute(2) rows.walk_refl) (auto simp: nats_def intro: rows.obeys_nationality)
    have users: "has_user i (w_db w2)" if ei: "(e, i) \<in> set known" for e i
    proof -
      have "map_of ids (en_driver_name e) = Some i" using ei by (auto simp: known_def in_map_filter)
      then show ?thesis using resolved_ids [OF k ids] by (meson map_of_SomeD)
    qed
    obtain n d where many: "sql_many inserts (w_db w2) = Inr (n, d)" "w_db w3 = d"
      using w3 r ne(2)
      by (auto simp: execute_many_strict_def inserts_def run_txn_def Let_def split: if_splits sum.splits prod.splits)
    have "inserts = map (sql_insert ''telemetry.entries'' ENTRY_COLUMNS ENTRY_CONFLICT) (map (\<lambda>(e, i). entry_params e i) known)"
      by (auto simp: inserts_def)
    with many inserted_keys [OF other_columns_disjoint, of "''telemetry.entries''" ENTRY_COLUMNS]
    have keys: "\<forall>v \<in> set (map (\<lambda>(e, i). entry_params e i) known).
        has_key [''session_uid'', ''car_index''] (zip ENTRY_COLUMNS v) (db_tables (w_db w3) ''telemetry.entries'')"
      unfolding ENTRY_CONFLICT_def Let_def by metis
    have entries: "has_entry uid (en_car_index e) (w_db w3)" if ei: "(e, i) \<in> set known" for e i
    proof -
      have "entry_params e i \<in> set (map (\<lambda>(e, i). entry_params e i) known)" using ei by force
      with keys have "has_key [''session_uid'', ''car_index''] (zip ENTRY_COLUMNS (entry_params e i))
          (db_tables (w_db w3) ''telemetry.entries'')" by blast
      moreover have "en_session_uid e = uid" using ei assms(3) by (auto simp: known_def in_map_filter)
      ultimately show ?thesis by (simp add: entry_key has_entry_def)
    qed
    have "registered uid (map (\<lambda>(e, i). (en_car_index e, i)) known) (w_db w3)"
      using users [THEN has_user_kept [OF keep1]] entries by (auto simp: registered_def)
    then show ?thesis unfolding out(1) by (intro registered_dict_of registered_kept [OF keep2])
  qed
qed


subsection \<open>The maps of the participants service\<close>

lemma next_generic_name_maps [simp]:
  "ps_user_map_cache (fst (snd (next_generic_name s w))) = ps_user_map_cache s"
  by (simp add: next_generic_name_def split_beta)

lemma driver_name_maps [simp]: "ps_user_map_cache (fst (snd (driver_name_of uid x s w))) = ps_user_map_cache s"
  by (simp add: driver_name_of_def Let_def split_beta split: option.split)

text \<open>The entries of a packet: human drivers only, of the packet's session.\<close>

definition from_human :: "pystr \<Rightarrow> (nat \<times> participant) list \<Rightarrow> entry \<Rightarrow> bool" where
  "from_human uid xs e \<longleftrightarrow> en_session_uid e = uid \<and> (\<exists>(i, x) \<in> set xs. en_car_index e = int i \<and> is_human x)"

lemma from_human_Cons:
  "is_human x \<Longrightarrow> from_human uid ((i, x) # xs) (entry_of uid i x name colors)"
  "from_human uid xs e \<Longrightarrow> from_human uid (ix # xs) e"
  by (auto simp: from_human_def entry_of_def)

lemma human_entries_facts:
  assumes "human_entries uid xs s w = (r, s', w')"
  shows "ps_user_map_cache s' = ps_user_map_cache s" and "r = Inr es \<Longrightarrow> \<forall>e \<in> set es. from_human uid xs e"
proof -
  have "ps_user_map_cache s' = ps_user_map_cache s \<and> (\<forall>es. r = Inr es \<longrightarrow> (\<forall>e \<in> set es. from_human uid xs e))"
    using assms
  proof (induction xs arbitrary: s w r s' w')
    case (Cons ix xs)
    obtain i x where ix: "ix = (i, x)" by (cases ix)
    show ?case
    proof (cases "is_human x")
      case False
      then show ?thesis using Cons.IH [of s w r s' w'] Cons.prems from_human_Cons(2) by (simp add: ix)
    next
      case True
      obtain name s1 w1 where n: "driver_name_of uid x s w = (name, s1, w1)" by (metis prod_cases3)
      have s1: "ps_user_map_cache s1 = ps_user_map_cache s" using driver_name_maps [of uid x s w] by (simp add: n)
      obtain q s2 w2 where rest: "human_entries uid xs s1 w1 = (q, s2, w2)" by (metis prod_cases3)
      note IH = Cons.IH [OF rest]
      show ?thesis
      proof (cases "livery_colors_of x")
        case (Inl e)
        then show ?thesis using Cons.prems True n s1 by (auto simp: ix)
      next
        case (Inr colors)
        then have "r = and_then q (\<lambda>es. Inr (entry_of uid i x name colors # es))" "s' = s2"
          using Cons.prems True n rest by (simp_all add: ix)
        then show ?thesis
          using IH s1 from_human_Cons(1) [OF True] from_human_Cons(2) by (auto simp: ix and_then_Inr_iff)
      qed
    qed
  qed simp
  then show "ps_user_map_cache s' = ps_user_map_cache s" "r = Inr es \<Longrightarrow> \<forall>e \<in> set es. from_human uid xs e"
    by blast+
qed

definition maps_registered :: "(pystr, user_map) bounded_dict \<Rightarrow> db \<Rightarrow> bool" where
  "maps_registered ms d \<longleftrightarrow> (\<forall>uid m. bd_get ms uid = Some m \<longrightarrow> registered uid m d)"

lemma maps_registered_kept: "keeps_rows d d' \<Longrightarrow> maps_registered ms d \<Longrightarrow> maps_registered ms d'"
  by (auto simp: maps_registered_def registered_kept)

lemma maps_registered_set:
  "bd_wf ms \<Longrightarrow> maps_registered ms d \<Longrightarrow> registered uid m d \<Longrightarrow> maps_registered (bd_set ms uid m) d"
  unfolding maps_registered_def using bd_get_set_cases [of ms uid m] by (metis option.sel option.simps(3))

definition roster_ok :: "participants_service \<Rightarrow> db \<Rightarrow> bool" where
  "roster_ok s d \<longleftrightarrow> bd_wf (ps_user_map_cache s) \<and> maps_registered (ps_user_map_cache s) d"

lemma roster_ok_get: "roster_ok s d \<Longrightarrow> registered uid (get_user_map s uid) d"
  by (auto simp: roster_ok_def maps_registered_def get_user_map_def split: option.split)

lemma record_entries_ok:
  assumes "keyed (w_db w)" "roster_ok s (w_db w)" "\<forall>e \<in> set es. en_session_uid e = uid"
    and "record_entries uid es s w = (m, s', w')"
  shows "roster_ok s' (w_db w') \<and> registered uid m (w_db w')"
proof -
  define new where "new = filter (\<lambda>e. en_car_index e \<notin> written_humans s uid) es"
  obtain nm w1 where nm: "insert_entries_batch new w = (nm, w1)" by fastforce
  have keep: "keeps_rows (w_db w) (w_db w1)"
    using rows.walk_entries_batch [OF rows.walk_refl, of w new] by (simp add: nm)
  have old: "roster_ok s (w_db w1)" using assms(2) maps_registered_kept [OF keep] by (simp add: roster_ok_def)
  have reg: "registered uid nm (w_db w1)"
    using inserted_entries_registered [OF assms(1) nm] assms(3) by (simp add: new_def)
  let ?m = "dict_merge (get_user_map s uid) nm"
  have "registered uid ?m (w_db w1)" by (intro registered_merge roster_ok_get [OF old] reg)
  then show ?thesis
    using assms(2,4) old roster_ok_get [OF old, of uid] roster_ok_get [OF assms(2), of uid] nm
    by (auto simp: record_entries_def Let_def new_def [symmetric] roster_ok_def maps_registered_set split: if_splits)
qed

lemma participants_ok:
  assumes "keyed (w_db w)" "roster_ok s (w_db w)" "handle_participants_packet p s w = (r, s', w')"
  shows "roster_ok s' (w_db w') \<and> (\<forall>m. r = Inr m \<longrightarrow> registered (session_key (pap_header p)) m (w_db w'))"
proof -
  let ?uid = "session_key (pap_header p)"
  let ?s1 = "s\<lparr>ps_restricted_indices := bd_set (ps_restricted_indices s) ?uid (restricted_of p)\<rparr>"
  obtain q s2 w2 where h: "human_entries ?uid (enumerate 0 (pap_participants p)) ?s1 w = (q, s2, w2)"
    by (metis prod_cases3)
  have keep: "keeps_rows (w_db w) (w_db w2)" and k: "keyed (w_db w2)"
    using rows.walk_human_entries [OF rows.walk_refl, of w ?uid "enumerate 0 (pap_participants p)" ?s1]
      keys.walk_human_entries [OF keys.walk_refl, of w ?uid "enumerate 0 (pap_participants p)" ?s1] assms(1)
    by (simp_all add: h)
  have ok: "roster_ok s2 (w_db w2)"
    using assms(2) human_entries_facts(1) [OF h] maps_registered_kept [OF keep] by (simp add: roster_ok_def)
  show ?thesis
  proof (cases q)
    case (Inl e)
    then show ?thesis using assms(3) ok by (auto simp: handle_participants_packet_def Let_def h)
  next
    case (Inr es)
    have es: "\<forall>e \<in> set es. en_session_uid e = ?uid" using human_entries_facts(2) [OF h Inr] by (simp add: from_human_def)
    obtain m s3 w3 where rec: "record_entries ?uid es s2 w2 = (m, s3, w3)" by (metis prod_cases3)
    show ?thesis
      using record_entries_ok [OF k ok es rec] assms(3) by (auto simp: handle_participants_packet_def Let_def h Inr rec)
  qed
qed


subsection \<open>The maps of the dispatcher\<close>

definition maps_ok :: "core \<Rightarrow> bool" where
  "maps_ok c \<longleftrightarrow> (let d = w_db (co_world c) in
     keyed d \<and> roster_ok (co_participants c) d \<and> bd_wf (co_user_maps c) \<and> maps_registered (co_user_maps c) d)"

definition world_kept :: "core \<Rightarrow> core \<Rightarrow> bool" where
  "world_kept c c' \<longleftrightarrow> keeps_rows (w_db (co_world c)) (w_db (co_world c'))
     \<and> (keyed (w_db (co_world c)) \<longrightarrow> keyed (w_db (co_world c')))"

lemma maps_ok_kept:
  assumes "maps_ok c" "world_kept c c'" "co_participants c' = co_participants c" "co_user_maps c' = co_user_maps c"
  shows "maps_ok c'"
  using assms maps_registered_kept by (auto simp: maps_ok_def world_kept_def roster_ok_def Let_def)

lemma world_kept_packets:
  "world_kept c (on_session_packet lib h body c)" "world_kept c (on_lobby_packet h body c)"
  "world_kept c (on_driver_packet lib h body m c)" "world_kept c (on_participants_packet h body c)"
  using rows.core_step_packets [of c] keys.core_step_packets [of c]
  by (auto simp: world_kept_def rows.core_step_def keys.core_step_def)

lemma world_kept_disp: "world_kept (dp_core d) (dp_core (on_event_packet h body d))"
  "world_kept (dp_core d) (dp_core (on_car_frame_packet h body d))"
  using rows.disp_step_event [of d] keys.disp_step_event [of d] rows.disp_step_car_frame [of d]
    keys.disp_step_car_frame [of d]
  by (auto simp: world_kept_def rows.disp_step_def keys.disp_step_def)

lemma flush_effect_maps:
  "flush_effect c c' \<Longrightarrow> co_participants c' = co_participants c \<and> co_user_maps c' = co_user_maps c"
  by (simp add: flush_effect_def same_services_def)

lemma maps_ok_participants: "maps_ok c \<Longrightarrow> maps_ok (on_participants_packet h body c)"
proof (cases "unpack_participants h body")
  case (Inr p)
  assume ok: "maps_ok c"
  obtain r s w where run: "handle_participants_packet p (co_participants c) (co_world c) = (r, s, w)" by (metis prod_cases3)
  have h: "pap_header p = h" using Inr by (auto simp: unpack_participants_def and_then_Inr_iff)
  have step: "keeps_rows (w_db (co_world c)) (w_db w)" "keyed (w_db w)"
    using rows.walk_participants [OF rows.walk_refl, of "co_world c" p "co_participants c"]
      keys.walk_participants [OF keys.walk_refl, of "co_world c" p "co_participants c"] ok
    by (simp_all add: run maps_ok_def Let_def)
  have after: "roster_ok s (w_db w)" "\<forall>m. r = Inr m \<longrightarrow> registered (session_key h) m (w_db w)"
    using participants_ok [OF _ _ run] ok h by (auto simp: maps_ok_def Let_def)
  have maps: "bd_wf (co_user_maps c)" "maps_registered (co_user_maps c) (w_db w)"
    using ok maps_registered_kept [OF step(1)] by (simp_all add: maps_ok_def Let_def)
  then show ?thesis
    using after step(2) by (auto simp: on_participants_packet_def Inr run maps_ok_def Let_def maps_registered_set split: sum.split)
qed (simp add: on_participants_packet_def)

lemma maps_ok_route: "maps_ok (dp_core d) \<Longrightarrow> maps_ok (dp_core (route_packet lib h body d))"
proof -
  assume ok: "maps_ok (dp_core d)"
  note same = maps_ok_kept [OF ok]
  have "maps_ok (on_session_packet lib h body (dp_core d))"
    by (rule same [OF world_kept_packets(1)]) (simp_all add: on_session_packet_def Let_def split: sum.split prod.split)
  moreover have "maps_ok (on_lobby_packet h body (dp_core d))"
    by (rule same [OF world_kept_packets(2)]) (simp_all add: on_lobby_packet_def split: sum.split)
  moreover have "maps_ok (on_driver_packet lib h body m (dp_core d))" for m
    by (rule same [OF world_kept_packets(3)]) (simp_all add: on_driver_packet_fields)
  moreover have "maps_ok (dp_core (on_event_packet h body d))"
    by (rule same [OF world_kept_disp(1)]) (use flush_effect_maps [OF flush_effect_packet] in blast)+
  moreover have "maps_ok (dp_core (on_car_frame_packet h body d))"
    by (rule same [OF world_kept_disp(2)]) (use flush_effect_maps [OF flush_effect_car_frame] in blast)+
  ultimately show ?thesis using ok maps_ok_participants by (simp add: route_packet_def Let_def)
qed

lemma maps_ok_handle: "maps_ok (dp_core d) \<Longrightarrow> maps_ok (dp_core (handle_packet lib data d))"
  by (simp add: handle_packet_header Let_def maps_ok_route split: option.split)

lemma maps_ok_packets: "maps_ok (dp_core d) \<Longrightarrow> maps_ok (dp_core (handle_packets lib datas d))"
  unfolding handle_packets_def by (induction datas arbitrary: d) (auto intro: maps_ok_handle)

lemma maps_ok_new: "keyed (w_db w) \<Longrightarrow> maps_ok (dp_core (new_dispatcher dl w))"
  by (auto simp: maps_ok_def new_dispatcher_def new_core_def monotonic_now_def roster_ok_def maps_registered_def
      new_participants_service_def Let_def)

text \<open>
  C33. Whatever datagrams arrive and whichever transactions fail, a driver
  under whose number the listener records anything exists: for each car and user in the map of a
  session, the database holds an entry of that session for that car, and a user with that number.
\<close>

theorem tracked_drivers_are_registered:
  assumes "keyed (w_db w)"
  shows "\<forall>(i, u) \<in> set (user_map_of (dp_core (handle_packets lib datas (new_dispatcher dl w))) uid).
    has_entry uid i (w_db (co_world (dp_core (handle_packets lib datas (new_dispatcher dl w)))))
    \<and> has_user u (w_db (co_world (dp_core (handle_packets lib datas (new_dispatcher dl w)))))"
proof -
  let ?c = "dp_core (handle_packets lib datas (new_dispatcher dl w))"
  have "maps_registered (co_user_maps ?c) (w_db (co_world ?c))"
    using maps_ok_packets [OF maps_ok_new [OF assms(1)]] by (simp add: maps_ok_def Let_def)
  then have "registered uid (user_map_of ?c uid) (w_db (co_world ?c))"
    by (simp add: user_map_of_def maps_registered_def split: option.split)
  then show ?thesis by (simp add: registered_def)
qed

lemma tracked_drivers_are_registered_witness:
  "\<forall>lib datas. (\<exists>c. c = dp_core (handle_packets lib datas (new_dispatcher True quiet_world))
    \<and> list_all (\<lambda>(i, u). has_entry [49] i (w_db (co_world c)) \<and> has_user u (w_db (co_world c))) (user_map_of c [49]))"
  using tracked_drivers_are_registered [of quiet_world] keyed_empty by (simp add: quiet_world_def list_all_iff)

subsection \<open>Who is tracked\<close>

lemma inserted_cars:
  assumes "insert_entries_batch es w = (m, w')" "(i, u) \<in> set m"
  shows "\<exists>e \<in> set es. en_car_index e = i"
proof -
  let ?es = "map (\<lambda>e. e\<lparr>en_driver_name := remove_nul (en_driver_name e)\<rparr>) es"
  obtain ids where "set m \<subseteq> set (dict_of (map (\<lambda>(e, i). (en_car_index e, i))
      (List.map_filter (\<lambda>e. map_option (Pair e) (map_of ids (en_driver_name e))) ?es)))"
    using assms(1) unfolding insert_entries_batch_def by (auto simp: Let_def split_beta split: if_splits sum.splits)
  with assms(2) have "(i, u) \<in> set (map (\<lambda>(e, i). (en_car_index e, i))
      (List.map_filter (\<lambda>e. map_option (Pair e) (map_of ids (en_driver_name e))) ?es))"
    using set_dict_of by blast
  then show ?thesis by (fastforce simp: in_map_filter)
qed

lemma added_are_humans:
  assumes "keyed (w_db w)" "roster_ok s (w_db w)"
    and "handle_participants_packet p s w = (Inr m, s', w')" "(i, u) \<in> set m"
    and "(i, u) \<notin> set (get_user_map s (session_key (pap_header p)))"
  shows "(\<exists>k < length (pap_participants p). i = int k \<and> is_human (pap_participants p ! k))
    \<and> has_entry (session_key (pap_header p)) i (w_db w') \<and> has_user u (w_db w')"
proof
  let ?uid = "session_key (pap_header p)"
  let ?s1 = "s\<lparr>ps_restricted_indices := bd_set (ps_restricted_indices s) ?uid (restricted_of p)\<rparr>"
  show "has_entry ?uid i (w_db w') \<and> has_user u (w_db w')"
    using participants_ok [OF assms(1-3)] assms(4) by (auto simp: registered_def)
  obtain es s2 w2 where h: "human_entries ?uid (enumerate 0 (pap_participants p)) ?s1 w = (Inr es, s2, w2)"
    using assms(3) by (auto simp: handle_participants_packet_def Let_def split: prod.splits sum.splits)
  then have rec: "record_entries ?uid es s2 w2 = (m, s', w')"
    using assms(3) by (auto simp: handle_participants_packet_def Let_def split: prod.splits)
  have "get_user_map s2 ?uid = get_user_map s ?uid"
    using human_entries_facts(1) [OF h] by (simp add: get_user_map_def)
  then obtain nm w3 where nm: "insert_entries_batch (filter (\<lambda>e. en_car_index e \<notin> written_humans s2 ?uid) es) w2 = (nm, w3)"
    "(i, u) \<in> set nm"
    using rec assms(4,5) set_dict_merge [of "get_user_map s ?uid"]
    by (fastforce simp: record_entries_def Let_def split: if_splits prod.splits)
  then obtain e where "e \<in> set es" "en_car_index e = i" using inserted_cars by fastforce
  then show "\<exists>k < length (pap_participants p). i = int k \<and> is_human (pap_participants p ! k)"
    using human_entries_facts(2) [OF h refl] by (fastforce simp: from_human_def in_set_enumerate_eq)
qed


lemma written_humans_kept:
  "ps_written_humans (fst (snd (human_entries uid xs s w))) = ps_written_humans s"
proof (induction xs arbitrary: s w)
  case (Cons ix xs)
  obtain i x where ix: "ix = (i, x)" by (cases ix)
  have "ps_written_humans (fst (snd (driver_name_of uid x s' w'))) = ps_written_humans s'" for s' w'
    by (simp add: driver_name_of_def next_generic_name_def Let_def split_beta split: option.split)
  then show ?case using Cons by (simp add: ix split_beta Let_def split: sum.split)
qed simp

lemma car_keeps_driver:
  assumes "handle_participants_packet p s w = (Inr m, s', w')"
    and "i \<in> written_humans s (session_key (pap_header p))"
  shows "map_of m i = map_of (get_user_map s (session_key (pap_header p))) i"
proof -
  let ?uid = "session_key (pap_header p)"
  let ?s1 = "s\<lparr>ps_restricted_indices := bd_set (ps_restricted_indices s) ?uid (restricted_of p)\<rparr>"
  obtain es s2 w2 where h: "human_entries ?uid (enumerate 0 (pap_participants p)) ?s1 w = (Inr es, s2, w2)"
    using assms(1) by (auto simp: handle_participants_packet_def Let_def split: prod.splits sum.splits)
  then have rec: "record_entries ?uid es s2 w2 = (m, s', w')"
    using assms(1) by (auto simp: handle_participants_packet_def Let_def split: prod.splits)
  have maps: "get_user_map s2 ?uid = get_user_map s ?uid"
    using human_entries_facts(1) [OF h] by (simp add: get_user_map_def)
  have "written_humans s2 ?uid = written_humans s ?uid"
    using written_humans_kept [of ?uid "enumerate 0 (pap_participants p)" ?s1 w] h by (simp add: written_humans_def)
  then have new: "i \<notin> fst ` set nm"
    if "insert_entries_batch (filter (\<lambda>e. en_car_index e \<notin> written_humans s2 ?uid) es) w2 = (nm, w3)" for nm w3
    using inserted_cars [OF that] assms(2) by fastforce
  have "map_of (dict_merge d nm) i = map_of d i" if "i \<notin> fst ` set nm" for d and nm :: user_map
    using that by (simp add: map_of_dict_merge map_add_def map_of_eq_None_iff [THEN iffD2] split: option.split)
  then show ?thesis
    using rec new by (auto simp: record_entries_def Let_def maps split: if_splits prod.splits)
qed

text \<open>
  C34. A participants packet adds to the map of its session only cars the packet
  shows as driven by a human, an AI car or an empty slot never, and only with the number of a user
  and an entry the database has confirmed. A car once recorded keeps its driver in the map, whoever the
  packets show in it later: a human who takes the car over is not recorded, and what they do counts for
  the driver before.
\<close>

theorem participants_are_humans:
  assumes "keyed (w_db w)" "roster_ok s (w_db w)"
    and "handle_participants_packet p s w = (Inr m, s', w')"
  defines "uid \<equiv> session_key (pap_header p)"
  shows "(\<forall>(i, u) \<in> set m - set (get_user_map s uid).
      (\<exists>k < length (pap_participants p). i = int k \<and> is_human (pap_participants p ! k))
      \<and> has_entry uid i (w_db w') \<and> has_user u (w_db w'))
    \<and> (\<forall>i \<in> written_humans s uid. map_of m i = map_of (get_user_map s uid) i)"
  using added_are_humans [OF assms(1-3)] car_keeps_driver [OF assms(3)] unfolding uid_def by blast

text \<open>A packet with one human, and the first two rows it leads to.\<close>

definition example_driver :: participant where
  "example_driver = \<lparr>pa_ai_controlled = 0, pa_driver_id = 255, pa_network_id = 1, pa_team_id = 2, pa_my_team = 0,
     pa_race_number = 44, pa_nationality = 10, pa_name = ascii ''Ann'', pa_your_telemetry = 1,
     pa_show_online_names = 1, pa_tech_level = 0, pa_platform = 1, pa_num_colours = 0, pa_livery_colours = []\<rparr>"

definition example_roster :: "packet_header \<Rightarrow> participants_packet" where
  "example_roster h = \<lparr>pap_header = h, pap_num_active_cars = 1,
     pap_participants = [example_driver\<lparr>pa_ai_controlled := 1\<rparr>, example_driver]\<rparr>"

lemma example_driver_name: "driver_name_of uid example_driver s w = (ascii ''Ann'', s, w)"
proof -
  have "strip (remove_nul (ascii ''Ann'')) = ascii ''Ann''" "lower (ascii ''Ann'') \<notin> set GENERIC_DRIVER_NAMES"
    by code_simp+
  then show ?thesis by (simp add: driver_name_of_def example_driver_def)
qed

definition example_entry :: "pystr \<Rightarrow> entry" where
  "example_entry uid = entry_of uid 1 example_driver (ascii ''Ann'') []"

lemma example_entry:
  "en_team_id (example_entry uid) = 2" "en_driver_name (example_entry uid) = ascii ''Ann''"
  "en_car_index (example_entry uid) = 1" "en_session_uid (example_entry uid) = uid"
  by (simp_all add: example_entry_def entry_of_def example_driver_def)

lemma example_entries:
  "human_entries uid (enumerate 0 (pap_participants (example_roster h))) s w
    = (Inr [example_entry uid], s, w)"
proof -
  have "is_human example_driver" "\<not> is_human (example_driver\<lparr>pa_ai_controlled := 1\<rparr>)" "livery_colors_of example_driver = Inr []"
    by (simp_all add: is_human_def example_driver_def livery_colors_of_def)
  then show ?thesis by (simp add: example_roster_def example_driver_name example_entry_def)
qed

lemma example_batch:
  "fst (insert_entries_batch [example_entry uid] quiet_world) = [(1, 1)]"
proof -
  let ?e = "example_entry uid"
  have name: "remove_nul (ascii ''Ann'') = ascii ''Ann''" by code_simp
  have "?e\<lparr>en_driver_name := remove_nul (en_driver_name ?e)\<rparr> = ?e" by (simp add: example_entry name)
  then have es: "map (\<lambda>e. e\<lparr>en_driver_name := remove_nul (en_driver_name e)\<rparr>) [?e] = [?e]" by simp
  define w1 where "w1 = ensure_teams [2] quiet_world"
  have w1: "healthy w1" "table w1 ''identity.users'' = []" "db_seq (w_db w1) ''identity.users'' = 1" "w_set_order w1 = id"
    "table w1 ''telemetry.entries'' = []"
    by (simp_all add: w1_def ensure_teams_def insert_rows_def execute_many_def run_txn_def sql_insert_def Let_def
        quiet_world_def healthy_def TEAM_COLUMNS_def other_unique_keys_def unique_on_def insert_nothing_def
        has_key_def)
  have ids: "resolve_user_ids [?e] w1 = ([(ascii ''Ann'', 1)], w2)" if "w2 = snd (resolve_user_ids [?e] w1)" for w2
    using w1 that by (simp add: resolve_user_ids_def run_txn_def healthy_def example_entry get_or_create_driver_def Let_def)
  define w2 where "w2 = snd (resolve_user_ids [?e] w1)"
  have w2: "healthy w2" "table w2 ''telemetry.entries'' = []"
    using w1 by (simp_all add: w2_def resolve_user_ids_def run_txn_def healthy_def example_entry get_or_create_driver_def Let_def)
  have "\<exists>w3. execute_many_strict [sql_insert ''telemetry.entries'' ENTRY_COLUMNS ENTRY_CONFLICT (entry_params ?e 1)] w2 = (Inr (), w3)"
    using w2 by (simp add: execute_many_strict_def run_txn_def healthy_def Let_def sql_insert_def ENTRY_CONFLICT_def
        ENTRY_COLUMNS_def entry_params_def insert_update_def has_key_def unique_on_def other_unique_keys_def)
  then obtain w3 where w3: "execute_many_strict [sql_insert ''telemetry.entries'' ENTRY_COLUMNS ENTRY_CONFLICT (entry_params ?e 1)] w2
    = (Inr (), w3)" by blast
  show ?thesis
    unfolding insert_entries_batch_def Let_def es
    using ids [OF w2_def] w3 by (simp add: example_entry w1_def [symmetric] List.map_filter_simps dict_of_def)
qed

lemma example_roster_map:
  "fst (handle_participants_packet (example_roster h) new_participants_service quiet_world) = Inr [(1, 1)]"
proof -
  let ?uid = "session_key h" and ?e = "example_entry (session_key h)"
  let ?s = "new_participants_service\<lparr>ps_restricted_indices :=
    bd_set (ps_restricted_indices new_participants_service) ?uid (restricted_of (example_roster h))\<rparr>"
  obtain w1 where b: "insert_entries_batch [?e] quiet_world = ([(1, 1)], w1)"
    using example_batch [of ?uid] by (metis prod.collapse)
  have "written_humans ?s ?uid = {}" "get_user_map ?s ?uid = []"
    by (simp_all add: written_humans_def get_user_map_def new_participants_service_def)
  then have "fst (record_entries ?uid [?e] ?s quiet_world) = [(1, 1)]"
    by (simp add: record_entries_def Let_def b example_entry)
  moreover have "pap_header (example_roster h) = h" by (simp add: example_roster_def)
  ultimately show ?thesis
    by (simp add: handle_participants_packet_def example_entries Let_def split_beta)
qed

theorem participants_are_humans_witness:
  "\<forall>h. \<exists>m s' w'. handle_participants_packet (example_roster h) new_participants_service quiet_world = (Inr m, s', w')
    \<and> has_entry (session_key h) 1 (w_db w') \<and> has_user 1 (w_db w')"
proof
  fix h
  obtain s' w' where run: "handle_participants_packet (example_roster h) new_participants_service quiet_world
      = (Inr [(1, 1)], s', w')"
    using example_roster_map [of h] by (metis prod.collapse)
  have "keyed (w_db quiet_world)" "roster_ok new_participants_service (w_db quiet_world)"
    "get_user_map new_participants_service (session_key (pap_header (example_roster h))) = []"
    using keyed_empty
    by (simp_all add: quiet_world_def roster_ok_def maps_registered_def new_participants_service_def get_user_map_def)
  from participants_are_humans [OF this(1,2) run] this(3) run
  show "\<exists>m s' w'. handle_participants_packet (example_roster h) new_participants_service quiet_world = (Inr m, s', w')
    \<and> has_entry (session_key h) 1 (w_db w') \<and> has_user 1 (w_db w')"
    by (auto simp: example_roster_def)
qed

end
