(* ===== verification/Row_Types.thy ===== *)
theory Row_Types
  imports Dispatcher_Facts
begin

text \<open>
  The column types of the two frame tables (\<open>schema/telemetry/car_frame.sql\<close>,
  \<open>car_frame_damage.sql\<close>) and what \<open>struct\<close> promises of the values that end up in them: every
  value of a row has the kind of its column, and its range, but for a few columns the schema made
  narrower than the wire.
\<close>

subsection \<open>Column types\<close>

datatype sql_type = SmallInt | IntegerT | RealT | FloatT | BooleanT | TimestampT | Varchar20

type_synonym column = "string \<times> sql_type"

text \<open>The values PostgreSQL takes for a column of the type as they are; \<open>NULL\<close> for any.\<close>

fun of_kind :: "sql_type \<Rightarrow> pyval \<Rightarrow> bool" where
  "of_kind _ PNone = True"
| "of_kind SmallInt (PInt i) = True"
| "of_kind IntegerT (PInt i) = True"
| "of_kind RealT (PFloat x) = True"
| "of_kind FloatT (PFloat x) = True"
| "of_kind BooleanT (PBool b) = True"
| "of_kind TimestampT (PTime t) = True"
| "of_kind Varchar20 (PStr s) = True"
| "of_kind _ _ = False"

fun in_range :: "sql_type \<Rightarrow> pyval \<Rightarrow> bool" where
  "in_range SmallInt (PInt i) = (- (2 ^ 15) \<le> i \<and> i < 2 ^ 15)"
| "in_range IntegerT (PInt i) = (- (2 ^ 31) \<le> i \<and> i < 2 ^ 31)"
| "in_range Varchar20 (PStr s) = (length s \<le> 20)"
| "in_range _ _ = True"

text \<open>
  The columns narrower than what the listener may send: an unsigned 16-bit field in a \<open>SMALLINT\<close>, an
  unsigned 32-bit field, or the database's own user number, in an \<open>INTEGER\<close>.
\<close>

definition NARROW_COLUMNS :: "string list" where
  "NARROW_COLUMNS = [''user_id'', ''overall_frame_identifier'', ''speed'', ''engine_rpm'', ''engine_temperature'',
     ''brakes_temp_rl'', ''brakes_temp_rr'', ''brakes_temp_fl'', ''brakes_temp_fr'',
     ''last_lap_time_ms'', ''current_lap_time_ms'', ''max_rpm'', ''idle_rpm'']"

definition fits :: "column \<Rightarrow> pyval \<Rightarrow> bool" where
  "fits c v \<longleftrightarrow> of_kind (snd c) v \<and> (fst c \<in> set NARROW_COLUMNS \<or> in_range (snd c) v)"

definition FRAME_KEY_TYPES :: "column list" where
  "FRAME_KEY_TYPES =
     [(''timestamp'', TimestampT), (''session_uid'', Varchar20), (''user_id'', IntegerT),
      (''session_time'', FloatT), (''overall_frame_identifier'', IntegerT)]"

definition MOTION_TYPES :: "column list" where
  "MOTION_TYPES =
     [(''world_pos_x'', RealT), (''world_pos_y'', RealT), (''world_pos_z'', RealT),
      (''world_velocity_x'', RealT), (''world_velocity_y'', RealT),
      (''world_velocity_z'', RealT), (''world_forward_dir_x'', RealT),
      (''world_forward_dir_y'', RealT), (''world_forward_dir_z'', RealT),
      (''world_right_dir_x'', RealT), (''world_right_dir_y'', RealT),
      (''world_right_dir_z'', RealT), (''g_force_lateral'', RealT),
      (''g_force_longitudinal'', RealT), (''g_force_vertical'', RealT), (''yaw'', RealT),
      (''pitch'', RealT), (''roll'', RealT)]"

definition TELEMETRY_TYPES :: "column list" where
  "TELEMETRY_TYPES =
     [(''speed'', SmallInt), (''throttle'', RealT), (''steer'', RealT), (''brake'', RealT),
      (''clutch'', SmallInt), (''gear'', SmallInt), (''engine_rpm'', SmallInt),
      (''drs'', BooleanT), (''rev_lights_percent'', SmallInt),
      (''rev_lights_bit_value'', IntegerT), (''engine_temperature'', SmallInt),
      (''brakes_temp_rl'', SmallInt), (''brakes_temp_rr'', SmallInt),
      (''brakes_temp_fl'', SmallInt), (''brakes_temp_fr'', SmallInt),
      (''tyres_surface_temp_rl'', SmallInt), (''tyres_surface_temp_rr'', SmallInt),
      (''tyres_surface_temp_fl'', SmallInt), (''tyres_surface_temp_fr'', SmallInt),
      (''tyres_inner_temp_rl'', SmallInt), (''tyres_inner_temp_rr'', SmallInt),
      (''tyres_inner_temp_fl'', SmallInt), (''tyres_inner_temp_fr'', SmallInt),
      (''tyres_pressure_rl'', RealT), (''tyres_pressure_rr'', RealT),
      (''tyres_pressure_fl'', RealT), (''tyres_pressure_fr'', RealT),
      (''surface_type_rl'', SmallInt), (''surface_type_rr'', SmallInt),
      (''surface_type_fl'', SmallInt), (''surface_type_fr'', SmallInt)]"

definition PLAYER_TYPES :: "column list" where
  "PLAYER_TYPES =
     [(''mfd_panel_index'', SmallInt), (''mfd_panel_index_secondary_player'', SmallInt),
      (''suggested_gear'', SmallInt)]"

definition LAP_TYPES :: "column list" where
  "LAP_TYPES =
     [(''last_lap_time_ms'', IntegerT), (''current_lap_time_ms'', IntegerT),
      (''sector1_time_ms'', IntegerT), (''sector2_time_ms'', IntegerT),
      (''lap_distance'', RealT), (''total_distance'', RealT), (''safety_car_delta'', RealT),
      (''position'', SmallInt), (''grid_position'', SmallInt), (''current_lap_num'', SmallInt),
      (''sector'', SmallInt), (''pit_status'', SmallInt), (''driver_status'', SmallInt),
      (''result_status'', SmallInt), (''current_lap_invalid'', BooleanT),
      (''gap_to_leader_ms'', IntegerT), (''gap_to_car_ahead_ms'', IntegerT),
      (''gap_to_car_behind_ms'', IntegerT), (''num_pit_stops'', SmallInt),
      (''pit_lane_timer_active'', BooleanT), (''pit_lane_time_ms'', IntegerT),
      (''pit_stop_time_ms'', IntegerT), (''pit_stop_should_serve_pen'', BooleanT),
      (''penalties_seconds'', SmallInt), (''total_warnings'', SmallInt),
      (''corner_cutting_warnings'', SmallInt), (''num_unserved_drive_through_pens'', SmallInt),
      (''num_unserved_stop_go_pens'', SmallInt), (''speed_trap_fastest_speed'', RealT),
      (''speed_trap_fastest_lap'', SmallInt)]"

definition STATUS_TYPES :: "column list" where
  "STATUS_TYPES =
     [(''pit_limiter'', BooleanT), (''drs_allowed'', BooleanT),
      (''drs_activation_distance'', IntegerT), (''actual_tyre_compound'', SmallInt),
      (''visual_tyre_compound'', SmallInt), (''tyres_age_laps'', SmallInt),
      (''vehicle_fia_flags'', SmallInt), (''network_paused'', BooleanT),
      (''traction_control'', SmallInt), (''anti_lock_brakes'', BooleanT),
      (''max_rpm'', SmallInt), (''idle_rpm'', SmallInt), (''max_gears'', SmallInt)]"

definition RESTRICTED_TYPES :: "column list" where
  "RESTRICTED_TYPES =
     [(''front_brake_bias'', SmallInt), (''fuel_mix'', SmallInt), (''fuel_in_tank'', RealT),
      (''fuel_capacity'', RealT), (''fuel_remaining_laps'', RealT),
      (''ers_store_energy'', RealT), (''ers_deploy_mode'', SmallInt),
      (''ers_deployed_this_lap'', RealT), (''ers_harvest_limit_per_lap'', RealT),
      (''ers_harvested_this_lap_mguk'', RealT), (''ers_harvested_this_lap_mguh'', RealT),
      (''engine_power_ice'', RealT), (''engine_power_mguk'', RealT)]"

definition TELEMETRY2_TYPES :: "column list" where
  "TELEMETRY2_TYPES =
     [(''active_aero_mode'', SmallInt), (''active_aero_available'', BooleanT),
      (''active_aero_activation_distance'', IntegerT), (''overtake_available'', BooleanT),
      (''overtake_active'', BooleanT), (''overtake_activation_distance'', IntegerT),
      (''is_2026_regulations'', BooleanT), (''driving_wrong_way'', BooleanT)]"

definition DAMAGE_TYPES :: "column list" where
  "DAMAGE_TYPES =
     [(''tyres_wear_rl'', RealT), (''tyres_wear_rr'', RealT), (''tyres_wear_fl'', RealT),
      (''tyres_wear_fr'', RealT), (''tyres_damage_rl'', SmallInt),
      (''tyres_damage_rr'', SmallInt), (''tyres_damage_fl'', SmallInt),
      (''tyres_damage_fr'', SmallInt), (''brakes_damage_rl'', SmallInt),
      (''brakes_damage_rr'', SmallInt), (''brakes_damage_fl'', SmallInt),
      (''brakes_damage_fr'', SmallInt), (''tyre_blisters_rl'', SmallInt),
      (''tyre_blisters_rr'', SmallInt), (''tyre_blisters_fl'', SmallInt),
      (''tyre_blisters_fr'', SmallInt), (''front_left_wing_damage'', SmallInt),
      (''front_right_wing_damage'', SmallInt), (''rear_wing_damage'', SmallInt),
      (''floor_damage'', SmallInt), (''diffuser_damage'', SmallInt),
      (''sidepod_damage'', SmallInt), (''drs_fault'', BooleanT), (''ers_fault'', BooleanT),
      (''gearbox_damage'', SmallInt), (''engine_damage'', SmallInt),
      (''engine_mguh_wear'', SmallInt), (''engine_es_wear'', SmallInt),
      (''engine_ce_wear'', SmallInt), (''engine_ice_wear'', SmallInt),
      (''engine_mguk_wear'', SmallInt), (''engine_tc_wear'', SmallInt),
      (''engine_blown'', BooleanT), (''engine_seized'', BooleanT)]"

definition CAR_FRAME_TYPES :: "column list" where
  "CAR_FRAME_TYPES = FRAME_KEY_TYPES @ MOTION_TYPES @ TELEMETRY_TYPES @ PLAYER_TYPES @ LAP_TYPES
     @ STATUS_TYPES @ RESTRICTED_TYPES @ TELEMETRY2_TYPES"

definition CAR_FRAME_DAMAGE_TYPES :: "column list" where
  "CAR_FRAME_DAMAGE_TYPES = FRAME_KEY_TYPES @ DAMAGE_TYPES"

lemmas block_types = FRAME_KEY_TYPES_def MOTION_TYPES_def TELEMETRY_TYPES_def PLAYER_TYPES_def LAP_TYPES_def
  STATUS_TYPES_def RESTRICTED_TYPES_def TELEMETRY2_TYPES_def DAMAGE_TYPES_def

text \<open>The columns the listener names are the columns of the tables, in their order.\<close>

lemma car_frame_table_columns: "map fst CAR_FRAME_TYPES = CAR_FRAME_COLUMNS"
  by (simp add: CAR_FRAME_TYPES_def block_types CAR_FRAME_COLUMNS_def per_wheel_def)

lemma car_frame_damage_table_columns: "map fst CAR_FRAME_DAMAGE_TYPES = CAR_FRAME_DAMAGE_COLUMNS"
  by (simp add: CAR_FRAME_DAMAGE_TYPES_def block_types CAR_FRAME_DAMAGE_COLUMNS_def per_wheel_def)

subsection \<open>Values from the wire\<close>

named_theorems wire_fits

lemma fits_none [wire_fits]: "fits c PNone"
  by (cases "snd c") (simp_all add: fits_def)

lemma fits_scalar [wire_fits]:
  "fits (c, RealT) (PFloat x)" "fits (c, FloatT) (PFloat x)" "fits (c, BooleanT) (PBool b)"
  "fits (c, TimestampT) (PTime t)" "length s \<le> 20 \<Longrightarrow> fits (c, Varchar20) (PStr s)"
  by (simp_all add: fits_def)

lemma fits_byte [wire_fits]: "field_ok FB v \<Longrightarrow> fits (c, SmallInt) (PInt (as_int v))"
  by (cases v) (simp_all add: fits_def)

lemma fits_sbyte [wire_fits]: "field_ok Fb v \<Longrightarrow> fits (c, SmallInt) (PInt (as_int v))"
  by (cases v) (simp_all add: fits_def)

lemma fits_short [wire_fits]: "field_ok FH v \<Longrightarrow> fits (c, IntegerT) (PInt (as_int v))"
  by (cases v) (simp_all add: fits_def)

lemma fits_split_time [wire_fits]:
  "field_ok FB m \<Longrightarrow> field_ok FH v \<Longrightarrow> fits (c, IntegerT) (PInt (split_time_ms (as_int m) (as_int v)))"
  by (cases m; cases v) (simp_all add: fits_def split_time_ms_def)

lemma fits_or_none [wire_fits]:
  "fits c (PInt i) \<Longrightarrow> fits c (or_none i)" "fits c (PInt i) \<Longrightarrow> fits c (not_set i)"
  "fits (n, RealT) (or_none_float x)"
  by (simp_all add: or_none_def not_set_def or_none_float_def wire_fits)

lemma fits_narrow [wire_fits]:
  "fits (''user_id'', IntegerT) (PInt i)"
  "fits (''overall_frame_identifier'', IntegerT) (PInt i)"
  "fits (''speed'', SmallInt) (PInt i)"
  "fits (''engine_rpm'', SmallInt) (PInt i)"
  "fits (''engine_temperature'', SmallInt) (PInt i)"
  "fits (''brakes_temp_rl'', SmallInt) (PInt i)"
  "fits (''brakes_temp_rr'', SmallInt) (PInt i)"
  "fits (''brakes_temp_fl'', SmallInt) (PInt i)"
  "fits (''brakes_temp_fr'', SmallInt) (PInt i)"
  "fits (''last_lap_time_ms'', IntegerT) (PInt i)"
  "fits (''current_lap_time_ms'', IntegerT) (PInt i)"
  "fits (''max_rpm'', SmallInt) (PInt i)"
  "fits (''idle_rpm'', SmallInt) (PInt i)"
  by (simp_all add: fits_def NARROW_COLUMNS_def)

lemma fits_nones [wire_fits]: "length cs = n \<Longrightarrow> list_all2 fits cs (nones n)"
  by (auto simp: nones_def list_all2_conv_all_nth fits_none)

text \<open>Values unpacked with a format.\<close>

definition unpacked :: "string \<Rightarrow> pyval list \<Rightarrow> bool" where
  "unpacked s f \<longleftrightarrow> (\<exists>fs. parse_format s = Inr fs \<and> list_all2 field_ok fs f)"

lemma motion_fits: "list_all2 fits MOTION_TYPES (build_motion_fields (Some m))"
  by (simp add: MOTION_TYPES_def build_motion_fields_def wire_fits)

lemma telemetry_fits:
  assumes "unpacked CAR_TELEMETRY_FORMAT f"
  shows "list_all2 fits TELEMETRY_TYPES (build_telemetry_fields (Some (car_telemetry_of f)))"
  using assms
  by (clarsimp simp: unpacked_def list_all2_Cons1 numeral_eq_Suc TELEMETRY_TYPES_def build_telemetry_fields_def
      car_telemetry_of_def int_at_def float_at_def ints_at_def floats_at_def wire_fits)

lemma lap_fits:
  assumes "unpacked LAP_DATA_FORMAT f"
  shows "list_all2 fits LAP_TYPES (build_lap_fields (Some (lap_data_of f)))"
  using assms
  by (clarsimp simp: unpacked_def list_all2_Cons1 numeral_eq_Suc LAP_TYPES_def build_lap_fields_def
      lap_data_of_def int_at_def float_at_def wire_fits)

lemma status_fits:
  assumes "unpacked CAR_STATUS_FORMAT f"
  shows "list_all2 fits STATUS_TYPES (build_status_public_fields (Some (car_status_of f)))"
    and "list_all2 fits RESTRICTED_TYPES (build_status_restricted_fields (Some (car_status_of f)) b)"
  using assms
  by (clarsimp simp: unpacked_def list_all2_Cons1 numeral_eq_Suc STATUS_TYPES_def RESTRICTED_TYPES_def
      build_status_public_fields_def build_status_restricted_fields_def nones_def
      car_status_of_def int_at_def float_at_def wire_fits)+

lemma telemetry2_fits:
  assumes "unpacked CAR_TELEMETRY2_FORMAT f"
  shows "list_all2 fits TELEMETRY2_TYPES (build_telemetry2_fields (Some (car_telemetry2_of f)))"
  using assms
  by (clarsimp simp: unpacked_def list_all2_Cons1 numeral_eq_Suc TELEMETRY2_TYPES_def build_telemetry2_fields_def
      nones_def car_telemetry2_of_def int_at_def float_at_def wire_fits)

lemma damage_fits:
  assumes "unpacked CAR_DAMAGE_FORMAT f"
  shows "list_all2 fits DAMAGE_TYPES (build_damage_fields (Some (car_damage_of f)))"
  using assms
  by (clarsimp simp: unpacked_def list_all2_Cons1 numeral_eq_Suc DAMAGE_TYPES_def build_damage_fields_def
      car_damage_of_def int_at_def float_at_def ints_at_def floats_at_def wire_fits)

lemma player_fits:
  assumes "unpacked TELEMETRY_TAIL_FORMAT f"
  shows "list_all2 fits PLAYER_TYPES [PInt (int_at f 0), PInt (int_at f 1), PInt (int_at f 2)]"
  using assms
  by (clarsimp simp: unpacked_def list_all2_Cons1 PLAYER_TYPES_def int_at_def wire_fits)

subsection \<open>The cars of a frame\<close>

text \<open>Every car was read from bytes with the format.\<close>

definition cars_from :: "string \<Rightarrow> (pyval list \<Rightarrow> 'a) \<Rightarrow> 'a list option \<Rightarrow> bool" where
  "cars_from s read xs \<longleftrightarrow> (\<forall>ys. xs = Some ys \<longrightarrow> (\<forall>y \<in> set ys. \<exists>f. unpacked s f \<and> y = read f))"

definition frame_from_wire :: "frame_data \<Rightarrow> bool" where
  "frame_from_wire fd \<longleftrightarrow> cars_from CAR_TELEMETRY_FORMAT car_telemetry_of (fd_telemetry fd)
     \<and> cars_from LAP_DATA_FORMAT lap_data_of (fd_lap fd)
     \<and> cars_from CAR_STATUS_FORMAT car_status_of (fd_status fd)
     \<and> cars_from CAR_TELEMETRY2_FORMAT car_telemetry2_of (fd_telemetry2 fd)
     \<and> cars_from CAR_DAMAGE_FORMAT car_damage_of (fd_damage fd)
     \<and> (\<forall>p. fd_telemetry_packet fd = Some p \<longrightarrow> list_all2 fits PLAYER_TYPES
          [PInt (tep_mfd_panel_index p), PInt (tep_mfd_panel_index_secondary_player p), PInt (tep_suggested_gear p)])"

lemma iter_unpack_unpacked:
  "iter_unpack s bs = Inr vs \<Longrightarrow> v \<in> set vs \<Longrightarrow> unpacked s v"
  using iter_unpack_typed [of s bs vs _ v]
  by (cases "parse_format s") (auto simp: unpacked_def iter_unpack_def)

lemma unpack_from_unpacked: "unpack_from s bs n = Inr v \<Longrightarrow> unpacked s v"
  using unpack_fields_ok by (auto simp: unpacked_def unpack_from_def and_then_Inr_iff split: if_splits)

lemma cars_fromI: "iter_unpack s bs = Inr vs \<Longrightarrow> cars_from s read (Some (map read vs))"
  by (auto simp: cars_from_def dest: iter_unpack_unpacked)

lemma unpacked_cars:
  "unpack_car_telemetry h b = Inr te \<Longrightarrow> cars_from CAR_TELEMETRY_FORMAT car_telemetry_of (Some (tep_car_telemetry_data te))"
  "unpack_lap_data h b = Inr la \<Longrightarrow> cars_from LAP_DATA_FORMAT lap_data_of (Some (lapp_lap_data la))"
  "unpack_car_status h b = Inr st \<Longrightarrow> cars_from CAR_STATUS_FORMAT car_status_of (Some (csp_car_status_data st))"
  "unpack_car_telemetry2 h b = Inr ty \<Longrightarrow>
    cars_from CAR_TELEMETRY2_FORMAT car_telemetry2_of (Some (t2p_car_telemetry2_data ty))"
  "unpack_car_damage h b = Inr dm \<Longrightarrow> cars_from CAR_DAMAGE_FORMAT car_damage_of (Some (dmp_car_damage_data dm))"
  by (auto simp: unpack_car_telemetry_def unpack_lap_data_def unpack_car_status_def
      unpack_car_telemetry2_def unpack_car_damage_def and_then_Inr_iff Let_def intro!: cars_fromI)

lemma unpacked_player:
  "unpack_car_telemetry h b = Inr p \<Longrightarrow> list_all2 fits PLAYER_TYPES
     [PInt (tep_mfd_panel_index p), PInt (tep_mfd_panel_index_secondary_player p), PInt (tep_suggested_gear p)]"
  by (auto simp: unpack_car_telemetry_def and_then_Inr_iff Let_def
      simp del: list.rel_inject One_nat_def intro!: player_fits unpack_from_unpacked)

lemma opt_unpackD:
  assumes "opt_unpack packets i unpack = Inr (Some p)"
  obtains h b where "unpack h b = Inr p"
  using assms by (auto simp: opt_unpack_def and_then_Inr_iff split: option.splits)

lemma opt_unpack_cars:
  assumes "opt_unpack packets i unpack = Inr r"
    and "\<And>h b p. unpack h b = Inr p \<Longrightarrow> cars_from s read (Some (cars p))"
  shows "cars_from s read (map_option cars r)"
  using assms by (cases r) (auto elim!: opt_unpackD simp: cars_from_def [of _ _ None])

lemma frame_data_from_wire: "frame_data_of h packets = Inr fd \<Longrightarrow> frame_from_wire fd"
  by (auto simp: frame_data_of_def and_then_Inr_iff frame_from_wire_def simp del: list.rel_inject
      intro!: opt_unpack_cars unpacked_cars intro: unpacked_player elim!: opt_unpackD)

lemma car_of_from:
  assumes "cars_from s read xs" "car_of xs i = Inr r" "list_all2 fits T (build None)"
    and "\<And>f. unpacked s f \<Longrightarrow> list_all2 fits T (build (Some (read f)))"
  shows "list_all2 fits T (build r)"
  using assms
  by (auto simp: car_of_def cars_from_def py_index_def and_then_Inr_iff
      split: option.splits if_splits dest!: bspec [OF _ nth_mem])

subsection \<open>Rows\<close>

lemma frame_row_fits:
  assumes fd: "frame_from_wire fd" and meta: "list_all2 fits FRAME_KEY_TYPES meta"
    and cars: "car_of (fd_telemetry fd) i = Inr te" "car_of (fd_lap fd) i = Inr la"
      "car_of (fd_status fd) i = Inr st" "car_of (fd_telemetry2 fd) i = Inr ty"
  shows "list_all2 fits CAR_FRAME_TYPES (frame_row meta fd i r mo te la st ty)"
proof -
  note wire = fd [unfolded frame_from_wire_def]
  have "list_all2 fits MOTION_TYPES (build_motion_fields mo)"
    by (cases mo) (auto simp: build_motion_fields_def [of None] MOTION_TYPES_def intro!: fits_nones motion_fits [unfolded MOTION_TYPES_def])
  moreover have "list_all2 fits TELEMETRY_TYPES (build_telemetry_fields te)"
    by (rule car_of_from [where build = build_telemetry_fields and read = car_telemetry_of, OF _ cars(1) _ telemetry_fits])
       (use wire in \<open>auto simp: build_telemetry_fields_def TELEMETRY_TYPES_def intro!: fits_nones\<close>)
  moreover have "list_all2 fits LAP_TYPES (build_lap_fields la)"
    by (rule car_of_from [where build = build_lap_fields and read = lap_data_of, OF _ cars(2) _ lap_fits])
       (use wire in \<open>auto simp: build_lap_fields_def LAP_TYPES_def intro!: fits_nones\<close>)
  moreover have "list_all2 fits STATUS_TYPES (build_status_public_fields st)"
    by (rule car_of_from [where build = build_status_public_fields and read = car_status_of, OF _ cars(3) _ status_fits(1)])
       (use wire in \<open>auto simp: build_status_public_fields_def STATUS_TYPES_def intro!: fits_nones\<close>)
  moreover have "list_all2 fits RESTRICTED_TYPES (build_status_restricted_fields st r)"
    by (rule car_of_from [where build = "\<lambda>x. build_status_restricted_fields x r" and read = car_status_of, OF _ cars(3) _ status_fits(2)])
       (use wire in \<open>auto simp: build_status_restricted_fields_def RESTRICTED_TYPES_def intro!: fits_nones\<close>)
  moreover have "list_all2 fits TELEMETRY2_TYPES (build_telemetry2_fields ty)"
    by (rule car_of_from [where build = build_telemetry2_fields and read = car_telemetry2_of, OF _ cars(4) _ telemetry2_fits])
       (use wire in \<open>auto simp: build_telemetry2_fields_def TELEMETRY2_TYPES_def intro!: fits_nones\<close>)
  moreover have "list_all2 fits PLAYER_TYPES
      (build_player_telemetry_fields (fd_telemetry_packet fd) (fd_player_car_index fd = Some (int i)))"
    using wire by (cases "fd_telemetry_packet fd")
      (auto simp: build_player_telemetry_fields_def simp del: list.rel_inject intro!: fits_nones simp: PLAYER_TYPES_def)
  ultimately show ?thesis
    unfolding CAR_FRAME_TYPES_def frame_row_def by (intro list_all2_appendI meta)
qed

lemma damage_row_fits:
  assumes "frame_from_wire fd" "fd_damage fd = Some cars" "py_index cars i = Inr d"
    and "list_all2 fits FRAME_KEY_TYPES meta"
  shows "list_all2 fits CAR_FRAME_DAMAGE_TYPES (meta @ build_damage_fields (Some d))"
proof -
  have "d \<in> set cars" using assms(3) by (auto simp: py_index_def split: if_splits)
  then obtain f where "unpacked CAR_DAMAGE_FORMAT f" "d = car_damage_of f"
    using assms(1,2) by (auto simp: frame_from_wire_def cars_from_def)
  then show ?thesis
    unfolding CAR_FRAME_DAMAGE_TYPES_def using damage_fits assms(4) by (auto intro: list_all2_appendI)
qed

definition rows_fit :: "column list \<Rightarrow> pyval list list \<Rightarrow> bool" where
  "rows_fit T rows \<longleftrightarrow> (\<forall>r \<in> set rows. list_all2 fits T r)"

lemma car_rows_fit:
  assumes fd: "frame_from_wire fd" and meta: "\<And>u. list_all2 fits FRAME_KEY_TYPES (meta u)"
    and ok: "car_rows meta fd m R i = Inr p"
  shows "rows_fit CAR_FRAME_TYPES (fst p) \<and> rows_fit CAR_FRAME_DAMAGE_TYPES (snd p)"
  using ok frame_row_fits [OF fd meta] damage_row_fits [OF fd _ _ meta]
  by (auto simp: car_rows_def rows_fit_def and_then_Inr_iff Let_def split: option.splits if_splits)

lemma CAR_FRAME_TYPES_nth: "CAR_FRAME_TYPES ! 73 = (''gap_to_car_ahead_ms'', IntegerT)"
  "CAR_FRAME_TYPES ! 74 = (''gap_to_car_behind_ms'', IntegerT)" "length CAR_FRAME_TYPES = 121"
  by (simp_all add: CAR_FRAME_TYPES_def block_types)

lemma behind_gap_fits:
  assumes "rows_fit CAR_FRAME_TYPES rows"
  shows "fits (''gap_to_car_behind_ms'', IntegerT) (behind_gap rows row)"
proof -
  have gap: "fits (''gap_to_car_behind_ms'', IntegerT) (r ! 73)" if r: "r \<in> set rows" for r
  proof -
    have "fits (CAR_FRAME_TYPES ! 73) (r ! 73)"
      using r assms list_all2_nthD by (fastforce simp: rows_fit_def CAR_FRAME_TYPES_nth(3))
    then show ?thesis by (simp add: CAR_FRAME_TYPES_nth fits_def NARROW_COLUMNS_def)
  qed
  have "g \<in> (\<lambda>r. r ! 73) ` set rows" if "map_of (gap_ahead_by_position rows) k = Some g" for k g
    using map_of_SomeD [OF that [unfolded gap_ahead_by_position_def map_of_dict_of]] by auto
  then show ?thesis
    using gap by (auto simp: behind_gap_def fits_none split: pyval.splits option.splits)
qed

lemma fill_gap_fits:
  assumes "rows_fit CAR_FRAME_TYPES rows"
  shows "rows_fit CAR_FRAME_TYPES (fill_gap_to_car_behind rows)"
proof -
  have "list_all2 fits CAR_FRAME_TYPES (r[74 := behind_gap rows r])" if "r \<in> set rows" for r
    using that assms list_all2_update_cong [of fits CAR_FRAME_TYPES r _ "behind_gap rows r" 74]
      behind_gap_fits [OF assms, of r]
    by (metis CAR_FRAME_TYPES_nth(2) list_update_id rows_fit_def)
  then show ?thesis using assms by (auto simp: rows_fit_def fill_gap_to_car_behind_def Let_def)
qed

lemma frame_rows_fit:
  assumes "frame_from_wire fd" "\<And>u. list_all2 fits FRAME_KEY_TYPES (meta u)"
    and ok: "frame_rows meta fd m R = Inr (rows, damage)"
  shows "rows_fit CAR_FRAME_TYPES rows \<and> rows_fit CAR_FRAME_DAMAGE_TYPES damage"
proof -
  obtain ps where ps: "map_py (car_rows meta fd m R) [0..<MAX_CARS] = Inr ps"
      "rows = fill_gap_to_car_behind (concat (map fst ps))" "damage = concat (map snd ps)"
    using ok by (auto simp: frame_rows_def and_then_Inr_iff)
  have "rows_fit CAR_FRAME_TYPES (fst p) \<and> rows_fit CAR_FRAME_DAMAGE_TYPES (snd p)" if p: "p \<in> set ps" for p
  proof -
    obtain i where "i < length ps" "p = ps ! i" using p by (auto simp: in_set_conv_nth)
    then have "car_rows meta fd m R ([0..<MAX_CARS] ! i) = Inr p"
      using map_py_Inr_nth [OF ps(1), of i] map_py_Inr_length [OF ps(1)] by simp
    then show ?thesis by (rule car_rows_fit [OF assms(1,2)])
  qed
  then have "rows_fit CAR_FRAME_TYPES (concat (map fst ps))" "rows_fit CAR_FRAME_DAMAGE_TYPES (concat (map snd ps))"
    by (auto simp: rows_fit_def)
  then show ?thesis using fill_gap_fits by (simp add: ps(2,3))
qed

subsection \<open>The key of a row\<close>

lemma length_dec_nat: "n < 10 ^ Suc k \<Longrightarrow> length (dec_nat n) \<le> Suc k"
proof (induction k arbitrary: n)
  case 0
  then show ?case by (subst dec_nat.simps) simp
next
  case (Suc k)
  then have "n div 10 < 10 ^ Suc k" by (simp add: less_mult_imp_div_less mult.commute)
  then show ?case using Suc.IH [of "n div 10"] by (subst dec_nat.simps) simp
qed

lemma PACKET_HEADER_fields:
  "parse_format PACKET_HEADER_FORMAT = Inr [FH, FB, FB, FB, FB, FB, FQ, Ff, FI, FI, FB, FB]"
  by (simp add: PACKET_HEADER_FORMAT_def parse_format_def digit_of_char_def field_of_char_def)

lemma session_key_fits:
  assumes "unpack_packet_header bs = Inr h"
  shows "length (session_key h) \<le> 20"
proof -
  obtain f where f: "struct_unpack PACKET_HEADER_FORMAT bs = Inr f" "hdr_session_uid h = int_at f 6"
    using assms by (auto simp: unpack_packet_header_def and_then_Inr_iff)
  have "field_ok FQ (f ! 6)"
    using list_all2_nthD [OF struct_unpack_typed [OF f(1) PACKET_HEADER_fields], of 6] by simp
  then obtain i where i: "f ! 6 = PInt i" "0 \<le> i" "i < 2 ^ 64" by (cases "f ! 6") simp_all
  then have "nat i < 10 ^ Suc 19" by (simp add: nat_less_iff)
  then show ?thesis
    using length_dec_nat [of "nat i" 19] i f(2) by (simp add: session_key_def dec_int_def int_at_def)
qed

lemma frame_meta_fits:
  "length uid \<le> 20 \<Longrightarrow> list_all2 fits FRAME_KEY_TYPES (frame_meta ts uid u st n)"
  by (simp add: FRAME_KEY_TYPES_def frame_meta_def wire_fits)

text \<open>
  C36. The columns the listener names for \<open>car_frame\<close> and \<open>car_frame_damage\<close> are those of the tables,
  in their order, and every value of every row built from the packets of a frame is NULL or has the
  kind of its column and its range, but for the columns in \<open>NARROW_COLUMNS\<close>, whose kind it has.
\<close>

theorem frame_rows_typed:
  assumes "unpack_packet_header bs = Inr h" "frame_data_of h packets = Inr fd"
    and "frame_rows (\<lambda>u. frame_meta t (session_key h) u (hdr_session_time h) n) fd m R = Inr (rows, damage)"
  shows "map fst CAR_FRAME_TYPES = CAR_FRAME_COLUMNS \<and> rows_fit CAR_FRAME_TYPES rows
    \<and> map fst CAR_FRAME_DAMAGE_TYPES = CAR_FRAME_DAMAGE_COLUMNS \<and> rows_fit CAR_FRAME_DAMAGE_TYPES damage"
  using frame_rows_fit [OF frame_data_from_wire [OF assms(2)] frame_meta_fits assms(3)]
    session_key_fits [OF assms(1)] car_frame_table_columns car_frame_damage_table_columns by simp

definition status_packet :: "packet_header \<Rightarrow> wire_packet packets" where
  "status_packet h = [(7, (h, replicate 1416 0))]"

lemma status_packet_frame: "\<exists>fd. frame_data_of h (status_packet h') = Inr fd \<and> frame_data_ok fd \<and> fd_lap fd = None"
proof -
  obtain p where "unpack_car_status h' (replicate 1416 0) = Inr p" "length (csp_car_status_data p) = MAX_CARS"
    using unpack_car_status_total [of "replicate 1416 0" h'] by auto
  then show ?thesis by (simp add: status_packet_def frame_data_of_def opt_unpack_def frame_data_ok_def cars_ok_def)
qed

theorem frame_rows_typed_witness:
  "\<exists>h fd rows damage. unpack_packet_header (replicate 29 0) = Inr h \<and> frame_data_of h (status_packet h) = Inr fd
     \<and> frame_rows (\<lambda>u. frame_meta 0 (session_key h) u (hdr_session_time h) 5) fd [(3, 70)] {} = Inr (rows, damage)
     \<and> rows \<noteq> [] \<and> rows_fit CAR_FRAME_TYPES rows"
proof -
  obtain h where h: "unpack_packet_header (replicate 29 0) = Inr h"
    using struct_unpack_ok [OF PACKET_HEADER_fields, of "replicate 29 0"] by (simp add: unpack_packet_header_def)
  obtain fd where fd: "frame_data_of h (status_packet h) = Inr fd" "frame_data_ok fd" "fd_lap fd = None"
    using status_packet_frame by blast
  let ?meta = "\<lambda>u. frame_meta 0 (session_key h) u (hdr_session_time h) 5"
  note ok = frame_rows_ok [OF fd(2), of ?meta "[(3, 70)]" "{}"]
  have "racing_driver fd [(3, 70)] 3 = Some 70" by (simp add: racing_driver_def opt_nth_def fd(3))
  then have "car_row_list ?meta fd [(3, 70)] {} \<noteq> []"
    by (auto simp: car_row_list_def List.map_filter_def filter_empty_conv MAX_CARS_def intro!: bexI [of _ 3])
  then have "fill_gap_to_car_behind (car_row_list ?meta fd [(3, 70)] {}) \<noteq> []" by (simp add: fill_gap_to_car_behind_def)
  with frame_rows_typed [OF h fd(1) ok] h fd(1) ok show ?thesis by blast
qed

subsection \<open>Directions\<close>

text \<open>The direction vectors are meant to lie between -1 and 1; the least 16-bit value lies below.\<close>

lemma nlog2_divisor: "nlog2 32767 = 14" "nlog2 32768 = 15"
  by (simp_all add: nlog2.simps)

lemma least_direction: "f_div (- 32768) NORM_DIVISOR = PyFin True (round_half_even (2 ^ 67) 32767) (- 52)"
  by (simp add: f_div_def NORM_DIVISOR_def nlog2_divisor Let_def)

theorem least_direction_below_minus_one: "f_lt (f_div (- 32768) NORM_DIVISOR) (f_of_int (- 1))"
  by (simp add: least_direction f_of_int_def round_half_even_def Let_def)

end
