(* ===== verification/Frame_Tables.thy ===== *)
theory Frame_Tables
  imports Dispatcher_Facts
begin

text \<open>
  What the listener does beside recording frames leaves the two frame tables alone: completed laps,
  setups, tyres, laps, results, positions, extended motion, the lobby and the events.
\<close>

definition RECORDED_TABLES :: "string list" where
  "RECORDED_TABLES = [''telemetry.car_frame'', ''telemetry.car_frame_damage'']"

subsection \<open>Operations that leave the frame tables alone\<close>

named_theorems aside \<open>introduction rules for operations that leave the frame tables alone\<close>

definition frames_kept :: "world \<Rightarrow> world \<Rightarrow> bool" where
  "frames_kept w w' \<longleftrightarrow> w_enabled w' = w_enabled w \<and> w_fault w' = w_fault w
     \<and> (\<forall>T \<in> set RECORDED_TABLES. table w' T = table w T)"

definition spares :: "(db \<Rightarrow> ('a \<times> db) py) \<Rightarrow> bool" where
  "spares q \<longleftrightarrow> (\<forall>d x d'. q d = Inr (x, d') \<longrightarrow> (\<forall>T \<in> set RECORDED_TABLES. db_tables d' T = db_tables d T))"

lemma frames_kept_refl [aside]: "frames_kept w w"
  by (simp add: frames_kept_def)

lemma frames_kept_trans: "frames_kept w1 w2 \<Longrightarrow> frames_kept w2 w3 \<Longrightarrow> frames_kept w1 w3"
  by (simp add: frames_kept_def)

lemma frames_kept_healthy: "frames_kept w w' \<Longrightarrow> healthy w \<Longrightarrow> healthy w'"
  by (simp add: frames_kept_def healthy_def)

lemma kept_txn [aside]: "spares q \<Longrightarrow> frames_kept v w \<Longrightarrow> frames_kept v (snd (run_txn q w))"
  by (auto simp: frames_kept_def spares_def run_txn_def Let_def split: sum.split)

lemma spares_insert [aside]: "T \<notin> set RECORDED_TABLES \<Longrightarrow> spares (sql_insert T cols oc vals)"
  by (auto simp: spares_def sql_insert_def Let_def split: if_splits prod.splits)

lemma spares_many [aside]: "(\<And>q. q \<in> set qs \<Longrightarrow> spares q) \<Longrightarrow> spares (sql_many qs)"
proof (induction qs)
  case (Cons q qs)
  then have "spares q" "spares (sql_many qs)" by auto
  then show ?case unfolding spares_def by (fastforce simp: and_then_Inr_iff)
qed (simp add: spares_def)

lemma kept_execute [aside]:
  "spares q \<Longrightarrow> frames_kept v w \<Longrightarrow> frames_kept v (snd (execute q w))"
  "(\<And>q. q \<in> set qs \<Longrightarrow> spares q) \<Longrightarrow> frames_kept v w \<Longrightarrow> frames_kept v (execute_many qs w)"
  "(\<And>q. q \<in> set qs \<Longrightarrow> spares q) \<Longrightarrow> frames_kept v w \<Longrightarrow> frames_kept v (snd (execute_many_strict qs w))"
  unfolding execute_def execute_many_def execute_many_strict_def split_beta
  by (auto intro!: aside split: sum.split)

lemma kept_insert [aside]:
  "T \<notin> set RECORDED_TABLES \<Longrightarrow> frames_kept v w \<Longrightarrow> frames_kept v (insert_row T cols oc vals w)"
  "T \<notin> set RECORDED_TABLES \<Longrightarrow> frames_kept v w \<Longrightarrow> frames_kept v (insert_rows T cols oc rows w)"
  unfolding insert_row_def insert_rows_def by (auto intro!: aside)

lemma kept_clock [aside]:
  "frames_kept v w \<Longrightarrow> frames_kept v (snd (utc_now w))" "frames_kept v w \<Longrightarrow> frames_kept v (snd (monotonic_now w))"
  "frames_kept v w \<Longrightarrow> frames_kept v (snd (file_op w))" "frames_kept v w \<Longrightarrow> frames_kept v (w\<lparr>w_files := fs\<rparr>)"
  by (simp_all add: frames_kept_def utc_now_def monotonic_now_def file_op_def)

lemma kept_laps [aside]:
  "frames_kept v w \<Longrightarrow> frames_kept v (upsert_lap_positions uid n ps w)"
  "frames_kept v w \<Longrightarrow> frames_kept v (insert_lap_setup uid u n sid wing w)"
  "frames_kept v w \<Longrightarrow> frames_kept v (upsert_laps_batch rows w)"
  "frames_kept v w \<Longrightarrow> frames_kept v (lobby_info_upsert uid infos n w)"
  "frames_kept v w \<Longrightarrow> frames_kept v (session_bests_upsert vals w)"
  "frames_kept v w \<Longrightarrow> frames_kept v (insert_snapshot rows w)"
  "frames_kept v w \<Longrightarrow> frames_kept v (upsert_stints_batch rows w)"
  "frames_kept v w \<Longrightarrow> frames_kept v (motion_ex_insert vals w)"
  unfolding upsert_lap_positions_def insert_lap_setup_def upsert_laps_batch_def lobby_info_upsert_def
    session_bests_upsert_def insert_snapshot_def upsert_stints_batch_def motion_ex_insert_def
  by (auto intro!: aside simp: RECORDED_TABLES_def)

lemma kept_setup [aside]: "frames_kept v w \<Longrightarrow> frames_kept v (snd (upsert_setup hash tid vals user uid w))"
proof -
  have "spares (upsert_setup_txn vals')" for vals'
    unfolding spares_def upsert_setup_txn_def Let_def
    by (auto simp: and_then_Inr_iff sql_insert_def Let_def RECORDED_TABLES_def split: if_splits prod.splits)
  then show "frames_kept v w \<Longrightarrow> frames_kept v (snd (upsert_setup hash tid vals user uid w))"
    unfolding upsert_setup_def split_beta by (auto intro!: aside split: sum.split)
qed

lemma kept_lap_complete: "frames_kept (co_world c) (co_world (on_lap_complete uid u i n c))"
proof -
  have "frames_kept v w \<Longrightarrow> frames_kept v (car_setup_on_lap_complete s uid u n t w)" for s v w t
    unfolding car_setup_on_lap_complete_def split_beta by (auto intro!: aside split: option.split)
  moreover have "frames_kept v w \<Longrightarrow> frames_kept v (tyre_sets_on_lap_complete s uid u i n w)" for s v w
    by (auto simp: tyre_sets_on_lap_complete_def intro!: aside split: option.split)
  ultimately show ?thesis
    by (auto simp: on_lap_complete_def Let_def frames_kept_refl split: option.split)
qed

lemma kept_lap_completions: "frames_kept (co_world c) (co_world (check_lap_completions uid m laps c))"
proof -
  have one: "frames_kept (co_world c) (co_world (check_lap_completion uid m il c))" for il c
    by (cases il) (auto simp: check_lap_completion_def Let_def frames_kept_refl kept_lap_complete split: option.split)
  have "frames_kept (co_world c) (co_world (fold (check_lap_completion uid m) ils c))" for ils
    by (induction ils arbitrary: c) (auto intro: frames_kept_refl frames_kept_trans one)
  then show ?thesis by (simp add: check_lap_completions_def)
qed

lemma kept_services [aside]:
  "frames_kept v w \<Longrightarrow> frames_kept v (snd (write_motion_ex p m start w))"
  "frames_kept v w \<Longrightarrow> frames_kept v (snd (handle_final_classification_packet fp m st fs w))"
  "frames_kept v w \<Longrightarrow> frames_kept v (snd (handle_session_history_packet hp m ls w))"
  "frames_kept v w \<Longrightarrow> frames_kept v (handle_tyre_stints hp m w)"
  "frames_kept v w \<Longrightarrow> frames_kept v (snd (handle_lap_positions_packet lp m w))"
  "frames_kept v w \<Longrightarrow> frames_kept v (handle_lobby_info_packet lo w)"
proof -
  have classified: "frames_kept v w \<Longrightarrow> frames_kept v (snd (write_classifications b cs w))" for b cs v w
    unfolding write_classifications_def insert_race_classification_batch_def
      insert_qualifying_classification_batch_def insert_classification_batch_def Let_def
    by (auto intro!: aside simp: RECORDED_TABLES_def split: sum.split)
  have letter: "frames_kept v w \<Longrightarrow> frames_kept v (write_dead_letter fs u cs b w)" for u cs b v w
    unfolding write_dead_letter_def split_beta Let_def by (auto intro!: aside)
  have positions: "frames_kept v w \<Longrightarrow> frames_kept v (snd (write_lap_positions lp m is w))" for "is" v w
    by (induction "is" arbitrary: w) (auto intro!: aside split: sum.split)
  have timestamp: "frames_kept v w \<Longrightarrow> frames_kept v (snd (frame_timestamp start t w))" for t v w
    unfolding frame_timestamp_def split_beta Let_def by (auto intro!: aside split: option.split)
  assume v: "frames_kept v w"
  show "frames_kept v (snd (write_motion_ex p m start w))"
    using v unfolding write_motion_ex_def split_beta Let_def
    by (auto intro!: aside timestamp split: option.split sum.split)
  show "frames_kept v (snd (handle_final_classification_packet fp m st fs w))"
    using v unfolding handle_final_classification_packet_def split_beta Let_def
    by (auto intro!: aside classified letter split: option.split sum.split)
  show "frames_kept v (snd (handle_session_history_packet hp m ls w))"
    using v unfolding handle_session_history_packet_def upsert_laps_def upsert_session_bests_def split_beta Let_def
    by (auto intro!: aside split: option.split)
  show "frames_kept v (handle_tyre_stints hp m w)"
    using v unfolding handle_tyre_stints_def Let_def by (auto intro!: aside split: option.split)
  show "frames_kept v (snd (handle_lap_positions_packet lp m w))"
    using v by (simp add: handle_lap_positions_packet_def positions)
  show "frames_kept v (handle_lobby_info_packet lo w)"
    using v by (auto simp: handle_lobby_info_packet_def intro!: aside)
qed

lemma kept_driver_packet: "frames_kept (co_world c) (co_world (on_driver_packet lib h body m c))"
proof -
  have "frames_kept v w \<Longrightarrow> frames_kept v (if b then handle_tyre_stints hp m w else w)" for b hp v w
    by (simp add: kept_services)
  then show ?thesis
    unfolding on_driver_packet_def Let_def split_beta
    by (auto intro!: aside simp del: if_split split: sum.split option.split if_split)
qed

lemma kept_event_packet: "frames_kept w (handle_event_packet p m w)"
proof -
  have rc: "frames_kept w (events_race_control_insert uid f c t a b x y w)" for uid f c t a b x y
    unfolding events_race_control_insert_def by (auto intro!: aside simp: RECORDED_TABLES_def)
  have control: "frames_kept w (handle_race_control uid f c t e w)" for uid f c t e
    by (auto simp: handle_race_control_def rc frames_kept_refl split: event_details.split)
  have rest: "frames_kept w (handle_overtake uid f t e m w)" "frames_kept w (handle_collision uid f t e m w)"
    "frames_kept w (handle_penalty uid f t e m w)" "frames_kept w (handle_fastest_lap uid f t e m w)"
    "frames_kept w (handle_retirement uid f t e m w)" "frames_kept w (handle_speed_trap uid f t e m w)"
    "frames_kept w (handle_driver_action uid f c t e m w)" "frames_kept w (handle_buttons uid f t e w)" for uid f c t e
    unfolding handle_overtake_def handle_collision_def handle_penalty_def handle_fastest_lap_def
      handle_retirement_def handle_speed_trap_def handle_driver_action_def handle_buttons_def
      events_overtakes_insert_def events_collisions_insert_def events_penalties_insert_def
      events_fastest_laps_insert_def events_retirements_insert_def events_speed_traps_insert_def
      events_driver_actions_insert_def events_buttons_insert_def
    by (auto intro!: aside simp: RECORDED_TABLES_def split: event_details.split option.split)
  show ?thesis
    by (simp add: handle_event_packet_def Let_def control rest frames_kept_refl split: option.split)
qed

end
