(* ===== verification/Recording.thy ===== *)
theory Recording
  imports Row_Types Frame_Tables
begin

text \<open>
  The pipeline as a whole: what stands in the two frame tables after a stretch of a session has come in
  one datagram at a time is what grouping its packets by frame and inserting the rows of each group in
  order would put there. The specification (\<open>recorded_rows\<close>) knows neither buffer nor clock nor
  sweep; the packets that only pass by are stutter steps of it.
\<close>

subsection \<open>A session being recorded\<close>

text \<open>
  What the recording of a session \<open>uid\<close> rests on: it is known, its drivers are mapped (\<open>m\<close>), the cars with
  restricted telemetry are \<open>R\<close>, its anchor is \<open>start\<close>, its race is not waiting for its start, and the
  database answers.
\<close>

definition recording :: "pystr \<Rightarrow> user_map \<Rightarrow> int set \<Rightarrow> int \<Rightarrow> core \<Rightarrow> bool" where
  "recording uid m R start c \<longleftrightarrow> core_wf c \<and> bs_contains (co_known_sessions c) uid
     \<and> \<not> bs_contains (co_excluded_sessions c) uid \<and> user_map_of c uid = m \<and> m \<noteq> []
     \<and> get_restricted_indices (co_participants c) uid = R \<and> get_session_start (co_session c) uid = Some start
     \<and> bd_get (co_race_started c) uid \<noteq> Some False \<and> healthy (co_world c)"

text \<open>What the handling of a packet that only passes by leaves as it is.\<close>

definition passes_by :: "core \<Rightarrow> core \<Rightarrow> bool" where
  "passes_by c c' \<longleftrightarrow> co_known_sessions c' = co_known_sessions c \<and> co_excluded_sessions c' = co_excluded_sessions c
     \<and> co_user_maps c' = co_user_maps c \<and> co_participants c' = co_participants c \<and> co_session c' = co_session c
     \<and> (core_wf c \<longrightarrow> core_wf c' \<and> never_unstarts (co_race_started c) (co_race_started c'))
     \<and> frames_kept (co_world c) (co_world c')"

lemma recording_flush:
  "recording uid m R start c \<Longrightarrow> flush_effect c c' \<Longrightarrow> healthy (co_world c') \<Longrightarrow> recording uid m R start c'"
  using flush_effect_core_wf [of c c']
  by (auto simp: recording_def flush_effect_def same_services_def user_map_of_def core_wf_def never_unstarts_def)

lemma recording_passes_by: "recording uid m R start c \<Longrightarrow> passes_by c c' \<Longrightarrow> recording uid m R start c'"
  using frames_kept_healthy [of "co_world c" "co_world c'"]
  by (auto simp: recording_def passes_by_def user_map_of_def never_unstarts_def)

lemma passes_by_flush: "flush_effect c c' \<Longrightarrow> frames_kept (co_world c) (co_world c') \<Longrightarrow> passes_by c c'"
  using flush_effect_core_wf [of c c']
  by (auto simp: passes_by_def flush_effect_def same_services_def core_wf_def)

lemma passes_by_refl: "passes_by c c"
  by (simp add: passes_by_flush frames_kept_refl)

lemma passes_by_driver: "passes_by c (on_driver_packet lib h body m c)"
proof -
  have "co_session (on_driver_packet lib h body m c) = co_session c"
    by (rule driver_packet_cases) simp_all
  then show ?thesis
    by (simp add: passes_by_def on_driver_packet_fields kept_driver_packet core_wf_def never_unstarts_def)
qed

text \<open>
  The datagrams that only pass by: of any session, everything but the packets of a frame, the session
  and participants packets, and the events that end a session or go back in time.
\<close>

definition passing :: "byte list \<Rightarrow> bool" where
  "passing data \<longleftrightarrow> (case header_of data of
      None \<Rightarrow> True
    | Some h \<Rightarrow> hdr_packet_id h \<notin> {1, 4} \<and> hdr_packet_id h \<notin> set CAR_FRAME_PACKET_IDS
        \<and> (hdr_packet_id h = 3 \<longrightarrow> (case unpack_event_packet h (drop PACKET_HEADER_FORMAT_SIZE data) of
             Inl _ \<Rightarrow> True
           | Inr p \<Rightarrow> clean_event_code p \<noteq> ascii ''SEND'' \<and> clean_event_code p \<noteq> ascii ''FLBK'')))"

lemma event_passes_by:
  assumes "case unpack_event_packet h body of Inl _ \<Rightarrow> True
      | Inr p \<Rightarrow> clean_event_code p \<noteq> ascii ''SEND'' \<and> clean_event_code p \<noteq> ascii ''FLBK''"
  shows "passes_by (dp_core d) (dp_core (on_event_packet h body d))
    \<and> dp_buffer (on_event_packet h body d) = dp_buffer d"
proof -
  have store: "passes_by c (c\<lparr>co_world := handle_event_packet p m (co_world c)\<rparr>)" for c p m
    by (simp add: passes_by_flush kept_event_packet)
  have mark: "passes_by c (mark_race_started uid (c\<lparr>co_world := handle_event_packet p m (co_world c)\<rparr>))" for c p m uid
  proof -
    have "co_world (mark_race_started uid c') = co_world c'" for c' by (simp add: mark_race_started_def)
    then show ?thesis
      using flush_effect_trans [OF flush_effect_world flush_effect_mark]
      by (intro passes_by_flush) (simp_all add: kept_event_packet)
  qed
  have after: "after_session_event uid code p d' = d' \<or> after_session_event uid code p d' = on_core (mark_race_started uid) d'"
    if "code \<noteq> ascii ''SEND''" "code \<noteq> ascii ''FLBK''" for uid code p d'
    unfolding after_session_event_def if_not_P [OF that(1)] if_not_P [OF that(2)]
    by (simp split: event_details.split)
  show ?thesis
  proof (cases "unpack_event_packet h body")
    case (Inl e)
    then show ?thesis by (simp add: on_event_packet_def passes_by_refl)
  next
    case (Inr p)
    let ?m = "user_map_of (dp_core d) (session_key h)"
    let ?d = "on_core (\<lambda>c. c\<lparr>co_world := handle_event_packet p ?m (co_world c)\<rparr>) d"
    have "on_event_packet h body d \<in> {after_session_event (session_key h) (clean_event_code p) p ?d, ?d, d}"
      by (simp add: on_event_packet_def Let_def Inr)
    moreover have "after_session_event (session_key h) (clean_event_code p) p ?d
        \<in> {?d, on_core (mark_race_started (session_key h)) ?d}"
      using after [of "clean_event_code p" "session_key h" p ?d] assms unfolding Inr sum.case by blast
    ultimately have "on_event_packet h body d \<in> {?d, on_core (mark_race_started (session_key h)) ?d, d}" by auto
    then show ?thesis using store mark passes_by_refl by auto
  qed
qed

lemma passing_passes_by:
  assumes "passing data"
  shows "passes_by (dp_core d) (dp_core (handle_packet lib data d)) \<and> dp_buffer (handle_packet lib data d) = dp_buffer d"
proof (cases "header_of data")
  case None
  then show ?thesis by (simp add: handle_packet_header passes_by_refl)
next
  case (Some h)
  have lobby: "passes_by c (on_lobby_packet h body c)" for body c
    by (auto simp: on_lobby_packet_def passes_by_refl intro!: passes_by_flush aside split: sum.split)
  have route: "passes_by (dp_core d') (dp_core (route_packet lib h (drop PACKET_HEADER_FORMAT_SIZE data) d'))
      \<and> dp_buffer (route_packet lib h (drop PACKET_HEADER_FORMAT_SIZE data) d') = dp_buffer d'" for d'
    using assms event_passes_by [of h "drop PACKET_HEADER_FORMAT_SIZE data" d']
    by (simp add: passing_def Some route_packet_def Let_def passes_by_refl lobby passes_by_driver)
  show ?thesis
    using route [of "d\<lparr>dp_header_log := snd (validate_packet_header h (dp_header_log d))\<rparr>"]
    by (simp add: handle_packet_header Some Let_def passes_by_refl)
qed

subsection \<open>What a frame puts into the tables\<close>

text \<open>
  The specification: the rows of one frame, from its packets and the facts of the session alone; none
  for a frame of the first second, one without a packet that describes the cars on the track, or one
  whose time is not a date.
\<close>

definition describes_cars :: "frame_data \<Rightarrow> bool" where
  "describes_cars fd \<longleftrightarrow> fd_motion fd \<noteq> None \<or> fd_telemetry fd \<noteq> None \<or> fd_lap fd \<noteq> None \<or> fd_status fd \<noteq> None"

definition frame_contents ::
    "pystr \<Rightarrow> user_map \<Rightarrow> int set \<Rightarrow> int \<Rightarrow> int \<Rightarrow> pyfloat \<Rightarrow> frame_data \<Rightarrow> pyval list list \<times> pyval list list" where
  "frame_contents uid m R start f t fd = (case and_then (timedelta t) (datetime_add start) of
      Inl _ \<Rightarrow> ([], [])
    | Inr ts \<Rightarrow>
        if f_lt t ONE \<or> \<not> describes_cars fd then ([], [])
        else let meta = \<lambda>u. frame_meta ts uid u t f in
          (fill_gap_to_car_behind (car_row_list meta fd m R), damage_row_list meta fd m R))"

definition recorded_rows ::
    "pystr \<Rightarrow> user_map \<Rightarrow> int set \<Rightarrow> int \<Rightarrow> int \<times> wire_packet packets \<Rightarrow> pyval list list \<times> pyval list list" where
  "recorded_rows uid m R start = (\<lambda>(f, packets).
    let h = fst (snd (hd packets)) in
    case frame_data_of h packets of
      Inl _ \<Rightarrow> ([], [])
    | Inr fd \<Rightarrow> frame_contents uid m R start f (hdr_session_time h) fd)"

definition frame_tables :: "world \<Rightarrow> row list \<times> row list" where
  "frame_tables w = (table w ''telemetry.car_frame'', table w ''telemetry.car_frame_damage'')"

definition store_rows :: "pyval list list \<times> pyval list list \<Rightarrow> row list \<times> row list \<Rightarrow> row list \<times> row list" where
  "store_rows = (\<lambda>(rows, damage) (T, U).
    (fold (\<lambda>r. insert_nothing FRAME_KEY (zip CAR_FRAME_COLUMNS r)) rows T,
     fold (\<lambda>r. insert_nothing FRAME_KEY (zip CAR_FRAME_DAMAGE_COLUMNS r)) damage U))"

definition record_frame ::
    "pystr \<Rightarrow> user_map \<Rightarrow> int set \<Rightarrow> int \<Rightarrow> int \<times> wire_packet packets \<Rightarrow> row list \<times> row list \<Rightarrow> row list \<times> row list" where
  "record_frame uid m R start fp = store_rows (recorded_rows uid m R start fp)"

lemma store_nothing [simp]: "store_rows ([], []) = id"
  by (auto simp: store_rows_def)

lemma frame_tables_kept: "frames_kept w w' \<Longrightarrow> frame_tables w' = frame_tables w"
  by (simp add: frames_kept_def frame_tables_def RECORDED_TABLES_def)

lemma nonempty_ok: "cars_ok xs \<Longrightarrow> nonempty xs \<longleftrightarrow> xs \<noteq> None"
  by (auto simp: nonempty_def cars_ok_def MAX_CARS_def split: option.splits)

lemma describes_cars_iff:
  assumes "frame_data_ok fd"
  shows "nonempty (fd_motion fd) \<or> nonempty (fd_telemetry fd) \<or> nonempty (fd_lap fd) \<or> nonempty (fd_status fd)
    \<longleftrightarrow> describes_cars fd"
  using assms by (simp add: frame_data_ok_def describes_cars_def nonempty_ok)

lemma length_car_rows:
  assumes "frame_data_ok fd" "\<And>u. length (meta u) = 5" "r \<in> set (fill_gap_to_car_behind (car_row_list meta fd m R))"
  shows "length r = length CAR_FRAME_COLUMNS"
proof -
  have "length (car_row meta fd R i u) = length CAR_FRAME_COLUMNS" if "i < MAX_CARS" for i u
    unfolding car_row_def using assms(2) telemetry_of_ok [OF assms(1) that] by (rule length_frame_row)
  then have "\<forall>r \<in> set (car_row_list meta fd m R). length r = length CAR_FRAME_COLUMNS"
    by (auto simp: car_row_list_def in_map_filter)
  then show ?thesis using assms(3) by (auto simp: fill_gap_to_car_behind_def Let_def)
qed

lemma length_damage_rows:
  assumes "frame_from_wire fd" "frame_data_ok fd" "\<And>u. length (meta u) = 5" "r \<in> set (damage_row_list meta fd m R)"
  shows "length r = length CAR_FRAME_DAMAGE_COLUMNS"
proof -
  obtain i u ds where i: "i < MAX_CARS" "fd_damage fd = Some ds" "r = meta u @ build_damage_fields (Some (ds ! i))"
    using assms(4) by (auto simp: damage_row_list_def in_map_filter damage_row_def Option.bind_eq_Some_conv
        split: option.splits if_splits)
  have "ds ! i \<in> set ds" using i(1,2) assms(2) by (auto simp: frame_data_ok_def cars_ok_def)
  then obtain f where "unpacked CAR_DAMAGE_FORMAT f" "ds ! i = car_damage_of f"
    using assms(1) i(2) by (auto simp: frame_from_wire_def cars_from_def)
  then have "length (build_damage_fields (Some (ds ! i))) = 34"
    using damage_fits [of f] by (auto simp: DAMAGE_TYPES_def dest: list_all2_lengthD)
  then show ?thesis using i(3) assms(3) by (simp add: CAR_FRAME_DAMAGE_COLUMNS_def)
qed

lemma write_frame_stores:
  assumes fd: "frame_data_ok fd" "frame_from_wire fd" and db: "healthy w" and "describes_cars fd" "\<not> f_lt t ONE"
  shows "healthy (snd (write_frame uid t f m fd R (Some start) True w))
    \<and> frame_tables (snd (write_frame uid t f m fd R (Some start) True w))
      = store_rows (frame_contents uid m R start f t fd) (frame_tables w)"
proof (cases "and_then (timedelta t) (datetime_add start)")
  case (Inl e)
  then show ?thesis using db by (simp add: frame_contents_def write_frame_def frame_timestamp_def)
next
  case (Inr ts)
  let ?meta = "\<lambda>u. frame_meta ts uid u t f"
  let ?rs = "fill_gap_to_car_behind (car_row_list ?meta fd m R)" and ?ds = "damage_row_list ?meta fd m R"
  let ?v = "if ?rs = [] then w else car_frame_insert_batch ?rs w"
  have meta: "length (?meta u) = 5" for u by (simp add: frame_meta_def)
  have lens: "\<forall>r \<in> set ?rs. length r = length CAR_FRAME_COLUMNS" "\<forall>r \<in> set ?ds. length r = length CAR_FRAME_DAMAGE_COLUMNS"
    using length_car_rows [OF fd(1), of ?meta] length_damage_rows [OF fd(2,1), of ?meta] meta by blast+
  have "snd (write_frame uid t f m fd R (Some start) True w) = (if ?ds = [] then ?v else car_frame_damage_insert_batch ?ds ?v)"
    using Inr by (simp add: write_frame_def frame_timestamp_def frame_rows_ok [OF fd(1)] Let_def)
  moreover have "healthy ?v" using db by (rule frame_batches)
  ultimately show ?thesis
    using lens frame_batches(1) [OF db, of ?rs] frame_batches(2,4) [OF \<open>healthy ?v\<close>, of ?ds] Inr assms(4,5)
    by (simp add: frame_contents_def frame_tables_def store_rows_def Let_def)
qed

lemma write_frame_data_stores:
  assumes rec: "recording uid m R start c" and fd: "frame_data_ok fd" "frame_from_wire fd" and t: "\<not> f_lt t ONE"
  shows "\<exists>w. healthy w \<and> frame_tables w = store_rows (frame_contents uid m R start f t fd) (frame_tables (co_world c))
    \<and> frames_kept w (co_world (write_frame_data uid f t m fd c))"
proof -
  define c1 where "c1 = note_racing_lap uid m (fd_lap fd) c"
  have noted: "flush_effect c c1" by (simp add: c1_def note_racing_lap_def flush_effect_mark split: option.split)
  have w1: "co_world c1 = co_world c"
    by (simp add: c1_def note_racing_lap_def mark_race_started_def split: option.split)
  have db: "healthy (co_world c)" using rec by (simp add: recording_def)
  then have on: "recording uid m R start c1" using recording_flush [OF rec noted] w1 by simp
  then have started: "race_under_way c1 uid = True"
    by (cases "bd_get (co_race_started c1) uid") (auto simp: recording_def race_under_way_def)
  have same: "get_restricted_indices (co_participants c1) uid = R" "get_session_start (co_session c1) uid = Some start"
    using on by (simp_all add: recording_def)
  obtain r w where rw: "(if describes_cars fd then write_frame uid t f m fd R (Some start) True (co_world c)
      else (Inr (), co_world c)) = (r, w)" by (meson surj_pair)
  have "write_frame_data uid f t m fd c = (case r of Inl _ \<Rightarrow> c1\<lparr>co_world := w\<rparr>
      | Inr _ \<Rightarrow> (case fd_lap fd of
           Some laps \<Rightarrow> if laps \<noteq> [] then check_lap_completions uid m laps (c1\<lparr>co_world := w\<rparr>) else c1\<lparr>co_world := w\<rparr>
         | None \<Rightarrow> c1\<lparr>co_world := w\<rparr>))"
    unfolding write_frame_data_def Let_def describes_cars_iff [OF fd(1)] c1_def [symmetric] same w1
      started rw prod.case by (simp only: simp_thms)
  then have "frames_kept w (co_world (write_frame_data uid f t m fd c))"
    using kept_lap_completions [of "c1\<lparr>co_world := w\<rparr>"] frames_kept_refl by (auto split: sum.split option.split)
  moreover have "healthy w \<and> frame_tables w = store_rows (frame_contents uid m R start f t fd) (frame_tables (co_world c))"
  proof (cases "describes_cars fd")
    case True
    then show ?thesis using write_frame_stores [OF fd db True t] rw by (metis snd_conv)
  next
    case False
    then have "frame_contents uid m R start f t fd = ([], [])" by (simp add: frame_contents_def split: sum.split)
    then show ?thesis using rw db False by simp
  qed
  ultimately show ?thesis by blast
qed

text \<open>So one flush is one step of the specification, and the session goes on being recorded.\<close>

lemma flush_records:
  assumes rec: "recording uid m R start c" and wire: "\<forall>(i, x) \<in> set packets. wire_ok uid f i x" and "packets \<noteq> []"
  shows "recording uid m R start (dispatch_flush uid f packets c)
    \<and> frame_tables (co_world (dispatch_flush uid f packets c))
      = record_frame uid m R start (f, packets) (frame_tables (co_world c))"
proof -
  obtain i h body rest where packets: "packets = (i, h, body) # rest" using assms(3) by (cases packets) auto
  let ?t = "hdr_session_time h" and ?c' = "dispatch_flush uid f packets c"
  obtain fd where fd: "frame_data_of h packets = Inr fd" "frame_data_ok fd" using frame_data_of_ok [OF wire] by blast
  have m: "user_map_of c uid = m" "m \<noteq> []" using rec by (simp_all add: recording_def)
  have flush: "?c' = (if f_lt ?t ONE then c else write_frame_data uid f ?t m fd c)"
    unfolding dispatch_flush_def Let_def m(1) using m(2) fd(1) by (simp add: packets)
  have rows: "recorded_rows uid m R start (f, packets) = frame_contents uid m R start f ?t fd"
    using fd(1) by (simp add: recorded_rows_def packets)
  show ?thesis
  proof (cases "f_lt ?t ONE")
    case True
    then have "frame_contents uid m R start f ?t fd = ([], [])" by (simp add: frame_contents_def split: sum.split)
    then show ?thesis using rec True by (simp add: flush record_frame_def rows)
  next
    case False
    obtain w where w: "healthy w" "frame_tables w = store_rows (frame_contents uid m R start f ?t fd) (frame_tables (co_world c))"
        "frames_kept w (co_world ?c')"
      using write_frame_data_stores [OF rec fd(2) frame_data_from_wire [OF fd(1)] False, of f] False by (auto simp: flush)
    then show ?thesis
      using recording_flush [OF rec flush_effect_flush, of uid f packets] frames_kept_healthy [OF w(3,1)]
        frame_tables_kept [OF w(3)] by (simp add: record_frame_def rows)
  qed
qed

subsection \<open>The datagrams of a session\<close>

text \<open>The buffered form of a datagram of a frame of session \<open>uid\<close>.\<close>

definition frame_packet :: "pystr \<Rightarrow> byte list \<Rightarrow> (int \<times> int \<times> wire_packet) option" where
  "frame_packet uid data = (case header_of data of
      None \<Rightarrow> None
    | Some h \<Rightarrow>
        let body = drop PACKET_HEADER_FORMAT_SIZE data in
        if header_valid h \<and> body_size_ok (hdr_packet_id h) (length body) \<and> session_key h = uid
           \<and> hdr_packet_id h \<in> set CAR_FRAME_PACKET_IDS
        then Some (hdr_overall_frame_identifier h, hdr_packet_id h, (h, body)) else None)"

definition wire_packets :: "pystr \<Rightarrow> byte list list \<Rightarrow> (int \<times> int \<times> wire_packet) list" where
  "wire_packets uid datas = List.map_filter (frame_packet uid) datas"

definition session_end :: "pystr \<Rightarrow> byte list \<Rightarrow> bool" where
  "session_end uid data \<longleftrightarrow> (case header_of data of
      None \<Rightarrow> False
    | Some h \<Rightarrow>
        let body = drop PACKET_HEADER_FORMAT_SIZE data in
        header_valid h \<and> body_size_ok (hdr_packet_id h) (length body) \<and> session_key h = uid \<and> hdr_packet_id h = 3
        \<and> (case unpack_event_packet h body of Inl _ \<Rightarrow> False | Inr p \<Rightarrow> clean_event_code p = ascii ''SEND''))"

lemma wire_packets_snoc:
  "wire_packets uid (datas @ [data]) = wire_packets uid datas @ (case frame_packet uid data of None \<Rightarrow> [] | Some p \<Rightarrow> [p])"
  by (simp add: wire_packets_def List.map_filter_def split: option.split)

subsection \<open>The buffer does not look at its callback\<close>

lemma flush_frame_any: "fst (flush_frame cb uid f (b, w)) = fst (flush_frame cb' uid f (b, w'))"
  by (auto simp: flush_frame_def Let_def split: option.split)

lemma complete_frame_any: "fst (complete_frame cb uid f (b, w)) = fst (complete_frame cb' uid f (b, w'))"
  using flush_frame_any by (auto simp: complete_frame_def split: option.split)

lemma fb_add_any:
  assumes "fb_wf b"
  shows "fst (fb_add cb uid f i x (b, w)) = fst (fb_add observe uid f i x (b, tr))"
    and "snd (fb_add observe uid f i x (b, tr)) = tr \<and> snd (fb_add cb uid f i x (b, w)) = w
      \<or> (\<exists>g ps. map_of (pending b uid) g = Some ps \<and> snd (fb_add observe uid f i x (b, tr)) = tr @ [(uid, g, ps)]
           \<and> snd (fb_add cb uid f i x (b, w)) = cb uid g ps w)"
proof -
  show "fst (fb_add cb uid f i x (b, w)) = fst (fb_add observe uid f i x (b, tr))"
    using complete_frame_any [of cb uid f b w observe tr] by (simp add: fb_add_split [OF assms])
  show "snd (fb_add observe uid f i x (b, tr)) = tr \<and> snd (fb_add cb uid f i x (b, w)) = w
      \<or> (\<exists>g ps. map_of (pending b uid) g = Some ps \<and> snd (fb_add observe uid f i x (b, tr)) = tr @ [(uid, g, ps)]
           \<and> snd (fb_add cb uid f i x (b, w)) = cb uid g ps w)"
    by (auto simp: fb_add_split [OF assms] complete_frame_def flush_frame_world [OF assms] observe_def
        split: option.split)
qed

subsection \<open>One datagram at a time\<close>

definition same_gates :: "core \<Rightarrow> core \<Rightarrow> bool" where
  "same_gates c c' \<longleftrightarrow> co_known_sessions c' = co_known_sessions c \<and> co_excluded_sessions c' = co_excluded_sessions c
     \<and> co_user_maps c' = co_user_maps c"

lemma ignored_gates: "same_gates c c' \<Longrightarrow> ignored data c' = ignored data c"
  by (cases "header_of data") (simp_all add: same_gates_def ignored_def user_map_of_def Let_def)

text \<open>
  How far the recording has come: the buffer has made the calls \<open>cs\<close>, flushed \<open>tr\<close>, and the tables
  hold what the flushed frames put there.
\<close>

definition recorded_up_to ::
    "pystr \<Rightarrow> user_map \<Rightarrow> int set \<Rightarrow> int \<Rightarrow> dispatcher \<Rightarrow> byte list list \<Rightarrow> dispatcher \<Rightarrow> bool" where
  "recorded_up_to uid m R start d datas d' \<longleftrightarrow>
     dispatcher_ok d' \<and> recording uid m R start (dp_core d') \<and> same_gates (dp_core d) (dp_core d')
     \<and> (\<exists>cs tr. up_to_date cs (dp_buffer d', tr) \<and> packets_for uid cs = wire_packets uid datas \<and> call_sessions cs \<subseteq> {uid}
          \<and> frame_tables (co_world (dp_core d')) = fold (record_frame uid m R start) (flushed_for uid tr) (frame_tables (co_world (dp_core d))))"

lemma passing_recorded:
  assumes "recorded_up_to uid m R start d datas d'" "passes_by (dp_core d') (dp_core d'')" "dp_buffer d'' = dp_buffer d'"
    and "frame_packet uid data = None"
  shows "recorded_up_to uid m R start d (datas @ [data]) d''"
proof -
  have "core_wf (dp_core d'')" using assms(1,2) by (simp add: recorded_up_to_def recording_def passes_by_def)
  then have "dispatcher_ok d''" using assms(1,3) by (simp add: recorded_up_to_def dispatcher_ok_def)
  moreover have "frame_tables (co_world (dp_core d'')) = frame_tables (co_world (dp_core d'))"
    using assms(2) by (intro frame_tables_kept) (simp add: passes_by_def)
  moreover have "same_gates (dp_core d) (dp_core d'')"
    using assms(1,2) by (simp add: recorded_up_to_def same_gates_def passes_by_def)
  ultimately show ?thesis
    using assms recording_passes_by [of uid m R start "dp_core d'" "dp_core d''"]
    by (simp add: recorded_up_to_def wire_packets_snoc)
qed

lemma add_records:
  assumes ok: "dispatcher_ok d" and on: "recording uid m R start (dp_core d)"
    and obs: "fb_add observe uid f i x (dp_buffer d, tr) = (b', tr')"
    and add: "fb_add dispatch_flush uid f i x (dp_buffer d, dp_core d) = (b, c)"
  shows "b = b' \<and> recording uid m R start c \<and> (\<exists>ts. tr' = tr @ ts \<and> frame_tables (co_world c)
    = fold (record_frame uid m R start) (flushed_for uid ts) (frame_tables (co_world (dp_core d))))"
proof -
  have wf: "fb_wf (dp_buffer d)" and wire: "all_buffered wire_ok (dp_buffer d)" using ok by (simp_all add: dispatcher_ok_def)
  have "b = b'" using fb_add_any(1) [OF wf, of dispatch_flush uid f i x "dp_core d" tr] obs add by simp
  moreover have "tr' = tr \<and> c = dp_core d \<or> (\<exists>g ps. map_of (pending (dp_buffer d) uid) g = Some ps
      \<and> tr' = tr @ [(uid, g, ps)] \<and> c = dispatch_flush uid g ps (dp_core d))"
    using fb_add_any(2) [OF wf, of uid f i x tr dispatch_flush "dp_core d"] obs add by simp
  then have "recording uid m R start c \<and> (\<exists>ts. tr' = tr @ ts \<and> frame_tables (co_world c)
      = fold (record_frame uid m R start) (flushed_for uid ts) (frame_tables (co_world (dp_core d))))"
  proof (elim disjE exE conjE)
    fix g ps
    assume g: "map_of (pending (dp_buffer d) uid) g = Some ps" and tr': "tr' = tr @ [(uid, g, ps)]"
      and flush: "c = dispatch_flush uid g ps (dp_core d)"
    have "frames_wf (pending (dp_buffer d) uid)" using wf by (simp add: fb_wf_def)
    then have "ps \<noteq> []" using map_of_frames_wf g by blast
    moreover have "\<forall>(i, x) \<in> set ps. wire_ok uid g i x"
      using wire map_of_SomeD [OF g] unfolding all_buffered_def by blast
    ultimately show ?thesis
      using flush_records [OF on, of ps g] by (simp add: flush tr' flushed_for_def)
  qed (use on in \<open>simp add: flushed_for_def\<close>)
  ultimately show ?thesis by blast
qed

lemma frame_recorded:
  assumes rec: "recorded_up_to uid m R start d datas d'" and p: "frame_packet uid data = Some (f, i, x)"
    and sorted: "sorted (map fst (wire_packets uid (datas @ [data])))"
  shows "recorded_up_to uid m R start d (datas @ [data]) (handle_packet lib data d')"
proof -
  obtain h where h: "header_of data = Some h" "header_valid h" "session_key h = uid"
      "hdr_packet_id h \<in> set CAR_FRAME_PACKET_IDS" "body_size_ok (hdr_packet_id h) (length data - PACKET_HEADER_FORMAT_SIZE)"
    and parts: "f = hdr_overall_frame_identifier h" "i = hdr_packet_id h" "x = (h, drop PACKET_HEADER_FORMAT_SIZE data)"
    using p by (auto simp: frame_packet_def Let_def split: option.splits if_splits)
  obtain cs tr where cs: "up_to_date cs (dp_buffer d', tr)" "packets_for uid cs = wire_packets uid datas" "call_sessions cs \<subseteq> {uid}"
    and tables: "frame_tables (co_world (dp_core d')) = fold (record_frame uid m R start) (flushed_for uid tr) (frame_tables (co_world (dp_core d)))"
    using rec by (auto simp: recorded_up_to_def)
  have ok: "dispatcher_ok d'" and on: "recording uid m R start (dp_core d')"
    using rec by (simp_all add: recorded_up_to_def)
  define l where "l = snd (validate_packet_header h (dp_header_log d'))"
  have handled: "handle_packet lib data d' = on_car_frame_packet h (snd x) (d'\<lparr>dp_header_log := l\<rparr>)"
    using on h by (auto simp: handle_packet_header Let_def route_packet_def l_def parts recording_def CAR_FRAME_PACKET_IDS_def)
  let ?cs = "cs @ [Add uid f i x]"
  obtain b tr' where obs: "fb_add observe uid f i x (dp_buffer d', tr) = (b, tr')" by (meson surj_pair)
  obtain b1 c1 where add: "fb_add dispatch_flush uid f i x (dp_buffer d', dp_core d') = (b1, c1)" by (meson surj_pair)
  have pf: "packets_for uid ?cs = wire_packets uid (datas @ [data])" by (simp add: cs(2) wire_packets_snoc p)
  have sess: "call_sessions ?cs = {uid}" using cs(3) by auto
  have utd: "up_to_date ?cs (b, tr')"
    using up_to_date_add [OF cs(1), of uid f i x] obs sorted by (simp add: pf sess MAX_SESSIONS_def del: packets_for_append call_sessions_append)
  have b1: "b1 = b" and c1: "recording uid m R start c1"
      "frame_tables (co_world c1) = fold (record_frame uid m R start) (flushed_for uid tr') (frame_tables (co_world (dp_core d)))"
    using add_records [OF ok on obs add] by (auto simp: tables flushed_for_def)
  obtain now w where clock: "monotonic_now (co_world c1) = (now, w)" by (meson surj_pair)
  then have kept: "frames_kept (co_world c1) w" using kept_clock(2) [OF frames_kept_refl, of "co_world c1"] by simp
  let ?b = "if now - fb_last_flush_time b < FLUSH_INTERVAL_NS then b else b\<lparr>fb_last_flush_time := now\<rparr>"
  have "handle_packet lib data d' = d'\<lparr>dp_header_log := l, dp_buffer := ?b, dp_core := c1\<lparr>co_world := w\<rparr>\<rparr>"
    using add parts h clock sweep_nothing_stale [OF utd, of dispatch_flush now]
    by (simp add: handled on_car_frame_packet_def on_buffer_def on_core_def b1)
  moreover have "up_to_date ?cs (?b, tr')"
    using utd by (simp add: up_to_date_def fb_sessions_def)
  moreover have "passes_by c1 (c1\<lparr>co_world := w\<rparr>)" using kept by (simp add: passes_by_flush)
  moreover have "same_gates (dp_core d') c1"
    using flush_effect_buffer(2) [of d' uid f i x] add
    by (simp add: on_buffer_def flush_effect_def same_services_def same_gates_def)
  ultimately show ?thesis
    using rec c1 handle_packet_ok [OF ok, of lib data] pf sess frame_tables_kept [OF kept]
    unfolding recorded_up_to_def same_gates_def
    by (auto intro: recording_passes_by intro!: exI [of _ ?cs] exI [of _ tr'])
qed

lemma recording_run:
  assumes start: "dispatcher_ok d" "recording uid m R start (dp_core d)" "fb_sessions (dp_buffer d) = {}"
    and datas: "\<forall>data \<in> set datas. frame_packet uid data \<noteq> None \<or> passing data \<or> ignored data (dp_core d)"
    and sorted: "sorted (map fst (wire_packets uid datas))"
  shows "recorded_up_to uid m R start d datas (handle_packets lib datas d)"
  using datas sorted
proof (induction datas rule: rev_induct)
  case Nil
  have none: "bd_get (fb_frames (dp_buffer d)) u = None" "bd_get (fb_current_frame (dp_buffer d)) u = None" for u
    using start(3) by (simp_all add: fb_sessions_def bd_get_None_iff)
  have "up_to_date [] (dp_buffer d, [])"
    using start by (simp add: up_to_date_def dispatcher_ok_def frames_of_def flushed_for_def none pending_def)
  then show ?case
    using start(1,2) by (auto simp: recorded_up_to_def handle_packets_def same_gates_def wire_packets_def flushed_for_def
        List.map_filter_def intro!: exI [of _ "[]"])
next
  case (snoc data datas)
  let ?d = "handle_packets lib datas d"
  have ih: "recorded_up_to uid m R start d datas ?d"
    using snoc by (simp add: wire_packets_snoc sorted_append)
  have step: "handle_packets lib (datas @ [data]) d = handle_packet lib data ?d"
    by (simp add: handle_packets_def)
  show ?case
  proof (cases "frame_packet uid data")
    case None
    have "passes_by (dp_core ?d) (dp_core (handle_packet lib data ?d)) \<and> dp_buffer (handle_packet lib data ?d) = dp_buffer ?d"
    proof (cases "passing data")
      case False
      then have "ignored data (dp_core ?d)"
        using snoc.prems(1) None ih ignored_gates by (auto simp: recorded_up_to_def)
      then show ?thesis using ignored_packets_change_nothing by (simp add: passes_by_refl)
    qed (rule passing_passes_by)
    then show ?thesis using passing_recorded [OF ih] None by (simp add: step)
  next
    case (Some p)
    then show ?thesis
      using frame_recorded [OF ih] snoc.prems(2) unfolding step by (cases p) blast
  qed
qed

lemma flush_last:
  assumes "up_to_date cs (b, tr)"
  shows "snd (flush_session cb uid (b, w)) = (let fs = frames_of (packets_for uid cs) in
    if fs = [] then w else cb uid (fst (last fs)) (snd (last fs)) w)"
proof -
  let ?fs = "frames_of (packets_for uid cs)"
  have ok: "fb_wf b" "pending b uid = (if ?fs = [] then [] else [last ?fs])"
    using assms by (auto simp: up_to_date_def Let_def)
  then show ?thesis
    using flush_frame_world [OF ok(1), of cb uid "fst (last ?fs)" w]
    by (cases "?fs = []"; cases "last ?fs") (auto simp: flush_session_split Let_def pending_def split: option.splits)
qed

text \<open>
  C1. Recording one datagram at a time equals recording offline. Take a session under
  way whose anchor is known, while the database answers, and the datagrams that come in up to its end:
  the packets of its frames, with frame numbers that never fall, among datagrams the gates stop and
  those, of any session, that only pass by. Then the two frame tables end up as if the packets had been
  sorted into frames and the rows of each frame inserted one frame after the other.
\<close>

theorem recording_equals_offline:
  assumes "dispatcher_ok d" "recording uid m R start (dp_core d)" "fb_sessions (dp_buffer d) = {}"
    and "\<forall>data \<in> set datas. frame_packet uid data \<noteq> None \<or> passing data \<or> ignored data (dp_core d)"
    and "sorted (map fst (wire_packets uid datas))" "session_end uid e"
  shows "frame_tables (co_world (dp_core (handle_packets lib (datas @ [e]) d))) =
    fold (record_frame uid m R start) (frames_of (wire_packets uid datas)) (frame_tables (co_world (dp_core d)))"
proof -
  let ?d = "handle_packets lib datas d" and ?fs = "frames_of (wire_packets uid datas)"
  have "recorded_up_to uid m R start d datas ?d" by (rule recording_run [OF assms(1-5)])
  then obtain cs tr where ok: "dispatcher_ok ?d" "recording uid m R start (dp_core ?d)"
      and utd: "up_to_date cs (dp_buffer ?d, tr)" and cs: "packets_for uid cs = wire_packets uid datas"
      and tables: "frame_tables (co_world (dp_core ?d)) = fold (record_frame uid m R start) (flushed_for uid tr) (frame_tables (co_world (dp_core d)))"
    by (auto simp: recorded_up_to_def)
  obtain h p where h: "header_of e = Some h" "header_valid h" "hdr_packet_id h = 3" "session_key h = uid"
      "body_size_ok 3 (length e - PACKET_HEADER_FORMAT_SIZE)"
    and p: "unpack_event_packet h (drop PACKET_HEADER_FORMAT_SIZE e) = Inr p" "clean_event_code p = ascii ''SEND''"
    using assms(6) by (auto simp: session_end_def Let_def split: option.splits sum.splits)
  define c where "c = (dp_core ?d)\<lparr>co_world := handle_event_packet p m (co_world (dp_core ?d))\<rparr>"
  have "handle_packets lib (datas @ [e]) d = handle_packet lib e ?d" by (simp add: handle_packets_def)
  moreover have "dp_core (handle_packet lib e ?d) = snd (flush_session dispatch_flush uid (dp_buffer ?d, c))"
    using ok(2) h p by (simp add: handle_packet_header Let_def route_packet_def recording_def on_event_packet_def
        SESSION_LEVEL_EVENT_CODES_def after_session_event_def on_buffer_def on_core_def c_def split_beta)
  moreover have "passes_by (dp_core ?d) c" unfolding c_def by (simp add: passes_by_flush kept_event_packet)
  then have c: "recording uid m R start c" "frame_tables (co_world c) = frame_tables (co_world (dp_core ?d))"
    using recording_passes_by [OF ok(2)] frame_tables_kept by (simp_all add: passes_by_def)
  moreover have "fold (record_frame uid m R start) ?fs (frame_tables (co_world (dp_core d))) =
      (if ?fs = [] then frame_tables (co_world c) else frame_tables (co_world (dispatch_flush uid (fst (last ?fs)) (snd (last ?fs)) c)))"
  proof (cases "?fs = []")
    case True
    then show ?thesis using utd cs c(2) tables by (simp add: up_to_date_def Let_def)
  next
    case False
    have pend: "pending (dp_buffer ?d) uid = [last ?fs]" and tr: "flushed_for uid tr = butlast ?fs"
      and wf: "fb_wf (dp_buffer ?d)" using utd cs False by (auto simp: up_to_date_def Let_def)
    have "frames_wf [last ?fs]" using wf pend by (metis fb_wf_def)
    then have "snd (last ?fs) \<noteq> []" by (simp add: frames_wf_def)
    moreover have "\<forall>(i, x) \<in> set (snd (last ?fs)). wire_ok uid (fst (last ?fs)) i x"
      using ok(1) pend unfolding dispatcher_ok_def all_buffered_def
      by (metis (no_types, lifting) case_prod_beta list.set_intros(1))
    ultimately have "frame_tables (co_world (dispatch_flush uid (fst (last ?fs)) (snd (last ?fs)) c))
        = record_frame uid m R start (last ?fs) (frame_tables (co_world c))"
      using flush_records [OF c(1)] by simp
    also have "\<dots> = fold (record_frame uid m R start) (butlast ?fs @ [last ?fs]) (frame_tables (co_world (dp_core d)))"
      by (simp add: c(2) tables tr)
    finally show ?thesis using False by simp
  qed
  ultimately show ?thesis using flush_last [OF utd, of dispatch_flush uid c] cs by (simp add: Let_def)
qed

text \<open>Motion packets of session 1, two seconds in, of a given frame; and the end of the session.\<close>

definition motion_of_frame :: "byte \<Rightarrow> byte list" where
  "motion_of_frame n = [234, 7, 26, 1, 0, 1, 0, 1, 0, 0, 0, 0, 0, 0, 0, 0, 0, 0, 64, n, 0, 0, 0, n, 0, 0, 0, 0, 255]
     @ replicate 1296 0"

definition end_datagram :: "byte list" where
  "end_datagram = [234, 7, 26, 1, 0, 1, 3, 1, 0, 0, 0, 0, 0, 0, 0, 0, 0, 0, 64, 7, 0, 0, 0, 7, 0, 0, 0, 0, 255,
     83, 69, 78, 68] @ replicate 12 0"

definition anchored_dispatcher :: dispatcher where
  "anchored_dispatcher = on_core (\<lambda>c. c\<lparr>co_session := new_session_service
     \<lparr>ss_session_starts := bd_set (bd_new 200) [49] 1000\<rparr>\<rparr>) (session_dispatcher True)"

lemma anchored_recording:
  "dispatcher_ok anchored_dispatcher" "recording [49] [(0, 70)] {} 1000 (dp_core anchored_dispatcher)"
  "fb_sessions (dp_buffer anchored_dispatcher) = {}" "frame_tables (co_world (dp_core anchored_dispatcher)) = ([], [])"
proof -
  let ?c = "(session_core True)\<lparr>co_session := new_session_service\<lparr>ss_session_starts := bd_set (bd_new 200) [49] 1000\<rparr>\<rparr>"
  have core: "dp_core anchored_dispatcher = ?c" by (simp add: anchored_dispatcher_def session_dispatcher_def)
  have wf: "core_wf ?c" using session_core_wf [of True] by (simp add: core_wf_def)
  have buf: "dp_buffer anchored_dispatcher = dp_buffer (session_dispatcher True)" by (simp add: anchored_dispatcher_def)
  show "dispatcher_ok anchored_dispatcher"
    using session_dispatcher_ok [of True] wf by (simp add: dispatcher_ok_def core buf)
  have "user_map_of ?c [49] = user_map_of (session_core True) [49]" by (simp add: user_map_of_def)
  moreover have "get_restricted_indices (co_participants ?c) [49] = {}"
    by (simp add: session_core_def new_core_def get_restricted_indices_def new_participants_service_def)
  moreover have "get_session_start (co_session ?c) [49] = Some 1000" by (simp add: get_session_start_def)
  ultimately show "recording [49] [(0, 70)] {} 1000 (dp_core anchored_dispatcher)"
    using wf by (simp add: recording_def core)
  show "fb_sessions (dp_buffer anchored_dispatcher) = {}"
    unfolding buf by (simp add: session_dispatcher_def new_dispatcher_def new_frame_buffer_def fb_sessions_def
        monotonic_now_def bd_new_def bd_keys_def)
  show "frame_tables (co_world (dp_core anchored_dispatcher)) = ([], [])" by (simp add: frame_tables_def core quiet_world_def)
qed

lemma motion_of_frame_packet:
  assumes "n = 5 \<and> f = 5 \<or> n = 6 \<and> f = 6"
  shows "\<exists>h. frame_packet [49] (motion_of_frame n) = Some (f, 0, (h, replicate 1296 0))
    \<and> hdr_session_time h = f32_decode 1073741824"
proof -
  obtain h where h: "header_of (motion_of_frame n) = Some h" "hdr_packet_id h = 0" "hdr_packet_format h = 2026"
      "hdr_session_uid h = 1" "hdr_player_car_index h = 0" "hdr_overall_frame_identifier h = f"
      "hdr_session_time h = f32_decode 1073741824"
    using assms
    by (auto simp: header_of_def motion_of_frame_def unpack_packet_header_def struct_unpack_def int_at_def float_at_def)
  have "session_key h = [49]" by (simp add: session_key_def h) code_simp
  moreover have "drop PACKET_HEADER_FORMAT_SIZE (motion_of_frame n) = replicate 1296 0" by (simp add: motion_of_frame_def)
  ultimately show ?thesis
    using h by (simp add: frame_packet_def Let_def header_valid_def frame_body_sizes CAR_FRAME_PACKET_IDS_def)
qed

lemma end_datagram_ends: "session_end [49] end_datagram"
proof -
  obtain h where h: "header_of end_datagram = Some h" "hdr_packet_id h = 3" "hdr_packet_format h = 2026"
      "hdr_session_uid h = 1" "hdr_player_car_index h = 0"
    by (auto simp: header_of_def end_datagram_def unpack_packet_header_def struct_unpack_def int_at_def)
  have key: "session_key h = [49]" by (simp add: session_key_def h) code_simp
  have body: "drop PACKET_HEADER_FORMAT_SIZE end_datagram = [83, 69, 78, 68] @ replicate 12 0"
    by (simp add: end_datagram_def)
  have "parse_format ''<4B'' = Inr [FB, FB, FB, FB]"
    by (simp add: parse_format_def digit_of_char_def field_of_char_def numeral_eq_Suc)
  then have four: "struct_unpack ''<4B'' [83, 69, 78, 68] = Inr [PInt 83, PInt 69, PInt 78, PInt 68]"
    by (simp add: struct_unpack_def)
  have decoded: "ascii_decode [83, 69, 78, 68] = Inr (ascii ''SEND'')" by (simp add: ascii_decode_def) code_simp
  have details: "unpack_event_details (ascii ''SEND'') bs = Inr NoDetails" for bs
    unfolding unpack_event_details_def event_codes ascii_inj by simp
  have clean: "take 10 (strip (ascii ''SEND'')) = ascii ''SEND''" by code_simp
  have "\<exists>p. unpack_event_packet h ([83, 69, 78, 68] @ replicate 12 0) = Inr p \<and> clean_event_code p = ascii ''SEND''"
    by (simp add: unpack_event_packet_def four decoded details clean clean_event_code_def)
  moreover have "body_size_ok 3 n" for n
    by (simp add: body_size_ok_def EXPECTED_BODY_SIZE_def)
  ultimately show ?thesis using h key body by (auto simp: session_end_def header_valid_def)
qed

lemma two_seconds: "\<not> f_lt (f32_decode 1073741824) ONE" "timedelta (f32_decode 1073741824) = Inr 2000000"
proof -
  have two: "f32_decode 1073741824 = PyFin False 8388608 (- 22)" by (simp add: f32_decode_def Let_def)
  show "\<not> f_lt (f32_decode 1073741824) ONE" by (simp add: two ONE_def f_of_int_def)
  show "timedelta (f32_decode 1073741824) = Inr 2000000"
    by (simp add: two timedelta_def timedelta_us_def round_half_even_def day_us_def Let_def)
qed

lemma frame_column_indices: "column_index ''overall_frame_identifier'' = 4"
  by (simp_all only: column_search)

lemma motion_rows:
  assumes "length body = 1296" "hdr_session_time h = f32_decode 1073741824"
  shows "\<exists>row. recorded_rows [49] [(0, 70)] {} 1000 (f, [(0, (h, body))]) = ([row], [])
    \<and> length row = length CAR_FRAME_COLUMNS \<and> row ! 2 = PInt 70 \<and> row ! 4 = PInt f"
proof -
  obtain p where p: "unpack_motion h body = Inr p" "length (mop_car_motion_data p) = MAX_CARS"
    using unpack_motion_total [of body h] assms(1) by auto
  then obtain fd where fd: "frame_data_of h [(0, (h, body))] = Inr fd" "fd_lap fd = None" "fd_damage fd = None"
      "describes_cars fd" "frame_data_ok fd"
    by (simp add: frame_data_of_def opt_unpack_def describes_cars_def frame_data_ok_def cars_ok_def)
  define meta where "meta = (\<lambda>u. frame_meta 2001000 [49] u (f32_decode 1073741824) f)"
  have len: "length (meta u) = 5" for u by (simp add: meta_def frame_meta_def)
  have drv: "racing_driver fd [(0, 70)] i = (if i = 0 then Some 70 else None)" for i
    by (simp add: racing_driver_def fd opt_nth_def)
  let ?row = "car_row meta fd {} 0 70"
  have row: "?row = frame_row (meta 70) fd 0 False (opt_nth (fd_motion fd) 0) (opt_nth (fd_telemetry fd) 0)
      (opt_nth (fd_lap fd) 0) (opt_nth (fd_status fd) 0) (opt_nth (fd_telemetry2 fd) 0)"
    by (simp add: car_row_def)
  have tel: "row_inputs_ok (opt_nth (fd_telemetry fd) 0)" using telemetry_of_ok [OF fd(5), of 0] by (simp add: MAX_CARS_def)
  have "car_row_list meta fd [(0, 70)] {} = [?row]" "damage_row_list meta fd [(0, 70)] {} = []"
    by (simp_all add: car_row_list_def damage_row_list_def drv car_numbers List.map_filter_def damage_row_def fd)
  moreover have "?row ! 64 = PNone"
    using car_row_gaps(1) [OF fd(5) _ len, of 0] by (simp add: MAX_CARS_def position_of_def opt_nth_def fd)
  ultimately have "recorded_rows [49] [(0, 70)] {} 1000 (f, [(0, (h, body))]) = ([?row], [])"
    by (simp add: recorded_rows_def frame_contents_def assms(2) fd two_seconds datetime_add_def meta_def
        fill_gap_to_car_behind_def behind_gap_def)
  moreover have "length ?row = length CAR_FRAME_COLUMNS" unfolding row by (rule length_frame_row [OF len tel])
  moreover have "?row ! 2 = PInt 70" "?row ! 4 = PInt f"
    using frame_row_nth(1) [OF row len tel, of 2] frame_row_nth(1) [OF row len tel, of 4]
    by (simp_all add: meta_def frame_meta_def)
  ultimately show ?thesis by blast
qed

theorem recording_equals_offline_witness:
  "\<forall>lib. map (\<lambda>r. (col r ''user_id'', col r ''overall_frame_identifier'')) (fst (frame_tables (co_world (dp_core
     (handle_packets lib ([motion_of_frame 5, [1, 2, 3], motion_of_frame 6] @ [end_datagram]) anchored_dispatcher)))))
   = [(PInt 70, PInt 5), (PInt 70, PInt 6)]"
proof
  fix lib
  let ?datas = "[motion_of_frame 5, [1, 2, 3], motion_of_frame 6]" and ?body = "replicate 1296 0 :: byte list"
  obtain h h' where h: "frame_packet [49] (motion_of_frame 5) = Some (5, 0, (h, ?body))"
      "hdr_session_time h = f32_decode 1073741824"
    and h': "frame_packet [49] (motion_of_frame 6) = Some (6, 0, (h', ?body))" "hdr_session_time h' = f32_decode 1073741824"
    using motion_of_frame_packet [of 5 5] motion_of_frame_packet [of 6 6] by auto
  have none: "header_of [1, 2, 3] = None" by (simp add: header_of_def)
  then have short: "frame_packet [49] [1, 2, 3] = None" "passing [1, 2, 3]" by (simp_all add: frame_packet_def passing_def)
  have pk: "wire_packets [49] ?datas = [(5, 0, (h, ?body)), (6, 0, (h', ?body))]"
    by (simp add: wire_packets_def List.map_filter_def h h' short)
  have "frames_of (wire_packets [49] ?datas) = [(5, [(0, (h, ?body))]), (6, [(0, (h', ?body))])]"
    by (simp add: pk frames_of_def put_packet_def)
  moreover have "frame_tables (co_world (dp_core (handle_packets lib (?datas @ [end_datagram]) anchored_dispatcher))) =
      fold (record_frame [49] [(0, 70)] {} 1000) (frames_of (wire_packets [49] ?datas)) ([], [])"
    using recording_equals_offline [OF anchored_recording(1-3) _ _ end_datagram_ends, of ?datas lib] anchored_recording(4)
    by (simp add: pk h h' short)
  moreover obtain r r' where r: "recorded_rows [49] [(0, 70)] {} 1000 (5, [(0, (h, ?body))]) = ([r], [])"
      "length r = length CAR_FRAME_COLUMNS" "r ! 2 = PInt 70" "r ! 4 = PInt 5"
    and r': "recorded_rows [49] [(0, 70)] {} 1000 (6, [(0, (h', ?body))]) = ([r'], [])"
      "length r' = length CAR_FRAME_COLUMNS" "r' ! 2 = PInt 70" "r' ! 4 = PInt 6"
    using motion_rows [OF _ h(2), of ?body 5] motion_rows [OF _ h'(2), of ?body 6] by auto
  moreover have "\<not> same_key FRAME_KEY (zip CAR_FRAME_COLUMNS r') (zip CAR_FRAME_COLUMNS r)"
    using r r' by (simp add: same_key_def FRAME_KEY_def col_car_frame frame_column_indices)
  ultimately show "map (\<lambda>r. (col r ''user_id'', col r ''overall_frame_identifier'')) (fst (frame_tables (co_world (dp_core
     (handle_packets lib (?datas @ [end_datagram]) anchored_dispatcher))))) = [(PInt 70, PInt 5), (PInt 70, PInt 6)]"
    by (simp add: record_frame_def store_rows_def insert_nothing_def has_key_def col_car_frame frame_column_indices)
qed

end
