(* ===== verification/Session_Facts.thy ===== *)
theory Session_Facts
  imports Guarantees Upserts
begin

text \<open>
  What the session service records: a session by its first packet or never, and the newest forecast
  although unchanged ones are not written again.
\<close>

named_theorems elsewhere \<open>what a statement leaves alone in the tables it is not about\<close>

definition session_run ::
    "(int list list \<Rightarrow> int) \<Rightarrow> session_packet list \<Rightarrow> session_service \<times> world \<Rightarrow> session_service \<times> world" where
  "session_run hash ps st = fold (\<lambda>p (s, w). handle_session_packet hash p s w) ps st"

subsection \<open>Statements and other tables\<close>

lemma table_update [elsewhere]:
  "u \<noteq> t \<Longrightarrow> table (snd (execute (sql_update t P f) w)) u = table w u"
  by (auto simp: execute_def run_txn_def sql_update_def Let_def split: sum.splits prod.splits if_splits)

lemma table_query [elsewhere]: "table (snd (query f w)) u = table w u"
  by (auto simp: query_def run_txn_def Let_def split: sum.splits prod.splits if_splits)

lemma table_clock [elsewhere]: "table (snd (utc_now w)) u = table w u"
  by (simp add: utc_now_def)

lemma table_insert_row [elsewhere]: "u \<noteq> t \<Longrightarrow> table (insert_row t cols oc vals w) u = table w u"
  by (simp add: insert_row_def table_insert_other)

lemma sql_many_other: "u \<noteq> t \<Longrightarrow> sql_many (map (sql_insert t cols oc) rows) d = Inr (n, d')
    \<Longrightarrow> db_tables d' u = db_tables d u"
  by (induction rows arbitrary: d n)
     (fastforce simp: and_then_Inr_iff sql_insert_def Let_def split: if_splits prod.splits)+

lemma table_insert_rows [elsewhere]: "u \<noteq> t \<Longrightarrow> table (insert_rows t cols oc rows w) u = table w u"
  using sql_many_other [of u t cols oc rows "w_db w"]
  by (auto simp: insert_rows_def execute_many_def run_txn_def Let_def split: sum.splits)

lemma table_timeline [elsewhere]:
  "u \<noteq> ''telemetry.session_timeline'' \<Longrightarrow> table (insert_timeline p s w) u = table w u"
  by (auto simp: insert_timeline_def insert_timeline_entry_def split_beta Let_def elsewhere split: option.split sum.split)

lemma table_reaction [elsewhere]:
  "u \<noteq> ''telemetry.sessions'' \<Longrightarrow> table (snd (capture_reaction p s w)) u = table w u"
  by (auto simp: capture_reaction_def capture_start_reaction_time_def Let_def elsewhere)

lemma table_forecast [elsewhere]:
  "u \<noteq> ''telemetry.weather_forecast'' \<Longrightarrow> table (snd (update_weather_forecast hash p s w)) u = table w u"
  by (auto simp: update_weather_forecast_def upsert_weather_forecast_def Let_def elsewhere)

lemma table_session_row [elsewhere]:
  "u \<noteq> ''telemetry.sessions'' \<Longrightarrow> u \<noteq> ''telemetry.tracks'' \<Longrightarrow> table (snd (first_session_packet p s w)) u = table w u"
  by (auto simp: first_session_packet_def insert_session_row_def update_track_technical_data_def insert_session_def
      repo_get_session_start_def split_beta Let_def elsewhere split: sum.split option.split)

subsection \<open>A session is recorded by its first packet or never\<close>

definition has_session :: "pystr \<Rightarrow> world \<Rightarrow> bool" where
  "has_session uid w \<longleftrightarrow> (\<exists>r \<in> set (table w ''telemetry.sessions''). col r ''session_uid'' = PStr uid)"

lemma has_session_table: "table w' ''telemetry.sessions'' = table w ''telemetry.sessions'' \<Longrightarrow> has_session uid w' = has_session uid w"
  by (simp add: has_session_def)

lemma has_session_update:
  assumes "\<And>r. col (f r) ''session_uid'' = col r ''session_uid''"
  shows "has_session uid (snd (execute (sql_update ''telemetry.sessions'' P f) w)) = has_session uid w"
proof -
  have "(\<exists>r \<in> set (map (\<lambda>r. if P r then f r else r) rows). col r ''session_uid'' = PStr uid)
      \<longleftrightarrow> (\<exists>r \<in> set rows. col r ''session_uid'' = PStr uid)" for rows
    using assms by (auto simp: bex_Un)
  then show ?thesis
    by (auto simp: has_session_def execute_def run_txn_def sql_update_def Let_def simp del: set_map)
qed

lemma has_session_reaction: "has_session uid (snd (capture_reaction p s w)) = has_session uid w"
  by (simp add: capture_reaction_def capture_start_reaction_time_def Let_def has_session_update col_fill_null)

lemma later_packet:
  assumes "bs_contains (ss_seen_sessions s) (session_key (sp_header p))"
  shows "has_session uid (snd (handle_session_packet hash p s w)) = has_session uid w"
    and "ss_seen_sessions (fst (handle_session_packet hash p s w)) = ss_seen_sessions s"
proof -
  have first: "first_session_packet p (note_session p s) w = (note_session p s, w)"
    using assms by (simp add: first_session_packet_def note_session_def Let_def)
  obtain s2 w2 where c: "capture_reaction p (note_session p s) w = (s2, w2)" by fastforce
  have w2: "has_session uid w2 = has_session uid w" using has_session_reaction [of uid p "note_session p s" w] c by simp
  have s2: "ss_seen_sessions s2 = ss_seen_sessions s"
    using c by (auto simp: capture_reaction_def note_session_def Let_def split: if_splits)
  have h: "handle_session_packet hash p s w = update_weather_forecast hash p s2 (insert_timeline p s2 w2)"
    by (simp add: handle_session_packet_def first c)
  have "table (snd (update_weather_forecast hash p s2 (insert_timeline p s2 w2))) ''telemetry.sessions''
      = table w2 ''telemetry.sessions''" by (simp add: elsewhere)
  then show "has_session uid (snd (handle_session_packet hash p s w)) = has_session uid w"
    using w2 has_session_table unfolding h by blast
  show "ss_seen_sessions (fst (handle_session_packet hash p s w)) = ss_seen_sessions s"
    unfolding h by (simp add: update_weather_forecast_def Let_def s2)
qed

lemma later_packets:
  assumes "\<forall>q \<in> set qs. session_key (sp_header q) = uid" "bs_contains (ss_seen_sessions s) uid"
  shows "has_session uid (snd (session_run hash qs (s, w))) = has_session uid w"
  using assms
proof (induction qs arbitrary: s w)
  case (Cons q qs)
  obtain s1 w1 where q: "handle_session_packet hash q s w = (s1, w1)" by fastforce
  have "has_session uid w1 = has_session uid w" "ss_seen_sessions s1 = ss_seen_sessions s"
    using later_packet(1) [of s q uid hash w] later_packet(2) [of s q hash w] Cons.prems q by simp_all
  then show ?case using Cons.IH [of s1 w1] Cons.prems q by (simp add: session_run_def)
qed (simp add: session_run_def)

text \<open>While the database refuses every transaction nothing is written.\<close>

definition refused :: "world \<Rightarrow> world \<Rightarrow> bool" where
  "refused w w' \<longleftrightarrow> (\<forall>n. w_txn w \<le> n \<longrightarrow> n < w_txn w' \<longrightarrow> w_fault w n)"

definition refusal_step :: "world \<Rightarrow> world \<Rightarrow> bool" where
  "refusal_step w w' \<longleftrightarrow> w_txn w \<le> w_txn w' \<and> w_fault w' = w_fault w \<and> w_enabled w' = w_enabled w
     \<and> (refused w w' \<longrightarrow> w_db w' = w_db w)"

interpretation refusal: world_step "\<lambda>_ _. True" refusal_step
proof unfold_locales
  fix w1 w2 w3 assume "refusal_step w1 w2" "refusal_step w2 w3"
  then show "refusal_step w1 w3" by (auto simp: refusal_step_def refused_def)
next
  fix w :: world and d assume "w_enabled w" "\<not> w_fault w (w_txn w)"
  then show "refusal_step w (w\<lparr>w_txn := Suc (w_txn w), w_db := d\<rparr>)" by (auto simp: refusal_step_def refused_def)
qed (auto simp: refusal_step_def obeys_def)

lemma first_packet_seen:
  assumes "bs_wf (ss_seen_sessions s)" "handle_session_packet hash p s w = (s1, w1)"
  shows "bs_contains (ss_seen_sessions s1) (session_key (sp_header p))"
proof -
  let ?uid = "session_key (sp_header p)"
  have row: "ss_seen_sessions (fst (insert_session_row p st s' w')) = ss_seen_sessions s'" for st s' w'
    by (simp add: insert_session_row_def Let_def split_beta split: sum.split)
  have "bs_contains (ss_seen_sessions (fst (first_session_packet p (note_session p s) w))) ?uid"
    using assms(1) by (simp add: first_session_packet_def Let_def split_beta row) (simp add: note_session_def Let_def)
  moreover have "ss_seen_sessions (fst (capture_reaction p s' w')) = ss_seen_sessions s'" for s' w'
    by (simp add: capture_reaction_def Let_def)
  moreover have "ss_seen_sessions (fst (update_weather_forecast hash p s' w')) = ss_seen_sessions s'" for s' w'
    by (simp add: update_weather_forecast_def Let_def)
  ultimately show ?thesis
    using assms(2) by (auto simp: handle_session_packet_def split_beta) (metis fst_conv)
qed

text \<open>
  C38. A session whose first packet comes while the database refuses every transaction
  is never recorded: the service counts it as seen, so no later packet of the session writes its row,
  however well the database then answers.
\<close>

theorem session_refused_once_is_lost:
  assumes "bs_wf (ss_seen_sessions s)" "\<not> has_session (session_key (sp_header p)) w"
    and "handle_session_packet hash p s w = (s1, w1)" "refused w w1"
    and "\<forall>q \<in> set qs. session_key (sp_header q) = session_key (sp_header p)"
  shows "\<not> has_session (session_key (sp_header p)) (snd (session_run hash qs (s1, w1)))"
proof -
  have "refusal_step w w1" using refusal.walk_session_packet(2) [OF refusal.walk_refl, of w hash p s] assms(3) by simp
  then have "w_db w1 = w_db w" using assms(4) by (simp add: refusal_step_def)
  then have "\<not> has_session (session_key (sp_header p)) w1" using assms(2) by (simp add: has_session_def)
  then show ?thesis using later_packets [OF assms(5) first_packet_seen [OF assms(1,3)], of hash w1] by simp
qed

text \<open>Four transactions fail, those of the first packet; then the database is back.\<close>

definition short_outage :: world where
  "short_outage = quiet_world\<lparr>w_fault := \<lambda>n. n < 4\<rparr>"

definition plain_packet :: "session_packet \<Rightarrow> session_packet" where
  "plain_packet p = p\<lparr>sp_header := running_header, sp_start_reaction_time := f_of_int 0, sp_num_weather_forecast_samples := 0\<rparr>"

lemma few_transactions:
  "w_txn (snd (execute q w)) \<le> Suc (w_txn w)" "w_txn (snd (query f w)) \<le> Suc (w_txn w)"
  by (auto simp: execute_def query_def run_txn_def Let_def split: sum.split prod.split)

lemma few_session_transactions:
  "w_txn (insert_session vals w) \<le> Suc (w_txn w)" "w_txn (insert_timeline_entry vals w) \<le> Suc (w_txn w)"
  "w_txn (snd (update_track_technical_data a b c d e f g h i j w)) \<le> Suc (w_txn w)"
  "w_txn (snd (repo_get_session_start uid w)) \<le> Suc (w_txn w)" "w_txn (snd (utc_now w)) = w_txn w"
  by (simp_all add: insert_session_def insert_row_def insert_timeline_entry_def update_track_technical_data_def
      repo_get_session_start_def utc_now_def few_transactions Let_def split_beta split: option.split)

lemma plain_packet_transactions:
  "w_txn (snd (handle_session_packet hash (plain_packet p) s w)) \<le> w_txn w + 4"
proof -
  let ?p = "plain_packet p"
  have row: "w_txn (snd (insert_session_row ?p st s' w')) \<le> w_txn w' + 3" for st s' w'
    unfolding insert_session_row_def Let_def split_beta
    by (auto split: sum.split option.split simp: few_session_transactions
        intro!: le_trans [OF few_session_transactions(4)] le_trans [OF few_session_transactions(1)]
          le_trans [OF few_session_transactions(3)])
  have first: "w_txn (snd (first_session_packet ?p s' w')) \<le> w_txn w' + 3" for s' w'
    using row by (simp add: first_session_packet_def Let_def split_beta le_SucI)
  have line: "w_txn (insert_timeline ?p s' w') \<le> Suc (w_txn w')" for s' w'
    by (auto simp: insert_timeline_def Let_def split_beta split: option.split sum.split
        intro: le_trans [OF few_session_transactions(2)] simp: few_session_transactions(5))
  have quiet: "capture_reaction ?p s' w' = (s', w')" "update_weather_forecast hash ?p s' w' = (s', w')" for s' w'
    by (simp_all add: plain_packet_def capture_reaction_def update_weather_forecast_def Let_def f_of_int_def)
  obtain s1 w1 where f: "first_session_packet ?p (note_session ?p s) w = (s1, w1)" by fastforce
  show ?thesis
    using line [of s1 w1] first [of "note_session ?p s" w] f
    by (simp add: handle_session_packet_def split_beta quiet)
qed

theorem session_refused_once_is_lost_witness:
  "\<forall>hash p q. \<not> has_session [49] (snd (session_run hash [plain_packet p, q\<lparr>sp_header := running_header\<rparr>]
     (new_session_service, short_outage)))"
proof (intro allI)
  fix hash and p q :: session_packet
  let ?q = "q\<lparr>sp_header := running_header\<rparr>"
  obtain s1 w1 where first: "handle_session_packet hash (plain_packet p) new_session_service short_outage = (s1, w1)" by fastforce
  have key: "session_key running_header = [49]" by code_simp
  have "w_txn w1 \<le> 4"
    using plain_packet_transactions [of hash p new_session_service short_outage] first
    by (simp add: short_outage_def quiet_world_def)
  then have "refused short_outage w1" by (simp add: refused_def short_outage_def)
  then show "\<not> has_session [49] (snd (session_run hash [plain_packet p, ?q] (new_session_service, short_outage)))"
    using session_refused_once_is_lost [of new_session_service "plain_packet p" short_outage hash s1 w1 "[?q]"] first key
    by (simp add: plain_packet_def new_session_service_def has_session_def short_outage_def quiet_world_def session_run_def)
qed

subsection \<open>The forecast\<close>

definition forecast_of :: "session_packet \<Rightarrow> weather_forecast_sample list" where
  "forecast_of p = take (nat (sp_num_weather_forecast_samples p)) (sp_weather_forecast_samples p)"

definition forecast_shown :: "pystr \<Rightarrow> int \<Rightarrow> nat \<Rightarrow> weather_forecast_sample \<Rightarrow> world \<Rightarrow> bool" where
  "forecast_shown uid frame i x w \<longleftrightarrow>
     recorded FORECAST_KEY (other_columns FORECAST_KEY FORECAST_COLUMNS)
       (zip FORECAST_COLUMNS (forecast_params uid frame (i, x))) (table w ''telemetry.weather_forecast'')"

lemma forecast_row_shape [simp]: "length (forecast_params uid frame ix) = length FORECAST_COLUMNS"
  by (simp add: forecast_params_def FORECAST_COLUMNS_def split_beta)

lemma forecast_row_key:
  "row_key FORECAST_KEY (zip FORECAST_COLUMNS (forecast_params uid frame (i, x))) = [PStr uid, PInt (int i)]"
  by (simp add: row_key_def FORECAST_KEY_def FORECAST_COLUMNS_def forecast_params_def col_def)

abbreviation forecast_rows :: "pystr \<Rightarrow> int \<Rightarrow> weather_forecast_sample list \<Rightarrow> pyval list list" where
  "forecast_rows uid frame xs \<equiv> map (forecast_params uid frame) (enumerate 0 xs)"

lemma forecast_keys: "distinct (map (row_key FORECAST_KEY) (map (zip FORECAST_COLUMNS) (forecast_rows uid frame xs)))"
proof -
  have "map (row_key FORECAST_KEY) (map (zip FORECAST_COLUMNS) (forecast_rows uid frame xs))
      = map (\<lambda>i. [PStr uid, PInt (int i)]) (map fst (enumerate 0 xs))"
    by (rule nth_equalityI) (simp_all add: nth_enumerate_eq forecast_row_key)
  then show ?thesis by (simp add: distinct_map inj_on_def)
qed

lemma table_forecasts:
  "healthy w \<Longrightarrow> table (upsert_weather_forecast uid frame xs w) ''telemetry.weather_forecast''
    = fold (insert_update FORECAST_KEY (other_columns FORECAST_KEY FORECAST_COLUMNS))
        (map (zip FORECAST_COLUMNS) (forecast_rows uid frame xs)) (table w ''telemetry.weather_forecast'')"
  by (auto simp: upsert_weather_forecast_def table_upserts other_unique_keys_def)

lemma forecast_written:
  assumes "healthy w" "i < length xs"
  shows "forecast_shown uid frame i (xs ! i) (upsert_weather_forecast uid frame xs w)"
proof -
  have "zip FORECAST_COLUMNS (forecast_params uid frame (i, xs ! i)) \<in> set (map (zip FORECAST_COLUMNS) (forecast_rows uid frame xs))"
    using assms(2) by (auto simp: in_set_enumerate_eq)
  from latest.shows_fold [OF forecast_keys this] show ?thesis
    unfolding forecast_shown_def table_forecasts [OF assms(1)] .
qed

lemma forecast_kept:
  assumes "healthy w" "forecast_shown uid frame i x w" "uid' \<noteq> uid \<or> length xs \<le> i"
  shows "forecast_shown uid frame i x (upsert_weather_forecast uid' frame' xs w)"
proof -
  have "row_key FORECAST_KEY (zip FORECAST_COLUMNS (forecast_params uid frame (i, x)))
      \<notin> row_key FORECAST_KEY ` set (map (zip FORECAST_COLUMNS) (forecast_rows uid' frame' xs))"
    using assms(3) by (auto simp: forecast_row_key in_set_enumerate_eq)
  with assms(2) show ?thesis
    unfolding forecast_shown_def table_forecasts [OF assms(1)] by (rule latest.shows_fold_other)
qed

text \<open>The steps of a session packet before the forecast, as the forecast sees them.\<close>

lemma before_forecast:
  assumes "healthy w"
  obtains s' w' where "handle_session_packet hash p s w = update_weather_forecast hash p s' w'"
    and "healthy w'" "ss_last_forecast_hash s' = ss_last_forecast_hash s"
    and "table w' ''telemetry.weather_forecast'' = table w ''telemetry.weather_forecast''"
proof -
  obtain s1 w1 where f: "first_session_packet p (note_session p s) w = (s1, w1)" by fastforce
  obtain s2 w2 where c: "capture_reaction p s1 w1 = (s2, w2)" by fastforce
  have h: "handle_session_packet hash p s w = update_weather_forecast hash p s2 (insert_timeline p s2 w2)"
    by (simp add: handle_session_packet_def f c)
  have row: "ss_last_forecast_hash (fst (insert_session_row p st s' w')) = ss_last_forecast_hash s'" for st s' w'
    by (simp add: insert_session_row_def Let_def split_beta split: sum.split)
  have s1: "ss_last_forecast_hash s1 = ss_last_forecast_hash s"
    using arg_cong [OF f, of fst] by (auto simp: first_session_packet_def Let_def split_beta row note_session_def split: if_splits)
  have s2: "ss_last_forecast_hash s2 = ss_last_forecast_hash s"
    using c s1 by (auto simp: capture_reaction_def Let_def split: if_splits)
  have "refusal_step w (insert_timeline p s2 w2)"
    using refusal.walk_session(2,4) refusal.walk_session_packet(1) refusal.walk_refl f c by (metis snd_conv)
  then have "healthy (insert_timeline p s2 w2)" using assms by (simp add: refusal_step_def healthy_def)
  moreover have "table (insert_timeline p s2 w2) ''telemetry.weather_forecast'' = table w ''telemetry.weather_forecast''"
    using table_session_row [of "''telemetry.weather_forecast''" p "note_session p s" w]
      table_reaction [of "''telemetry.weather_forecast''" p s1 w1] f c by (simp add: elsewhere)
  ultimately show thesis using that h s2 by blast
qed

definition mine :: "pystr \<Rightarrow> nat \<Rightarrow> session_packet \<Rightarrow> bool" where
  "mine uid i p \<longleftrightarrow> session_key (sp_header p) = uid \<and> i < length (forecast_of p)"

definition frame_of :: "session_packet \<Rightarrow> int" where
  "frame_of p = hdr_overall_frame_identifier (sp_header p)"

text \<open>The table shows sample \<open>i\<close> of the last packet of the session that had one.\<close>

definition shown_at :: "pystr \<Rightarrow> nat \<Rightarrow> session_packet list \<Rightarrow> world \<Rightarrow> bool" where
  "shown_at uid i ps w \<longleftrightarrow> (\<forall>qs q. filter (mine uid i) ps = qs @ [q] \<longrightarrow>
     (\<exists>q' \<in> set (qs @ [q]). forecast_shown uid (frame_of q') i (forecast_of q ! i) w))"

lemma shown_at_skip: "\<not> mine uid i p \<Longrightarrow> shown_at uid i (ps @ [p]) w = shown_at uid i ps w"
  by (simp add: shown_at_def)

lemma shown_at_new:
  "mine uid i p \<Longrightarrow> forecast_shown uid (frame_of p) i (forecast_of p ! i) w \<Longrightarrow> shown_at uid i (ps @ [p]) w"
  by (simp add: shown_at_def)

lemma shown_at_mono:
  "shown_at uid i ps w \<Longrightarrow> (\<And>frame x. forecast_shown uid frame i x w \<Longrightarrow> forecast_shown uid frame i x w1)
    \<Longrightarrow> shown_at uid i ps w1"
  unfolding shown_at_def by blast

lemma shown_at_again:
  assumes "shown_at uid i ps w" "filter (mine uid i) ps = qs @ [q]" "forecast_of q = forecast_of p" "mine uid i p"
  shows "shown_at uid i (ps @ [p]) w"
  unfolding shown_at_def
proof (intro allI impI)
  fix qs' q' assume "filter (mine uid i) (ps @ [p]) = qs' @ [q']"
  then have "qs' = qs @ [q]" "q' = p" using assms(2,4) by simp_all
  moreover have "\<exists>r \<in> set (qs @ [q]). forecast_shown uid (frame_of r) i (forecast_of q ! i) w"
    using assms(1,2) unfolding shown_at_def by blast
  ultimately show "\<exists>r \<in> set (qs' @ [q']). forecast_shown uid (frame_of r) i (forecast_of q' ! i) w"
    using assms(3) by auto
qed

text \<open>What the service remembers and the table shows after the packets \<open>ps\<close>.\<close>

definition forecast_state ::
    "(int list list \<Rightarrow> int) \<Rightarrow> pystr \<Rightarrow> session_packet list \<Rightarrow> session_service \<Rightarrow> world \<Rightarrow> bool" where
  "forecast_state hash uid ps s w \<longleftrightarrow> healthy w \<and> bd_wf (ss_last_forecast_hash s)
     \<and> (\<forall>h. bd_get (ss_last_forecast_hash s) uid = Some h \<longrightarrow>
          (\<exists>qs q. filter (mine uid 0) ps = qs @ [q] \<and> h = hash (map forecast_tuple (forecast_of q))))
     \<and> (\<forall>i. shown_at uid i ps w)"

lemma newest_of_longer:
  assumes "filter (mine uid 0) ps = qs @ [q]" "i < length (forecast_of q)"
  shows "\<exists>qs'. filter (mine uid i) ps = qs' @ [q]"
proof -
  have "filter (mine uid i) ps = filter (mine uid i) (filter (mine uid 0) ps)"
    by (auto simp: mine_def intro: filter_cong)
  moreover have "q \<in> set (filter (mine uid 0) ps)" by (simp add: assms(1))
  then have "mine uid i q" using assms(2) by (simp add: mine_def)
  ultimately show ?thesis using assms(1) by simp
qed

lemma forecast_state_idle:
  assumes "forecast_state hash uid ps s w" "\<not> mine uid 0 p" "healthy w1" "bd_wf (ss_last_forecast_hash s1)"
    and "bd_get (ss_last_forecast_hash s1) uid = None
      \<or> bd_get (ss_last_forecast_hash s1) uid = bd_get (ss_last_forecast_hash s) uid"
    and kept: "\<And>frame i x. forecast_shown uid frame i x w \<Longrightarrow> forecast_shown uid frame i x w1"
  shows "forecast_state hash uid (ps @ [p]) s1 w1"
proof -
  have "\<not> mine uid i p" for i using assms(2) by (auto simp: mine_def)
  moreover have "shown_at uid i ps w1" for i
    using assms(1) kept by (auto simp: forecast_state_def intro: shown_at_mono)
  ultimately show ?thesis
    using assms(1,3-5) by (auto simp: forecast_state_def shown_at_skip)
qed

lemma forecast_state_same:
  assumes "forecast_state hash uid ps s w" "mine uid 0 p"
    and apart: "\<forall>q \<in> set ps. hash (map forecast_tuple (forecast_of q)) = hash (map forecast_tuple (forecast_of p))
      \<longrightarrow> forecast_of q = forecast_of p"
    and "bd_get (ss_last_forecast_hash s) uid = Some (hash (map forecast_tuple (forecast_of p)))"
  shows "forecast_state hash uid (ps @ [p]) s w"
proof -
  obtain qs q where q: "filter (mine uid 0) ps = qs @ [q]"
    "hash (map forecast_tuple (forecast_of q)) = hash (map forecast_tuple (forecast_of p))"
    using assms(1,4) by (auto simp: forecast_state_def)
  have "q \<in> set (filter (mine uid 0) ps)" by (simp add: q(1))
  then have same: "forecast_of q = forecast_of p" using apart q(2) by auto
  have "shown_at uid i (ps @ [p]) w" for i
  proof (cases "mine uid i p")
    case True
    then obtain as where "filter (mine uid i) ps = as @ [q]"
      using newest_of_longer [OF q(1), of i] same by (auto simp: mine_def)
    then show ?thesis using shown_at_again assms(1) same True by (auto simp: forecast_state_def)
  qed (use assms(1) in \<open>simp add: forecast_state_def shown_at_skip\<close>)
  then show ?thesis
    using assms(1,2,4) by (auto simp: forecast_state_def)
qed

lemma forecast_state_write:
  assumes "forecast_state hash uid ps s w" "mine uid 0 p"
    and h: "ss_last_forecast_hash s1 = bd_set (ss_last_forecast_hash s) uid (hash (map forecast_tuple (forecast_of p)))"
  shows "forecast_state hash uid (ps @ [p]) s1 (upsert_weather_forecast uid (frame_of p) (forecast_of p) w)"
proof -
  let ?w = "upsert_weather_forecast uid (frame_of p) (forecast_of p) w"
  have w: "healthy w" "bd_wf (ss_last_forecast_hash s)" using assms(1) by (simp_all add: forecast_state_def)
  have "shown_at uid i (ps @ [p]) ?w" for i
  proof (cases "mine uid i p")
    case True
    then show ?thesis by (intro shown_at_new forecast_written [OF w(1)]) (auto simp: mine_def)
  next
    case False
    then have "length (forecast_of p) \<le> i" using assms(2) by (auto simp: mine_def)
    then show ?thesis
      using False assms(1) forecast_kept [OF w(1)] by (auto simp: forecast_state_def shown_at_skip intro: shown_at_mono)
  qed
  moreover have "healthy ?w" using w(1) by (simp add: upsert_weather_forecast_def)
  ultimately show ?thesis using w(2) assms(2) by (auto simp: forecast_state_def h)
qed

lemma forecast_state_step:
  assumes state: "forecast_state hash uid ps s w"
    and apart: "\<forall>q \<in> set ps. hash (map forecast_tuple (forecast_of q)) = hash (map forecast_tuple (forecast_of p))
      \<longrightarrow> forecast_of q = forecast_of p"
    and step: "handle_session_packet hash p s w = (s1, w1)"
  shows "forecast_state hash uid (ps @ [p]) s1 w1"
proof -
  let ?key = "session_key (sp_header p)" and ?h = "hash (map forecast_tuple (forecast_of p))"
  have "healthy w" using state by (simp add: forecast_state_def)
  then obtain s' w' where h: "update_weather_forecast hash p s' w' = (s1, w1)" "healthy w'"
      "ss_last_forecast_hash s' = ss_last_forecast_hash s"
      "table w' ''telemetry.weather_forecast'' = table w ''telemetry.weather_forecast''"
    using before_forecast step by metis
  have st: "forecast_state hash uid ps s' w'" and wf: "bd_wf (ss_last_forecast_hash s')"
    using state h(2-4) by (simp_all add: forecast_state_def shown_at_def forecast_shown_def)
  let ?quiet = "forecast_of p = [] \<or> bd_get (ss_last_forecast_hash s') ?key = Some ?h"
  have after: "if ?quiet then s1 = s' \<and> w1 = w'
    else ss_last_forecast_hash s1 = bd_set (ss_last_forecast_hash s') ?key ?h
      \<and> w1 = upsert_weather_forecast ?key (frame_of p) (forecast_of p) w'"
    using h(1) by (auto simp: update_weather_forecast_def forecast_of_def frame_of_def Let_def split: if_splits)
  consider "\<not> mine uid 0 p" ?quiet | "\<not> mine uid 0 p" "\<not> ?quiet" | "mine uid 0 p" ?quiet | "mine uid 0 p" "\<not> ?quiet"
    by blast
  then show ?thesis
  proof cases
    case 1
    then show ?thesis using after st wf by (intro forecast_state_idle [OF st]) (auto simp: h(2))
  next
    case 2
    then have ne: "?key \<noteq> uid" by (auto simp: mine_def)
    have s1: "ss_last_forecast_hash s1 = bd_set (ss_last_forecast_hash s') ?key ?h"
      and w1: "w1 = upsert_weather_forecast ?key (frame_of p) (forecast_of p) w'" using 2 after by simp_all
    have "healthy w1" using h(2) by (simp add: w1 upsert_weather_forecast_def)
    then show ?thesis
    proof (rule forecast_state_idle [OF st 2(1)])
      show "forecast_shown uid frame i x w1" if "forecast_shown uid frame i x w'" for frame i x
        unfolding w1 using forecast_kept [OF h(2) that] ne by blast
    qed (use ne wf bd_get_set_cases [OF wf, of ?key ?h uid] in \<open>auto simp: s1\<close>)
  next
    case 3
    then have "s1 = s'" "w1 = w'" "bd_get (ss_last_forecast_hash s') uid = Some ?h"
      using after by (auto simp: mine_def)
    then show ?thesis using forecast_state_same [OF st 3(1) apart] by simp
  next
    case 4
    then have "?key = uid" by (simp add: mine_def)
    then show ?thesis using 4 after forecast_state_write [OF st 4(1)] by simp
  qed
qed

lemma forecast_state_run:
  assumes "healthy w" "\<forall>p \<in> set ps. \<forall>q \<in> set ps.
      hash (map forecast_tuple (forecast_of q)) = hash (map forecast_tuple (forecast_of p)) \<longrightarrow> forecast_of q = forecast_of p"
    and "session_run hash ps (new_session_service, w) = (s', w')"
  shows "forecast_state hash uid ps s' w'"
  using assms(2,3)
proof (induction ps arbitrary: s' w' rule: rev_induct)
  case Nil
  then show ?case using assms(1) by (auto simp: forecast_state_def shown_at_def session_run_def new_session_service_def)
next
  case (snoc p ps)
  obtain s1 w1 where run: "session_run hash ps (new_session_service, w) = (s1, w1)" by fastforce
  then have step: "handle_session_packet hash p s1 w1 = (s', w')" using snoc.prems(2) by (simp add: session_run_def)
  have "forecast_state hash uid ps s1 w1" using snoc.IH [OF _ run] snoc.prems(1) by simp
  then show ?case using snoc.prems(1) step by (intro forecast_state_step) auto
qed


text \<open>The same forecast twice, then a shorter one.\<close>

definition forecast_packet :: "session_packet \<Rightarrow> int list \<Rightarrow> session_packet" where
  "forecast_packet p ts = p\<lparr>sp_header := running_header, sp_num_weather_forecast_samples := int (length ts),
     sp_weather_forecast_samples := map (\<lambda>t. \<lparr>wf_session_type = 15, wf_time_offset = t, wf_weather = 0, wf_track_temperature = 30,
       wf_track_temperature_change = 2, wf_air_temperature = 20, wf_air_temperature_change = 2, wf_rain_percentage = 0\<rparr>) ts\<rparr>"


end
