(* ===== verification/Roster_Facts.thy ===== *)
theory Roster_Facts
  imports Drivers Session_Facts
begin

text \<open>
  Where the roster of a session falls short: a driver who comes back in another car keeps everyone who
  joins from being recorded.
\<close>

subsection \<open>The number of a driver\<close>

definition driver_number :: "pystr \<Rightarrow> db \<Rightarrow> int option" where
  "driver_number name d = map_option (\<lambda>r. as_int (col r ''id'')) (find (same_driver name) (db_tables d ''identity.users''))"

lemma find_append: "find P (xs @ ys) = (case find P xs of None \<Rightarrow> find P ys | Some x \<Rightarrow> Some x)"
  by (induction xs) auto

lemma driver_number_kept: "driver_number n d = Some u \<Longrightarrow> driver_number n (snd (get_or_create_driver a d)) = Some u"
  by (auto simp: driver_number_def get_or_create_driver_def Let_def find_append split: option.split)

lemma resolved_number:
  "driver_number n d = Some u \<Longrightarrow> n \<in> set ns \<Longrightarrow> map_of (fst (resolve_names ns d)) n = Some u"
proof (induction ns arbitrary: d)
  case (Cons a ns)
  have a: "fst (get_or_create_driver a d) = u" if "a = n"
    using Cons.prems(1) that by (auto simp: driver_number_def get_or_create_driver_def)
  show ?case
    using Cons.IH [OF driver_number_kept [OF Cons.prems(1)], of a] Cons.prems(2) a by (auto simp: split_beta Let_def)
qed simp

subsection \<open>A driver who comes back in another car\<close>

lemma rejoin_refused:
  assumes "r \<in> set (db_tables d ''telemetry.entries'')"
    and "col r ''session_uid'' = PStr (en_session_uid e)" "col r ''user_id'' = PInt u"
    and "\<forall>r \<in> set (db_tables d ''telemetry.entries'').
      col r ''session_uid'' = PStr (en_session_uid e) \<longrightarrow> col r ''car_index'' \<noteq> PInt (en_car_index e)"
  shows "sql_insert ''telemetry.entries'' ENTRY_COLUMNS ENTRY_CONFLICT (entry_params e u) d = Inl DatabaseError"
proof -
  let ?rows = "db_tables d ''telemetry.entries''" and ?new = "zip ENTRY_COLUMNS (entry_params e u)"
  have new: "col ?new ''session_uid'' = PStr (en_session_uid e)" "col ?new ''user_id'' = PInt u"
    "col ?new ''car_index'' = PInt (en_car_index e)"
    by (simp_all add: ENTRY_COLUMNS_def entry_params_def col_def)
  have "\<not> has_key [''session_uid'', ''car_index''] ?new ?rows"
    using assms(4) by (auto simp: has_key_def same_key_def new)
  then have "insert_update [''session_uid'', ''car_index''] cs ?new ?rows = ?rows @ [?new]" for cs
    by (simp add: insert_update_def)
  moreover have "\<not> unique_on [''session_uid'', ''user_id''] (?rows @ [?new])"
    using assms(1-3) by (auto simp: unique_on_def new intro!: rev_image_eqI)
  moreover have "other_unique_keys ''telemetry.entries'' = [[''session_uid'', ''user_id'']]"
    by (simp add: other_unique_keys_def)
  ultimately show ?thesis by (simp add: sql_insert_def ENTRY_CONFLICT_def Let_def)
qed

abbreviation insert_entry :: "entry \<times> int \<Rightarrow> db \<Rightarrow> (nat \<times> db) py" where
  "insert_entry \<equiv> \<lambda>(e, i). sql_insert ''telemetry.entries'' ENTRY_COLUMNS ENTRY_CONFLICT (entry_params e i)"

lemma entry_row_cols:
  "col (zip ENTRY_COLUMNS (entry_params e i)) ''session_uid'' = PStr (en_session_uid e)"
  "col (zip ENTRY_COLUMNS (entry_params e i)) ''car_index'' = PInt (en_car_index e)"
  by (simp_all add: ENTRY_COLUMNS_def entry_params_def col_def)

lemma insert_entry_rows:
  assumes "insert_entry (e, v) d = Inr (n, d')"
  defines "T \<equiv> db_tables d ''telemetry.entries''" and "T' \<equiv> db_tables d' ''telemetry.entries''"
  shows "r \<in> set T \<Longrightarrow> col r ''car_index'' \<noteq> PInt (en_car_index e) \<Longrightarrow> r \<in> set T'"
    and "r \<in> set T' \<Longrightarrow> col r ''car_index'' \<noteq> PInt (en_car_index e) \<Longrightarrow> r \<in> set T"
proof -
  let ?ks = "[''session_uid'', ''car_index'']" and ?new = "zip ENTRY_COLUMNS (entry_params e v)"
  let ?cs = "other_columns ?ks ENTRY_COLUMNS"
  have T': "T' = insert_update ?ks ?cs ?new T"
    using assms(1) by (auto simp: T_def T'_def sql_insert_def ENTRY_CONFLICT_def Let_def split: if_splits)
  have other: "\<not> same_key ?ks ?new r" if "col r ''car_index'' \<noteq> PInt (en_car_index e)" for r
    using that by (auto simp: same_key_def entry_row_cols)
  have hit: "col (set_excluded ?cs ?new r) ''car_index'' = PInt (en_car_index e)" if "same_key ?ks ?new r" for r
  proof -
    have "same_key ?ks ?new (set_excluded ?cs ?new r)" using that set_excluded_key [OF other_columns_disjoint] by blast
    then show ?thesis by (simp add: same_key_def entry_row_cols)
  qed
  show "r \<in> set T \<Longrightarrow> col r ''car_index'' \<noteq> PInt (en_car_index e) \<Longrightarrow> r \<in> set T'"
    using other by (force simp: T' insert_update_def)
  show "r \<in> set T' \<Longrightarrow> col r ''car_index'' \<noteq> PInt (en_car_index e) \<Longrightarrow> r \<in> set T"
    using hit by (auto simp: T' insert_update_def entry_row_cols split: if_splits)
qed

lemma rejoin_batch_fails:
  assumes "(e, u) \<in> set known" "\<forall>(e', v) \<in> set known. en_session_uid e' = uid \<and> en_car_index e' \<noteq> c"
    and "distinct (map (\<lambda>p. en_car_index (fst p)) known)"
    and "\<exists>r \<in> set (db_tables d ''telemetry.entries''). col r ''session_uid'' = PStr uid \<and> col r ''user_id'' = PInt u
      \<and> col r ''car_index'' = PInt c"
    and "\<forall>r \<in> set (db_tables d ''telemetry.entries''). col r ''session_uid'' = PStr uid
      \<longrightarrow> col r ''car_index'' \<noteq> PInt (en_car_index e)"
  shows "\<exists>x. sql_many (map insert_entry known) d = Inl x"
  using assms
proof (induction known arbitrary: d)
  case (Cons p known)
  obtain e' v where p: "p = (e', v)" by (cases p)
  show ?case
  proof (cases "p = (e, u)")
    case True
    then have "insert_entry p d = Inl DatabaseError"
      using Cons.prems(2,4,5) rejoin_refused [of _ d e u] by auto
    then show ?thesis by simp
  next
    case False
    then have car: "en_car_index e' \<noteq> en_car_index e" using Cons.prems(1,3) p by force
    show ?thesis
    proof (cases "insert_entry p d")
      case (Inr nd)
      obtain n d' where nd: "nd = (n, d')" by (cases nd)
      have ins: "insert_entry (e', v) d = Inr (n, d')" using Inr p nd by simp
      have c: "en_car_index e' \<noteq> c" using Cons.prems(2) p by simp
      have "\<exists>r \<in> set (db_tables d' ''telemetry.entries''). col r ''session_uid'' = PStr uid \<and> col r ''user_id'' = PInt u
          \<and> col r ''car_index'' = PInt c"
        using Cons.prems(4) insert_entry_rows(1) [OF ins] c by fastforce
      moreover have "\<forall>r \<in> set (db_tables d' ''telemetry.entries''). col r ''session_uid'' = PStr uid
          \<longrightarrow> col r ''car_index'' \<noteq> PInt (en_car_index e)"
        using Cons.prems(5) insert_entry_rows(2) [OF ins] car by fastforce
      moreover have "(e, u) \<in> set known" using Cons.prems(1) False by auto
      ultimately obtain x where "sql_many (map insert_entry known) d' = Inl x"
        using Cons.IH [of d'] Cons.prems(2,3) by auto
      then show ?thesis using Inr nd by simp
    qed simp
  qed
qed simp

lemma ensure_teams_rest:
  "t \<noteq> ''telemetry.teams'' \<Longrightarrow> table (ensure_teams ts w) t = table w t" "w_set_order (ensure_teams ts w) = w_set_order w"
  by (simp_all add: ensure_teams_def table_insert_rows)
     (simp add: insert_rows_def execute_many_def run_txn_def Let_def split: sum.split)

lemma resolve_user_ids_rest:
  assumes "t \<noteq> ''identity.users''"
  shows "table (snd (resolve_user_ids es w)) t = table w t"
proof -
  have one: "db_tables (snd (get_or_create_driver n d)) t = db_tables d t" for n d
    using assms by (simp add: get_or_create_driver_def Let_def split: option.split)
  have "db_tables (snd (resolve_names ns d)) t = db_tables d t" for ns d
    by (induction ns arbitrary: d) (simp_all add: split_beta Let_def one)
  then show ?thesis
    by (auto simp: resolve_user_ids_def run_txn_def Let_def split_beta split: sum.splits if_splits)
qed

lemma failed_strict:
  assumes "sql_many qs (w_db w) = Inl x" "qs \<noteq> []"
  shows "\<exists>y. fst (execute_many_strict qs w) = Inl y \<and> table (snd (execute_many_strict qs w)) = table w"
  using assms by (auto simp: execute_many_strict_def run_txn_def Let_def)

lemma distinct_resolved:
  "distinct (map en_car_index es) \<Longrightarrow>
    distinct (map (\<lambda>p. en_car_index (fst p)) (List.map_filter (\<lambda>e. map_option (Pair e) (f e)) es))"
  by (induction es) (auto simp: List.map_filter_simps in_map_filter split: option.split)

lemma rejoin_batch_empty:
  assumes e: "e \<in> set es" "\<forall>e \<in> set es. en_session_uid e = uid \<and> en_car_index e \<noteq> c" "distinct (map en_car_index es)"
    and u: "driver_number (remove_nul (en_driver_name e)) (w_db w) = Some u"
    and there: "\<exists>r \<in> set (table w ''telemetry.entries''). col r ''session_uid'' = PStr uid \<and> col r ''user_id'' = PInt u
      \<and> col r ''car_index'' = PInt c"
    and free: "\<forall>r \<in> set (table w ''telemetry.entries''). col r ''session_uid'' = PStr uid
      \<longrightarrow> col r ''car_index'' \<noteq> PInt (en_car_index e)"
    and set: "\<forall>ns. set (w_set_order w ns) = set ns"
  shows "fst (insert_entries_batch es w) = []
    \<and> table (snd (insert_entries_batch es w)) ''telemetry.entries'' = table w ''telemetry.entries''"
proof -
  let ?es = "map (\<lambda>e. e\<lparr>en_driver_name := remove_nul (en_driver_name e)\<rparr>) es" and ?t = "''telemetry.entries''"
  define w1 where "w1 = ensure_teams (map en_team_id ?es) w"
  define ids where "ids = fst (resolve_user_ids ?es w1)"
  define w2 where "w2 = snd (resolve_user_ids ?es w1)"
  define known where "known = List.map_filter (\<lambda>e. map_option (Pair e) (map_of ids (en_driver_name e))) ?es"
  have w1: "table w1 ''identity.users'' = table w ''identity.users''" "table w1 ?t = table w ?t" "w_set_order w1 = w_set_order w"
    by (simp_all add: w1_def ensure_teams_rest)
  have w2: "table w2 ?t = table w ?t" using w1 by (simp add: w2_def resolve_user_ids_rest)
  have batch: "insert_entries_batch es w = (if known = [] then ([], w2)
      else case execute_many_strict (map insert_entry known) w2 of
          (Inl _, w3) \<Rightarrow> ([], w3)
        | (Inr _, w3) \<Rightarrow> (dict_of (map (\<lambda>(e, i). (en_car_index e, i)) known),
            execute_many (map (\<lambda>(e, i). set_nationality (safe_enum_name Nationalities (en_nationality e)) i) known) w3))"
  proof -
    have ne: "\<not> es = []" using e(1) by auto
    have ids: "resolve_user_ids ?es w1 = (ids, w2)" by (simp add: ids_def w2_def)
    show ?thesis
      unfolding insert_entries_batch_def Let_def if_not_P [OF ne] w1_def [symmetric] ids prod.case known_def [symmetric]
      by (rule refl)
  qed
  show ?thesis
  proof (cases "known = []")
    case False
    then have "ids \<noteq> []" by (auto simp: known_def List.map_filter_def)
    then have "ids = fst (resolve_names (w_set_order w (remdups (map en_driver_name ?es))) (w_db w1))"
      by (auto simp: ids_def resolve_user_ids_def run_txn_def Let_def split_beta w1(3) split: if_splits sum.splits)
    moreover have "driver_number (remove_nul (en_driver_name e)) (w_db w1) = Some u"
      using u w1(1) by (simp add: driver_number_def)
    ultimately have "map_of ids (remove_nul (en_driver_name e)) = Some u"
      using e(1) set by (auto intro!: resolved_number)
    then have "(e\<lparr>en_driver_name := remove_nul (en_driver_name e)\<rparr>, u) \<in> set known"
      using e(1) by (auto simp: known_def in_map_filter)
    moreover have "\<forall>(e', v) \<in> set known. en_session_uid e' = uid \<and> en_car_index e' \<noteq> c"
      using e(2) by (fastforce simp: known_def in_map_filter)
    moreover have "distinct (map (\<lambda>p. en_car_index (fst p)) known)"
      unfolding known_def by (rule distinct_resolved) (use e(3) in \<open>simp add: comp_def\<close>)
    ultimately obtain x where "sql_many (map insert_entry known) (w_db w2) = Inl x"
      using rejoin_batch_fails [of "e\<lparr>en_driver_name := remove_nul (en_driver_name e)\<rparr>" u known uid c "w_db w2"] there free w2
      by auto
    from failed_strict [OF this] False w2 show ?thesis by (auto simp: batch split_beta split: sum.split)
  qed (simp add: batch w2)
qed

text \<open>
  C35. A driver who comes back in another car of the same session, after a change of slot,
  is refused by the table of entries, whose key is session and user while the upsert goes by session and
  car; and with them the whole batch: of everyone the packet shows for the first time nobody is recorded
  or enters the map, and the service, unchanged, will try the same again.
\<close>

theorem rejoin_blocks_roster:
  assumes "e \<in> set es" "en_car_index e \<notin> written_humans s uid" "c \<in> written_humans s uid"
    and "\<forall>e \<in> set es. en_session_uid e = uid" "distinct (map en_car_index es)"
    and "driver_number (remove_nul (en_driver_name e)) (w_db w) = Some u"
    and "\<exists>r \<in> set (table w ''telemetry.entries''). col r ''session_uid'' = PStr uid \<and> col r ''user_id'' = PInt u
      \<and> col r ''car_index'' = PInt c"
    and "\<forall>r \<in> set (table w ''telemetry.entries''). col r ''session_uid'' = PStr uid
      \<longrightarrow> col r ''car_index'' \<noteq> PInt (en_car_index e)"
    and "\<forall>ns. set (w_set_order w ns) = set ns"
  shows "\<exists>w'. record_entries uid es s w = (get_user_map s uid, s, w')
    \<and> table w' ''telemetry.entries'' = table w ''telemetry.entries''"
proof -
  let ?new = "filter (\<lambda>e. en_car_index e \<notin> written_humans s uid) es"
  have "e \<in> set ?new" "\<forall>e \<in> set ?new. en_session_uid e = uid \<and> en_car_index e \<noteq> c" "distinct (map en_car_index ?new)"
    using assms(1-5) by (auto simp: distinct_map_filter)
  from rejoin_batch_empty [OF this assms(6-9)] show ?thesis
    by (auto simp: record_entries_def Let_def split_beta)
qed

text \<open>Ann is recorded in car 5 of the session and comes back in car 1.\<close>

definition ann_in_car_5 :: "pystr \<Rightarrow> world" where
  "ann_in_car_5 uid = quiet_world\<lparr>w_db := \<lparr>db_tables = (\<lambda>_. [])
     (''identity.users'' := [[(''id'', PInt 1), (''driver_name'', PStr (ascii ''Ann''))]],
      ''telemetry.entries'' := [[(''session_uid'', PStr uid), (''user_id'', PInt 1), (''car_index'', PInt 5)]]),
     db_seq = \<lambda>_. 2\<rparr>\<rparr>"

theorem rejoin_blocks_roster_witness:
  "\<forall>uid. \<exists>w'. record_entries uid [example_entry uid]
       (new_participants_service\<lparr>ps_written_humans := bd_set (ps_written_humans new_participants_service) uid {5}\<rparr>)
       (ann_in_car_5 uid)
     = ([], new_participants_service\<lparr>ps_written_humans := bd_set (ps_written_humans new_participants_service) uid {5}\<rparr>, w')
   \<and> length (table w' ''telemetry.entries'') = 1"
proof
  fix uid
  let ?s = "new_participants_service\<lparr>ps_written_humans := bd_set (ps_written_humans new_participants_service) uid {5}\<rparr>"
    and ?e = "example_entry uid" and ?w = "ann_in_car_5 uid"
  have written: "written_humans ?s uid = {5}" "get_user_map ?s uid = []"
    by (simp_all add: written_humans_def get_user_map_def new_participants_service_def)
  have "remove_nul (ascii ''Ann'') = ascii ''Ann''" by code_simp
  then have number: "driver_number (remove_nul (en_driver_name ?e)) (w_db ?w) = Some 1"
    by (simp add: driver_number_def ann_in_car_5_def example_entry same_driver_def col_def)
  have row: "\<exists>r \<in> set (table ?w ''telemetry.entries''). col r ''session_uid'' = PStr uid \<and> col r ''user_id'' = PInt 1
      \<and> col r ''car_index'' = PInt 5"
    "\<forall>r \<in> set (table ?w ''telemetry.entries''). col r ''session_uid'' = PStr uid \<longrightarrow> col r ''car_index'' \<noteq> PInt (en_car_index ?e)"
    by (simp_all add: ann_in_car_5_def example_entry col_def)
  show "\<exists>w'. record_entries uid [?e] ?s ?w = ([], ?s, w') \<and> length (table w' ''telemetry.entries'') = 1"
    using rejoin_blocks_roster [OF _ _ _ _ _ number row, of "[?e]" ?s] written
    by (auto simp: example_entry ann_in_car_5_def quiet_world_def)
qed

end
