(* ===== verification/Event_Facts.thy ===== *)
theory Event_Facts
  imports Events_Service
begin

text \<open>
  What the events service records: an event becomes at most one row, in the table of its kind and
  with tracked drivers only, and it becomes that row once, however often its datagram is delivered.
\<close>

subsection \<open>One event, one insert\<close>

definition EVENT_TABLES :: "string list" where
  "EVENT_TABLES =
     [''telemetry.events_buttons'', ''telemetry.events_collisions'', ''telemetry.events_driver_actions'',
      ''telemetry.events_fastest_laps'', ''telemetry.events_overtakes'', ''telemetry.events_penalties'',
      ''telemetry.events_race_control'', ''telemetry.events_retirements'', ''telemetry.events_speed_traps'']"

definition EVENT_USER_COLUMNS :: "string list" where
  "EVENT_USER_COLUMNS =
     [''user_id'', ''user1_id'', ''user2_id'', ''overtaking_user_id'', ''overtaken_user_id'',
      ''other_user_id'', ''fastest_user_id'']"

text \<open>A value of a user column: none, or a driver of the map.\<close>

definition of_map :: "user_map \<Rightarrow> pyval \<Rightarrow> bool" where
  "of_map m v \<longleftrightarrow> v = PNone \<or> (\<exists>u \<in> ran (map_of m). v = PInt u)"

type_synonym event_write = "(string \<times> string list \<times> string list \<times> pyval list) option"

fun apply_write :: "event_write \<Rightarrow> world \<Rightarrow> world" where
  "apply_write None w = w"
| "apply_write (Some (t, cols, ks, vals)) w = insert_row t cols (DoNothing ks) vals w"

fun write_ok :: "user_map \<Rightarrow> event_write \<Rightarrow> bool" where
  "write_ok m None = True"
| "write_ok m (Some (t, cols, ks, vals)) \<longleftrightarrow> t \<in> set EVENT_TABLES \<and> length vals = length cols
     \<and> (\<forall>c \<in> set EVENT_USER_COLUMNS. of_map m (col (zip cols vals) c))"

text \<open>An operation that depends on the world only in one insert.\<close>

definition single_write :: "user_map \<Rightarrow> (world \<Rightarrow> world) \<Rightarrow> bool" where
  "single_write m f \<longleftrightarrow> (\<exists>x. write_ok m x \<and> f = apply_write x)"

named_theorems single

lemma single_id [single]: "single_write m (\<lambda>w. w)"
  by (auto simp: single_write_def fun_eq_iff intro!: exI [of _ None])

lemma single_branch [single]:
  "(b \<Longrightarrow> single_write m f) \<Longrightarrow> (\<not> b \<Longrightarrow> single_write m g) \<Longrightarrow> single_write m (\<lambda>w. if b then f w else g w)"
  "(z = None \<Longrightarrow> single_write m f) \<Longrightarrow> (\<And>a. z = Some a \<Longrightarrow> single_write m (h a))
    \<Longrightarrow> single_write m (\<lambda>w. case z of None \<Rightarrow> f w | Some a \<Rightarrow> h a w)"
  by (cases b; simp) (cases z; simp)

lemma single_insert: "write_ok m (Some (t, cols, ks, vals)) \<Longrightarrow> single_write m (insert_row t cols (DoNothing ks) vals)"
  unfolding single_write_def by (intro exI [of _ "Some (t, cols, ks, vals)"]) (simp add: fun_eq_iff)

lemma of_map_values [simp]: "of_map m PNone" "map_of m i = Some u \<Longrightarrow> of_map m (PInt u)"
  "of_map m (opt_int (map_of m i))" "of_map m (opt_int (if b then map_of m i else None))"
  by (auto simp: of_map_def opt_int_def ranI split: option.split)

lemma single_race_control [single]:
  "single_write m (events_race_control_insert uid frame code t sc ev n r)"
  unfolding events_race_control_insert_def
  by (rule single_insert) (simp add: EVENT_TABLES_def EVENT_USER_COLUMNS_def col_def)

lemma single_buttons [single]: "single_write m (events_buttons_insert uid frame t b bs)"
  unfolding events_buttons_insert_def
  by (rule single_insert) (simp add: EVENT_TABLES_def EVENT_USER_COLUMNS_def col_def)

lemma single_driver_events [single]:
  "map_of m i = Some u \<Longrightarrow> single_write m (events_driver_actions_insert uid frame code t u st)"
  "map_of m i = Some u \<Longrightarrow> single_write m (events_fastest_laps_insert uid frame t u lt)"
  "map_of m i = Some u \<Longrightarrow> single_write m (events_retirements_insert uid frame t u reason)"
  "map_of m i = Some u \<Longrightarrow> single_write m (events_speed_traps_insert uid frame t u v a b (map_of m j) fv)"
  "map_of m i = Some u \<Longrightarrow>
    single_write m (events_penalties_insert uid frame t u (if c then map_of m j else None) pt it ts lap pg)"
  unfolding events_driver_actions_insert_def events_fastest_laps_insert_def events_retirements_insert_def
    events_speed_traps_insert_def events_penalties_insert_def
  by (rule single_insert, simp add: EVENT_TABLES_def EVENT_USER_COLUMNS_def col_def)+

lemma single_pair_events [single]:
  "map_of m i = Some u \<Longrightarrow> map_of m j = Some v \<Longrightarrow> single_write m (events_overtakes_insert uid frame t u v)"
  "map_of m i = Some u \<Longrightarrow> map_of m j = Some v \<Longrightarrow> single_write m (events_collisions_insert uid frame t u v s)"
  unfolding events_overtakes_insert_def events_collisions_insert_def
  by (rule single_insert, simp add: EVENT_TABLES_def EVENT_USER_COLUMNS_def col_def)+

lemma single_handle_race_control [single]: "single_write m (handle_race_control uid frame code t event)"
  unfolding handle_race_control_def by (cases event; hypsubst; unfold event_details.case prod.case; intro single; assumption?)

lemma single_handle_overtake [single]: "single_write m (handle_overtake uid frame t event m)"
  unfolding handle_overtake_def by (cases event; hypsubst; unfold event_details.case prod.case; intro single; assumption?)

lemma single_handle_collision [single]: "single_write m (handle_collision uid frame t event m)"
  unfolding handle_collision_def by (cases event; hypsubst; unfold event_details.case prod.case; intro single; assumption?)

lemma single_handle_penalty [single]: "single_write m (handle_penalty uid frame t event m)"
  unfolding handle_penalty_def by (cases event; hypsubst; unfold event_details.case prod.case; intro single; assumption?)

lemma single_handle_fastest_lap [single]: "single_write m (handle_fastest_lap uid frame t event m)"
  unfolding handle_fastest_lap_def by (cases event; hypsubst; unfold event_details.case prod.case; intro single; assumption?)

lemma single_handle_retirement [single]: "single_write m (handle_retirement uid frame t event m)"
  unfolding handle_retirement_def by (cases event; hypsubst; unfold event_details.case prod.case; intro single; assumption?)

lemma single_handle_speed_trap [single]: "single_write m (handle_speed_trap uid frame t event m)"
  unfolding handle_speed_trap_def by (cases event; hypsubst; unfold event_details.case prod.case; intro single; assumption?)

lemma single_handle_buttons [single]: "single_write m (handle_buttons uid frame t event)"
  unfolding handle_buttons_def by (cases event; hypsubst; unfold event_details.case prod.case; intro single; assumption?)

lemma single_handle_driver_action [single]: "single_write m (handle_driver_action uid frame code t event m)"
  unfolding handle_driver_action_def by (cases "action_vehicle event"; simp only: option.case split_beta; intro single; assumption?)

lemma single_event: "single_write m (handle_event_packet p m)"
  unfolding handle_event_packet_def Let_def
  by (intro single)

subsection \<open>Redelivery\<close>

definition events_run :: "(event_packet \<times> user_map) list \<Rightarrow> world \<Rightarrow> world" where
  "events_run pms w = fold (\<lambda>(p, m). handle_event_packet p m) pms w"

lemma EVENT_TABLES_plain: "t \<in> set EVENT_TABLES \<Longrightarrow> other_unique_keys t = []"
  by (auto simp: EVENT_TABLES_def other_unique_keys_def)

lemma table_write:
  assumes "healthy w" "write_ok m (Some (t, cols, ks, vals))"
  shows "table (apply_write (Some (t, cols, ks, vals)) w) = (table w)(t := insert_nothing ks (zip cols vals) (table w t))"
  using assms by (simp add: insert_row_def execute_def run_txn_def healthy_def sql_insert_nothing [OF EVENT_TABLES_plain] Let_def)
    (simp add: fun_upd_def)

lemma healthy_write [simp]: "healthy (apply_write x w) = healthy w"
  by (cases x) (auto simp: insert_row_def)

lemma insert_nothing_appends: "\<exists>new. length new \<le> 1 \<and> set new \<subseteq> {r} \<and> insert_nothing ks r rows = rows @ new"
  by (cases "has_key ks r rows") (auto simp: insert_nothing_def intro: exI [of _ "[]"] exI [of _ "[r]"])

lemma write_appends:
  assumes "healthy w" "write_ok m x"
  shows "\<exists>t new. table (apply_write x w) = (table w)(t := table w t @ new) \<and> t \<in> set EVENT_TABLES
      \<and> length new \<le> 1 \<and> (\<forall>r \<in> set new. \<forall>c \<in> set EVENT_USER_COLUMNS. of_map m (col r c))"
proof (cases x)
  case None
  then show ?thesis
    by (intro exI [of _ "hd EVENT_TABLES"] exI [of _ "[]"]) (simp add: EVENT_TABLES_def)
next
  case (Some y)
  obtain t cols ks vals where y: "y = (t, cols, ks, vals)" by (cases y)
  obtain new where "length new \<le> 1" "set new \<subseteq> {zip cols vals}"
    "insert_nothing ks (zip cols vals) (table w t) = table w t @ new" using insert_nothing_appends by blast
  then show ?thesis
    using table_write [OF assms(1), of m t cols ks vals] assms(2)
    unfolding Some y by (intro exI [of _ t] exI [of _ new]) auto
qed

lemma run_appends: "healthy w \<Longrightarrow> \<exists>added. table (events_run pms w) t = table w t @ added \<and> healthy (events_run pms w)"
proof (induction pms arbitrary: w)
  case (Cons pm pms)
  obtain p m where pm: "pm = (p, m)" by (cases pm)
  obtain x where x: "write_ok m x" "handle_event_packet p m = apply_write x"
    using single_event by (auto simp: single_write_def)
  obtain added where "table (apply_write x w) t = table w t @ added"
    using write_appends [OF Cons.prems x(1)] by (metis append_Nil2 fun_upd_apply)
  then show ?case using Cons.IH [of "apply_write x w"] Cons.prems by (auto simp: events_run_def pm x(2))
qed (simp add: events_run_def)

lemma write_again:
  assumes "healthy w" "write_ok m x"
  shows "table (apply_write x (events_run pms (apply_write x w))) = table (events_run pms (apply_write x w))"
proof (cases x)
  case (Some y)
  obtain t cols ks vals where y: "y = (t, cols, ks, vals)" by (cases y)
  let ?r = "zip cols vals" and ?w = "events_run pms (apply_write x w)"
  obtain added where added: "table ?w t = table (apply_write x w) t @ added" "healthy ?w"
    using run_appends [of "apply_write x w" pms t] assms(1) by auto
  have "has_key ks ?r (insert_nothing ks ?r rows)" for rows
    by (auto simp: insert_nothing_def has_key_def same_key_def)
  then have "has_key ks ?r (table (apply_write x w) t)"
    using table_write [OF assms(1), of m t cols ks vals] assms(2) by (simp add: Some y)
  then have "has_key ks ?r (table ?w t)" by (simp add: added(1) has_key_append)
  then show ?thesis
    using table_write [OF added(2), of m t cols ks vals] assms(2) by (simp add: Some y insert_nothing_def)
qed simp

subsection \<open>Completeness\<close>

text \<open>The code of an event with details, the table of its kind, and the cars that must be tracked.\<close>

fun event_kind :: "event_details \<Rightarrow> (string \<times> string \<times> int list) option" where
  "event_kind (Overtake a b) = Some (''OVTK'', ''telemetry.events_overtakes'', [a, b])"
| "event_kind (Collision a b s) = Some (''COLL'', ''telemetry.events_collisions'', [a, b])"
| "event_kind (Penalty pt it v ov ts lap pg) = Some (''PENA'', ''telemetry.events_penalties'', [v])"
| "event_kind (FastestLap v lt) = Some (''FTLP'', ''telemetry.events_fastest_laps'', [v])"
| "event_kind (Retirement v reason) = Some (''RTMT'', ''telemetry.events_retirements'', [v])"
| "event_kind (SpeedTrap v sp ov dr fv fs) = Some (''SPTP'', ''telemetry.events_speed_traps'', [v])"
| "event_kind (RaceWinner v) = Some (''RCWN'', ''telemetry.events_driver_actions'', [v])"
| "event_kind (TeamMateInPits v) = Some (''TMPT'', ''telemetry.events_driver_actions'', [v])"
| "event_kind (DriveThroughPenaltyServed v) = Some (''DTSV'', ''telemetry.events_driver_actions'', [v])"
| "event_kind (StopGoPenaltyServed v st) = Some (''SGSV'', ''telemetry.events_driver_actions'', [v])"
| "event_kind (Buttons st) = Some (''BUTN'', ''telemetry.events_buttons'', [])"
| "event_kind (SafetyCar a b) = Some (''SCAR'', ''telemetry.events_race_control'', [])"
| "event_kind (StartLights n) = Some (''STLG'', ''telemetry.events_race_control'', [])"
| "event_kind (DrsDisabled r) = Some (''DRSD'', ''telemetry.events_race_control'', [])"
| "event_kind _ = None"

fun_cases event_kind_SomeE: "event_kind e = Some x"

definition has_event :: "pystr \<Rightarrow> int \<Rightarrow> row list \<Rightarrow> bool" where
  "has_event uid frame rows \<longleftrightarrow>
     (\<exists>r \<in> set rows. col r ''session_uid'' = PStr uid \<and> col r ''overall_frame_identifier'' = PInt frame)"

lemma has_event_insert:
  assumes "healthy w" "other_unique_keys t = []" "length vals = length cols"
    and "{''session_uid'', ''overall_frame_identifier''} \<subseteq> set ks"
    and "col (zip cols vals) ''session_uid'' = PStr uid" "col (zip cols vals) ''overall_frame_identifier'' = PInt frame"
  shows "has_event uid frame (table (insert_row t cols (DoNothing ks) vals w) t)"
proof -
  have "table (insert_row t cols (DoNothing ks) vals w) t = insert_nothing ks (zip cols vals) (table w t)"
    using assms(1,3) by (simp add: insert_row_def execute_def run_txn_def healthy_def sql_insert_nothing [OF assms(2)] Let_def)
  moreover have "\<exists>r \<in> set (insert_nothing ks (zip cols vals) (table w t)). same_key ks (zip cols vals) r"
    by (auto simp: insert_nothing_def has_key_def same_key_def)
  ultimately show ?thesis
    using assms(4-6) unfolding has_event_def same_key_def by (metis insert_subset)
qed

lemma inserted_events:
  assumes "healthy w"
  shows "has_event uid frame (table (events_overtakes_insert uid frame t u v w) ''telemetry.events_overtakes'')"
    and "has_event uid frame (table (events_collisions_insert uid frame t u v s w) ''telemetry.events_collisions'')"
    and "has_event uid frame (table (events_penalties_insert uid frame t u ou pt itp ts lap pg w) ''telemetry.events_penalties'')"
    and "has_event uid frame (table (events_fastest_laps_insert uid frame t u lt w) ''telemetry.events_fastest_laps'')"
    and "has_event uid frame (table (events_retirements_insert uid frame t u reason w) ''telemetry.events_retirements'')"
    and "has_event uid frame (table (events_speed_traps_insert uid frame t u spd oa dr fu fv w) ''telemetry.events_speed_traps'')"
    and "has_event uid frame (table (events_buttons_insert uid frame t bst bs w) ''telemetry.events_buttons'')"
    and "has_event uid frame (table (events_driver_actions_insert uid frame code t u st w) ''telemetry.events_driver_actions'')"
    and "has_event uid frame (table (events_race_control_insert uid frame code t sc ev n r w) ''telemetry.events_race_control'')"
  unfolding events_overtakes_insert_def events_collisions_insert_def events_penalties_insert_def events_fastest_laps_insert_def
    events_retirements_insert_def events_speed_traps_insert_def events_buttons_insert_def
    events_driver_actions_insert_def events_race_control_insert_def
  by (rule has_event_insert [OF assms]; simp add: other_unique_keys_def col_def)+

lemma find_code: "find (\<lambda>c. c = code) cs = (if code \<in> set cs then Some code else None)"
  by (induction cs) auto

lemma handled_events:
  assumes "healthy w"
  shows "map_of m a \<noteq> None \<Longrightarrow> map_of m b \<noteq> None \<Longrightarrow>
      has_event uid frame (table (handle_overtake uid frame t (Overtake a b) m w) ''telemetry.events_overtakes'')"
    and "map_of m a \<noteq> None \<Longrightarrow> map_of m b \<noteq> None \<Longrightarrow>
      has_event uid frame (table (handle_collision uid frame t (Collision a b s) m w) ''telemetry.events_collisions'')"
    and "map_of m a \<noteq> None \<Longrightarrow>
      has_event uid frame (table (handle_penalty uid frame t (Penalty pt it a ov ts lap pg) m w) ''telemetry.events_penalties'')"
    and "map_of m a \<noteq> None \<Longrightarrow>
      has_event uid frame (table (handle_fastest_lap uid frame t (FastestLap a lt) m w) ''telemetry.events_fastest_laps'')"
    and "map_of m a \<noteq> None \<Longrightarrow>
      has_event uid frame (table (handle_retirement uid frame t (Retirement a reason) m w) ''telemetry.events_retirements'')"
    and "map_of m a \<noteq> None \<Longrightarrow>
      has_event uid frame (table (handle_speed_trap uid frame t (SpeedTrap a sp oa dr fv fs) m w) ''telemetry.events_speed_traps'')"
    and "has_event uid frame (table (handle_buttons uid frame t (Buttons bst) w) ''telemetry.events_buttons'')"
    and "map_of m a \<noteq> None \<Longrightarrow> action_vehicle e = Some (a, st) \<Longrightarrow>
      has_event uid frame (table (handle_driver_action uid frame code t e m w) ''telemetry.events_driver_actions'')"
  by (auto simp: handle_overtake_def handle_collision_def handle_penalty_def handle_fastest_lap_def
      handle_retirement_def handle_speed_trap_def handle_buttons_def handle_driver_action_def inserted_events [OF assms])

lemma handled_race_control:
  assumes "healthy w" "(code, e) \<in> {(''SCAR'', SafetyCar a b), (''STLG'', StartLights n), (''DRSD'', DrsDisabled r)}"
  shows "has_event uid frame (table (handle_race_control uid frame code t e w) ''telemetry.events_race_control'')"
  using assms(2) by (auto simp: handle_race_control_def inserted_events [OF assms(1)])

text \<open>Where an event goes, by its code.\<close>

lemma event_route:
  assumes "clean_event_code p = ascii code"
  shows "handle_event_packet p m w =
    (let uid = session_key (ev_header p); frame = hdr_overall_frame_identifier (ev_header p);
         t = hdr_session_time (ev_header p); event = ev_event p
     in if code \<in> set RACE_CONTROL_CODES then handle_race_control uid frame code t event w
        else if code = ''OVTK'' then handle_overtake uid frame t event m w
        else if code = ''COLL'' then handle_collision uid frame t event m w
        else if code = ''PENA'' then handle_penalty uid frame t event m w
        else if code = ''FTLP'' then handle_fastest_lap uid frame t event m w
        else if code = ''RTMT'' then handle_retirement uid frame t event m w
        else if code = ''SPTP'' then handle_speed_trap uid frame t event m w
        else if code = ''BUTN'' then handle_buttons uid frame t event w
        else if code \<in> set DRIVER_ACTION_CODES then handle_driver_action uid frame code t event m w
        else w)"
  unfolding handle_event_packet_def assms ascii_inj find_code Let_def
  by (cases "code \<in> set RACE_CONTROL_CODES"; cases "code \<in> set DRIVER_ACTION_CODES"; simp)

lemma event_complete:
  assumes "healthy w" "event_kind (ev_event p) = Some (code, t, cars)" "clean_event_code p = ascii code"
    and "\<forall>c \<in> set cars. map_of m c \<noteq> None"
  shows "has_event (session_key (ev_header p)) (hdr_overall_frame_identifier (ev_header p)) (table (handle_event_packet p m w) t)"
proof -
  note e = event_route [OF assms(3), of m w, unfolded Let_def]
  from assms(2) show ?thesis
    using assms(4) unfolding e
    by (elim event_kind_SomeE;
        clarsimp simp: RACE_CONTROL_CODES_def DRIVER_ACTION_CODES_def handled_events [OF assms(1)] handled_race_control [OF assms(1)])
qed

subsection \<open>One overtake per car and frame\<close>

text \<open>
  The key of the overtakes is session, frame and overtaking driver: of two cars passed within one
  frame only the first is recorded.
\<close>

lemma second_overtake_dropped:
  assumes "healthy w" "ev_header q = ev_header p"
    and "clean_event_code p = ascii ''OVTK''" "clean_event_code q = ascii ''OVTK''"
    and "ev_event p = Overtake a b" "ev_event q = Overtake a c"
    and "map_of m a = Some u" "map_of m b = Some v" "map_of m c = Some v'"
  shows "table (handle_event_packet q m (handle_event_packet p m w)) = table (handle_event_packet p m w)"
proof -
  let ?uid = "session_key (ev_header p)" and ?frame = "hdr_overall_frame_identifier (ev_header p)"
    and ?t = "hdr_session_time (ev_header p)" and ?ks = "[''session_uid'', ''overall_frame_identifier'', ''overtaking_user_id'']"
  let ?cols = "[''session_uid'', ''overall_frame_identifier'', ''session_time'', ''overtaking_user_id'', ''overtaken_user_id'']"
  let ?vals = "\<lambda>x. [PStr ?uid, PInt ?frame, PFloat ?t, PInt u, PInt x]"
  let ?put = "\<lambda>x. apply_write (Some (''telemetry.events_overtakes'', ?cols, ?ks, ?vals x))"
  have p: "handle_event_packet p m w = ?put v w" and q: "handle_event_packet q m w1 = ?put v' w1" for w1
    using assms(2,5-9) event_route [OF assms(3), of m w] event_route [OF assms(4), of m w1]
    by (simp_all add: Let_def RACE_CONTROL_CODES_def handle_overtake_def events_overtakes_insert_def)
  have ok: "write_ok m (Some (''telemetry.events_overtakes'', ?cols, ?ks, ?vals x))" if "x \<in> {v, v'}" for x
    using that assms(7-9) by (auto simp: EVENT_TABLES_def EVENT_USER_COLUMNS_def col_def)
  have "same_key ?ks (zip ?cols (?vals v')) (zip ?cols (?vals v))" by (simp add: same_key_def col_def)
  then have "has_key ?ks (zip ?cols (?vals v')) (insert_nothing ?ks (zip ?cols (?vals v)) rows)" for rows
    by (auto simp: insert_nothing_def has_key_def same_key_def)
  then have "has_key ?ks (zip ?cols (?vals v')) (table (?put v w) ''telemetry.events_overtakes'')"
    using table_write [OF assms(1) ok, of v] by simp
  then show ?thesis
    unfolding p q using table_write [OF _ ok, of "?put v w" v'] assms(1)
    by (simp add: insert_nothing_def del: apply_write.simps)
qed

subsection \<open>What becomes of an event\<close>


text \<open>An overtake of two tracked cars, delivered again after any other event.\<close>

definition overtake_packet :: "packet_header \<Rightarrow> event_packet" where
  "overtake_packet h = \<lparr>ev_header = h, ev_event_string_code = ascii ''OVTK'', ev_event = Overtake 0 1\<rparr>"


end
