(* ===== verification/Failure_Log.thy ===== *)
theory Failure_Log
  imports Database
begin

text \<open>
  The rate limit on failed writes (\<open>_log_write_failure\<close>): how often a kind of failure is logged, and that
  no failure goes uncounted.
\<close>

type_synonym log_line = "failure_key \<times> int \<times> int"

text \<open>A run of failures at the times given: the lines written, each with its count, and the state.\<close>

definition log_step :: "failure_key \<times> int \<Rightarrow> log_line list \<times> failure_log \<Rightarrow> log_line list \<times> failure_log" where
  "log_step = (\<lambda>(key, now) (lines, l). case log_write_failure key now l of
      (None, l') \<Rightarrow> (lines, l')
    | (Some n, l') \<Rightarrow> (lines @ [(key, now, n)], l'))"

definition log_run :: "(failure_key \<times> int) list \<Rightarrow> log_line list \<times> failure_log" where
  "log_run fs = fold log_step fs ([], bd_new 50)"

definition of_key :: "failure_key \<Rightarrow> (failure_key \<times> 'a) list \<Rightarrow> (failure_key \<times> 'a) list" where
  "of_key k xs = filter (\<lambda>x. fst x = k) xs"

definition line_time :: "log_line \<Rightarrow> int" where
  "line_time x = fst (snd x)"

definition line_count :: "log_line \<Rightarrow> int" where
  "line_count x = snd (snd x)"

definition pending_failures :: "failure_log \<Rightarrow> failure_key \<Rightarrow> int" where
  "pending_failures l k = (case bd_get l k of None \<Rightarrow> 0 | Some (n, since) \<Rightarrow> n)"

definition apart :: "log_line list \<Rightarrow> bool" where
  "apart = successively (\<lambda>x y. line_time x + FAILURE_SUMMARY_INTERVAL_NS \<le> line_time y)"

text \<open>What the lines so far and the entry of a kind say of its failures.\<close>

definition key_state :: "failure_key \<Rightarrow> (failure_key \<times> int) list \<Rightarrow> log_line list \<Rightarrow> (int \<times> int) option \<Rightarrow> bool" where
  "key_state k fs lines st \<longleftrightarrow> (case st of
      None \<Rightarrow> of_key k lines = [] \<and> of_key k fs = []
    | Some (n, since) \<Rightarrow> of_key k lines \<noteq> [] \<and> line_time (last (of_key k lines)) = since \<and> apart (of_key k lines)
        \<and> int (length (of_key k fs)) = 1 + sum_list (map line_count (of_key k lines)) + n)"

lemma of_key_snoc [simp]: "of_key k (xs @ [x]) = of_key k xs @ (if fst x = k then [x] else [])"
  by (simp add: of_key_def)

lemma apart_snoc: "apart (xs @ [y]) \<longleftrightarrow> apart xs \<and> (xs = [] \<or> line_time (last xs) + FAILURE_SUMMARY_INTERVAL_NS \<le> line_time y)"
  by (auto simp: apart_def successively_append_iff)

lemma apart_short [simp]: "apart []" "apart [x]"
  by (simp_all add: apart_def)

lemma key_state_other:
  "fst f \<noteq> k \<Longrightarrow> key_state k fs lines st \<Longrightarrow> key_state k (fs @ [f]) lines st"
  "fst f \<noteq> k \<Longrightarrow> fst x \<noteq> k \<Longrightarrow> key_state k fs lines st \<Longrightarrow> key_state k (fs @ [f]) (lines @ [x]) st"
  by (cases st; auto simp: key_state_def)+

lemma key_state_first:
  "key_state k fs lines None \<Longrightarrow> key_state k (fs @ [(k, now)]) (lines @ [(k, now, 0)]) (Some (0, now))"
  by (simp add: key_state_def apart_snoc line_time_def line_count_def)

lemma key_state_quiet:
  "key_state k fs lines (Some (n, since)) \<Longrightarrow> key_state k (fs @ [(k, now)]) lines (Some (n + 1, since))"
  by (simp add: key_state_def)

lemma key_state_summary:
  "key_state k fs lines (Some (n, since)) \<Longrightarrow> since + FAILURE_SUMMARY_INTERVAL_NS \<le> now \<Longrightarrow>
    key_state k (fs @ [(k, now)]) (lines @ [(k, now, n + 1)]) (Some (0, now))"
  by (simp add: key_state_def apart_snoc line_time_def [of "(k, now, n + 1)"] line_count_def [of "(k, now, n + 1)"])

definition log_state :: "(failure_key \<times> int) list \<Rightarrow> log_line list \<times> failure_log \<Rightarrow> bool" where
  "log_state fs = (\<lambda>(lines, l). bd_wf l \<and> bd_max l = 50 \<and> set (bd_keys l) = fst ` set fs
     \<and> (\<forall>k. key_state k fs lines (bd_get l k)))"

lemma log_state_step:
  assumes "log_state fs (lines, l)" "card (insert key (fst ` set fs)) \<le> 50"
  shows "log_state (fs @ [(key, now)]) (log_step (key, now) (lines, l))"
proof -
  have wf: "bd_wf l" "bd_max l = 50" "set (bd_keys l) = fst ` set fs" and st: "key_state k fs lines (bd_get l k)" for k
    using assms(1) by (simp_all add: log_state_def del: split_paired_All)
  then have room: "card (insert key (set (bd_keys l))) \<le> bd_max l" using assms(2) by simp
  note put = bd_get_set_room [OF wf(1) room]
  show ?thesis
  proof (cases "bd_get l key")
    case None
    then have step: "log_step (key, now) (lines, l) = (lines @ [(key, now, 0)], bd_set l key (0, now))"
      by (simp add: log_step_def log_write_failure_def)
    have "key_state k (fs @ [(key, now)]) (lines @ [(key, now, 0)]) (bd_get (bd_set l key (0, now)) k)" for k
      using st [of k] None by (cases "k = key") (simp_all add: put(1) key_state_first key_state_other)
    then show ?thesis unfolding step log_state_def using wf put(2) by (simp del: split_paired_All)
  next
    case (Some s)
    obtain n since where s: "s = (n, since)" by (cases s)
    have "bd_get l key \<noteq> None" using Some by simp
    then have mem: "key \<in> set (bd_keys l)" by (simp add: bd_get_None_iff)
    show ?thesis
    proof (cases "now - since < FAILURE_SUMMARY_INTERVAL_NS")
      case True
      then have step: "log_step (key, now) (lines, l) = (lines, bd_mutate l key (n + 1, since))"
        using Some s by (simp add: log_step_def log_write_failure_def)
      have "key_state k (fs @ [(key, now)]) lines (bd_get (bd_mutate l key (n + 1, since)) k)" for k
        using st [of k] Some s by (cases "k = key") (simp_all add: key_state_quiet key_state_other)
      then show ?thesis unfolding step log_state_def using wf mem by (simp add: insert_absorb del: split_paired_All)
    next
      case False
      then have step: "log_step (key, now) (lines, l) = (lines @ [(key, now, n + 1)], bd_set l key (0, now))"
        using Some s by (simp add: log_step_def log_write_failure_def)
      have "key_state k (fs @ [(key, now)]) (lines @ [(key, now, n + 1)]) (bd_get (bd_set l key (0, now)) k)" for k
        using st [of k] Some s False
        by (cases "k = key") (simp_all add: put(1) key_state_summary key_state_other)
      then show ?thesis unfolding step log_state_def using wf put(2) by (simp del: split_paired_All)
    qed
  qed
qed

lemma log_state_run: "card (fst ` set fs) \<le> 50 \<Longrightarrow> log_state fs (log_run fs)"
proof (induction fs rule: rev_induct)
  case Nil
  have "bd_keys (bd_new 50) = []" "bd_max (bd_new 50) = 50" by (simp_all add: bd_keys_def bd_new_def)
  then show ?case by (simp add: log_state_def log_run_def key_state_def of_key_def)
next
  case (snoc f fs)
  obtain key now where f: "f = (key, now)" by (cases f)
  obtain lines l where run: "log_run fs = (lines, l)" by (cases "log_run fs")
  have few: "card (insert key (fst ` set fs)) \<le> 50" using snoc.prems by (simp add: f)
  then have "card (fst ` set fs) \<le> 50" using card_insert_le [of "fst ` set fs" key] by simp
  then have "log_state fs (lines, l)" using snoc.IH run by simp
  from log_state_step [OF this few, of now] show ?case using run by (simp add: log_run_def f)
qed

text \<open>
  C40. Whatever writes fail, with at most 50 kinds of failure, the lines logged for one
  kind lie a minute apart or more, and no failure of the kind goes uncounted: the first line stands
  for one, each later line for the number it mentions, and the rest are pending.
\<close>

theorem failures_logged_and_counted:
  assumes "card (fst ` set fs) \<le> 50" "log_run fs = (lines, l)"
  shows "apart (of_key k lines)
    \<and> int (length (of_key k fs)) =
        (if of_key k lines = [] then 0 else 1) + sum_list (map line_count (of_key k lines)) + pending_failures l k"
proof -
  have "key_state k fs lines (bd_get l k)"
    using log_state_run [OF assms(1)] unfolding assms(2) log_state_def by blast
  then show ?thesis by (cases "bd_get l k") (auto simp: key_state_def pending_failures_def)
qed

text \<open>Three failures within a minute, one after it.\<close>

theorem failures_logged_and_counted_witness:
  "\<forall>k :: failure_key. \<exists>lines l. log_run [(k, 0), (k, 1000), (k, 2000), (k, 70000000000)] = (lines, l)
     \<and> 4 = (if of_key k lines = [] then 0 else 1) + sum_list (map line_count (of_key k lines)) + pending_failures l k
     \<and> apart (of_key k lines)"
proof
  fix k :: failure_key
  let ?fs = "[(k, 0), (k, 1000), (k, 2000), (k, 70000000000)]"
  obtain lines l where run: "log_run ?fs = (lines, l)" by (cases "log_run ?fs")
  have four: "int (length (of_key k ?fs)) = 4" by (simp add: of_key_def)
  from failures_logged_and_counted [OF _ run, of k, unfolded four] run
  show "\<exists>lines l. log_run ?fs = (lines, l)
     \<and> 4 = (if of_key k lines = [] then 0 else 1) + sum_list (map line_count (of_key k lines)) + pending_failures l k
     \<and> apart (of_key k lines)" by simp
qed

end
