(* ===== verification/Spec2Isabelle.thy ===== *)
theory Spec2Isabelle
  imports Listener Schema_Runner Lap_Facts Classification_Facts Drivers Recording
    Roster_Facts Event_Facts Failure_Log
begin

text \<open>
  The telemetry listener of this repository (\<open>src/listener/\<close>): UDP datagrams of the racing game come
  in, rows of the telemetry database go out. The development models the listener from the byte level
  to the SQL statements it sends.

  Data flow and theories, bottom up:

  \<^item> \<open>Prelude\<close>: Python results (a value or an exception), list access, slices, dictionaries.
  \<^item> \<open>Py_Float\<close>, \<open>Py_Text\<close>, \<open>Py_Struct\<close>: the standard library the code uses: IEEE floats with exact
    dyadic values, \<open>timedelta\<close> and \<open>datetime\<close> arithmetic, UTF-8 decoding and string methods, and
    \<open>struct.unpack\<close> driven by the format strings of the source.
  \<^item> \<open>Bounded\<close> (\<open>utils/bounded_dict.py\<close>, \<open>utils/bounded_set.py\<close>): least-recently-used containers.
    The locales \<open>recency_store\<close> and \<open>recency_map\<close> state what a client may rely on.
  \<^item> \<open>Enums\<close> (\<open>enums/\<close>): the code tables, and \<open>safe_enum_name\<close>.
  \<^item> \<open>Packet_Header\<close>, \<open>Car_Packets\<close>, \<open>Session_Packet\<close>, \<open>Event_Packet\<close>, \<open>Other_Packets\<close> (\<open>packets/\<close>):
    a record per dataclass and an \<open>unpack\<close> function per parser.
  \<^item> \<open>Database\<close> (\<open>database/repositories/base.py\<close>): tables, statements, transactions that may fail, the
    clocks; \<open>Repositories\<close>: the statement each repository class sends.
  \<^item> \<open>Car_Frame\<close>, \<open>Session_Service\<close>, \<open>Participants_Service\<close>, \<open>Events_Service\<close>, \<open>Lap_Services\<close>,
    \<open>Classification_Service\<close>, \<open>Small_Services\<close> (\<open>services/\<close>): what each packet type becomes.
  \<^item> \<open>Upserts\<close>: the contract of an upsert (locale \<open>insert_latest\<close>) and its use on whole batches;
    \<open>Lap_Facts\<close>: setups, incremental laps and lap positions as their services record them;
    \<open>Classification_Facts\<close>: a race result is recorded once, at the first packet the database takes;
    \<open>Drivers\<close>, \<open>Roster_Facts\<close>: who the listener believes to drive which car, and where that falls short;
    \<open>Row_Types\<close>: the column types of the frame tables (\<open>schema/telemetry/car_frame.sql\<close>,
    \<open>car_frame_damage.sql\<close>) and the values the rows carry; \<open>Session_Facts\<close>: when a session is recorded,
    what the forecast table shows; \<open>Event_Facts\<close>: events and their redelivery; \<open>Failure_Log\<close>: the rate
    limit on the log of failed writes.
  \<^item> \<open>Frame_Buffer\<close> (\<open>frame_buffer.py\<close>): packets of one frame are collected and written together.
  \<^item> \<open>Dispatcher\<close> (\<open>dispatcher.py\<close>): header checks, body sizes, gates, routing, race start,
    laps, flashbacks; \<open>Dispatcher_Facts\<close> holds what is proved of it.
  \<^item> \<open>World_Steps\<close>, \<open>Guarantees\<close>: every operation above, from a repository to \<open>handle_packet\<close>, stays
    within any relation on the world that is closed under the statements the repositories run (the
    locale \<open>world_step\<close>); three interpretations give: an unreachable database is left alone, keys
    stay unique, recorded rows are never lost.
  \<^item> \<open>Frame_Tables\<close>, \<open>Recording\<close>: the pipeline from datagrams to the frame tables, against a specification
    that sorts the packets of a session into frames and inserts their rows.
  \<^item> \<open>Server\<close> (\<open>server.py\<close>): the bounded queue between the receiving and the working thread, as a step
    relation in which the worker may act between any two statements of the receive loop.
  \<^item> \<open>Config\<close> (\<open>config.py\<close>): settings from the environment, the connection string.
  \<^item> \<open>Listener\<close> (\<open>main.py\<close>, \<open>database/client.py\<close>, \<open>logging_config.py\<close>): start-up with its error paths,
    signals and shutdown as steps beside the server's, the process as a whole.
  \<^item> \<open>Schema_Runner\<close> (\<open>src/schema/run_schema.py\<close>): the SQL files in their order, a transaction each.

  Conventions. An exception is a value of \<open>pyexn\<close>; an operation that may raise after it changed
  state returns the state with the result. The world (database, clocks, dead-letter files) is threaded
  through every operation. PostgreSQL may refuse any transaction: \<open>w_fault\<close> is an arbitrary schedule of
  failures, and a failed transaction is rolled back. Clocks are arbitrary sequences of readings.
  A session is keyed by the decimal string of its identifier, as in the code.

  Parameters for code outside the repository: the hash of a tuple and SHA-256 (record \<open>library\<close>), the
  iteration order of a set (\<open>w_set_order\<close>), what the operating system and psycopg answer at start-up
  (record \<open>platform\<close>), the database the schema runner talks to (record \<open>schema_world\<close>).

  Not modelled: logging, except the rate limits that decide whether a line is written; a signal in
  the middle of a packet (a packet is handled as a whole before or after it); foreign keys, whose
  violations are among the failures \<open>w_fault\<close> schedules; SQL
  columns the database fills itself; \<open>str.lower\<close> and \<open>str.title\<close> outside ASCII; dead-letter files cut
  short by a crash. The web application, the Discord bot and the authentication service are other
  programs.
\<close>

end
